(* ===== verification/SC_Prelude.thy ===== *)
theory SC_Prelude
  imports Main "HOL-Library.AList" "HOL-Library.Sublist" "HOL-Library.List_Lexorder" "HOL-Library.Code_Target_Nat" "HOL-Library.Code_Target_Int"
    "HOL-Library.Char_ord" "HOL-Library.Multiset"
begin

text \<open>
  What every component of the development shares: Go maps as association lists, the string
  functions of the Go standard library the controllers call (\<open>strings.Split\<close>,
  \<open>strings.Contains\<close>, \<open>strings.ToLower\<close>, \<open>strconv.Itoa\<close>, \<open>strconv.Atoi\<close>,
  \<open>strconv.ParseBool\<close>), JSON values, and the lemmas about them that the component proofs use.
\<close>

named_theorems go_simps \<open>characteristic equations of the Go library functions\<close>
named_theorems frame_simps \<open>what an operation leaves unchanged\<close>

section \<open>Go maps\<close>

text \<open>
  A Go map is an association list with distinct keys; the order of the list is the order in which
  a \<open>range\<close> loop visits it, so a statement about every list is a statement about every
  iteration order. Indexing a string map at a missing key yields the empty string.
\<close>

type_synonym ('k, 'v) gomap = "('k \<times> 'v) list"
type_synonym smap = "(string, string) gomap"

definition gindex :: "('k, string) gomap \<Rightarrow> 'k \<Rightarrow> string" where
  "gindex m k = (case map_of m k of None \<Rightarrow> [] | Some v \<Rightarrow> v)"

definition gset :: "'k \<Rightarrow> 'v \<Rightarrow> ('k, 'v) gomap \<Rightarrow> ('k, 'v) gomap" where
  "gset k v m = AList.update k v m"

definition gdel :: "'k \<Rightarrow> ('k, 'v) gomap \<Rightarrow> ('k, 'v) gomap" where
  "gdel k m = AList.delete k m"

definition ghas :: "('k, 'v) gomap \<Rightarrow> 'k \<Rightarrow> bool" where
  "ghas m k \<longleftrightarrow> map_of m k \<noteq> None"

definition gmap_ok :: "('k, 'v) gomap \<Rightarrow> bool" where
  "gmap_ok m \<longleftrightarrow> distinct (map fst m)"

lemma map_of_gset [simp, go_simps]: "map_of (gset k v m) = (map_of m)(k \<mapsto> v)"
  by (simp add: gset_def update_conv')

lemma map_of_gdel [simp, go_simps]: "map_of (gdel k m) = (map_of m)(k := None)"
  by (simp add: gdel_def delete_conv')

lemma gindex_gset [simp, go_simps]: "gindex (gset k v m) k' = (if k' = k then v else gindex m k')"
  by (simp add: gindex_def)

lemma gindex_gdel [simp, go_simps]: "gindex (gdel k m) k' = (if k' = k then [] else gindex m k')"
  by (simp add: gindex_def)

lemma ghas_gset [simp, go_simps]: "ghas (gset k v m) k' \<longleftrightarrow> k' = k \<or> ghas m k'"
  by (simp add: ghas_def)

lemma ghas_gdel [simp, go_simps]: "ghas (gdel k m) k' \<longleftrightarrow> k' \<noteq> k \<and> ghas m k'"
  by (simp add: ghas_def)

lemma gindex_Nil [simp]: "gindex [] k = []"
  by (simp add: gindex_def)

lemma gindex_nonempty_ghas: "gindex m k \<noteq> [] \<Longrightarrow> ghas m k"
  by (auto simp: gindex_def ghas_def split: option.splits)

lemma gmap_ok_gset [simp, intro]: "gmap_ok m \<Longrightarrow> gmap_ok (gset k v m)"
  by (simp add: gmap_ok_def gset_def distinct_update)

lemma gmap_ok_gdel [simp, intro]: "gmap_ok m \<Longrightarrow> gmap_ok (gdel k m)"
  by (simp add: gmap_ok_def gdel_def distinct_delete)

lemma gmap_ok_Nil [simp]: "gmap_ok []"
  by (simp add: gmap_ok_def)

section \<open>Strings\<close>

text \<open>\<open>strings.Split\<close> for a one-character separator.\<close>

fun Split :: "char \<Rightarrow> string \<Rightarrow> string list" where
  "Split c [] = [[]]"
| "Split c (x # xs) =
     (if x = c then [] # Split c xs
      else (case Split c xs of [] \<Rightarrow> [[x]] | y # ys \<Rightarrow> (x # y) # ys))"

lemma Split_not_Nil [simp]: "Split c s \<noteq> []"
  by (cases s) (auto split: list.splits)

lemma Split_free [go_simps]: "c \<notin> set s \<Longrightarrow> Split c s = [s]"
  by (induction s) auto

lemma Split_append_sep [go_simps]: "c \<notin> set s \<Longrightarrow> Split c (s @ c # t) = s # Split c t"
  by (induction s) auto

lemma Split_elem_free: "x \<in> set (Split c s) \<Longrightarrow> c \<notin> set x"
  by (induction s arbitrary: x) (auto split: if_splits list.splits)

text \<open>\<open>strings.Join\<close>\<close>

fun Join :: "string list \<Rightarrow> string \<Rightarrow> string" where
  "Join [] sep = []"
| "Join [x] sep = x"
| "Join (x # y # xs) sep = x @ sep @ Join (y # xs) sep"

lemma Join_Split: "Join (Split c s) [c] = s"
proof (induction s)
  case (Cons x xs)
  then show ?case
    by (cases "Split c xs" rule: list.exhaust; cases "tl (Split c xs)")
       (auto split: list.splits)
qed simp

text \<open>\<open>strings.Contains\<close>\<close>

fun Contains :: "string \<Rightarrow> string \<Rightarrow> bool" where
  "Contains [] sub \<longleftrightarrow> sub = []"
| "Contains (c # s) sub \<longleftrightarrow> prefix sub (c # s) \<or> Contains s sub"

lemma Contains_sublist: "Contains s sub \<longleftrightarrow> sublist sub s"
  by (induction s) (auto simp: sublist_Cons_right)

text \<open>\<open>strings.TrimPrefix\<close> and \<open>strings.TrimSuffix\<close>\<close>

definition TrimPrefix :: "string \<Rightarrow> string \<Rightarrow> string" where
  "TrimPrefix s p = (if prefix p s then drop (length p) s else s)"

definition TrimSuffix :: "string \<Rightarrow> string \<Rightarrow> string" where
  "TrimSuffix s p = (if suffix p s then take (length s - length p) s else s)"

text \<open>\<open>strings.ToLower\<close> on ASCII text.\<close>

definition lower_char :: "char \<Rightarrow> char" where
  "lower_char c = (if 65 \<le> (of_char c :: nat) \<and> (of_char c :: nat) \<le> 90 then char_of ((of_char c :: nat) + 32) else c)"

definition ToLower :: "string \<Rightarrow> string" where
  "ToLower s = map lower_char s"

text \<open>The two quotation marks as text, for messages that contain them.\<close>

definition squote :: string where "squote = [CHR 0x27]"
definition dquote :: string where "dquote = [CHR 0x22]"

section \<open>Numbers as text\<close>

text \<open>
  \<open>strconv.Itoa\<close> (and \<open>Sprintf("%d")\<close>) and \<open>strconv.Atoi\<close>. A Go \<open>int\<close> has 64 bits: the
  parser rejects text outside that range, and everything that is not an optional sign followed by
  decimal digits.
\<close>

definition digit_char :: "nat \<Rightarrow> char" where
  "digit_char d = char_of (48 + d)"

definition is_digit :: "char \<Rightarrow> bool" where
  "is_digit c \<longleftrightarrow> 48 \<le> (of_char c :: nat) \<and> (of_char c :: nat) \<le> 57"

definition digit_val :: "char \<Rightarrow> nat" where
  "digit_val c = of_char c - 48"

fun show_nat :: "nat \<Rightarrow> string" where
  "show_nat n = (if n < 10 then [digit_char n] else show_nat (n div 10) @ [digit_char (n mod 10)])"

declare show_nat.simps [simp del]

definition Itoa :: "int \<Rightarrow> string" where
  "Itoa i = (if i < 0 then CHR ''-'' # show_nat (nat (- i)) else show_nat (nat i))"

definition read_nat :: "string \<Rightarrow> nat" where
  "read_nat s = foldl (\<lambda>n c. 10 * n + digit_val c) 0 s"

definition digits_only :: "string \<Rightarrow> bool" where
  "digits_only s \<longleftrightarrow> s \<noteq> [] \<and> list_all is_digit s"

definition in_int64 :: "int \<Rightarrow> bool" where
  "in_int64 i \<longleftrightarrow> - (2 ^ 63) \<le> i \<and> i < 2 ^ 63"

definition Atoi :: "string \<Rightarrow> int option" where
  "Atoi s =
     (let (neg, ds) = (case s of
            [] \<Rightarrow> (False, [])
          | c # cs \<Rightarrow> if c = CHR ''-'' then (True, cs) else if c = CHR ''+'' then (False, cs) else (False, s));
          v = (if neg then - int (read_nat ds) else int (read_nat ds))
      in if digits_only ds \<and> in_int64 v then Some v else None)"

lemma digit_char_props:
  assumes "d < 10"
  shows "is_digit (digit_char d)" "digit_val (digit_char d) = d"
  using assms by (auto simp: is_digit_def digit_char_def digit_val_def)

lemma digits_show_nat: "digits_only (show_nat n)"
proof (induction n rule: show_nat.induct)
  case (1 n)
  show ?case
  proof (cases "n < 10")
    case True
    then show ?thesis
      by (subst show_nat.simps) (simp add: digits_only_def digit_char_props)
  next
    case False
    with 1 show ?thesis
      by (subst show_nat.simps) (simp add: digits_only_def digit_char_props)
  qed
qed

lemma read_show_nat: "read_nat (show_nat n) = n"
proof (induction n rule: show_nat.induct)
  case (1 n)
  show ?case
  proof (cases "n < 10")
    case True
    then show ?thesis
      by (subst show_nat.simps) (simp add: read_nat_def digit_char_props)
  next
    case False
    with 1 show ?thesis
      by (subst show_nat.simps) (simp add: read_nat_def digit_char_props)
  qed
qed

lemma show_nat_head: "\<exists>d ds. show_nat n = d # ds \<and> is_digit d"
  using digits_show_nat [of n] by (cases "show_nat n") (auto simp: digits_only_def)

lemma Atoi_Itoa [go_simps]: "in_int64 i \<Longrightarrow> Atoi (Itoa i) = Some i"
proof -
  assume r: "in_int64 i"
  obtain d ds where d: "show_nat (nat i) = d # ds" "is_digit d"
    using show_nat_head by blast
  have "d \<noteq> CHR ''-''" "d \<noteq> CHR ''+''"
    using d(2) by (auto simp: is_digit_def)
  with d r show ?thesis
    using digits_show_nat [of "nat i"] digits_show_nat [of "nat (- i)"]
      read_show_nat [of "nat i"] read_show_nat [of "nat (- i)"]
    by (auto simp: Atoi_def Itoa_def Let_def)
qed

text \<open>\<open>strconv.ParseBool\<close> and \<open>strconv.FormatBool\<close>\<close>

definition ParseBool :: "string \<Rightarrow> bool option" where
  "ParseBool s =
     (if s \<in> {''1'', ''t'', ''T'', ''true'', ''TRUE'', ''True''} then Some True
      else if s \<in> {''0'', ''f'', ''F'', ''false'', ''FALSE'', ''False''} then Some False
      else None)"

definition FormatBool :: "bool \<Rightarrow> string" where
  "FormatBool b = (if b then ''true'' else ''false'')"

lemma ParseBool_FormatBool [simp, go_simps]: "ParseBool (FormatBool b) = Some b"
  by (cases b) (simp_all add: ParseBool_def FormatBool_def)

section \<open>JSON values\<close>

text \<open>
  What \<open>json.Unmarshal\<close> into \<open>interface{}\<close> yields. Objects are key-sorted association lists, so
  that equality of values is equality of documents; \<open>json.Marshal\<close> sorts the keys of maps.
\<close>

datatype json =
    JNull
  | JBool bool
  | JNum int
  | JStr string
  | JArr "json list"
  | JObj "(string \<times> json) list"

definition sort_keys :: "(string \<times> 'a) list \<Rightarrow> (string \<times> 'a) list" where
  "sort_keys m = sort_key fst m"

lemma set_sort_keys [simp]: "set (sort_keys m) = set m"
  by (simp add: sort_keys_def)

lemma distinct_sort_keys [simp]: "distinct (map fst (sort_keys m)) \<longleftrightarrow> distinct (map fst m)"
  by (metis mset_map mset_sort sort_keys_def mset_eq_imp_distinct_iff)

section \<open>Lists\<close>

text \<open>The position of the first element that satisfies a predicate: the search loops of the code.\<close>

fun find_index :: "('a \<Rightarrow> bool) \<Rightarrow> 'a list \<Rightarrow> nat option" where
  "find_index P [] = None"
| "find_index P (x # xs) = (if P x then Some 0 else map_option Suc (find_index P xs))"

lemma find_index_None [simp]: "find_index P xs = None \<longleftrightarrow> (\<forall>x\<in>set xs. \<not> P x)"
  by (induction xs) auto

lemma find_index_SomeD:
  "find_index P xs = Some i \<Longrightarrow> i < length xs \<and> P (xs ! i) \<and> (\<forall>j<i. \<not> P (xs ! j))"
proof (induction xs arbitrary: i)
  case (Cons x xs)
  then show ?case
    by (cases i) (auto split: if_splits simp: nth_Cons split: nat.splits)
qed simp

lemma find_index_exists: "x \<in> set xs \<Longrightarrow> P x \<Longrightarrow> \<exists>i. find_index P xs = Some i"
  using find_index_None [of P xs] by (cases "find_index P xs") auto

text \<open>
  Writing through a pointer into a slice: the first element that satisfies the predicate changes.
\<close>

fun upd_first :: "('a \<Rightarrow> bool) \<Rightarrow> ('a \<Rightarrow> 'a) \<Rightarrow> 'a list \<Rightarrow> 'a list" where
  "upd_first P f [] = []"
| "upd_first P f (x # xs) = (if P x then f x # xs else x # upd_first P f xs)"

lemma upd_first_map_key:
  "(\<And>x. P x \<Longrightarrow> key (f x) = key x) \<Longrightarrow> map key (upd_first P f xs) = map key xs"
  by (induction xs) auto

lemma find_upd_first_same:
  "find P xs = Some y \<Longrightarrow> P (f y) \<Longrightarrow> find P (upd_first P f xs) = Some (f y)"
  by (induction xs) (auto split: if_splits)

lemma find_upd_first_other:
  "(\<And>x. P x \<Longrightarrow> \<not> Q x \<and> \<not> Q (f x)) \<Longrightarrow> find Q (upd_first P f xs) = find Q xs"
  by (induction xs) auto

lemma length_upd_first [simp]: "length (upd_first P f xs) = length xs"
  by (induction xs) auto

lemma upd_first_Nil_iff [simp]: "upd_first P f xs = [] \<longleftrightarrow> xs = []"
  by (cases xs) auto

lemma upd_first_last:
  "(\<And>x. P x \<Longrightarrow> key (f x) = key x) \<Longrightarrow> key (last (upd_first P f xs)) = key (last xs)"
  by (induction xs) auto

lemma find_append: "find P (xs @ ys) = (case find P xs of Some x \<Rightarrow> Some x | None \<Rightarrow> find P ys)"
  by (induction xs) auto

lemma find_filter_other: "(\<And>x. Q x \<Longrightarrow> P x) \<Longrightarrow> find Q (filter P xs) = find Q xs"
  by (induction xs) auto

lemma find_filter_none: "(\<And>x. Q x \<Longrightarrow> \<not> P x) \<Longrightarrow> find Q (filter P xs) = None"
  by (induction xs) auto

lemma find_SomeD: "find P xs = Some x \<Longrightarrow> x \<in> set xs \<and> P x"
  by (induction xs) (auto split: if_splits)

end
