(* ===== verification/API_Types.thy ===== *)
theory API_Types
  imports SC_Prelude
begin

text \<open>
  The data model of \<open>api/v1alpha1\<close>: the \<open>ClusterInstance\<close> custom resource (spec, nodes,
  status, reinstall status, manifest references), the condition types and reasons, and the
  accessors of \<open>clusterinstance_utils.go\<close>. Go string types with enumerated constants stay
  strings, as in the code, because the code compares them with whatever the API server stored.
  A Kubernetes timestamp is the number of seconds since the zero time, so the zero \<open>metav1.Time\<close>
  is 0. Types of other modules that the controllers only carry along (\<open>RootDeviceHints\<close>,
  \<open>NMStateConfigSpec\<close>, \<open>Proxy\<close>) are JSON values.
\<close>

type_synonym time = nat

definition IsZero :: "time \<Rightarrow> bool" where
  "IsZero t \<longleftrightarrow> t = 0"

section \<open>Names\<close>

definition Group :: string where
  "Group = ''siteconfig.open-cluster-management.io''"

definition PausedAnnotation :: string where
  "PausedAnnotation = ''clusterinstance.'' @ Group @ ''/paused''"

definition LastClusterInstanceSpecAnnotation :: string where
  "LastClusterInstanceSpecAnnotation = ''clusterinstance.'' @ Group @ ''/last-observed-spec''"

definition PreservationLabelKey :: string where
  "PreservationLabelKey = Group @ ''/preserve''"

definition ClusterIdentityLabelValue :: string where
  "ClusterIdentityLabelValue = ''cluster-identity''"

section \<open>Object metadata and conditions (apimachinery)\<close>

record ObjectMeta =
  om_Name :: string
  om_Namespace :: string
  om_UID :: string
  om_ResourceVersion :: string
  om_Generation :: int
  om_CreationTimestamp :: time
  om_DeletionTimestamp :: time
  om_Labels :: smap
  om_Annotations :: smap
  om_OwnerReferences :: "json list"
  om_Finalizers :: "string list"

record Condition =
  c_Type :: string
  c_Status :: string
  c_ObservedGeneration :: int
  c_LastTransitionTime :: time
  c_Reason :: string
  c_Message :: string

definition ConditionTrue :: string where "ConditionTrue = ''True''"
definition ConditionFalse :: string where "ConditionFalse = ''False''"
definition ConditionUnknown :: string where "ConditionUnknown = ''Unknown''"

lemma condition_status_distinct [simp]:
  "ConditionTrue \<noteq> ConditionFalse" "ConditionFalse \<noteq> ConditionTrue"
  "ConditionTrue \<noteq> ConditionUnknown" "ConditionUnknown \<noteq> ConditionTrue"
  "ConditionFalse \<noteq> ConditionUnknown" "ConditionUnknown \<noteq> ConditionFalse"
  "ConditionTrue \<noteq> []" "ConditionFalse \<noteq> []"
  by (simp_all add: ConditionTrue_def ConditionFalse_def ConditionUnknown_def)

section \<open>Condition types and reasons\<close>

definition ClusterInstanceValidated :: string where
  "ClusterInstanceValidated = ''ClusterInstanceValidated''"
definition RenderedTemplates :: string where
  "RenderedTemplates = ''RenderedTemplates''"
definition RenderedTemplatesValidated :: string where
  "RenderedTemplatesValidated = ''RenderedTemplatesValidated''"
definition RenderedTemplatesApplied :: string where
  "RenderedTemplatesApplied = ''RenderedTemplatesApplied''"
definition ClusterProvisioned :: string where
  "ClusterProvisioned = ''Provisioned''"

definition Initialized :: string where "Initialized = ''Initialized''"
definition Completed :: string where "Completed = ''Completed''"
definition Failed :: string where "Failed = ''Failed''"
definition TimedOut :: string where "TimedOut = ''TimedOut''"
definition InProgress :: string where "InProgress = ''InProgress''"
definition Unknown :: string where "Unknown = ''Unknown''"

definition ReinstallRequestValidated :: string where
  "ReinstallRequestValidated = ''ReinstallRequestValidated''"
definition ReinstallRequestProcessed :: string where
  "ReinstallRequestProcessed = ''ReinstallRequestProcessed''"
definition ReinstallPreservationDataBackedup :: string where
  "ReinstallPreservationDataBackedup = ''ReinstallPreservationDataBackedup''"
definition ReinstallPreservationDataRestored :: string where
  "ReinstallPreservationDataRestored = ''ReinstallPreservationDataRestored''"
definition ReinstallClusterIdentityDataDetected :: string where
  "ReinstallClusterIdentityDataDetected = ''ReinstallClusterIdentityDataDetected''"
definition ReinstallRenderedManifestsDeleted :: string where
  "ReinstallRenderedManifestsDeleted = ''ReinstallRenderedManifestsDeleted''"
definition ReinstallClusterReimported :: string where
  "ReinstallClusterReimported = ''ReinstallClusterReimported''"

definition PreservationNotRequired :: string where
  "PreservationNotRequired = ''PreservationNotRequired''"
definition DataUnavailable :: string where "DataUnavailable = ''DataUnavailable''"
definition DataAvailable :: string where "DataAvailable = ''DataAvailable''"
definition ReimportInitiated :: string where "ReimportInitiated = ''ReimportInitiated''"

lemmas reason_defs = Initialized_def Completed_def Failed_def TimedOut_def InProgress_def
  Unknown_def PreservationNotRequired_def DataUnavailable_def DataAvailable_def
  ReimportInitiated_def

lemmas reinstall_type_defs = ReinstallRequestValidated_def ReinstallRequestProcessed_def
  ReinstallPreservationDataBackedup_def ReinstallPreservationDataRestored_def
  ReinstallClusterIdentityDataDetected_def ReinstallRenderedManifestsDeleted_def
  ReinstallClusterReimported_def

lemma reasons_distinct [simp]:
  "distinct [Initialized, Completed, Failed, TimedOut, InProgress, Unknown,
     PreservationNotRequired, DataUnavailable, DataAvailable, ReimportInitiated]"
  by (simp add: reason_defs)

lemma reason_neqs [simp]:
  "Completed \<noteq> InProgress" "InProgress \<noteq> Completed" "Completed \<noteq> Failed" "Failed \<noteq> Completed"
  "Initialized \<noteq> Completed" "Completed \<noteq> Initialized" "Initialized \<noteq> Failed" "Failed \<noteq> Initialized"
  "Initialized \<noteq> InProgress" "InProgress \<noteq> Initialized" "InProgress \<noteq> Failed" "Failed \<noteq> InProgress"
  "Initialized \<noteq> TimedOut" "TimedOut \<noteq> Initialized" "TimedOut \<noteq> Completed" "Completed \<noteq> TimedOut"
  "TimedOut \<noteq> Failed" "Failed \<noteq> TimedOut" "TimedOut \<noteq> InProgress" "InProgress \<noteq> TimedOut"
  "Unknown \<noteq> Completed" "Completed \<noteq> Unknown" "Unknown \<noteq> InProgress" "InProgress \<noteq> Unknown"
  by (simp_all add: reason_defs)

lemma reinstall_types_distinct:
  "distinct [ReinstallRequestProcessed, ReinstallRequestValidated, ReinstallPreservationDataBackedup,
     ReinstallClusterIdentityDataDetected, ReinstallRenderedManifestsDeleted,
     ReinstallPreservationDataRestored, ReinstallClusterReimported]"
  by (simp add: reinstall_type_defs)

section \<open>The ClusterInstance spec\<close>

record ClusterNetworkEntry =
  cne_CIDR :: string
  cne_HostPrefix :: int

record TangConfig =
  tang_URL :: string
  tang_Thumbprint :: string

record DiskEncryption =
  de_Type :: string
  de_Tang :: "TangConfig list"

record Reference =
  ref_Name :: string
  ref_Namespace :: string

record ResourceRef =
  rr_APIVersion :: string
  rr_Kind :: string

record NodeSpec =
  n_BmcAddress :: string
  n_BmcCredentialsName :: string
  n_BootMACAddress :: string
  n_AutomatedCleaningMode :: string
  n_RootDeviceHints :: "json option"
  n_NodeNetwork :: "json option"
  n_NodeLabels :: smap
  n_HostName :: string
  n_HostRef :: "Reference option"
  n_CPUArchitecture :: string
  n_BootMode :: string
  n_InstallerArgs :: string
  n_IgnitionConfigOverride :: string
  n_Role :: string
  n_ExtraAnnotations :: "(string, smap) gomap"
  n_ExtraLabels :: "(string, smap) gomap"
  n_SuppressedManifests :: "string list"
  n_PruneManifests :: "ResourceRef list"
  n_IronicInspect :: string
  n_TemplateRefs :: "Reference list"

record ReinstallSpec =
  rs_Generation :: string
  rs_PreservationMode :: string

record ClusterInstanceSpec =
  s_ClusterName :: string
  s_PullSecretRef :: string
  s_ClusterImageSetNameRef :: string
  s_SSHPublicKey :: string
  s_BaseDomain :: string
  s_ApiVIPs :: "string list"
  s_IngressVIPs :: "string list"
  s_HoldInstallation :: bool
  s_AdditionalNTPSources :: "string list"
  s_MachineNetwork :: "string list"
  s_ClusterNetwork :: "ClusterNetworkEntry list"
  s_ServiceNetwork :: "string list"
  s_NetworkType :: string
  s_PlatformType :: string
  s_ExtraAnnotations :: "(string, smap) gomap"
  s_ExtraLabels :: "(string, smap) gomap"
  s_InstallConfigOverrides :: string
  s_IgnitionConfigOverride :: string
  s_DiskEncryption :: "DiskEncryption option"
  s_Proxy :: "json option"
  s_ExtraManifestsRefs :: "string list"
  s_SuppressedManifests :: "string list"
  s_PruneManifests :: "ResourceRef list"
  s_CPUPartitioning :: string
  s_CPUArchitecture :: string
  s_ClusterType :: string
  s_TemplateRefs :: "Reference list"
  s_CaBundleRef :: "string option"
  s_Nodes :: "NodeSpec list"
  s_Reinstall :: "ReinstallSpec option"

definition ClusterTypeSNO :: string where "ClusterTypeSNO = ''SNO''"
definition ClusterTypeHighlyAvailable :: string where
  "ClusterTypeHighlyAvailable = ''HighlyAvailable''"
definition ClusterTypeHostedControlPlane :: string where
  "ClusterTypeHostedControlPlane = ''HostedControlPlane''"
definition ClusterTypeHighlyAvailableArbiter :: string where
  "ClusterTypeHighlyAvailableArbiter = ''HighlyAvailableArbiter''"

lemma cluster_types_distinct [simp]:
  "ClusterTypeSNO \<noteq> ClusterTypeHostedControlPlane" "ClusterTypeHostedControlPlane \<noteq> ClusterTypeSNO"
  "ClusterTypeSNO \<noteq> ClusterTypeHighlyAvailableArbiter"
  "ClusterTypeHighlyAvailableArbiter \<noteq> ClusterTypeSNO"
  "ClusterTypeHostedControlPlane \<noteq> ClusterTypeHighlyAvailableArbiter"
  "ClusterTypeHighlyAvailableArbiter \<noteq> ClusterTypeHostedControlPlane"
  by (simp_all add: ClusterTypeSNO_def ClusterTypeHostedControlPlane_def
      ClusterTypeHighlyAvailableArbiter_def)

definition PreservationModeNone :: string where "PreservationModeNone = ''None''"
definition PreservationModeAll :: string where "PreservationModeAll = ''All''"
definition PreservationModeClusterIdentity :: string where
  "PreservationModeClusterIdentity = ''ClusterIdentity''"

definition CPUPartitioningNone :: string where "CPUPartitioningNone = ''None''"
definition CPUPartitioningAllNodes :: string where "CPUPartitioningAllNodes = ''AllNodes''"

section \<open>The ClusterInstance status\<close>

definition ManifestRenderedSuccess :: string where "ManifestRenderedSuccess = ''rendered''"
definition ManifestRenderedFailure :: string where "ManifestRenderedFailure = ''failed''"
definition ManifestRenderedValidated :: string where "ManifestRenderedValidated = ''validated''"
definition ManifestSuppressed :: string where "ManifestSuppressed = ''suppressed''"
definition ManifestDeleted :: string where "ManifestDeleted = ''deleted''"
definition ManifestDeletionInProgress :: string where
  "ManifestDeletionInProgress = ''deletion-in-progress''"
definition ManifestDeletionFailure :: string where
  "ManifestDeletionFailure = ''deletion-failed''"
definition ManifestDeletionTimedOut :: string where
  "ManifestDeletionTimedOut = ''deletion-attempt-timed-out''"

record ManifestReference =
  m_APIGroup :: "string option"
  m_Kind :: string
  m_Name :: string
  m_Namespace :: string
  m_SyncWave :: int
  m_Status :: string
  m_LastAppliedTime :: time
  m_Message :: string

record ReinstallHistory =
  h_Generation :: string
  h_RequestStartTime :: time
  h_RequestEndTime :: time
  h_ClusterInstanceSpecDiff :: string

record ReinstallStatus =
  r_Conditions :: "Condition list"
  r_InProgressGeneration :: string
  r_ObservedGeneration :: string
  r_RequestStartTime :: time
  r_RequestEndTime :: time
  r_History :: "ReinstallHistory list"

record PausedStatus =
  p_TimeSet :: time
  p_Reason :: string

record CDCondition =
  cd_Type :: string
  cd_Status :: string
  cd_LastProbeTime :: time
  cd_LastTransitionTime :: time
  cd_Reason :: string
  cd_Message :: string

record ClusterInstanceStatus =
  st_Conditions :: "Condition list"
  st_ClusterDeploymentRef :: "string option"
  st_DeploymentConditions :: "CDCondition list"
  st_ManifestsRendered :: "ManifestReference list"
  st_ObservedGeneration :: int
  st_Reinstall :: "ReinstallStatus option"
  st_Paused :: "PausedStatus option"

record ClusterInstance =
  ci_Meta :: ObjectMeta
  ci_Spec :: ClusterInstanceSpec
  ci_Status :: ClusterInstanceStatus

end
