(* ===== verification/JSON_Diff.thy ===== *)
theory JSON_Diff
  imports SC_Prelude
begin

text \<open>
  The JSON differ the webhook relies on (\<open>jsondiff.CompareJSON\<close> with its default options), and the
  two facts the webhook's soundness needs from it: every operation of a patch is located at or
  below the place where the documents differ, and documents that differ give a non-empty patch.
\<close>

section \<open>The differ\<close>

datatype op_type = OperationAdd | OperationRemove | OperationReplace

record Operation =
  op_Type :: op_type
  op_Path :: string
  op_OldValue :: json
  op_Value :: json

fun escapeKey :: "string \<Rightarrow> string" where
  "escapeKey [] = []"
| "escapeKey (c # cs) =
     (if c = CHR ''/'' then ''~1'' else if c = CHR ''~'' then ''~0'' else [c]) @ escapeKey cs"

definition appendKey :: "string \<Rightarrow> string \<Rightarrow> string" where
  "appendKey ptr k = ptr @ CHR ''/'' # escapeKey k"

definition appendIndex :: "string \<Rightarrow> nat \<Rightarrow> string" where
  "appendIndex ptr i = ptr @ CHR ''/'' # show_nat i"

definition mk_op :: "op_type \<Rightarrow> string \<Rightarrow> json \<Rightarrow> json \<Rightarrow> Operation" where
  "mk_op t p old new = \<lparr>op_Type = t, op_Path = p, op_OldValue = old, op_Value = new\<rparr>"

fun areComparable :: "json \<Rightarrow> json \<Rightarrow> bool" where
  "areComparable JNull JNull = True"
| "areComparable (JBool a) (JBool b) = True"
| "areComparable (JNum a) (JNum b) = True"
| "areComparable (JStr a) (JStr b) = True"
| "areComparable (JArr a) (JArr b) = True"
| "areComparable (JObj a) (JObj b) = True"
| "areComparable _ _ = False"

definition all_keys :: "(string \<times> json) list \<Rightarrow> (string \<times> json) list \<Rightarrow> string list" where
  "all_keys a b = sort (remdups (map fst a @ map fst b))"

lemma size_map_of: "map_of m k = Some v \<Longrightarrow> size v < Suc (size_list (size_prod (\<lambda>x. 0) size) m)"
  by (induction m) (auto split: if_splits)

lemma size_nth: "i < length xs \<Longrightarrow> size (xs ! i) < Suc (size_list size (xs :: json list))"
  using size_list_estimation' [of "xs ! i" xs "size (xs ! i)" size] by (simp add: less_Suc_eq_le)

function (sequential) diff :: "string \<Rightarrow> json \<Rightarrow> json \<Rightarrow> Operation list" where
  "diff ptr (JArr a) (JArr b) =
     (if a = b then [] else
      (let ml = min (length a) (length b) in
       map (\<lambda>i. mk_op OperationRemove (appendIndex ptr ml) (a ! i) JNull) [ml..<length a] @
       concat (map (\<lambda>i. diff (appendIndex ptr i) (a ! i) (b ! i)) [0..<min (length a) (length b)]) @
       map (\<lambda>i. mk_op OperationAdd (ptr @ ''/-'') JNull (b ! i)) [ml..<length b]))"
| "diff ptr (JObj a) (JObj b) =
     (if a = b then [] else
      concat (map (\<lambda>k.
        case map_of a k of
          Some v \<Rightarrow>
            (case map_of b k of
               Some w \<Rightarrow> diff (appendKey ptr k) v w
             | None \<Rightarrow> [mk_op OperationRemove (appendKey ptr k) v JNull])
        | None \<Rightarrow>
            (case map_of b k of
               Some w \<Rightarrow> [mk_op OperationAdd (appendKey ptr k) JNull w]
             | None \<Rightarrow> []))
        (all_keys a b)))"
| "diff ptr a b =
     (if areComparable a b then (if a = b then [] else [mk_op OperationReplace ptr a b])
      else if ptr = [] then [mk_op OperationAdd ptr a b]
      else [mk_op OperationReplace ptr a b])"
  by pat_completeness auto
termination
proof (relation "measure (\<lambda>(p, a, b). size a)", goal_cases)
  case 1
  show ?case by simp
next
  case (2 ptr a b ml i)
  then show ?case using size_nth [of i a] by simp
next
  case (3 ptr a b k v w)
  then show ?case using size_map_of [of a k v] by simp
qed

definition CompareJSON :: "json \<Rightarrow> json \<Rightarrow> Operation list" where
  "CompareJSON src tgt = diff [] src tgt"

text \<open>The operations of one field of an object.\<close>

definition field_ops :: "string \<Rightarrow> (string \<times> json) list \<Rightarrow> (string \<times> json) list \<Rightarrow> string \<Rightarrow> Operation list" where
  "field_ops ptr a b k =
     (case map_of a k of
        Some v \<Rightarrow> (case map_of b k of
            Some w \<Rightarrow> diff (appendKey ptr k) v w
          | None \<Rightarrow> [mk_op OperationRemove (appendKey ptr k) v JNull])
      | None \<Rightarrow> (case map_of b k of
            Some w \<Rightarrow> [mk_op OperationAdd (appendKey ptr k) JNull w]
          | None \<Rightarrow> []))"

lemma diff_JObj:
  "diff ptr (JObj a) (JObj b) = (if a = b then [] else concat (map (field_ops ptr a b) (all_keys a b)))"
  by (simp add: field_ops_def [abs_def])

section \<open>Canonical documents\<close>

fun json_ok :: "json \<Rightarrow> bool" where
  "json_ok (JArr xs) = list_all json_ok xs"
| "json_ok (JObj m) = (sorted (map fst m) \<and> distinct (map fst m) \<and> list_all (\<lambda>p. json_ok (snd p)) m)"
| "json_ok _ = True"

lemma json_ok_map_of: "json_ok (JObj m) \<Longrightarrow> map_of m k = Some v \<Longrightarrow> json_ok v"
  by (auto simp: list_all_iff dest!: map_of_SomeD)

lemma canonical_map_of_eq:
  assumes "json_ok (JObj a)" "json_ok (JObj b)" "\<And>k. map_of a k = map_of b k"
  shows "a = b"
proof (rule map_sorted_distinct_set_unique [of fst])
  have "map_of a = map_of b" using assms(3) by auto
  then show s: "set a = set b" using assms(1,2) by (simp add: map_of_inject_set)
  show "inj_on fst (set a \<union> set b)" using s assms(1) by (simp add: distinct_map)
qed (use assms in auto)

section \<open>Where the operations of a patch lie\<close>

definition under :: "string \<Rightarrow> string \<Rightarrow> bool" where
  "under p q \<longleftrightarrow> q = p \<or> (\<exists>r. q = p @ CHR ''/'' # r)"

lemma under_refl [simp]: "under p p"
  by (simp add: under_def)

lemma under_append [simp]: "under (p @ CHR ''/'' # s) q \<Longrightarrow> under p q"
  by (auto simp: under_def)

lemma under_keys: "under (appendKey p k) q \<Longrightarrow> under p q" "under (appendIndex p i) q \<Longrightarrow> under p q"
  by (auto simp: appendKey_def appendIndex_def)

lemma under_appends [simp]:
  "under p (appendKey p k)" "under p (appendIndex p i)" "under p (p @ ''/-'')"
  by (auto simp: under_def appendKey_def appendIndex_def)

lemma mk_op_sel [simp]: "op_Path (mk_op t p a b) = p" "op_Type (mk_op t p a b) = t"
  by (simp_all add: mk_op_def)

lemma diff_under: "op \<in> set (diff ptr a b) \<Longrightarrow> under ptr (op_Path op)"
proof (induction ptr a b rule: diff.induct)
  case (1 ptr a b)
  from 1(2) show ?case
    by (auto simp: Let_def split: if_splits dest!: 1(1) [OF _ refl] intro: under_keys)
next
  case (2 ptr a b)
  show ?case
  proof (cases "a = b")
    case False
    with 2(2) obtain k where k: "k \<in> set (all_keys a b)"
      and op: "op \<in> set (case map_of a k of
          Some v \<Rightarrow> (case map_of b k of Some w \<Rightarrow> diff (appendKey ptr k) v w
             | None \<Rightarrow> [mk_op OperationRemove (appendKey ptr k) v JNull])
        | None \<Rightarrow> (case map_of b k of Some w \<Rightarrow> [mk_op OperationAdd (appendKey ptr k) JNull w] | None \<Rightarrow> []))"
      by auto
    have "under (appendKey ptr k) (op_Path op)"
    proof (cases "map_of a k")
      case None
      with op show ?thesis by (auto split: option.splits)
    next
      case (Some v)
      with op False k show ?thesis
        by (cases "map_of b k") (auto intro: 2(1))
    qed
    then show ?thesis by (rule under_keys)
  qed (use 2(2) in simp)
qed (auto split: if_splits)

lemma set_all_keys: "set (all_keys a b) = fst ` set a \<union> fst ` set b"
  by (auto simp: all_keys_def)

lemma all_keys_iff: "k \<in> set (all_keys a b) \<longleftrightarrow> map_of a k \<noteq> None \<or> map_of b k \<noteq> None"
  by (auto simp: set_all_keys map_of_eq_None_iff)

text \<open>Documents that differ give a non-empty patch.\<close>

lemma diff_not_Nil: "json_ok a \<Longrightarrow> json_ok b \<Longrightarrow> a \<noteq> b \<Longrightarrow> diff ptr a b \<noteq> []"
proof (induction ptr a b rule: diff.induct)
  case (1 ptr a b)
  then have ab: "a \<noteq> b" by simp
  show ?case
  proof (cases "length a = length b")
    case False
    with ab show ?thesis by (auto simp: Let_def min_def)
  next
    case True
    with ab obtain i where i: "i < length a" "a ! i \<noteq> b ! i" by (metis nth_equalityI)
    with 1 True ab have "diff (appendIndex ptr i) (a ! i) (b ! i) \<noteq> []"
      by (intro 1(1) [OF ab refl]) (auto simp: list_all_length)
    with i True ab show ?thesis by (auto simp: Let_def)
  qed
next
  case (2 ptr a b)
  then have ab: "a \<noteq> b" by simp
  with 2 obtain k where k: "map_of a k \<noteq> map_of b k" using canonical_map_of_eq by blast
  then have mem: "k \<in> set (all_keys a b)"
    unfolding all_keys_iff by (cases "map_of a k"; cases "map_of b k") simp_all
  show ?case
  proof (cases "\<exists>v w. map_of a k = Some v \<and> map_of b k = Some w")
    case False
    with ab k mem show ?thesis by (force split: option.splits)
  next
    case True
    then obtain v w where vw: "map_of a k = Some v" "map_of b k = Some w" by blast
    with k have "diff (appendKey ptr k) v w \<noteq> []"
      by (intro 2(1) [OF ab mem vw]) (use 2 json_ok_map_of in auto)
    with ab vw mem show ?thesis by (force split: option.splits)
  qed
qed (auto split: if_splits)

text \<open>A field whose value differs has an operation at or below it.\<close>

lemma CompareJSON_covers:
  assumes "json_ok (JObj a)" "json_ok (JObj b)" "map_of a k \<noteq> map_of b k"
  shows "\<exists>op\<in>set (CompareJSON (JObj a) (JObj b)). under (appendKey [] k) (op_Path op)"
proof -
  have ab: "a \<noteq> b" using assms by auto
  have mem: "k \<in> set (all_keys a b)"
    unfolding all_keys_iff using assms(3) by (cases "map_of a k"; cases "map_of b k") simp_all
  show ?thesis
  proof (cases "\<exists>v w. map_of a k = Some v \<and> map_of b k = Some w")
    case False
    then have "map_of a k = None \<or> map_of b k = None" by auto
    with ab assms(3) mem show ?thesis
      by (cases "map_of a k"; cases "map_of b k")
         (auto simp: CompareJSON_def intro!: bexI [of _ k])
  next
    case True
    then obtain v w where vw: "map_of a k = Some v" "map_of b k = Some w" by blast
    with assms have "diff (appendKey [] k) v w \<noteq> []"
      by (intro diff_not_Nil) (auto intro: json_ok_map_of simp del: json_ok.simps)
    then obtain op where op: "op \<in> set (diff (appendKey [] k) v w)" by (meson list.set_sel(1))
    then have "op \<in> set (CompareJSON (JObj a) (JObj b))"
      using ab vw mem by (auto simp: CompareJSON_def intro!: bexI [of _ k])
    with op show ?thesis by (blast intro: diff_under)
  qed
qed

text \<open>Every operation lies under a top-level field whose value differs.\<close>

lemma diff_refl [simp]: "diff p v v = []"
  by (cases v) auto

lemma field_ops_under: "op \<in> set (field_ops ptr a b k) \<Longrightarrow> under (appendKey ptr k) (op_Path op)"
  by (auto simp: field_ops_def split: option.splits intro: diff_under)

lemma field_ops_same: "map_of a k = map_of b k \<Longrightarrow> field_ops ptr a b k = []"
  by (auto simp: field_ops_def split: option.splits)

lemma CompareJSON_field_ops:
  assumes "map_of a k \<noteq> map_of b k" "op \<in> set (field_ops [] a b k)"
  shows "op \<in> set (CompareJSON (JObj a) (JObj b))"
proof -
  have "k \<in> set (all_keys a b)"
    unfolding all_keys_iff using assms(1) by (cases "map_of a k"; cases "map_of b k") simp_all
  moreover have "a \<noteq> b" using assms(1) by auto
  ultimately show ?thesis
    unfolding CompareJSON_def diff_JObj using assms(2) by auto
qed

lemma CompareJSON_sound:
  assumes "op \<in> set (CompareJSON (JObj a) (JObj b))"
  shows "\<exists>k. map_of a k \<noteq> map_of b k \<and> op \<in> set (field_ops [] a b k) \<and> under (appendKey [] k) (op_Path op)"
proof -
  from assms obtain k where k: "op \<in> set (field_ops [] a b k)"
    unfolding CompareJSON_def diff_JObj by (auto split: if_splits)
  moreover have "map_of a k \<noteq> map_of b k"
    using k field_ops_same [of a k b "[]"] by (cases "field_ops [] a b k") auto
  ultimately show ?thesis using field_ops_under by blast
qed

section \<open>Structs as documents\<close>

text \<open>
  \<open>json.Marshal\<close> of a struct: fields marked \<open>omitempty\<close> disappear when they hold the zero value,
  here \<open>None\<close> in the list of fields.
\<close>

definition present :: "(string \<times> json option) list \<Rightarrow> (string \<times> json) list" where
  "present fs = map (\<lambda>p. (fst p, the (snd p))) (filter (\<lambda>p. snd p \<noteq> None) fs)"

definition jstruct :: "(string \<times> json option) list \<Rightarrow> json" where
  "jstruct fs = JObj (sort_keys (present fs))"

lemma distinct_present: "distinct (map fst fs) \<Longrightarrow> distinct (map fst (present fs))"
  by (simp add: present_def comp_def distinct_map_filter)

lemma map_of_present:
  "distinct (map fst fs) \<Longrightarrow> map_of (present fs) k = Option.bind (map_of fs k) (\<lambda>x. x)"
proof (induction fs)
  case (Cons p fs)
  obtain j v where p: "p = (j, v)" by force
  have "k \<notin> fst ` set fs \<Longrightarrow> map_of (present fs) k = None"
    by (force simp: present_def map_of_eq_None_iff)
  moreover have "map_of (present fs) k = Option.bind (map_of fs k) (\<lambda>x. x)"
    using Cons by simp
  ultimately show ?case
    using Cons.prems p by (cases v) (auto simp: present_def)
qed (simp add: present_def)

lemma map_of_sort_keys: "distinct (map fst m) \<Longrightarrow> map_of (sort_keys m) = map_of m"
  by (simp add: map_of_inject_set)

lemma jstruct_ok:
  assumes "distinct (map fst fs)" "\<And>k v. (k, Some v) \<in> set fs \<Longrightarrow> json_ok v"
  shows "json_ok (jstruct fs)"
proof -
  have "sorted (map fst (sort_keys (present fs)))" by (simp add: sort_keys_def)
  moreover have "distinct (map fst (sort_keys (present fs)))"
    using distinct_present [OF assms(1)] by simp
  moreover have "\<forall>p\<in>set (present fs). json_ok (snd p)"
    using assms(2) by (auto simp: present_def)
  ultimately show ?thesis by (simp add: jstruct_def list_all_iff)
qed

lemma jstruct_fields:
  assumes "distinct (map fst fs)"
  shows "\<exists>m. jstruct fs = JObj m \<and> (\<forall>k. map_of m k = Option.bind (map_of fs k) (\<lambda>x. x))"
  using assms by (auto simp: jstruct_def map_of_sort_keys distinct_present map_of_present)

definition j_str :: "string \<Rightarrow> json option" where
  "j_str s = (if s = [] then None else Some (JStr s))"

definition j_list :: "('a \<Rightarrow> json) \<Rightarrow> 'a list \<Rightarrow> json option" where
  "j_list f xs = (if xs = [] then None else Some (JArr (map f xs)))"

definition j_smap :: "smap \<Rightarrow> json" where
  "j_smap m = JObj (sort_keys (map (\<lambda>p. (fst p, JStr (snd p))) m))"

definition j_map :: "('a \<Rightarrow> json) \<Rightarrow> (string, 'a) gomap \<Rightarrow> json option" where
  "j_map f m = (if m = [] then None else Some (JObj (sort_keys (map (\<lambda>p. (fst p, f (snd p))) m))))"

end
