(* ===== verification/Spec_Document.thy ===== *)
theory Spec_Document
  imports API_Types JSON_Diff
begin

text \<open>
  The spec as a JSON document: what \<open>json.Marshal\<close> makes of \<open>ClusterInstanceSpec\<close> and \<open>NodeSpec\<close>,
  field by field with the tags of \<open>clusterinstance_types.go\<close> (\<open>omitempty\<close> fields vanish at their
  zero value). \<open>canon_spec\<close> is the spec up to the iteration order of its maps, which is what
  \<open>equality.Semantic.DeepEqual\<close> compares.
\<close>

definition j_name :: "string \<Rightarrow> json" where
  "j_name n = jstruct [(''name'', j_str n)]"

definition j_reference :: "Reference \<Rightarrow> json" where
  "j_reference r = jstruct [(''name'', Some (JStr (ref_Name r))), (''namespace'', Some (JStr (ref_Namespace r)))]"

definition j_resource_ref :: "ResourceRef \<Rightarrow> json" where
  "j_resource_ref r =
     jstruct [(''apiVersion'', Some (JStr (rr_APIVersion r))), (''kind'', Some (JStr (rr_Kind r)))]"

definition j_cidr :: "string \<Rightarrow> json" where
  "j_cidr c = jstruct [(''cidr'', Some (JStr c))]"

definition j_cluster_network :: "ClusterNetworkEntry \<Rightarrow> json" where
  "j_cluster_network e =
     jstruct [(''cidr'', Some (JStr (cne_CIDR e))),
       (''hostPrefix'', if cne_HostPrefix e = 0 then None else Some (JNum (cne_HostPrefix e)))]"

definition j_tang :: "TangConfig \<Rightarrow> json" where
  "j_tang t = jstruct [(''url'', j_str (tang_URL t)), (''thumbprint'', j_str (tang_Thumbprint t))]"

definition j_disk_encryption :: "DiskEncryption \<Rightarrow> json" where
  "j_disk_encryption d = jstruct [(''type'', j_str (de_Type d)), (''tang'', j_list j_tang (de_Tang d))]"

definition j_reinstall :: "ReinstallSpec \<Rightarrow> json" where
  "j_reinstall r =
     jstruct [(''generation'', Some (JStr (rs_Generation r))),
       (''preservationMode'', Some (JStr (rs_PreservationMode r)))]"

definition node_fields :: "NodeSpec \<Rightarrow> (string \<times> json option) list" where
  "node_fields n =
    [(''bmcAddress'', Some (JStr (n_BmcAddress n))),
     (''bmcCredentialsName'', Some (jstruct [(''name'', Some (JStr (n_BmcCredentialsName n)))])),
     (''bootMACAddress'', Some (JStr (n_BootMACAddress n))),
     (''automatedCleaningMode'', j_str (n_AutomatedCleaningMode n)),
     (''rootDeviceHints'', n_RootDeviceHints n),
     (''nodeNetwork'', n_NodeNetwork n),
     (''nodeLabels'', j_map JStr (n_NodeLabels n)),
     (''hostName'', Some (JStr (n_HostName n))),
     (''hostRef'', map_option j_reference (n_HostRef n)),
     (''cpuArchitecture'', j_str (n_CPUArchitecture n)),
     (''bootMode'', j_str (n_BootMode n)),
     (''installerArgs'', j_str (n_InstallerArgs n)),
     (''ignitionConfigOverride'', j_str (n_IgnitionConfigOverride n)),
     (''role'', j_str (n_Role n)),
     (''extraAnnotations'', j_map j_smap (n_ExtraAnnotations n)),
     (''extraLabels'', j_map j_smap (n_ExtraLabels n)),
     (''suppressedManifests'', j_list JStr (n_SuppressedManifests n)),
     (''pruneManifests'', j_list j_resource_ref (n_PruneManifests n)),
     (''ironicInspect'', j_str (n_IronicInspect n)),
     (''templateRefs'', Some (JArr (map j_reference (n_TemplateRefs n))))]"

definition marshalNodeSpec :: "NodeSpec \<Rightarrow> json" where
  "marshalNodeSpec n = jstruct (node_fields n)"

definition spec_fields :: "ClusterInstanceSpec \<Rightarrow> (string \<times> json option) list" where
  "spec_fields s =
    [(''clusterName'', Some (JStr (s_ClusterName s))),
     (''pullSecretRef'', Some (j_name (s_PullSecretRef s))),
     (''clusterImageSetNameRef'', Some (JStr (s_ClusterImageSetNameRef s))),
     (''sshPublicKey'', j_str (s_SSHPublicKey s)),
     (''baseDomain'', Some (JStr (s_BaseDomain s))),
     (''apiVIPs'', j_list JStr (s_ApiVIPs s)),
     (''ingressVIPs'', j_list JStr (s_IngressVIPs s)),
     (''holdInstallation'', if s_HoldInstallation s then Some (JBool True) else None),
     (''additionalNTPSources'', j_list JStr (s_AdditionalNTPSources s)),
     (''machineNetwork'', j_list j_cidr (s_MachineNetwork s)),
     (''clusterNetwork'', j_list j_cluster_network (s_ClusterNetwork s)),
     (''serviceNetwork'', j_list j_cidr (s_ServiceNetwork s)),
     (''networkType'', j_str (s_NetworkType s)),
     (''platformType'', j_str (s_PlatformType s)),
     (''extraAnnotations'', j_map j_smap (s_ExtraAnnotations s)),
     (''extraLabels'', j_map j_smap (s_ExtraLabels s)),
     (''installConfigOverrides'', j_str (s_InstallConfigOverrides s)),
     (''ignitionConfigOverride'', j_str (s_IgnitionConfigOverride s)),
     (''diskEncryption'', map_option j_disk_encryption (s_DiskEncryption s)),
     (''proxy'', s_Proxy s),
     (''extraManifestsRefs'', j_list j_name (s_ExtraManifestsRefs s)),
     (''suppressedManifests'', j_list JStr (s_SuppressedManifests s)),
     (''pruneManifests'', j_list j_resource_ref (s_PruneManifests s)),
     (''cpuPartitioningMode'', j_str (s_CPUPartitioning s)),
     (''cpuArchitecture'', j_str (s_CPUArchitecture s)),
     (''clusterType'', j_str (s_ClusterType s)),
     (''templateRefs'', Some (JArr (map j_reference (s_TemplateRefs s)))),
     (''caBundleRef'', map_option j_name (s_CaBundleRef s)),
     (''nodes'', Some (JArr (map marshalNodeSpec (s_Nodes s)))),
     (''reinstall'', map_option j_reinstall (s_Reinstall s))]"

definition marshalSpec :: "ClusterInstanceSpec \<Rightarrow> json" where
  "marshalSpec s = jstruct (spec_fields s)"

definition spec_field :: "ClusterInstanceSpec \<Rightarrow> string \<Rightarrow> json option" where
  "spec_field s k = Option.bind (map_of (spec_fields s) k) (\<lambda>x. x)"

definition node_field :: "NodeSpec \<Rightarrow> string \<Rightarrow> json option" where
  "node_field n k = Option.bind (map_of (node_fields n) k) (\<lambda>x. x)"

section \<open>Equality up to map order\<close>

definition canon_kinds :: "(string, smap) gomap \<Rightarrow> (string, smap) gomap" where
  "canon_kinds m = sort_keys (map (\<lambda>p. (fst p, sort_keys (snd p))) m)"

definition canon_node :: "NodeSpec \<Rightarrow> NodeSpec" where
  "canon_node n = n\<lparr>n_NodeLabels := sort_keys (n_NodeLabels n),
     n_ExtraAnnotations := canon_kinds (n_ExtraAnnotations n),
     n_ExtraLabels := canon_kinds (n_ExtraLabels n)\<rparr>"

definition canon_spec :: "ClusterInstanceSpec \<Rightarrow> ClusterInstanceSpec" where
  "canon_spec s = s\<lparr>s_ExtraAnnotations := canon_kinds (s_ExtraAnnotations s),
     s_ExtraLabels := canon_kinds (s_ExtraLabels s),
     s_Nodes := map canon_node (s_Nodes s)\<rparr>"

section \<open>Well-formed specs\<close>

text \<open>
  What a decoded object satisfies by construction: maps have distinct keys and the opaque fields
  are canonical documents.
\<close>

definition kinds_ok :: "(string, smap) gomap \<Rightarrow> bool" where
  "kinds_ok m \<longleftrightarrow> gmap_ok m \<and> list_all (\<lambda>p. gmap_ok (snd p)) m"

definition opt_ok :: "json option \<Rightarrow> bool" where
  "opt_ok v \<longleftrightarrow> (case v of None \<Rightarrow> True | Some j \<Rightarrow> json_ok j)"

definition node_ok :: "NodeSpec \<Rightarrow> bool" where
  "node_ok n \<longleftrightarrow> opt_ok (n_RootDeviceHints n) \<and> opt_ok (n_NodeNetwork n) \<and> gmap_ok (n_NodeLabels n)
     \<and> kinds_ok (n_ExtraAnnotations n) \<and> kinds_ok (n_ExtraLabels n)"

definition spec_ok :: "ClusterInstanceSpec \<Rightarrow> bool" where
  "spec_ok s \<longleftrightarrow> opt_ok (s_Proxy s) \<and> kinds_ok (s_ExtraAnnotations s) \<and> kinds_ok (s_ExtraLabels s)
     \<and> list_all node_ok (s_Nodes s)"

lemma opt_ok_iff: "opt_ok v \<longleftrightarrow> (\<forall>j. v = Some j \<longrightarrow> json_ok j)"
  by (auto simp: opt_ok_def split: option.splits)

lemma opt_ok_simps [simp]:
  "opt_ok None" "opt_ok (Some (JStr s))" "opt_ok (Some (JBool b))" "opt_ok (Some (JNum i))"
  by (simp_all add: opt_ok_def)

lemma jstruct_opt_ok:
  "distinct (map fst fs) \<Longrightarrow> list_all (\<lambda>p. opt_ok (snd p)) fs \<Longrightarrow> json_ok (jstruct fs)"
  by (rule jstruct_ok) (auto simp: list_all_iff opt_ok_iff)

lemma j_str_ok [simp]: "opt_ok (j_str s)"
  by (simp add: j_str_def)

lemma j_list_ok: "(\<And>x. json_ok (f x)) \<Longrightarrow> opt_ok (j_list f xs)"
  by (simp add: j_list_def opt_ok_def list_all_iff)

lemma map_option_ok: "(\<And>x. json_ok (f x)) \<Longrightarrow> opt_ok (map_option f v)"
  by (cases v) (auto simp: opt_ok_def)

lemma JObj_sort_keys_ok:
  "gmap_ok m \<Longrightarrow> list_all (\<lambda>p. json_ok (f (snd p))) m \<Longrightarrow>
   json_ok (JObj (sort_keys (map (\<lambda>p. (fst p, f (snd p))) m)))"
  by (simp add: gmap_ok_def list_all_iff comp_def)
     (simp add: sort_keys_def)

lemma j_smap_ok: "gmap_ok m \<Longrightarrow> json_ok (j_smap m)"
  unfolding j_smap_def by (rule JObj_sort_keys_ok) (auto simp: list_all_iff)

lemma j_map_ok: "gmap_ok m \<Longrightarrow> list_all (\<lambda>p. json_ok (f (snd p))) m \<Longrightarrow> opt_ok (j_map f m)"
  unfolding j_map_def opt_ok_iff using JObj_sort_keys_ok by auto

lemma j_kinds_ok: "kinds_ok m \<Longrightarrow> opt_ok (j_map j_smap m)"
  by (intro j_map_ok) (auto simp: kinds_ok_def list_all_iff j_smap_ok)

lemma j_structs_ok [simp]:
  "json_ok (j_name n)" "json_ok (j_reference r)" "json_ok (j_resource_ref q)" "json_ok (j_cidr c)"
  "json_ok (j_cluster_network e)" "json_ok (j_tang t)" "json_ok (j_reinstall i)"
  unfolding j_name_def j_reference_def j_resource_ref_def j_cidr_def j_cluster_network_def j_tang_def
    j_reinstall_def
  by (rule jstruct_opt_ok; simp)+

lemma j_disk_encryption_ok [simp]: "json_ok (j_disk_encryption d)"
  unfolding j_disk_encryption_def by (rule jstruct_opt_ok) (simp_all add: j_list_ok)

lemma node_fields_distinct: "distinct (map fst (node_fields n))"
  by (simp add: node_fields_def)

lemma spec_fields_distinct: "distinct (map fst (spec_fields s))"
  by (simp add: spec_fields_def)

lemma marshalNodeSpec_ok: "node_ok n \<Longrightarrow> json_ok (marshalNodeSpec n)"
  unfolding marshalNodeSpec_def
proof (rule jstruct_opt_ok [OF node_fields_distinct])
  assume "node_ok n"
  then show "list_all (\<lambda>p. opt_ok (snd p)) (node_fields n)"
    by (simp add: node_fields_def node_ok_def j_list_ok map_option_ok j_kinds_ok j_map_ok
        jstruct_opt_ok list_all_iff opt_ok_iff [of "Some _"])
qed

lemma marshalSpec_ok: "spec_ok s \<Longrightarrow> json_ok (marshalSpec s)"
  unfolding marshalSpec_def
proof (rule jstruct_opt_ok [OF spec_fields_distinct])
  assume "spec_ok s"
  then show "list_all (\<lambda>p. opt_ok (snd p)) (spec_fields s)"
    by (simp add: spec_fields_def spec_ok_def j_list_ok map_option_ok j_kinds_ok
        list_all_iff opt_ok_iff [of "Some _"] marshalNodeSpec_ok)
qed

lemma marshalSpec_fields: "\<exists>m. marshalSpec s = JObj m \<and> (\<forall>k. map_of m k = spec_field s k)"
  unfolding marshalSpec_def spec_field_def by (rule jstruct_fields [OF spec_fields_distinct])

lemma marshalNodeSpec_fields: "\<exists>m. marshalNodeSpec n = JObj m \<and> (\<forall>k. map_of m k = node_field n k)"
  unfolding marshalNodeSpec_def node_field_def by (rule jstruct_fields [OF node_fields_distinct])

end
