(* ===== verification/Conditions.thy ===== *)
theory Conditions
  imports API_Types
begin

text \<open>
  Status conditions. \<open>meta_SetStatusCondition\<close>, \<open>meta_RemoveStatusCondition\<close> and
  \<open>FindStatusCondition\<close> are the three functions of \<open>apimachinery/pkg/api/meta\<close> the controllers
  call; \<open>SetStatusCondition\<close> is the wrapper of \<open>internal/controller/conditions\<close> that moves a
  condition to the end of the list when its status changes. The laws a client of a condition list
  relies on are the locale \<open>condition_store\<close>, interpreted for both setters.
\<close>

definition FindStatusCondition :: "Condition list \<Rightarrow> string \<Rightarrow> Condition option" where
  "FindStatusCondition conds t = find (\<lambda>c. c_Type c = t) conds"

text \<open>The writes \<open>SetStatusCondition\<close> makes through the pointer to the existing condition.\<close>

definition update_condition :: "time \<Rightarrow> Condition \<Rightarrow> Condition \<Rightarrow> Condition" where
  "update_condition now new old = old\<lparr>
     c_Status := c_Status new,
     c_LastTransitionTime :=
       (if c_Status old = c_Status new then c_LastTransitionTime old
        else if IsZero (c_LastTransitionTime new) then now else c_LastTransitionTime new),
     c_Reason := c_Reason new,
     c_Message := c_Message new,
     c_ObservedGeneration := c_ObservedGeneration new\<rparr>"

definition meta_SetStatusCondition ::
  "time \<Rightarrow> Condition list \<Rightarrow> Condition \<Rightarrow> Condition list \<times> bool" where
  "meta_SetStatusCondition now conds new =
     (case FindStatusCondition conds (c_Type new) of
        None \<Rightarrow>
          (conds @ [if IsZero (c_LastTransitionTime new) then new\<lparr>c_LastTransitionTime := now\<rparr> else new],
           True)
      | Some old \<Rightarrow>
          (upd_first (\<lambda>c. c_Type c = c_Type new) (update_condition now new) conds,
           c_Status old \<noteq> c_Status new \<or> c_Reason old \<noteq> c_Reason new \<or>
           c_Message old \<noteq> c_Message new \<or> c_ObservedGeneration old \<noteq> c_ObservedGeneration new))"

definition meta_RemoveStatusCondition :: "Condition list \<Rightarrow> string \<Rightarrow> Condition list" where
  "meta_RemoveStatusCondition conds t = filter (\<lambda>c. c_Type c \<noteq> t) conds"

definition new_condition :: "time \<Rightarrow> string \<Rightarrow> string \<Rightarrow> string \<Rightarrow> string \<Rightarrow> Condition" where
  "new_condition tm t status reason msg =
     \<lparr>c_Type = t, c_Status = status, c_ObservedGeneration = 0, c_LastTransitionTime = tm,
      c_Reason = reason, c_Message = msg\<rparr>"

definition SetStatusCondition ::
  "time \<Rightarrow> Condition list \<Rightarrow> string \<Rightarrow> string \<Rightarrow> string \<Rightarrow> string \<Rightarrow> Condition list" where
  "SetStatusCondition now existing conditionType conditionReason conditionStatus message =
     (let conds =
        (case FindStatusCondition existing conditionType of
           Some c \<Rightarrow>
             if c_Status c \<noteq> conditionStatus \<and> c_Type (last existing) \<noteq> conditionType
             then meta_RemoveStatusCondition existing conditionType else existing
         | None \<Rightarrow> existing)
      in fst (meta_SetStatusCondition now conds
           (new_condition now conditionType conditionStatus conditionReason message)))"

definition FindCDConditionType :: "CDCondition list \<Rightarrow> string \<Rightarrow> CDCondition option" where
  "FindCDConditionType conds t = find (\<lambda>c. cd_Type c = t) conds"

section \<open>Lemmas\<close>

definition conds_ok :: "Condition list \<Rightarrow> bool" where
  "conds_ok conds \<longleftrightarrow> distinct (map c_Type conds)"

lemma Find_type: "FindStatusCondition conds t = Some c \<Longrightarrow> c_Type c = t \<and> c \<in> set conds"
  unfolding FindStatusCondition_def by (drule find_SomeD) auto

lemma Find_None: "FindStatusCondition conds t = None \<longleftrightarrow> t \<notin> c_Type ` set conds"
  by (auto simp: FindStatusCondition_def find_None_iff)

lemma update_condition_sel [simp]:
  "c_Type (update_condition now new old) = c_Type old"
  "c_Status (update_condition now new old) = c_Status new"
  "c_Reason (update_condition now new old) = c_Reason new"
  "c_Message (update_condition now new old) = c_Message new"
  "c_ObservedGeneration (update_condition now new old) = c_ObservedGeneration new"
  by (simp_all add: update_condition_def)

lemma update_condition_time:
  "c_Status old = c_Status new \<Longrightarrow>
   c_LastTransitionTime (update_condition now new old) = c_LastTransitionTime old"
  by (simp add: update_condition_def)

lemma new_condition_sel [simp]:
  "c_Type (new_condition tm t status reason msg) = t"
  "c_Status (new_condition tm t status reason msg) = status"
  "c_Reason (new_condition tm t status reason msg) = reason"
  "c_Message (new_condition tm t status reason msg) = msg"
  "c_LastTransitionTime (new_condition tm t status reason msg) = tm"
  "c_ObservedGeneration (new_condition tm t status reason msg) = 0"
  by (simp_all add: new_condition_def)

lemma meta_Set_ok: "conds_ok conds \<Longrightarrow> conds_ok (fst (meta_SetStatusCondition now conds new))"
  by (auto simp: conds_ok_def meta_SetStatusCondition_def Find_None upd_first_map_key split: option.splits)

lemma meta_Set_find_same:
  "\<exists>c. FindStatusCondition (fst (meta_SetStatusCondition now conds new)) (c_Type new) = Some c \<and>
     c_Status c = c_Status new \<and> c_Reason c = c_Reason new \<and> c_Message c = c_Message new"
proof (cases "FindStatusCondition conds (c_Type new)")
  case None
  then show ?thesis
    by (simp add: meta_SetStatusCondition_def FindStatusCondition_def find_append)
next
  case (Some old)
  then have "c_Type old = c_Type new" by (simp add: Find_type)
  with Some show ?thesis
    by (auto simp: meta_SetStatusCondition_def FindStatusCondition_def
        intro!: exI [of _ "update_condition now new old"] find_upd_first_same)
qed

lemma meta_Set_find_other:
  assumes "t \<noteq> c_Type new"
  shows "FindStatusCondition (fst (meta_SetStatusCondition now conds new)) t = FindStatusCondition conds t"
proof (cases "FindStatusCondition conds (c_Type new)")
  case None
  with assms show ?thesis
    by (auto simp: meta_SetStatusCondition_def FindStatusCondition_def find_append split: option.splits)
next
  case (Some old)
  with assms show ?thesis
    by (simp add: meta_SetStatusCondition_def FindStatusCondition_def find_upd_first_other)
qed

text \<open>A setter that reports no change left the list alone, its timestamps included.\<close>

lemma update_condition_same:
  "c_Status old = c_Status new \<Longrightarrow> c_Reason old = c_Reason new \<Longrightarrow> c_Message old = c_Message new \<Longrightarrow>
   c_ObservedGeneration old = c_ObservedGeneration new \<Longrightarrow> update_condition now new old = old"
  by (cases old) (simp add: update_condition_def)

lemma upd_first_id: "find P xs = Some y \<Longrightarrow> f y = y \<Longrightarrow> upd_first P f xs = xs"
  by (induction xs) (auto split: if_splits)

lemma meta_Set_unchanged:
  "\<not> snd (meta_SetStatusCondition now conds new) \<Longrightarrow> fst (meta_SetStatusCondition now conds new) = conds"
  by (auto simp: meta_SetStatusCondition_def FindStatusCondition_def split: option.splits
      intro!: upd_first_id update_condition_same)

lemma meta_Remove_ok: "conds_ok conds \<Longrightarrow> conds_ok (meta_RemoveStatusCondition conds t)"
  by (simp add: conds_ok_def meta_RemoveStatusCondition_def distinct_map_filter)

lemma Find_Remove:
  "FindStatusCondition (meta_RemoveStatusCondition conds t) t' =
     (if t' = t then None else FindStatusCondition conds t')"
  by (auto simp: FindStatusCondition_def meta_RemoveStatusCondition_def find_filter_none
      intro!: find_filter_other)

text \<open>The laws of a keyed collection of conditions: what a reader sees after a write.\<close>

locale condition_store =
  fixes set_cond :: "Condition list \<Rightarrow> Condition \<Rightarrow> Condition list"
    and find_cond :: "Condition list \<Rightarrow> string \<Rightarrow> Condition option"
    and ok :: "Condition list \<Rightarrow> bool"
  assumes set_ok: "ok cs \<Longrightarrow> ok (set_cond cs c)"
    and find_set_same:
      "\<exists>d. find_cond (set_cond cs c) (c_Type c) = Some d \<and> c_Status d = c_Status c \<and>
         c_Reason d = c_Reason c \<and> c_Message d = c_Message c"
    and find_set_other: "t \<noteq> c_Type c \<Longrightarrow> find_cond (set_cond cs c) t = find_cond cs t"
begin

text \<open>Writing a list of conditions: the last write to a type is what a reader sees.\<close>

lemma foldl_set_ok: "ok cs \<Longrightarrow> ok (foldl set_cond cs ds)"
  by (induction ds arbitrary: cs) (auto intro: set_ok)

lemma foldl_set_other:
  "t \<notin> c_Type ` set ds \<Longrightarrow> find_cond (foldl set_cond cs ds) t = find_cond cs t"
  by (induction ds arbitrary: cs) (auto simp: find_set_other)

lemma foldl_set_find:
  assumes "distinct (map c_Type ds)" "d \<in> set ds"
  shows "\<exists>e. find_cond (foldl set_cond cs ds) (c_Type d) = Some e \<and> c_Status e = c_Status d \<and>
           c_Reason e = c_Reason d \<and> c_Message e = c_Message d"
  using assms
proof (induction ds arbitrary: cs)
  case (Cons x xs)
  show ?case
  proof (cases "d = x")
    case True
    with Cons.prems have "c_Type d \<notin> c_Type ` set xs" by auto
    with True show ?thesis by (simp add: foldl_set_other find_set_same)
  next
    case False
    with Cons show ?thesis by auto
  qed
qed simp

end

interpretation meta_store:
  condition_store "\<lambda>cs c. fst (meta_SetStatusCondition now cs c)" FindStatusCondition conds_ok for now
  by unfold_locales (auto simp: meta_Set_ok meta_Set_find_same meta_Set_find_other)

definition set_with :: "time \<Rightarrow> Condition list \<Rightarrow> Condition \<Rightarrow> Condition list" where
  "set_with now cs c = SetStatusCondition now cs (c_Type c) (c_Reason c) (c_Status c) (c_Message c)"

lemma Set_ok: "conds_ok cs \<Longrightarrow> conds_ok (SetStatusCondition now cs t r s m)"
  by (auto simp: SetStatusCondition_def Let_def intro!: meta_Set_ok meta_Remove_ok split: option.splits)

lemma Set_find_same:
  "\<exists>d. FindStatusCondition (SetStatusCondition now cs t r s m) t = Some d \<and> c_Status d = s \<and>
     c_Reason d = r \<and> c_Message d = m"
  using meta_Set_find_same [of now _ "new_condition now t s r m"]
  by (auto simp: SetStatusCondition_def Let_def split: option.splits)

lemma Set_find_other:
  "t' \<noteq> t \<Longrightarrow> FindStatusCondition (SetStatusCondition now cs t r s m) t' = FindStatusCondition cs t'"
  by (auto simp: SetStatusCondition_def Let_def meta_Set_find_other Find_Remove split: option.splits)

interpretation ci_store: condition_store "set_with now" FindStatusCondition conds_ok for now
  by unfold_locales (auto simp: set_with_def Set_ok Set_find_same Set_find_other)

text \<open>What a status change does to the transition time: it moves exactly when the status moves.\<close>

lemma Set_transition_time:
  assumes "conds_ok cs" "FindStatusCondition cs t = Some old"
  shows "\<exists>d. FindStatusCondition (SetStatusCondition now cs t r s m) t = Some d \<and>
     c_LastTransitionTime d =
       (if c_Status old = s then c_LastTransitionTime old else now)"
proof (cases "c_Status old \<noteq> s \<and> c_Type (last cs) \<noteq> t")
  case True
  with assms have "SetStatusCondition now cs t r s m =
      fst (meta_SetStatusCondition now (meta_RemoveStatusCondition cs t) (new_condition now t s r m))"
    by (simp add: SetStatusCondition_def)
  with True show ?thesis
    by (auto simp: meta_SetStatusCondition_def Find_Remove)
       (auto simp: FindStatusCondition_def find_append meta_RemoveStatusCondition_def
         find_filter_none split: option.splits simp: new_condition_def)
next
  case False
  with assms have eq: "SetStatusCondition now cs t r s m =
      upd_first (\<lambda>c. c_Type c = t) (update_condition now (new_condition now t s r m)) cs"
    by (auto simp: SetStatusCondition_def meta_SetStatusCondition_def)
  have "find (\<lambda>c. c_Type c = t) (SetStatusCondition now cs t r s m) =
      Some (update_condition now (new_condition now t s r m) old)"
    unfolding eq using assms Find_type [of cs t old]
    by (intro find_upd_first_same) (auto simp: FindStatusCondition_def)
  then show ?thesis
    by (auto simp: FindStatusCondition_def update_condition_def IsZero_def)
qed

text \<open>The most recently flipped condition is the last of the list.\<close>

lemma Set_moves_to_end:
  assumes "\<And>old. FindStatusCondition cs t = Some old \<Longrightarrow> c_Status old \<noteq> s"
  shows "c_Type (last (SetStatusCondition now cs t r s m)) = t \<and> SetStatusCondition now cs t r s m \<noteq> []"
proof (cases "FindStatusCondition cs t")
  case None
  then show ?thesis by (simp add: SetStatusCondition_def meta_SetStatusCondition_def)
next
  case (Some old)
  then have cs: "cs \<noteq> []" and st: "c_Status old \<noteq> s"
    using assms by (auto simp: FindStatusCondition_def)
  let ?f = "update_condition now (new_condition now t s r m)"
  show ?thesis
  proof (cases "c_Type (last cs) = t")
    case False
    with Some st show ?thesis
      by (simp add: SetStatusCondition_def meta_SetStatusCondition_def Find_Remove)
  next
    case True
    have eq: "SetStatusCondition now cs t r s m = upd_first (\<lambda>c. c_Type c = t) ?f cs"
      unfolding SetStatusCondition_def meta_SetStatusCondition_def Let_def Some new_condition_sel option.case
      using True by (simp add: Some)
    show ?thesis
      unfolding eq using True cs by (simp add: upd_first_last [of _ c_Type])
  qed
qed

end
