(* ===== verification/SC_Errors.thy ===== *)
theory SC_Errors
  imports SC_Prelude
begin

text \<open>
  Go errors as values: a plain message, an error status of the API server, the
  \<open>ClusterInstanceError\<close> of \<open>internal/controller/errors\<close>, an error wrapped by one or two
  \<open>%w\<close> verbs of \<open>fmt.Errorf\<close>, and an aggregate (\<open>utilerrors.NewAggregate\<close>). The wrapping
  structure matters: \<open>errors.As\<close> looks through \<open>%w\<close> but not into an aggregate.
\<close>

datatype api_reason =
    NotFound | AlreadyExists | Conflict | InternalError | ServiceUnavailable
  | ConnectionRefused | OtherReason

datatype err =
    ErrNew string
  | ErrAPI api_reason string
  | ErrCI string string
  | ErrWrap string err
  | ErrWrap2 string err string err
  | ErrAgg "err list"

definition ErrorTypeNotOwnedObject :: string where
  "ErrorTypeNotOwnedObject = ''NOT_OWNED_OBJECT''"
definition ErrorTypeDeletionTimeout :: string where
  "ErrorTypeDeletionTimeout = ''DELETION_TIMEOUT''"
definition ErrorTypeManagedClusterNotInManifest :: string where
  "ErrorTypeManagedClusterNotInManifest = ''MANAGED_CLUSTER_NOT_IN_MANIFEST''"

lemma error_types_distinct [simp]:
  "ErrorTypeNotOwnedObject \<noteq> ErrorTypeDeletionTimeout"
  "ErrorTypeDeletionTimeout \<noteq> ErrorTypeNotOwnedObject"
  by (simp_all add: ErrorTypeNotOwnedObject_def ErrorTypeDeletionTimeout_def)

section \<open>Error text\<close>

definition first_occurrences :: "'a list \<Rightarrow> 'a list" where
  "first_occurrences xs = rev (remdups (rev xs))"

definition agg_text :: "string list \<Rightarrow> string" where
  "agg_text msgs = (let u = first_occurrences msgs in
     if length u = 1 then Join u '', '' else ''['' @ Join u '', '' @ '']'')"

fun Error :: "err \<Rightarrow> string" and agg_leaves :: "err list \<Rightarrow> string list" where
  "Error (ErrNew s) = s"
| "Error (ErrAPI r s) = s"
| "Error (ErrCI t s) = s"
| "Error (ErrWrap p e) = p @ Error e"
| "Error (ErrWrap2 p e q d) = p @ Error e @ q @ Error d"
| "Error (ErrAgg es) = (if es = [] then [] else agg_text (agg_leaves es))"
| "agg_leaves [] = []"
| "agg_leaves (ErrAgg es # rest) = agg_leaves es @ agg_leaves rest"
| "agg_leaves (e # rest) = Error e # agg_leaves rest"

section \<open>Constructors and classification (errors.go)\<close>

definition New :: "string \<Rightarrow> string \<Rightarrow> err" where
  "New errType message = ErrCI errType message"

definition NewNotOwnedObjectError :: "string \<Rightarrow> string \<Rightarrow> err" where
  "NewNotOwnedObjectError owner resourceId = New ErrorTypeNotOwnedObject
     (''ClusterInstance '' @ squote @ owner @ squote @ '' is not the owner of object ('' @ resourceId @ '')'')"

definition NewDeletionTimeoutError :: "string \<Rightarrow> err" where
  "NewDeletionTimeoutError resourceId = New ErrorTypeDeletionTimeout
     (''Timed out waiting to delete object ('' @ resourceId @ '')'')"

definition NewManagedClusterNotInManifestError :: err where
  "NewManagedClusterNotInManifestError = New ErrorTypeManagedClusterNotInManifest
     ''ManagedCluster not found in rendered manifests''"

text \<open>\<open>utilerrors.NewAggregate\<close>: no error for an empty list.\<close>

definition NewAggregate :: "err list \<Rightarrow> err option" where
  "NewAggregate es = (if es = [] then None else Some (ErrAgg es))"

text \<open>\<open>errors.As\<close> for the aggregate interface, for \<open>*ClusterInstanceError\<close> and for an API status.\<close>

fun as_aggregate :: "err \<Rightarrow> err list option" where
  "as_aggregate (ErrAgg es) = Some es"
| "as_aggregate (ErrWrap p e) = as_aggregate e"
| "as_aggregate (ErrWrap2 p e q d) =
     (case as_aggregate e of Some es \<Rightarrow> Some es | None \<Rightarrow> as_aggregate d)"
| "as_aggregate _ = None"

fun as_ci_error :: "err \<Rightarrow> (string \<times> string) option" where
  "as_ci_error (ErrCI t s) = Some (t, s)"
| "as_ci_error (ErrWrap p e) = as_ci_error e"
| "as_ci_error (ErrWrap2 p e q d) =
     (case as_ci_error e of Some r \<Rightarrow> Some r | None \<Rightarrow> as_ci_error d)"
| "as_ci_error _ = None"

fun as_api_status :: "err \<Rightarrow> api_reason option" where
  "as_api_status (ErrAPI r s) = Some r"
| "as_api_status (ErrWrap p e) = as_api_status e"
| "as_api_status (ErrWrap2 p e q d) =
     (case as_api_status e of Some r \<Rightarrow> Some r | None \<Rightarrow> as_api_status d)"
| "as_api_status _ = None"

definition ci_error_of_type :: "string \<Rightarrow> err \<Rightarrow> bool" where
  "ci_error_of_type errType e \<longleftrightarrow>
     (case as_ci_error e of Some (t, _) \<Rightarrow> t = errType | None \<Rightarrow> False)"

definition isErrorOfType :: "err option \<Rightarrow> string \<Rightarrow> bool" where
  "isErrorOfType eo errType =
     (case eo of
        None \<Rightarrow> False
      | Some e \<Rightarrow>
          (case as_aggregate e of
             Some es \<Rightarrow> list_ex (ci_error_of_type errType) es
           | None \<Rightarrow> False) \<or> ci_error_of_type errType e)"

definition IsNotOwnedObject :: "err option \<Rightarrow> bool" where
  "IsNotOwnedObject e = isErrorOfType e ErrorTypeNotOwnedObject"

definition IsDeletionTimeoutError :: "err option \<Rightarrow> bool" where
  "IsDeletionTimeoutError e = isErrorOfType e ErrorTypeDeletionTimeout"

definition IsManagedClusterNotInManifestError :: "err option \<Rightarrow> bool" where
  "IsManagedClusterNotInManifestError e = isErrorOfType e ErrorTypeManagedClusterNotInManifest"

definition IsNotFound :: "err \<Rightarrow> bool" where
  "IsNotFound e \<longleftrightarrow> as_api_status e = Some NotFound"

section \<open>Lemmas\<close>

lemma isErrorOfType_None [simp]: "\<not> isErrorOfType None t"
  by (simp add: isErrorOfType_def)

lemma isErrorOfType_New [simp]: "isErrorOfType (Some (New t s)) t' \<longleftrightarrow> t = t'"
  by (simp add: isErrorOfType_def New_def ci_error_of_type_def)

lemma isErrorOfType_wrap [simp]:
  "isErrorOfType (Some (ErrWrap p e)) t \<longleftrightarrow> isErrorOfType (Some e) t"
  by (simp add: isErrorOfType_def ci_error_of_type_def)

lemma ci_error_of_type_agg [simp]: "\<not> ci_error_of_type t (ErrAgg es)"
  by (simp add: ci_error_of_type_def)

lemma isErrorOfType_agg:
  "isErrorOfType (Some (ErrAgg es)) t \<longleftrightarrow> (\<exists>e\<in>set es. ci_error_of_type t e)"
  by (auto simp: isErrorOfType_def list_ex_iff)

lemma isErrorOfType_NewAggregate:
  "isErrorOfType (NewAggregate es) t \<longleftrightarrow> (\<exists>e\<in>set es. ci_error_of_type t e)"
  by (simp add: NewAggregate_def isErrorOfType_agg)

lemma ci_error_of_type_wrap [simp]: "ci_error_of_type t (ErrWrap p e) = ci_error_of_type t e"
  by (simp add: ci_error_of_type_def)

lemma ci_error_of_type_isErrorOfType: "ci_error_of_type t e \<Longrightarrow> isErrorOfType (Some e) t"
  by (simp add: isErrorOfType_def)

lemma IsNotFound_simps [simp]:
  "IsNotFound (ErrAPI r s) \<longleftrightarrow> r = NotFound"
  "IsNotFound (ErrWrap p e) \<longleftrightarrow> IsNotFound e"
  "\<not> IsNotFound (ErrNew s)" "\<not> IsNotFound (ErrCI t s)" "\<not> IsNotFound (ErrAgg es)"
  by (simp_all add: IsNotFound_def)

lemma NewAggregate_None [simp]: "NewAggregate es = None \<longleftrightarrow> es = []"
  by (simp add: NewAggregate_def)

end
