(* ===== verification/JSON_Scan.thy ===== *)
theory JSON_Scan
  imports SC_Prelude
begin

text \<open>
  Validity of JSON text: the scanner of Go's \<open>encoding/json\<close> (\<open>checkValid\<close>), a state machine over
  the bytes of the text with a stack of open objects and arrays. \<open>json.Valid\<close> is its verdict, and
  \<open>json.Unmarshal\<close> into \<open>interface{}\<close> fails when it does (the range check on numbers that
  \<open>Unmarshal\<close> adds is not modelled).
\<close>

datatype frame = ObjectKey | ObjectValue | ArrayValue

datatype scan =
    BeginValue | BeginValueOrEmpty | BeginString | BeginStringOrEmpty
  | EndValue | EndTop | InString | InStringEsc | InStringEscU nat
  | Neg | Zero | Digits | Dot | Dot0 | E | ESign | E0
  | Word string \<comment> \<open>the rest of \<open>true\<close>, \<open>false\<close> or \<open>null\<close>\<close>
  | ScanError

definition is_space :: "char \<Rightarrow> bool" where
  "is_space c \<longleftrightarrow> c \<in> {CHR '' '', CHR 0x09, CHR 0x0D, CHR 0x0A}"

definition is_hex :: "char \<Rightarrow> bool" where
  "is_hex c \<longleftrightarrow> is_digit c \<or> (97 \<le> (of_char c :: nat) \<and> (of_char c :: nat) \<le> 102)
     \<or> (65 \<le> (of_char c :: nat) \<and> (of_char c :: nat) \<le> 70)"

definition maxNestingDepth :: nat where
  "maxNestingDepth = 10000"

definition push_frame :: "scan \<Rightarrow> frame \<Rightarrow> frame list \<Rightarrow> scan \<times> frame list" where
  "push_frame next f st =
     (if length (f # st) \<le> maxNestingDepth then (next, f # st) else (ScanError, f # st))"

definition pop_frame :: "frame list \<Rightarrow> scan \<times> frame list" where
  "pop_frame st = (let st' = tl st in (if st' = [] then EndTop else EndValue, st'))"

definition step_end_top :: "frame list \<Rightarrow> char \<Rightarrow> scan \<times> frame list" where
  "step_end_top st c = (if is_space c then EndTop else ScanError, st)"

fun step_end_value :: "frame list \<Rightarrow> char \<Rightarrow> scan \<times> frame list" where
  "step_end_value [] c = step_end_top [] c"
| "step_end_value (f # st) c =
     (if is_space c then (EndValue, f # st)
      else case f of
        ObjectKey \<Rightarrow> if c = CHR '':'' then (BeginValue, ObjectValue # st) else (ScanError, f # st)
      | ObjectValue \<Rightarrow>
          if c = CHR '','' then (BeginString, ObjectKey # st)
          else if c = CHR ''}'' then pop_frame (f # st) else (ScanError, f # st)
      | ArrayValue \<Rightarrow>
          if c = CHR '','' then (BeginValue, f # st)
          else if c = CHR '']'' then pop_frame (f # st) else (ScanError, f # st))"

definition step_begin_value :: "frame list \<Rightarrow> char \<Rightarrow> scan \<times> frame list" where
  "step_begin_value st c =
     (if is_space c then (BeginValue, st)
      else if c = CHR ''{'' then push_frame BeginStringOrEmpty ObjectKey st
      else if c = CHR ''['' then push_frame BeginValueOrEmpty ArrayValue st
      else if c = CHR 0x22 then (InString, st)
      else if c = CHR ''-'' then (Neg, st)
      else if c = CHR ''0'' then (Zero, st)
      else if c = CHR ''t'' then (Word ''rue'', st)
      else if c = CHR ''f'' then (Word ''alse'', st)
      else if c = CHR ''n'' then (Word ''ull'', st)
      else if is_digit c then (Digits, st)
      else (ScanError, st))"

definition step_begin_string :: "frame list \<Rightarrow> char \<Rightarrow> scan \<times> frame list" where
  "step_begin_string st c =
     (if is_space c then (BeginString, st) else if c = CHR 0x22 then (InString, st) else (ScanError, st))"

definition step_zero :: "frame list \<Rightarrow> char \<Rightarrow> scan \<times> frame list" where
  "step_zero st c =
     (if c = CHR ''.'' then (Dot, st)
      else if c = CHR ''e'' \<or> c = CHR ''E'' then (E, st) else step_end_value st c)"

fun scan_step :: "scan \<Rightarrow> frame list \<Rightarrow> char \<Rightarrow> scan \<times> frame list" where
  "scan_step BeginValue st c = step_begin_value st c"
| "scan_step BeginValueOrEmpty st c =
     (if is_space c then (BeginValueOrEmpty, st)
      else if c = CHR '']'' then step_end_value st c else step_begin_value st c)"
| "scan_step BeginString st c = step_begin_string st c"
| "scan_step BeginStringOrEmpty st c =
     (if is_space c then (BeginStringOrEmpty, st)
      else if c = CHR ''}'' then step_end_value (ObjectValue # tl st) c
      else step_begin_string st c)"
| "scan_step EndValue st c = step_end_value st c"
| "scan_step EndTop st c = step_end_top st c"
| "scan_step InString st c =
     (if c = CHR 0x22 then (EndValue, st)
      else if c = CHR 0x5C then (InStringEsc, st)
      else if (of_char c :: nat) < 32 then (ScanError, st) else (InString, st))"
| "scan_step InStringEsc st c =
     (if c \<in> set ''bfnrt/'' \<or> c = CHR 0x5C \<or> c = CHR 0x22 then (InString, st)
      else if c = CHR ''u'' then (InStringEscU 3, st) else (ScanError, st))"
| "scan_step (InStringEscU n) st c =
     (if is_hex c then (if n = 0 then InString else InStringEscU (n - 1), st) else (ScanError, st))"
| "scan_step Neg st c =
     (if c = CHR ''0'' then (Zero, st) else if is_digit c then (Digits, st) else (ScanError, st))"
| "scan_step Digits st c = (if is_digit c then (Digits, st) else step_zero st c)"
| "scan_step Zero st c = step_zero st c"
| "scan_step Dot st c = (if is_digit c then (Dot0, st) else (ScanError, st))"
| "scan_step Dot0 st c =
     (if is_digit c then (Dot0, st)
      else if c = CHR ''e'' \<or> c = CHR ''E'' then (E, st) else step_end_value st c)"
| "scan_step E st c =
     (if c = CHR ''+'' \<or> c = CHR ''-'' then (ESign, st)
      else if is_digit c then (E0, st) else (ScanError, st))"
| "scan_step ESign st c = (if is_digit c then (E0, st) else (ScanError, st))"
| "scan_step E0 st c = (if is_digit c then (E0, st) else step_end_value st c)"
| "scan_step (Word w) st c =
     (case w of
        [] \<Rightarrow> (ScanError, st)
      | x # xs \<Rightarrow> if c = x then (if xs = [] then EndValue else Word xs, st) else (ScanError, st))"
| "scan_step ScanError st c = (ScanError, st)"

fun scan_all :: "scan \<Rightarrow> frame list \<Rightarrow> string \<Rightarrow> scan \<times> frame list" where
  "scan_all s st [] = (s, st)"
| "scan_all s st (c # cs) = (case scan_step s st c of (s', st') \<Rightarrow> scan_all s' st' cs)"

text \<open>At the end of the text one space is fed to the machine, which must then be at the top level.\<close>

definition json_Valid :: "string \<Rightarrow> bool" where
  "json_Valid text =
     (case scan_all BeginValue [] text of
        (s, st) \<Rightarrow> s = EndTop \<or> (s \<noteq> ScanError \<and> fst (scan_step s st (CHR '' '')) = EndTop))"

section \<open>Lemmas\<close>

lemma scan_all_append:
  "scan_all s st (a @ b) = (case scan_all s st a of (s', st') \<Rightarrow> scan_all s' st' b)"
  by (induction a arbitrary: s st) (auto split: prod.splits)

lemma scan_all_error [simp]: "scan_all ScanError st src = (ScanError, st)"
  by (induction src) auto

text \<open>Leading blanks never change the verdict.\<close>

lemma json_Valid_leading_space: "is_space c \<Longrightarrow> json_Valid (c # text) = json_Valid text"
  by (simp add: json_Valid_def step_begin_value_def)

text \<open>Text that is no JSON at its first byte stays invalid whatever follows.\<close>

lemma json_Valid_bad_start:
  assumes "scan_step BeginValue [] c = (ScanError, [])"
  shows "\<not> json_Valid (c # text)"
  using assms by (simp add: json_Valid_def)

end
