(* ===== verification/Validation.thy ===== *)
theory Validation
  imports Spec_Document Conditions SC_Errors JSON_Scan
begin

text \<open>
  \<open>api/v1alpha1/clusterinstance_validation.go\<close>: validation of a ClusterInstance, the analysis of
  node changes, and the JSON-diff check of an update after provisioning. Logging is left out. The
  functions return \<open>None\<close> for the nil error. A quoted operand (\<open>%q\<close>) is rendered between double
  quotes without escapes.
\<close>

section \<open>Permissions\<close>

datatype OperationType =
    OperationTypeNoChange | OperationTypeScaleOut | OperationTypeScaleIn | OperationTypeMixed
  | OperationTypeReplacement | OperationTypeModification | OperationTypeInvalid

datatype SpecChangePermission =
  SpecChangeBlocked | SpecChangeUnrestricted | SpecChangeBaseOnly | SpecChangeReinstall

definition IsBlocked :: "SpecChangePermission \<Rightarrow> bool" where
  "IsBlocked p \<longleftrightarrow> p = SpecChangeBlocked"

definition AllowsAllChanges :: "SpecChangePermission \<Rightarrow> bool" where
  "AllowsAllChanges p \<longleftrightarrow> p = SpecChangeUnrestricted"

definition BasePermissibleFields :: "string list" where
  "BasePermissibleFields = [''extraAnnotations'', ''extraLabels'', ''suppressedManifests'', ''pruneManifests'']"

definition ReinstallPermissions :: smap where
  "ReinstallPermissions =
    [(''bmcAddress'', ''/nodes/*/bmcAddress''),
     (''bootMACAddress'', ''/nodes/*/bootMACAddress''),
     (''nodeNetwork/interfaces'', ''/nodes/*/nodeNetwork/interfaces/*/macAddress''),
     (''rootDeviceHints'', ''/nodes/*/rootDeviceHints'')]"

definition ClusterLevelAllowedPaths :: "string list" where
  "ClusterLevelAllowedPaths =
    [''/extraAnnotations'', ''/extraLabels'', ''/suppressedManifests'', ''/pruneManifests'',
     ''/clusterImageSetNameRef'', ''/holdInstallation'']"

definition NodeLevelAllowedPaths :: "string list" where
  "NodeLevelAllowedPaths =
    [''/nodes/*/extraAnnotations'', ''/nodes/*/extraLabels'', ''/nodes/*/suppressedManifests'',
     ''/nodes/*/pruneManifests'']"

definition ReinstallClusterPaths :: "string list" where
  "ReinstallClusterPaths = [''/reinstall'']"

definition getReinstallPermissibleFields :: "string list" where
  "getReinstallPermissibleFields = map fst ReinstallPermissions"

definition getReinstallNodePaths :: "string list" where
  "getReinstallNodePaths = map snd ReinstallPermissions"

fun GetAllowedPaths :: "SpecChangePermission \<Rightarrow> string list" where
  "GetAllowedPaths SpecChangeBlocked = []"
| "GetAllowedPaths SpecChangeUnrestricted = []"
| "GetAllowedPaths SpecChangeBaseOnly = ClusterLevelAllowedPaths @ NodeLevelAllowedPaths"
| "GetAllowedPaths SpecChangeReinstall =
     ClusterLevelAllowedPaths @ NodeLevelAllowedPaths @ ReinstallClusterPaths @ getReinstallNodePaths"

definition IsScaling :: "OperationType \<Rightarrow> bool" where
  "IsScaling ot \<longleftrightarrow> ot = OperationTypeScaleOut \<or> ot = OperationTypeScaleIn \<or> ot = OperationTypeMixed"

definition IsValid :: "OperationType \<Rightarrow> bool" where
  "IsValid ot \<longleftrightarrow> ot \<noteq> OperationTypeInvalid"

section \<open>Validation of one ClusterInstance\<close>

definition isValidJSON :: "string \<Rightarrow> bool" where
  "isValidJSON input = (if input = [] then True else json_Valid input)"

fun validateNodesJSON :: "NodeSpec list \<Rightarrow> err option" where
  "validateNodesJSON [] = None"
| "validateNodesJSON (node # nodes) =
     (if \<not> isValidJSON (n_InstallerArgs node)
      then Some (ErrNew (''installerArgs is not a valid JSON-formatted string [Node: Hostname='' @ n_HostName node @ '']''))
      else if \<not> isValidJSON (n_IgnitionConfigOverride node)
      then Some (ErrNew (''node-level ignitionConfigOverride is not a valid JSON-formatted string [Node: Hostname='' @ n_HostName node @ '']''))
      else validateNodesJSON nodes)"

definition validateClusterInstanceJSONFields :: "ClusterInstance \<Rightarrow> err option" where
  "validateClusterInstanceJSONFields ci =
     (if \<not> isValidJSON (s_InstallConfigOverrides (ci_Spec ci))
      then Some (ErrNew ''installConfigOverrides is not a valid JSON-formatted string'')
      else if \<not> isValidJSON (s_IgnitionConfigOverride (ci_Spec ci))
      then Some (ErrNew ''cluster-level ignitionConfigOverride is not a valid JSON-formatted string'')
      else validateNodesJSON (s_Nodes (ci_Spec ci)))"

definition count_role :: "string \<Rightarrow> NodeSpec list \<Rightarrow> nat" where
  "count_role r nodes = length (filter (\<lambda>n. n_Role n = r) nodes)"

definition validateControlPlaneAgentCount :: "ClusterInstance \<Rightarrow> err option" where
  "validateControlPlaneAgentCount ci =
     (let controlPlaneCount = count_role ''master'' (s_Nodes (ci_Spec ci));
          arbiterCount = count_role ''arbiter'' (s_Nodes (ci_Spec ci));
          ctype = s_ClusterType (ci_Spec ci)
      in if controlPlaneCount < 1 \<and> ctype \<noteq> ClusterTypeHostedControlPlane
         then Some (ErrNew ''at least 1 control-plane agent is required'')
         else if ctype = ClusterTypeSNO \<and> controlPlaneCount \<noteq> 1
         then Some (ErrNew ''single node OpenShift cluster-type must have exactly 1 control-plane agent'')
         else if controlPlaneCount > 0 \<and> ctype = ClusterTypeHostedControlPlane
         then Some (ErrNew ''hosted control plane clusters must not have control-plane agents'')
         else if ctype = ClusterTypeHighlyAvailableArbiter \<and> (arbiterCount < 1 \<or> controlPlaneCount < 2)
         then Some (ErrNew ''highly available arbiter cluster-type must have at least 1 arbiter agent and 2 control-plane agents'')
         else if ctype \<noteq> ClusterTypeHighlyAvailableArbiter \<and> arbiterCount > 0
         then Some (ErrNew ''arbiter agents can only be used with HighlyAvailableArbiter cluster-type'')
         else None)"

fun validateNodeTemplateRefs :: "NodeSpec list \<Rightarrow> err option" where
  "validateNodeTemplateRefs [] = None"
| "validateNodeTemplateRefs (node # nodes) =
     (if n_TemplateRefs node = []
      then Some (ErrNew (''missing node-level template reference for node '' @ dquote @ n_HostName node @ dquote))
      else validateNodeTemplateRefs nodes)"

definition ValidateClusterInstance :: "ClusterInstance \<Rightarrow> err option" where
  "ValidateClusterInstance ci =
     (if s_TemplateRefs (ci_Spec ci) = []
      then Some (ErrNew ''missing cluster-level template reference'')
      else case validateNodeTemplateRefs (s_Nodes (ci_Spec ci)) of
        Some e \<Rightarrow> Some e
      | None \<Rightarrow>
        (case validateClusterInstanceJSONFields ci of
           Some e \<Rightarrow> Some (ErrWrap ''invalid JSON field(s): '' e)
         | None \<Rightarrow>
           (case validateControlPlaneAgentCount ci of
              Some e \<Rightarrow> Some (ErrWrap ''control-plane agent validation failed: '' e)
            | None \<Rightarrow> None)))"

section \<open>Node keys\<close>

definition getNodeStableIdentifier :: "NodeSpec \<Rightarrow> string option" where
  "getNodeStableIdentifier node =
     (if n_HostName node \<noteq> [] then Some (n_HostName node)
      else if n_BmcAddress node \<noteq> [] then Some (n_BmcAddress node)
      else if n_BootMACAddress node \<noteq> [] then Some (n_BootMACAddress node)
      else None)"

definition generateNodeMatchingKey :: "NodeSpec \<Rightarrow> err + string" where
  "generateNodeMatchingKey node =
     (case getNodeStableIdentifier node of
        None \<Rightarrow> Inl (ErrNew ''node has no unique identifiers (hostname, BMC address, or boot MAC address)'')
      | Some identifier \<Rightarrow>
          if n_HostName node \<noteq> [] then Inr (''host:'' @ identifier)
          else if n_BmcAddress node \<noteq> [] then Inr (''bmc:'' @ identifier)
          else Inr (''mac:'' @ identifier))"

definition getNodeIdentifier :: "NodeSpec \<Rightarrow> string" where
  "getNodeIdentifier node =
     (case getNodeStableIdentifier node of Some i \<Rightarrow> i | None \<Rightarrow> ''unknown'')"

text \<open>The loop that fills a map from node keys to nodes; a later node replaces an earlier one.\<close>

fun buildNodeMap :: "NodeSpec list \<Rightarrow> (string, NodeSpec) gomap \<Rightarrow> err + (string, NodeSpec) gomap" where
  "buildNodeMap [] m = Inr m"
| "buildNodeMap (node # nodes) m =
     (case generateNodeMatchingKey node of
        Inl e \<Rightarrow> Inl e
      | Inr key \<Rightarrow> buildNodeMap nodes (gset key node m))"

text \<open>The loop over the new nodes of \<open>areSameNodeSets\<close>: \<open>None\<close> is its \<open>return false\<close>.\<close>

fun sameNodesLoop :: "(string, NodeSpec) gomap \<Rightarrow> NodeSpec list \<Rightarrow> (string, NodeSpec) gomap
    \<Rightarrow> (string, NodeSpec) gomap option" where
  "sameNodesLoop oldMap [] m = Some m"
| "sameNodesLoop oldMap (node # nodes) m =
     (case generateNodeMatchingKey node of
        Inl e \<Rightarrow> None
      | Inr key \<Rightarrow> if ghas oldMap key then sameNodesLoop oldMap nodes (gset key node m) else None)"

definition areSameNodeSets :: "NodeSpec list \<Rightarrow> NodeSpec list \<Rightarrow> bool" where
  "areSameNodeSets oldNodes newNodes =
     (if length oldNodes \<noteq> length newNodes then False
      else case buildNodeMap oldNodes [] of
        Inl e \<Rightarrow> False
      | Inr oldMap \<Rightarrow>
          (case sameNodesLoop oldMap newNodes [] of
             None \<Rightarrow> False
           | Some newMap \<Rightarrow>
               list_all (\<lambda>p. case map_of newMap (fst p) of
                   None \<Rightarrow> False
                 | Some newNode \<Rightarrow> marshalNodeSpec (snd p) = marshalNodeSpec newNode) oldMap))"

fun replacementLoop :: "string list \<Rightarrow> NodeSpec list \<Rightarrow> err + bool" where
  "replacementLoop oldKeys [] = Inr True"
| "replacementLoop oldKeys (node # nodes) =
     (case generateNodeMatchingKey node of
        Inl e \<Rightarrow> Inl (ErrWrap ''failed to generate key for new node: '' e)
      | Inr key \<Rightarrow> if key \<in> set oldKeys then Inr False else replacementLoop oldKeys nodes)"

definition isPureNodeReplacement :: "NodeSpec list \<Rightarrow> NodeSpec list \<Rightarrow> err + bool" where
  "isPureNodeReplacement oldNodes newNodes =
     (if length oldNodes \<noteq> length newNodes then Inr False
      else case buildNodeMap oldNodes [] of
        Inl e \<Rightarrow> Inl (ErrWrap ''failed to generate key for old node: '' e)
      | Inr oldMap \<Rightarrow> replacementLoop (map fst oldMap) newNodes)"

definition nodesNotIn :: "(string, NodeSpec) gomap \<Rightarrow> NodeSpec list \<Rightarrow> NodeSpec list" where
  "nodesNotIn m nodes =
     filter (\<lambda>n. case generateNodeMatchingKey n of Inl e \<Rightarrow> False | Inr key \<Rightarrow> \<not> ghas m key) nodes"

definition analyzeNodeAdditionsAndRemovals ::
  "NodeSpec list \<Rightarrow> NodeSpec list \<Rightarrow> err + (NodeSpec list \<times> NodeSpec list)" where
  "analyzeNodeAdditionsAndRemovals oldNodes newNodes =
     (case buildNodeMap oldNodes [] of
        Inl e \<Rightarrow> Inl (ErrWrap ''failed to generate key for old node: '' e)
      | Inr oldMap \<Rightarrow>
          (case buildNodeMap newNodes [] of
             Inl e \<Rightarrow> Inl (ErrWrap ''failed to generate key for new node: '' e)
           | Inr newMap \<Rightarrow> Inr (nodesNotIn oldMap newNodes, nodesNotIn newMap oldNodes)))"

section \<open>Unauthorized node changes\<close>

definition isCRDUpgradeFieldChange :: "Operation \<Rightarrow> bool" where
  "isCRDUpgradeFieldChange d \<longleftrightarrow>
     op_Path d = ''/cpuArchitecture'' \<and> (op_Type d = OperationAdd \<or> op_Type d = OperationRemove)"

definition isPermissibleNodeChange :: "string \<Rightarrow> bool \<Rightarrow> bool" where
  "isPermissibleNodeChange fieldPath allowReinstall =
     list_ex (Contains fieldPath)
       (BasePermissibleFields @ (if allowReinstall then getReinstallPermissibleFields else []))"

definition getUnauthorizedJSONDiffs :: "NodeSpec \<Rightarrow> NodeSpec \<Rightarrow> bool \<Rightarrow> string list" where
  "getUnauthorizedJSONDiffs oldNode newNode allowReinstall =
     (if marshalNodeSpec oldNode = marshalNodeSpec newNode then []
      else map op_Path
        (filter (\<lambda>d. \<not> isCRDUpgradeFieldChange d \<and> \<not> isPermissibleNodeChange (op_Path d) allowReinstall)
          (CompareJSON (marshalNodeSpec oldNode) (marshalNodeSpec newNode))))"

definition getUnauthorizedChanges :: "NodeSpec \<Rightarrow> NodeSpec \<Rightarrow> bool \<Rightarrow> string list" where
  "getUnauthorizedChanges oldNode newNode allowReinstall =
     (let unauthorized =
        (if n_BmcAddress oldNode \<noteq> n_BmcAddress newNode \<and> \<not> allowReinstall then [''bmcAddress''] else []) @
        (if n_BootMACAddress oldNode \<noteq> n_BootMACAddress newNode \<and> \<not> allowReinstall then [''bootMACAddress''] else []) @
        (if n_HostName oldNode \<noteq> n_HostName newNode then [''hostName''] else [])
      in if unauthorized = [] then getUnauthorizedJSONDiffs oldNode newNode allowReinstall
         else unauthorized)"

record nodeChangeAnalysis =
  a_operationType :: OperationType
  a_description :: string
  a_hasUnauthorizedChanges :: bool
  a_errors :: "string list"

definition IsPermitted :: "nodeChangeAnalysis \<Rightarrow> bool" where
  "IsPermitted a \<longleftrightarrow> IsValid (a_operationType a) \<and> \<not> a_hasUnauthorizedChanges a"

text \<open>
  The second loop of \<open>checkNodeModifications\<close>, with the flag and the error list it updates; a node
  without a key ends the function.
\<close>

fun checkNewNodes :: "(string, NodeSpec) gomap \<Rightarrow> bool \<Rightarrow> NodeSpec list \<Rightarrow> bool \<times> string list \<Rightarrow> bool \<times> string list" where
  "checkNewNodes oldMap allowReinstall [] acc = acc"
| "checkNewNodes oldMap allowReinstall (newNode # nodes) (bad, errs) =
     (case generateNodeMatchingKey newNode of
        Inl e \<Rightarrow> (True, errs @ [''failed to generate key for new node: '' @ Error e])
      | Inr key \<Rightarrow>
          (case map_of oldMap key of
             None \<Rightarrow> checkNewNodes oldMap allowReinstall nodes (bad, errs)
           | Some oldNode \<Rightarrow>
               (let unauthorized = getUnauthorizedChanges oldNode newNode allowReinstall in
                if unauthorized = [] then checkNewNodes oldMap allowReinstall nodes (bad, errs)
                else checkNewNodes oldMap allowReinstall nodes
                  (True, errs @ map (\<lambda>c. ''node '' @ getNodeIdentifier oldNode @ '': unauthorized change to '' @ c)
                     unauthorized))))"

definition checkNodeModifications :: "NodeSpec list \<Rightarrow> NodeSpec list \<Rightarrow> bool \<Rightarrow> bool \<times> string list" where
  "checkNodeModifications oldNodes newNodes allowReinstall =
     (case buildNodeMap oldNodes [] of
        Inl e \<Rightarrow> (True, [''failed to generate key for old node: '' @ Error e])
      | Inr oldMap \<Rightarrow> checkNewNodes oldMap allowReinstall newNodes (False, []))"

definition with_modifications ::
  "OperationType \<Rightarrow> string \<Rightarrow> NodeSpec list \<Rightarrow> NodeSpec list \<Rightarrow> bool \<Rightarrow> nodeChangeAnalysis" where
  "with_modifications ot desc oldNodes newNodes allowReinstall =
     (case checkNodeModifications oldNodes newNodes allowReinstall of
        (bad, errs) \<Rightarrow>
          \<lparr>a_operationType = ot, a_description = desc, a_hasUnauthorizedChanges = bad, a_errors = errs\<rparr>)"

definition invalid_analysis :: "string \<Rightarrow> nodeChangeAnalysis" where
  "invalid_analysis msg =
     \<lparr>a_operationType = OperationTypeInvalid,
      a_description = ''invalid node operation due to key generation error'',
      a_hasUnauthorizedChanges = True, a_errors = [msg]\<rparr>"

definition clean_analysis :: "OperationType \<Rightarrow> string \<Rightarrow> nodeChangeAnalysis" where
  "clean_analysis ot desc =
     \<lparr>a_operationType = ot, a_description = desc, a_hasUnauthorizedChanges = False, a_errors = []\<rparr>"

definition analyzeNodeChanges :: "NodeSpec list \<Rightarrow> NodeSpec list \<Rightarrow> bool \<Rightarrow> nodeChangeAnalysis" where
  "analyzeNodeChanges oldNodes newNodes allowReinstall =
     (let oldCount = length oldNodes; newCount = length newNodes in
      if oldCount = newCount then
        (if areSameNodeSets oldNodes newNodes
         then clean_analysis OperationTypeNoChange ''no node changes detected''
         else case isPureNodeReplacement oldNodes newNodes of
           Inl e \<Rightarrow> invalid_analysis (''failed to check node replacement: '' @ Error e)
         | Inr True \<Rightarrow> clean_analysis OperationTypeReplacement
             (''pure node replacement ('' @ show_nat oldCount @ '' nodes)'')
         | Inr False \<Rightarrow> with_modifications OperationTypeModification ''node modifications detected''
             oldNodes newNodes allowReinstall)
      else case analyzeNodeAdditionsAndRemovals oldNodes newNodes of
        Inl e \<Rightarrow> invalid_analysis (''failed to analyze node additions/removals: '' @ Error e)
      | Inr (addedNodes, removedNodes) \<Rightarrow>
          (let netChange = int newCount - int oldCount;
               (ot, desc) =
                 (if addedNodes \<noteq> [] \<and> removedNodes \<noteq> [] then
                    (OperationTypeMixed,
                     ''mixed operation: '' @ show_nat (length addedNodes) @ '' added, '' @
                     show_nat (length removedNodes) @
                     (if netChange > 0 then '' removed (net +'' else '' removed (net '') @ Itoa netChange @ '')'')
                  else if addedNodes \<noteq> [] then
                    (OperationTypeScaleOut, ''pure scale-out: '' @ show_nat (length addedNodes) @ '' nodes added'')
                  else
                    (OperationTypeScaleIn, ''pure scale-in: '' @ show_nat (length removedNodes) @ '' nodes removed''))
           in with_modifications ot desc oldNodes newNodes allowReinstall))"

section \<open>Path patterns and the diff check\<close>

definition pathMatchesPattern :: "string \<Rightarrow> string \<Rightarrow> bool" where
  "pathMatchesPattern path pattern =
     (let subPaths = Split (CHR ''/'') path; subPatterns = Split (CHR ''/'') pattern in
      if length subPaths < length subPatterns then False
      else list_all (\<lambda>(segment, sub). segment = ''*'' \<or> sub = segment) (zip subPatterns subPaths))"

definition pathMatchesAnyPattern :: "string \<Rightarrow> string list \<Rightarrow> bool" where
  "pathMatchesAnyPattern path patterns = list_ex (pathMatchesPattern path) patterns"

text \<open>The body of the loop over the differences: is this operation recorded as restricted?\<close>

definition change_restricted :: "string list \<Rightarrow> bool \<Rightarrow> bool \<Rightarrow> Operation \<Rightarrow> bool" where
  "change_restricted allowedUpdates isScalingOperation permitted d =
     (if pathMatchesAnyPattern (op_Path d) allowedUpdates then False
      else if isScalingOperation \<and> pathMatchesPattern (op_Path d) ''/nodes'' then False
      else if permitted \<and> (pathMatchesPattern (op_Path d) ''/nodes'' \<or> pathMatchesPattern (op_Path d) ''/nodes/*'')
      then False
      else if pathMatchesPattern (op_Path d) ''/nodes/*'' then
        (case op_Type d of OperationAdd \<Rightarrow> False | OperationRemove \<Rightarrow> False | OperationReplace \<Rightarrow> True)
      else if isCRDUpgradeFieldChange d then False
      else True)"

definition allowed_updates :: "bool \<Rightarrow> string list" where
  "allowed_updates allowReinstall =
     ClusterLevelAllowedPaths @ NodeLevelAllowedPaths @
     (if allowReinstall then ReinstallClusterPaths @ getReinstallNodePaths else [])"

definition validateChangesWithJSONDiff ::
  "ClusterInstance \<Rightarrow> ClusterInstance \<Rightarrow> bool \<Rightarrow> nodeChangeAnalysis \<Rightarrow> err option" where
  "validateChangesWithJSONDiff old new allowReinstall nodeAnalysis =
     (let diffs = CompareJSON (marshalSpec (ci_Spec old)) (marshalSpec (ci_Spec new));
          isScalingOperation = (length (s_Nodes (ci_Spec old)) \<noteq> length (s_Nodes (ci_Spec new)));
          restrictedChanges = map op_Path
            (filter (change_restricted (allowed_updates allowReinstall) isScalingOperation
              (IsPermitted nodeAnalysis)) diffs)
      in if diffs = [] then None
         else if restrictedChanges \<noteq> [] then
           Some (ErrNew (''detected unauthorized changes in immutable fields: '' @ Join restrictedChanges '', ''))
         else None)"

definition validatePostProvisioningChanges :: "ClusterInstance \<Rightarrow> ClusterInstance \<Rightarrow> bool \<Rightarrow> err option" where
  "validatePostProvisioningChanges old new allowReinstall =
     (let nodeAnalysis = analyzeNodeChanges (s_Nodes (ci_Spec old)) (s_Nodes (ci_Spec new)) allowReinstall in
      if a_hasUnauthorizedChanges nodeAnalysis
      then Some (ErrNew (''detected unauthorized node modifications: ['' @ Join (a_errors nodeAnalysis) '' '' @ '']''))
      else validateChangesWithJSONDiff old new allowReinstall nodeAnalysis)"

section \<open>Lifecycle predicates\<close>

definition hasSpecChanged :: "ClusterInstance \<Rightarrow> ClusterInstance \<Rightarrow> bool" where
  "hasSpecChanged old new \<longleftrightarrow> canon_spec (ci_Spec old) \<noteq> canon_spec (ci_Spec new)"

definition provisioned_reason :: "ClusterInstance \<Rightarrow> string \<Rightarrow> bool" where
  "provisioned_reason ci r \<longleftrightarrow>
     (case FindStatusCondition (st_Conditions (ci_Status ci)) ClusterProvisioned of
        None \<Rightarrow> False | Some c \<Rightarrow> c_Reason c = r)"

definition isProvisioningInProgress :: "ClusterInstance \<Rightarrow> bool" where
  "isProvisioningInProgress ci = provisioned_reason ci InProgress"

definition isProvisioningCompleted :: "ClusterInstance \<Rightarrow> bool" where
  "isProvisioningCompleted ci = provisioned_reason ci Completed"

definition isReinstallInProgress :: "ClusterInstance \<Rightarrow> bool" where
  "isReinstallInProgress ci =
     (case (s_Reinstall (ci_Spec ci), st_Reinstall (ci_Status ci)) of
        (Some spec, Some status) \<Rightarrow>
          r_InProgressGeneration status = rs_Generation spec \<and> IsZero (r_RequestEndTime status)
      | _ \<Rightarrow> False)"

definition isReinstallRequested :: "ClusterInstance \<Rightarrow> bool" where
  "isReinstallRequested ci =
     (case s_Reinstall (ci_Spec ci) of
        None \<Rightarrow> False
      | Some spec \<Rightarrow>
          (case st_Reinstall (ci_Status ci) of
             None \<Rightarrow> True
           | Some status \<Rightarrow>
               if isReinstallInProgress ci then False
               else r_ObservedGeneration status \<noteq> rs_Generation spec))"

definition determineSpecChangePermission :: "ClusterInstance \<Rightarrow> ClusterInstance \<Rightarrow> SpecChangePermission" where
  "determineSpecChangePermission old new =
     (if s_HoldInstallation (ci_Spec old) \<and> \<not> isProvisioningCompleted new then SpecChangeUnrestricted
      else if isProvisioningInProgress new \<or> isReinstallInProgress new then SpecChangeBlocked
      else if isProvisioningCompleted new then
        (if isReinstallRequested new then SpecChangeReinstall else SpecChangeBaseOnly)
      else SpecChangeBlocked)"

section \<open>Reinstall requests\<close>

definition maxGenerationLength :: nat where
  "maxGenerationLength = 253 - 100"

definition is_lower_alnum :: "char \<Rightarrow> bool" where
  "is_lower_alnum c \<longleftrightarrow> is_digit c \<or> (97 \<le> (of_char c :: nat) \<and> (of_char c :: nat) \<le> 122)"

text \<open>The regular expression \<open>^[a-z0-9]([-a-z0-9]*[a-z0-9])?$\<close>.\<close>

definition valid_name :: "string \<Rightarrow> bool" where
  "valid_name s \<longleftrightarrow> s \<noteq> [] \<and> is_lower_alnum (hd s) \<and> is_lower_alnum (last s)
     \<and> list_all (\<lambda>c. is_lower_alnum c \<or> c = CHR ''-'') s"

definition validateReinstallGeneration :: "string \<Rightarrow> err option" where
  "validateReinstallGeneration generation =
     (if generation = [] then Some (ErrNew ''generation name cannot be empty'')
      else if length generation > maxGenerationLength then
        Some (ErrNew (''generation name '' @ dquote @ generation @ dquote @ '' is too long ('' @
          show_nat (length generation) @ '' chars, max allowed: '' @ show_nat maxGenerationLength @ '')''))
      else if \<not> valid_name generation then
        Some (ErrNew (''generation name '' @ dquote @ generation @ dquote @
          '' is invalid: must match regex '' @ dquote @ ''^[a-z0-9]([-a-z0-9]*[a-z0-9])?$'' @ dquote))
      else None)"

definition validateReinstallRequest :: "ClusterInstance \<Rightarrow> err option" where
  "validateReinstallRequest ci =
     (case s_Reinstall (ci_Spec ci) of
        None \<Rightarrow> Some (ErrNew ''invalid reinstall request: missing reinstall specification'')
      | Some spec \<Rightarrow>
        if \<not> isProvisioningCompleted ci
        then Some (ErrNew ''reinstall can only be requested after successful provisioning completion'')
        else case validateReinstallGeneration (rs_Generation spec) of
          Some e \<Rightarrow> Some (ErrWrap ''invalid reinstall generation: '' e)
        | None \<Rightarrow>
          (case st_Reinstall (ci_Status ci) of
             None \<Rightarrow> None
           | Some status \<Rightarrow>
               if isReinstallInProgress ci
               then Some (ErrNew ''cannot request reinstall while an existing reinstall is in progress'')
               else if r_InProgressGeneration status \<noteq> [] \<and> IsZero (r_RequestEndTime status)
               then Some (ErrNew ''reinstall generation update is not allowed while a request is still active'')
               else if r_ObservedGeneration status = rs_Generation spec
               then Some (ErrNew ''must specify a new generation value to trigger a reinstall'')
               else if list_ex (\<lambda>record. rs_Generation spec = h_Generation record) (r_History status)
               then Some (ErrNew ''cannot reuse a previously used reinstall generation'')
               else None))"

end
