(* ===== verification/Samples.thy ===== *)
theory Samples
  imports API_Types
begin

text \<open>
  Small concrete objects on which the theorems of the development are instantiated: a provisioned
  single-node ClusterInstance with one node, one template reference at each level and one rendered
  manifest.
\<close>

definition sample_meta :: ObjectMeta where
  "sample_meta = \<lparr>om_Name = ''c'', om_Namespace = ''ns'', om_UID = '''', om_ResourceVersion = ''1'',
     om_Generation = 1, om_CreationTimestamp = 1, om_DeletionTimestamp = 0, om_Labels = [],
     om_Annotations = [], om_OwnerReferences = [], om_Finalizers = []\<rparr>"

definition sample_ref :: Reference where
  "sample_ref = \<lparr>ref_Name = ''t'', ref_Namespace = ''ns''\<rparr>"

definition sample_node :: NodeSpec where
  "sample_node = \<lparr>n_BmcAddress = ''b'', n_BmcCredentialsName = ''bs'', n_BootMACAddress = ''m'',
     n_AutomatedCleaningMode = '''', n_RootDeviceHints = None, n_NodeNetwork = None, n_NodeLabels = [],
     n_HostName = ''h'', n_HostRef = None, n_CPUArchitecture = '''', n_BootMode = '''',
     n_InstallerArgs = '''', n_IgnitionConfigOverride = '''', n_Role = ''master'',
     n_ExtraAnnotations = [], n_ExtraLabels = [], n_SuppressedManifests = [], n_PruneManifests = [],
     n_IronicInspect = '''', n_TemplateRefs = [sample_ref]\<rparr>"

definition sample_spec :: ClusterInstanceSpec where
  "sample_spec = \<lparr>s_ClusterName = ''c'', s_PullSecretRef = ''ps'', s_ClusterImageSetNameRef = ''im'',
     s_SSHPublicKey = '''', s_BaseDomain = ''d'', s_ApiVIPs = [], s_IngressVIPs = [],
     s_HoldInstallation = False, s_AdditionalNTPSources = [], s_MachineNetwork = [],
     s_ClusterNetwork = [], s_ServiceNetwork = [], s_NetworkType = '''', s_PlatformType = '''',
     s_ExtraAnnotations = [], s_ExtraLabels = [], s_InstallConfigOverrides = '''',
     s_IgnitionConfigOverride = '''', s_DiskEncryption = None, s_Proxy = None,
     s_ExtraManifestsRefs = [], s_SuppressedManifests = [], s_PruneManifests = [],
     s_CPUPartitioning = '''', s_CPUArchitecture = '''', s_ClusterType = ''SNO'',
     s_TemplateRefs = [sample_ref], s_CaBundleRef = None, s_Nodes = [sample_node],
     s_Reinstall = None\<rparr>"

definition sample_condition :: "string \<Rightarrow> string \<Rightarrow> string \<Rightarrow> Condition" where
  "sample_condition t s r = \<lparr>c_Type = t, c_Status = s, c_ObservedGeneration = 0,
     c_LastTransitionTime = 5, c_Reason = r, c_Message = ''m''\<rparr>"

definition sample_status :: ClusterInstanceStatus where
  "sample_status = \<lparr>st_Conditions = [sample_condition ''Provisioned'' ''True'' ''Completed''],
     st_ClusterDeploymentRef = None, st_DeploymentConditions = [], st_ManifestsRendered = [],
     st_ObservedGeneration = 0, st_Reinstall = None, st_Paused = None\<rparr>"

definition sample_ci :: ClusterInstance where
  "sample_ci = \<lparr>ci_Meta = sample_meta, ci_Spec = sample_spec, ci_Status = sample_status\<rparr>"

lemmas sample_defs = sample_meta_def sample_ref_def sample_node_def sample_spec_def
  sample_condition_def sample_status_def sample_ci_def

end
