(* ===== verification/Node_Changes.thy ===== *)
theory Node_Changes
  imports Validation Samples
begin

text \<open>
  The node analysis of an update: which operation \<open>analyzeNodeChanges\<close> reports, stated over the
  sets of node keys, and what it means that a node has no unauthorized change.
\<close>

section \<open>Keys\<close>

definition node_key :: "NodeSpec \<Rightarrow> string" where
  "node_key n = (case generateNodeMatchingKey n of Inr k \<Rightarrow> k | Inl e \<Rightarrow> [])"

definition has_key :: "NodeSpec \<Rightarrow> bool" where
  "has_key n \<longleftrightarrow> generateNodeMatchingKey n = Inr (node_key n)"

definition keys_distinct :: "NodeSpec list \<Rightarrow> bool" where
  "keys_distinct nodes \<longleftrightarrow> list_all has_key nodes \<and> distinct (map node_key nodes)"

definition keyed :: "NodeSpec list \<Rightarrow> (string \<times> NodeSpec) list" where
  "keyed nodes = map (\<lambda>n. (node_key n, n)) nodes"

lemma has_keyD [simp]: "has_key n \<Longrightarrow> generateNodeMatchingKey n = Inr (node_key n)"
  by (simp add: has_key_def)

lemma keys_distinct_Cons [simp]:
  "keys_distinct (n # ns) \<longleftrightarrow> has_key n \<and> node_key n \<notin> node_key ` set ns \<and> keys_distinct ns"
  by (auto simp: keys_distinct_def)

lemma map_of_keyed_None [simp]: "map_of (keyed ns) k = None \<longleftrightarrow> k \<notin> node_key ` set ns"
  by (auto simp: keyed_def map_of_eq_None_iff image_iff)

lemma map_of_keyed: "keys_distinct ns \<Longrightarrow> n \<in> set ns \<Longrightarrow> map_of (keyed ns) (node_key n) = Some n"
proof (induction ns)
  case (Cons x xs)
  then show ?case by (cases "n = x") (auto simp: keyed_def image_iff)
qed simp

lemma map_of_keyed_SomeD: "map_of (keyed ns) k = Some n \<Longrightarrow> n \<in> set ns \<and> node_key n = k"
  by (auto simp: keyed_def dest!: map_of_SomeD)

lemma ghas_keyed: "(\<forall>k. map_of m k = map_of (keyed ns) k) \<Longrightarrow> ghas m k \<longleftrightarrow> k \<in> node_key ` set ns"
  using map_of_keyed_None [of ns k] by (auto simp: ghas_def simp del: map_of_keyed_None)

lemma buildNodeMap_keyed:
  assumes "keys_distinct ns"
  shows "\<exists>m'. buildNodeMap ns m = Inr m' \<and> (\<forall>k. map_of m' k = (map_of m ++ map_of (keyed ns)) k)"
  using assms
proof (induction ns arbitrary: m)
  case (Cons n ns)
  then obtain m' where m': "buildNodeMap ns (gset (node_key n) n m) = Inr m'"
    "\<forall>k. map_of m' k = (map_of (gset (node_key n) n m) ++ map_of (keyed ns)) k"
    by fastforce
  moreover have "map_of (keyed ns) (node_key n) = None" using Cons.prems by simp
  ultimately show ?case
    using Cons.prems by (auto simp: keyed_def map_add_def split: option.splits)
qed (simp add: keyed_def)

lemma buildNodeMap_Nil:
  assumes "keys_distinct ns"
  obtains m where "buildNodeMap ns [] = Inr m" "\<forall>k. map_of m k = map_of (keyed ns) k"
  using buildNodeMap_keyed [OF assms, of "[]"] by auto

lemma buildNodeMap_ok: "buildNodeMap ns m = Inr m' \<Longrightarrow> gmap_ok m \<Longrightarrow> gmap_ok m'"
  by (induction ns arbitrary: m) (auto split: sum.splits)

section \<open>The loops in terms of keys\<close>

lemma sameNodesLoop_keyed:
  assumes "keys_distinct ns" "\<And>k. ghas om k \<longleftrightarrow> k \<in> K"
  shows "if node_key ` set ns \<subseteq> K
         then \<exists>m'. sameNodesLoop om ns m = Some m' \<and> (\<forall>k. map_of m' k = (map_of m ++ map_of (keyed ns)) k)
         else sameNodesLoop om ns m = None"
  using assms(1)
proof (induction ns arbitrary: m)
  case (Cons n ns)
  have n: "map_of (keyed ns) (node_key n) = None" using Cons.prems by simp
  show ?case
  proof (cases "node_key n \<in> K")
    case False
    with Cons.prems assms(2) show ?thesis by simp
  next
    case True
    have "if node_key ` set ns \<subseteq> K
      then \<exists>m'. sameNodesLoop om ns (gset (node_key n) n m) = Some m' \<and>
             (\<forall>k. map_of m' k = (map_of (gset (node_key n) n m) ++ map_of (keyed ns)) k)
      else sameNodesLoop om ns (gset (node_key n) n m) = None"
      using Cons.prems by (intro Cons.IH) simp
    with True n Cons.prems assms(2) show ?thesis
      by (auto simp: keyed_def map_add_def split: option.splits if_splits)
  qed
qed (simp add: keyed_def)

definition keyed_docs :: "NodeSpec list \<Rightarrow> (string \<times> json) set" where
  "keyed_docs ns = (\<lambda>n. (node_key n, marshalNodeSpec n)) ` set ns"

lemma keys_subset_eq:
  assumes "keys_distinct a" "keys_distinct b" "length a = length b"
    "node_key ` set b \<subseteq> node_key ` set a"
  shows "node_key ` set b = node_key ` set a"
proof (rule card_subset_eq)
  have "distinct (map node_key a)" "distinct (map node_key b)" using assms by (auto simp: keys_distinct_def)
  from this [THEN distinct_card] show "card (node_key ` set b) = card (node_key ` set a)"
    using assms(3) by simp
qed (use assms in auto)

lemma keyed_docs_eq:
  assumes b: "keys_distinct b" and eqk: "node_key ` set b = node_key ` set a"
  shows "keyed_docs a = keyed_docs b \<longleftrightarrow>
    (\<forall>x\<in>set a. \<forall>y\<in>set b. node_key x = node_key y \<longrightarrow> marshalNodeSpec x = marshalNodeSpec y)"
proof
  assume e: "keyed_docs a = keyed_docs b"
  show "\<forall>x\<in>set a. \<forall>y\<in>set b. node_key x = node_key y \<longrightarrow> marshalNodeSpec x = marshalNodeSpec y"
  proof (intro ballI impI)
    fix x y assume xy: "x \<in> set a" "y \<in> set b" "node_key x = node_key y"
    from xy(1) have "(node_key x, marshalNodeSpec x) \<in> keyed_docs a"
      unfolding keyed_docs_def by (rule rev_image_eqI) simp
    then have "(node_key x, marshalNodeSpec x) \<in> keyed_docs b" by (simp only: e)
    then obtain z where z: "z \<in> set b" "node_key z = node_key x" "marshalNodeSpec z = marshalNodeSpec x"
      by (auto simp: keyed_docs_def)
    have "Some z = Some y"
      unfolding map_of_keyed [OF b z(1), symmetric] map_of_keyed [OF b xy(2), symmetric] z(2) xy(3) ..
    with z(3) show "marshalNodeSpec x = marshalNodeSpec y" by simp
  qed
next
  assume r: "\<forall>x\<in>set a. \<forall>y\<in>set b. node_key x = node_key y \<longrightarrow> marshalNodeSpec x = marshalNodeSpec y"
  have "(node_key x, marshalNodeSpec x) \<in> keyed_docs b" if x: "x \<in> set a" for x
  proof -
    obtain y where "y \<in> set b" "node_key y = node_key x" using x eqk by (metis imageE imageI)
    with r x show ?thesis by (metis (mono_tags, lifting) image_iff keyed_docs_def)
  qed
  moreover have "(node_key y, marshalNodeSpec y) \<in> keyed_docs a" if y: "y \<in> set b" for y
  proof -
    obtain x where "x \<in> set a" "node_key x = node_key y" using y eqk by (metis imageE imageI)
    with r y show ?thesis by (metis (mono_tags, lifting) image_iff keyed_docs_def)
  qed
  ultimately show "keyed_docs a = keyed_docs b"
    unfolding keyed_docs_def [of a] keyed_docs_def [of b] by (auto simp: keyed_docs_def)
qed

text \<open>The final loop of \<open>areSameNodeSets\<close>, over the map of the old nodes.\<close>

lemma same_content_loop:
  assumes a: "keys_distinct a" and b: "keys_distinct b" and eqk: "node_key ` set b = node_key ` set a"
    and om: "\<forall>k. map_of om k = map_of (keyed a) k" "gmap_ok om"
    and nm: "\<forall>k. map_of nm k = map_of (keyed b) k"
  shows "list_all (\<lambda>p. case map_of nm (fst p) of None \<Rightarrow> False
           | Some newNode \<Rightarrow> marshalNodeSpec (snd p) = marshalNodeSpec newNode) om \<longleftrightarrow> keyed_docs a = keyed_docs b"
proof -
  have "map_of om k = Some x \<longleftrightarrow> x \<in> set a \<and> node_key x = k" for k x
    using om(1) map_of_keyed [OF a, of x] map_of_keyed_SomeD [of a k x] by auto
  then have mem: "p \<in> set om \<longleftrightarrow> snd p \<in> set a \<and> node_key (snd p) = fst p" for p
    using map_of_eq_Some_iff [of om "fst p" "snd p"] om(2) by (simp add: gmap_ok_def)
  have nmy: "map_of nm (node_key y) = Some y" if "y \<in> set b" for y
    using nm map_of_keyed [OF b that] by simp
  have body: "(case map_of nm (node_key x) of None \<Rightarrow> False | Some z \<Rightarrow> marshalNodeSpec x = marshalNodeSpec z)
      \<longleftrightarrow> (\<forall>y\<in>set b. node_key x = node_key y \<longrightarrow> marshalNodeSpec x = marshalNodeSpec y)" if x: "x \<in> set a" for x
  proof -
    obtain y where y: "y \<in> set b" "node_key y = node_key x" using x eqk by (metis imageE imageI)
    have at_x: "map_of nm (node_key x) = Some y" using nmy [OF y(1)] unfolding y(2) .
    have uniq: "z = y" if "z \<in> set b" "node_key x = node_key z" for z
      using nmy [OF that(1)] at_x unfolding that(2) by simp
    have "(\<forall>z\<in>set b. node_key x = node_key z \<longrightarrow> marshalNodeSpec x = marshalNodeSpec z)
        \<longleftrightarrow> marshalNodeSpec x = marshalNodeSpec y"
      using uniq y(1) y(2) [symmetric] by blast
    with at_x show ?thesis by simp
  qed
  have "list_all (\<lambda>p. case map_of nm (fst p) of None \<Rightarrow> False
           | Some newNode \<Rightarrow> marshalNodeSpec (snd p) = marshalNodeSpec newNode) om \<longleftrightarrow>
     (\<forall>x\<in>set a. case map_of nm (node_key x) of None \<Rightarrow> False | Some z \<Rightarrow> marshalNodeSpec x = marshalNodeSpec z)"
    unfolding list_all_iff using mem by (metis fst_conv snd_conv)
  with body keyed_docs_eq [OF b eqk] show ?thesis by simp
qed

lemma areSameNodeSets_docs:
  assumes a: "keys_distinct a" and b: "keys_distinct b" and len: "length a = length b"
  shows "areSameNodeSets a b \<longleftrightarrow> keyed_docs a = keyed_docs b"
proof -
  obtain om where om: "buildNodeMap a [] = Inr om" "\<forall>k. map_of om k = map_of (keyed a) k"
    using buildNodeMap_Nil [OF a] by blast
  have gok: "gmap_ok om" using buildNodeMap_ok [OF om(1)] by simp
  have has: "\<And>k. ghas om k \<longleftrightarrow> k \<in> node_key ` set a" using ghas_keyed [OF om(2)] by blast
  show ?thesis
  proof (cases "node_key ` set b \<subseteq> node_key ` set a")
    case False
    with sameNodesLoop_keyed [OF b has, where m = "[]"] len om(1) have "\<not> areSameNodeSets a b"
      by (simp add: areSameNodeSets_def)
    moreover have "fst ` keyed_docs c = node_key ` set c" for c
      by (simp add: keyed_docs_def image_image)
    with False have "keyed_docs a \<noteq> keyed_docs b" by (metis order_refl)
    ultimately show ?thesis by simp
  next
    case True
    then have eqk: "node_key ` set b = node_key ` set a" by (rule keys_subset_eq [OF a b len])
    obtain nm where nm: "sameNodesLoop om b [] = Some nm" "\<forall>k. map_of nm k = map_of (keyed b) k"
      using sameNodesLoop_keyed [OF b has, where m = "[]"] True by auto
    show ?thesis
      using same_content_loop [OF a b eqk om(2) gok nm(2)] om(1) nm(1) len
      by (simp add: areSameNodeSets_def)
  qed
qed

lemma replacementLoop_keyed:
  "list_all has_key ns \<Longrightarrow> replacementLoop ks ns = Inr (node_key ` set ns \<inter> set ks = {})"
  by (induction ns) auto

lemma isPureNodeReplacement_keyed:
  assumes "keys_distinct a" "keys_distinct b" "length a = length b"
  shows "isPureNodeReplacement a b = Inr (node_key ` set a \<inter> node_key ` set b = {})"
proof -
  obtain om where om: "buildNodeMap a [] = Inr om" "\<forall>k. map_of om k = map_of (keyed a) k"
    using buildNodeMap_Nil [OF assms(1)] by blast
  have "set (map fst om) = node_key ` set a"
    using ghas_keyed [OF om(2)] by (auto simp: ghas_def dom_map_of_conv_image_fst [symmetric] simp flip: not_None_eq)
  then show ?thesis
    using replacementLoop_keyed [of b "map fst om"] om(1) assms
    by (auto simp: isPureNodeReplacement_def keys_distinct_def)
qed

lemma nodesNotIn_keyed:
  assumes "keys_distinct b" "\<forall>k. map_of m k = map_of (keyed a) k"
  shows "nodesNotIn m b = filter (\<lambda>n. node_key n \<notin> node_key ` set a) b"
  using assms(1) ghas_keyed [OF assms(2)]
  by (auto simp: nodesNotIn_def keys_distinct_def list_all_iff intro!: filter_cong)

lemma analyze_additions_keyed:
  assumes "keys_distinct a" "keys_distinct b"
  shows "analyzeNodeAdditionsAndRemovals a b =
    Inr (filter (\<lambda>n. node_key n \<notin> node_key ` set a) b, filter (\<lambda>n. node_key n \<notin> node_key ` set b) a)"
proof -
  obtain om where om: "buildNodeMap a [] = Inr om" "\<forall>k. map_of om k = map_of (keyed a) k"
    using buildNodeMap_Nil [OF assms(1)] by blast
  obtain nm where nm: "buildNodeMap b [] = Inr nm" "\<forall>k. map_of nm k = map_of (keyed b) k"
    using buildNodeMap_Nil [OF assms(2)] by blast
  show ?thesis
    using om(1) nm(1) nodesNotIn_keyed [OF assms(2) om(2)] nodesNotIn_keyed [OF assms(1) nm(2)]
    by (simp add: analyzeNodeAdditionsAndRemovals_def)
qed

section \<open>Unauthorized changes of one node\<close>

lemma checkNewNodes_flag: "fst (checkNewNodes om r ns (bad, errs)) = False \<Longrightarrow> \<not> bad"
  by (induction ns arbitrary: bad errs) (auto simp: Let_def split: sum.splits option.splits if_splits)

lemma checkNewNodes_clean:
  assumes "\<not> fst (checkNewNodes om r ns (bad, errs))" "n \<in> set ns"
    "generateNodeMatchingKey n = Inr k" "map_of om k = Some o'"
  shows "getUnauthorizedChanges o' n r = []"
  using assms
proof (induction ns arbitrary: bad errs)
  case (Cons x xs)
  show ?case
  proof (cases "x = n")
    case True
    with Cons.prems show ?thesis
      using checkNewNodes_flag [of om r xs True]
      by (auto simp: Let_def split: if_splits)
  next
    case False
    with Cons.prems have "n \<in> set xs" by simp
    with Cons show ?thesis
      by (auto simp: Let_def split: sum.splits option.splits if_splits)
  qed
qed simp

definition scalar_field :: "json option \<Rightarrow> bool" where
  "scalar_field v \<longleftrightarrow> (case v of None \<Rightarrow> True | Some (JStr s) \<Rightarrow> True | _ \<Rightarrow> False)"

lemma CompareJSON_scalar:
  assumes "map_of a k \<noteq> map_of b k" "scalar_field (map_of a k)" "scalar_field (map_of b k)"
  shows "\<exists>d\<in>set (CompareJSON (JObj a) (JObj b)). op_Path d = appendKey [] k"
proof -
  have "appendKey [] k \<noteq> []" by (simp add: appendKey_def)
  then have "\<exists>d\<in>set (field_ops [] a b k). op_Path d = appendKey [] k"
    using assms by (auto simp: field_ops_def scalar_field_def split: option.splits json.splits)
  then show ?thesis using CompareJSON_field_ops [OF assms(1)] by blast
qed

definition plain_node_fields :: "string list" where
  "plain_node_fields = [''automatedCleaningMode'', ''hostName'', ''bootMode'', ''installerArgs'',
     ''ignitionConfigOverride'', ''role'', ''ironicInspect'']"

lemma plain_node_field:
  "node_field m ''automatedCleaningMode'' = j_str (n_AutomatedCleaningMode m)"
  "node_field m ''hostName'' = Some (JStr (n_HostName m))"
  "node_field m ''bootMode'' = j_str (n_BootMode m)"
  "node_field m ''installerArgs'' = j_str (n_InstallerArgs m)"
  "node_field m ''ignitionConfigOverride'' = j_str (n_IgnitionConfigOverride m)"
  "node_field m ''role'' = j_str (n_Role m)"
  "node_field m ''ironicInspect'' = j_str (n_IronicInspect m)"
  by (simp_all add: node_field_def node_fields_def)

lemma j_str_scalar [simp]: "scalar_field (j_str s)" "scalar_field (Some (JStr s))"
  by (simp_all add: scalar_field_def j_str_def)

lemma plain_scalar: "k \<in> set plain_node_fields \<Longrightarrow> scalar_field (node_field n k)"
  unfolding plain_node_fields_def list.set by (elim insertE emptyE) (simp_all only: plain_node_field j_str_scalar)

lemma plain_not_permissible: "k \<in> set plain_node_fields \<Longrightarrow> \<not> isPermissibleNodeChange (appendKey [] k) r"
  by (auto simp: plain_node_fields_def isPermissibleNodeChange_def BasePermissibleFields_def
      getReinstallPermissibleFields_def ReinstallPermissions_def appendKey_def)

lemma plain_not_crd: "k \<in> set plain_node_fields \<Longrightarrow> appendKey [] k \<noteq> ''/cpuArchitecture''"
  by (auto simp: plain_node_fields_def appendKey_def)

lemma authorized_plain_field:
  assumes "getUnauthorizedChanges o' n r = []" "k \<in> set plain_node_fields"
  shows "node_field o' k = node_field n k"
proof (rule ccontr)
  assume ne: "node_field o' k \<noteq> node_field n k"
  obtain a where a: "marshalNodeSpec o' = JObj a" "\<And>k. map_of a k = node_field o' k"
    using marshalNodeSpec_fields by blast
  obtain b where b: "marshalNodeSpec n = JObj b" "\<And>k. map_of b k = node_field n k"
    using marshalNodeSpec_fields by blast
  have "marshalNodeSpec o' \<noteq> marshalNodeSpec n" using ne a b by (metis json.inject(5))
  with assms(1) have "\<forall>d\<in>set (CompareJSON (JObj a) (JObj b)).
      isCRDUpgradeFieldChange d \<or> isPermissibleNodeChange (op_Path d) r"
    unfolding getUnauthorizedChanges_def getUnauthorizedJSONDiffs_def a(1) b(1)
    by (auto simp: Let_def filter_empty_conv split: if_splits)
  moreover obtain d where d: "d \<in> set (CompareJSON (JObj a) (JObj b))" "op_Path d = appendKey [] k"
    using CompareJSON_scalar [of a k b] ne a(2) b(2) plain_scalar [OF assms(2)] by metis
  ultimately have "isCRDUpgradeFieldChange d \<or> isPermissibleNodeChange (op_Path d) r" by blast
  with d(2) plain_not_permissible [OF assms(2)] plain_not_crd [OF assms(2)] show False
    by (simp add: isCRDUpgradeFieldChange_def)
qed

lemma j_str_inject [simp]: "j_str a = j_str b \<longleftrightarrow> a = b"
  by (auto simp: j_str_def)

definition same_plain :: "NodeSpec \<Rightarrow> NodeSpec \<Rightarrow> bool" where
  "same_plain o' n \<longleftrightarrow>
     n_HostName n = n_HostName o' \<and> n_Role n = n_Role o' \<and> n_BootMode n = n_BootMode o'
     \<and> n_AutomatedCleaningMode n = n_AutomatedCleaningMode o' \<and> n_InstallerArgs n = n_InstallerArgs o'
     \<and> n_IgnitionConfigOverride n = n_IgnitionConfigOverride o' \<and> n_IronicInspect n = n_IronicInspect o'"

lemma plain_fields_same:
  assumes "\<And>k. k \<in> set plain_node_fields \<Longrightarrow> node_field o' k = node_field n k"
  shows "same_plain o' n"
  using assms [of "''automatedCleaningMode''"] assms [of "''hostName''"] assms [of "''bootMode''"]
    assms [of "''installerArgs''"] assms [of "''ignitionConfigOverride''"] assms [of "''role''"]
    assms [of "''ironicInspect''"]
  by (simp add: same_plain_def plain_node_field plain_node_fields_def)

lemma same_doc_fields:
  assumes "marshalNodeSpec o' = marshalNodeSpec n"
  shows "node_field o' k = node_field n k"
  using marshalNodeSpec_fields [of o'] marshalNodeSpec_fields [of n] assms by (metis json.inject(5))

end
