(* ===== verification/Webhook.thy ===== *)
theory Webhook
  imports Node_Changes
begin

text \<open>
  \<open>api/v1alpha1/clusterinstance_webhook.go\<close>: the admission decisions on create, update and delete,
  and what an admitted update can have changed. The one place of the handler that could dereference
  a nil pointer (the old reinstall spec) is a third verdict, \<open>Crash\<close>, which is shown unreachable.
\<close>

datatype admission = Admit | Deny err | Crash

definition deny :: "err option \<Rightarrow> admission" where
  "deny eo = (case eo of None \<Rightarrow> Admit | Some e \<Rightarrow> Deny e)"

definition general_validation :: "ClusterInstance \<Rightarrow> admission" where
  "general_validation ci = deny (map_option (ErrWrap ''validation failed: '') (ValidateClusterInstance ci))"

definition ValidateCreate :: "ClusterInstance \<Rightarrow> admission" where
  "ValidateCreate ci =
     (if s_Reinstall (ci_Spec ci) \<noteq> None
      then Deny (ErrNew ''reinstall spec cannot be set during initial installation'')
      else general_validation ci)"

definition reinstall_checks :: "ClusterInstance \<Rightarrow> ClusterInstance \<Rightarrow> admission" where
  "reinstall_checks old new =
     (let in_progress_check =
        (if isReinstallInProgress new then
           (case (s_Reinstall (ci_Spec new), s_Reinstall (ci_Spec old)) of
              (Some n, Some o') \<Rightarrow>
                if rs_Generation n \<noteq> rs_Generation o'
                then Deny (ErrNew ''reinstall Generation update not allowed during reinstall'') else Admit
            | _ \<Rightarrow> Crash)
         else Admit)
      in if in_progress_check \<noteq> Admit then in_progress_check
         else deny (map_option (ErrWrap ''invalid reinstall fields: '') (validateReinstallRequest new)))"

definition ValidateUpdate :: "ClusterInstance \<Rightarrow> ClusterInstance \<Rightarrow> admission" where
  "ValidateUpdate old new =
     (if \<not> IsZero (om_DeletionTimestamp (ci_Meta new)) then Admit
      else if \<not> s_HoldInstallation (ci_Spec old) \<and> s_HoldInstallation (ci_Spec new)
      then Deny (ErrNew ''holdInstallation can only be set to true during creation, not during updates'')
      else
        (let permission = determineSpecChangePermission old new in
         if IsBlocked permission then
           (if hasSpecChanged old new
            then Deny (ErrNew ''spec update not allowed during provisioning or cluster reinstalls'')
            else Admit)
         else if AllowsAllChanges permission then general_validation new
         else if isProvisioningCompleted new then
           (let reinstallRequested = (permission = SpecChangeReinstall);
                checks = (if reinstallRequested then reinstall_checks old new else Admit)
            in if checks \<noteq> Admit then checks
               else case validatePostProvisioningChanges old new reinstallRequested of
                 Some e \<Rightarrow> Deny (ErrWrap ''invalid spec changes detected: '' e)
               | None \<Rightarrow> general_validation new)
         else general_validation new))"

definition ValidateDelete :: "ClusterInstance \<Rightarrow> admission" where
  "ValidateDelete ci = Admit"

section \<open>Lemmas: permission levels\<close>

lemma deny_Admit [simp]: "deny eo = Admit \<longleftrightarrow> eo = None" "deny eo \<noteq> Crash"
  by (simp_all add: deny_def split: option.splits)

lemma general_validation_Admit [simp]:
  "general_validation ci = Admit \<longleftrightarrow> ValidateClusterInstance ci = None" "general_validation ci \<noteq> Crash"
  by (simp_all add: general_validation_def)

lemma completed_not_in_progress: "isProvisioningCompleted ci \<Longrightarrow> \<not> isProvisioningInProgress ci"
  by (auto simp: isProvisioningCompleted_def isProvisioningInProgress_def provisioned_reason_def
      split: option.splits)

lemma permission_cases:
  "determineSpecChangePermission old new = SpecChangeReinstall \<longleftrightarrow>
     isProvisioningCompleted new \<and> \<not> isReinstallInProgress new \<and> isReinstallRequested new"
  "determineSpecChangePermission old new = SpecChangeBaseOnly \<longleftrightarrow>
     isProvisioningCompleted new \<and> \<not> isReinstallInProgress new \<and> \<not> isReinstallRequested new"
  "determineSpecChangePermission old new = SpecChangeUnrestricted \<longleftrightarrow>
     s_HoldInstallation (ci_Spec old) \<and> \<not> isProvisioningCompleted new"
  "determineSpecChangePermission old new = SpecChangeBlocked \<longleftrightarrow>
     (if isProvisioningCompleted new then isReinstallInProgress new else \<not> s_HoldInstallation (ci_Spec old))"
  by (auto simp: determineSpecChangePermission_def completed_not_in_progress)

lemma reinstall_checks_no_crash: "\<not> isReinstallInProgress new \<Longrightarrow> reinstall_checks old new \<noteq> Crash"
  by (simp add: reinstall_checks_def)

lemma reinstall_checks_Admit:
  "\<not> isReinstallInProgress new \<Longrightarrow>
   reinstall_checks old new = Admit \<longleftrightarrow> validateReinstallRequest new = None"
  by (simp add: reinstall_checks_def)

text \<open>An admitted update, by permission level.\<close>

lemma admitted_partial:
  assumes "ValidateUpdate old new = Admit" "IsZero (om_DeletionTimestamp (ci_Meta new))"
    "determineSpecChangePermission old new = p" "p = SpecChangeBaseOnly \<or> p = SpecChangeReinstall"
  shows "validatePostProvisioningChanges old new (p = SpecChangeReinstall) = None"
    and "p = SpecChangeReinstall \<Longrightarrow> validateReinstallRequest new = None"
    and "ValidateClusterInstance new = None"
proof -
  have c: "isProvisioningCompleted new" "\<not> isReinstallInProgress new"
    using assms(3,4) permission_cases by blast+
  note a = assms(1)[unfolded ValidateUpdate_def Let_def assms(3)]
  from a assms(2,4) c
  show "validatePostProvisioningChanges old new (p = SpecChangeReinstall) = None"
    by (auto simp: IsBlocked_def AllowsAllChanges_def split: if_splits option.splits)
  from a assms(2,4) c
  show "p = SpecChangeReinstall \<Longrightarrow> validateReinstallRequest new = None"
    by (auto simp: IsBlocked_def AllowsAllChanges_def reinstall_checks_Admit split: if_splits option.splits)
  from a assms(2,4) c
  show "ValidateClusterInstance new = None"
    by (auto simp: IsBlocked_def AllowsAllChanges_def split: if_splits option.splits)
qed

section \<open>Lemmas: paths\<close>

lemma escapeKey_no_slash: "CHR ''/'' \<notin> set (escapeKey k)"
  by (induction k rule: escapeKey.induct) auto

lemma Split_under:
  assumes "under (appendKey [] k) path"
  shows "\<exists>rest. Split (CHR ''/'') path = [] # escapeKey k # rest"
  using assms escapeKey_no_slash [of k]
  by (auto simp: under_def appendKey_def Split_free Split_append_sep)

lemma pattern_head:
  assumes "Split (CHR ''/'') path = [] # h # rest" "Split (CHR ''/'') pat = [] # p # ps"
    "pathMatchesPattern path pat"
  shows "p = ''*'' \<or> h = p"
  using assms by (auto simp: pathMatchesPattern_def split: if_splits)

definition mutable_fields :: "bool \<Rightarrow> string list" where
  "mutable_fields allowReinstall =
     [''extraAnnotations'', ''extraLabels'', ''suppressedManifests'', ''pruneManifests'',
      ''clusterImageSetNameRef'', ''holdInstallation'', ''nodes''] @
     (if allowReinstall then [''reinstall''] else [])"

lemmas path_list_defs = ClusterLevelAllowedPaths_def NodeLevelAllowedPaths_def
  ReinstallClusterPaths_def getReinstallNodePaths_def getReinstallPermissibleFields_def
  ReinstallPermissions_def

lemma allowed_head:
  assumes "pat \<in> set (allowed_updates r)"
  shows "\<exists>q qs. Split (CHR ''/'') pat = [] # q # qs \<and> q \<in> set (mutable_fields r) \<and> q \<noteq> ''*''"
  using assms by (auto simp: allowed_updates_def path_list_defs mutable_fields_def)

lemma allowed_head_path:
  assumes "Split (CHR ''/'') path = [] # h # rest" "pathMatchesAnyPattern path (allowed_updates r)"
  shows "h \<in> set (mutable_fields r)"
proof -
  from assms(2) obtain pat where p: "pat \<in> set (allowed_updates r)" "pathMatchesPattern path pat"
    by (auto simp: pathMatchesAnyPattern_def list_ex_iff)
  with allowed_head [OF p(1)] pattern_head [OF assms(1) _ p(2)] show ?thesis by auto
qed

lemma nodes_head_path:
  assumes "Split (CHR ''/'') path = [] # h # rest"
    "pathMatchesPattern path ''/nodes'' \<or> pathMatchesPattern path ''/nodes/*''"
  shows "h = ''nodes''"
  using assms(2) pattern_head [OF assms(1), of "''/nodes''" "''nodes''" "[]"]
    pattern_head [OF assms(1), of "''/nodes/*''" "''nodes''" "[''*'']"] by auto

lemma restricted_path:
  assumes "Split (CHR ''/'') (op_Path d) = [] # h # rest" "h \<notin> set (mutable_fields r)"
    "\<not> isCRDUpgradeFieldChange d"
  shows "change_restricted (allowed_updates r) sc pm d"
proof -
  have "h \<noteq> ''nodes''" using assms(2) by (auto simp: mutable_fields_def)
  then have "\<not> pathMatchesPattern (op_Path d) ''/nodes''" "\<not> pathMatchesPattern (op_Path d) ''/nodes/*''"
    using nodes_head_path [OF assms(1)] by blast+
  moreover have "\<not> pathMatchesAnyPattern (op_Path d) (allowed_updates r)"
    using allowed_head_path [OF assms(1)] assms(2) by blast
  ultimately show ?thesis using assms(3) by (simp add: change_restricted_def)
qed

lemma spec_key_plain: "k \<in> fst ` set (spec_fields s) \<Longrightarrow> escapeKey k = k"
  by (auto simp: spec_fields_def)

lemma spec_field_key: "spec_field s k \<noteq> None \<Longrightarrow> k \<in> fst ` set (spec_fields s)"
  by (cases "map_of (spec_fields s) k") (auto simp: spec_field_def dest!: map_of_SomeD intro: rev_image_eqI)

lemma spec_field_differs_plain: "spec_field s k \<noteq> spec_field t k \<Longrightarrow> escapeKey k = k"
  using spec_field_key [of s k] spec_field_key [of t k] spec_key_plain by metis

section \<open>What an admitted update leaves unchanged\<close>

lemma no_restricted_change:
  assumes "validatePostProvisioningChanges old new r = None"
    "d \<in> set (CompareJSON (marshalSpec (ci_Spec old)) (marshalSpec (ci_Spec new)))"
  shows "\<exists>sc pm. \<not> change_restricted (allowed_updates r) sc pm d"
  using assms
  by (auto simp: validatePostProvisioningChanges_def validateChangesWithJSONDiff_def Let_def filter_empty_conv
      split: if_splits)

lemma accepted_field:
  assumes "validatePostProvisioningChanges old new r = None"
    "spec_ok (ci_Spec old)" "spec_ok (ci_Spec new)"
    "k \<notin> set (mutable_fields r)" "k \<noteq> ''cpuArchitecture''"
  shows "spec_field (ci_Spec new) k = spec_field (ci_Spec old) k"
proof (rule ccontr)
  assume ne: "spec_field (ci_Spec new) k \<noteq> spec_field (ci_Spec old) k"
  obtain a where a: "marshalSpec (ci_Spec old) = JObj a" "\<And>k. map_of a k = spec_field (ci_Spec old) k"
    using marshalSpec_fields by blast
  obtain b where b: "marshalSpec (ci_Spec new) = JObj b" "\<And>k. map_of b k = spec_field (ci_Spec new) k"
    using marshalSpec_fields by blast
  have "json_ok (JObj a)" "json_ok (JObj b)"
    using marshalSpec_ok [OF assms(2)] marshalSpec_ok [OF assms(3)] a(1) b(1) by metis+
  then obtain d where d: "d \<in> set (CompareJSON (JObj a) (JObj b))" "under (appendKey [] k) (op_Path d)"
    using CompareJSON_covers [of a b k] ne a(2) b(2) by metis
  obtain rest where s: "Split (CHR ''/'') (op_Path d) = [] # k # rest"
    using Split_under [OF d(2)] spec_field_differs_plain [OF ne] by metis
  have "\<not> isCRDUpgradeFieldChange d"
    using s assms(5) by (auto simp: isCRDUpgradeFieldChange_def)
  from restricted_path [OF s assms(4) this] no_restricted_change [OF assms(1)] d(1) a(1) b(1)
  show False by metis
qed


section \<open>Consequences for an admitted update\<close>

definition settled :: "ClusterInstance \<Rightarrow> bool" where
  "settled new \<longleftrightarrow>
     IsZero (om_DeletionTimestamp (ci_Meta new)) \<and> isProvisioningCompleted new \<and> \<not> isReinstallInProgress new"

lemma partial_permission:
  assumes "settled new"
  shows "determineSpecChangePermission old new =
    (if isReinstallRequested new then SpecChangeReinstall else SpecChangeBaseOnly)"
  using assms permission_cases by (auto simp: settled_def)

lemma admitted_partial_update:
  assumes "ValidateUpdate old new = Admit" "settled new"
  shows "validatePostProvisioningChanges old new (isReinstallRequested new) = None"
    and "isReinstallRequested new \<Longrightarrow> validateReinstallRequest new = None"
    and "ValidateClusterInstance new = None"
proof -
  let ?p = "if isReinstallRequested new then SpecChangeReinstall else SpecChangeBaseOnly"
  have z: "IsZero (om_DeletionTimestamp (ci_Meta new))" using assms(2) by (simp add: settled_def)
  note ap = admitted_partial [OF assms(1) z partial_permission [OF assms(2)]]
  have p: "?p = SpecChangeBaseOnly \<or> ?p = SpecChangeReinstall" "(?p = SpecChangeReinstall) = isReinstallRequested new"
    by simp_all
  show "validatePostProvisioningChanges old new (isReinstallRequested new) = None"
    using ap(1) [OF p(1)] unfolding p(2) .
  show "isReinstallRequested new \<Longrightarrow> validateReinstallRequest new = None" using ap(2) [OF p(1)] p(2) by simp
  show "ValidateClusterInstance new = None" using ap(3) [OF p(1)] .
qed

lemma unauthorized_free:
  assumes "validatePostProvisioningChanges old new r = None"
  shows "\<not> a_hasUnauthorizedChanges (analyzeNodeChanges (s_Nodes (ci_Spec old)) (s_Nodes (ci_Spec new)) r)"
  using assms by (auto simp: validatePostProvisioningChanges_def Let_def split: if_splits)

lemma matched_nodes_authorized:
  assumes "\<not> a_hasUnauthorizedChanges (analyzeNodeChanges a b r)" "keys_distinct a" "keys_distinct b"
    "o' \<in> set a" "n \<in> set b" "node_key o' = node_key n"
  shows "marshalNodeSpec o' = marshalNodeSpec n \<or> getUnauthorizedChanges o' n r = []"
proof -
  obtain om where om: "buildNodeMap a [] = Inr om" "\<forall>k. map_of om k = map_of (keyed a) k"
    using buildNodeMap_Nil [OF assms(2)] by blast
  have old: "map_of om (node_key n) = Some o'"
    using om(2) map_of_keyed [OF assms(2,4)] unfolding assms(6) by simp
  have key: "generateNodeMatchingKey n = Inr (node_key n)"
    using assms(3,5) by (simp add: keys_distinct_def list_all_iff)
  have clean: "getUnauthorizedChanges o' n r = []" if "\<not> fst (checkNodeModifications a b r)"
    using that checkNewNodes_clean [OF _ assms(5) key old] om(1) by (simp add: checkNodeModifications_def)
  show ?thesis
  proof (cases "length a = length b")
    case True
    have "node_key o' \<in> node_key ` set a \<inter> node_key ` set b"
      using imageI [OF assms(4), of node_key] imageI [OF assms(5), of node_key] unfolding assms(6) by simp
    then have "isPureNodeReplacement a b = Inr False"
      using isPureNodeReplacement_keyed [OF assms(2,3) True] by fastforce
    with True assms(1) clean
    have "areSameNodeSets a b \<or> getUnauthorizedChanges o' n r = []"
      by (auto simp: analyzeNodeChanges_def with_modifications_def Let_def split: prod.splits if_splits)
    moreover have "marshalNodeSpec o' = marshalNodeSpec n" if "areSameNodeSets a b"
    proof -
      have e: "keyed_docs a = keyed_docs b" using that areSameNodeSets_docs [OF assms(2,3) True] by simp
      have "fst ` keyed_docs a = fst ` keyed_docs b" using e by simp
      then have "node_key ` set b = node_key ` set a" by (simp add: keyed_docs_def image_image)
      with keyed_docs_eq [OF assms(3)] e assms(4-6) show ?thesis by blast
    qed
    ultimately show ?thesis by blast
  next
    case False
    with assms(1) clean analyze_additions_keyed [OF assms(2,3)] show ?thesis
      by (auto simp: analyzeNodeChanges_def with_modifications_def Let_def split: prod.splits if_splits)
  qed
qed

lemma matched_nodes_plain:
  assumes "\<not> a_hasUnauthorizedChanges (analyzeNodeChanges a b r)" "keys_distinct a" "keys_distinct b"
    "o' \<in> set a" "n \<in> set b" "node_key o' = node_key n"
  shows "same_plain o' n"
  using matched_nodes_authorized [OF assms]
proof
  assume "marshalNodeSpec o' = marshalNodeSpec n"
  then show ?thesis using same_doc_fields plain_fields_same by metis
next
  assume "getUnauthorizedChanges o' n r = []"
  then show ?thesis using authorized_plain_field plain_fields_same by blast
qed

lemma same_doc_addresses:
  assumes "marshalNodeSpec o' = marshalNodeSpec n"
  shows "n_BmcAddress n = n_BmcAddress o' \<and> n_BootMACAddress n = n_BootMACAddress o'"
  using same_doc_fields [OF assms, of "''bmcAddress''"] same_doc_fields [OF assms, of "''bootMACAddress''"]
  by (simp add: node_field_def node_fields_def)

lemma authorized_addresses:
  "getUnauthorizedChanges o' n False = [] \<Longrightarrow>
   n_BmcAddress n = n_BmcAddress o' \<and> n_BootMACAddress n = n_BootMACAddress o'"
  by (auto simp: getUnauthorizedChanges_def Let_def split: if_splits)

lemma reinstall_request_valid:
  assumes "validateReinstallRequest new = None"
  obtains spec where "s_Reinstall (ci_Spec new) = Some spec" "isProvisioningCompleted new"
    "validateReinstallGeneration (rs_Generation spec) = None"
    "\<And>st. st_Reinstall (ci_Status new) = Some st \<Longrightarrow>
       (r_InProgressGeneration st = [] \<or> \<not> IsZero (r_RequestEndTime st))
       \<and> r_ObservedGeneration st \<noteq> rs_Generation spec
       \<and> rs_Generation spec \<notin> h_Generation ` set (r_History st)"
  using assms that
  by (fastforce simp: validateReinstallRequest_def list_ex_iff split: option.splits if_splits)


lemma j_reinstall_inject: "j_reinstall a = j_reinstall b \<longleftrightarrow> a = b"
  by (cases a; cases b) (auto simp: j_reinstall_def jstruct_def present_def sort_keys_def)

lemma reinstall_field: "spec_field s ''reinstall'' = map_option j_reinstall (s_Reinstall s)"
  by (simp add: spec_field_def spec_fields_def)

lemma reinstall_field_eq:
  "spec_field s ''reinstall'' = spec_field t ''reinstall'' \<longleftrightarrow> s_Reinstall s = s_Reinstall t"
  unfolding reinstall_field by (cases "s_Reinstall s"; cases "s_Reinstall t") (auto simp: j_reinstall_inject)

lemma admitted_change_unblocked:
  assumes "ValidateUpdate old new = Admit" "IsZero (om_DeletionTimestamp (ci_Meta new))"
    "canon_spec (ci_Spec new) \<noteq> canon_spec (ci_Spec old)"
  shows "determineSpecChangePermission old new \<noteq> SpecChangeBlocked"
  using assms by (auto simp: ValidateUpdate_def IsBlocked_def hasSpecChanged_def split: if_splits)

section \<open>Properties of the admission webhook\<close>

text \<open>C10: An update of a provisioned ClusterInstance with no reinstall in progress that the webhook
  admits leaves every top-level field of the spec document as it was, except extraAnnotations,
  extraLabels, suppressedManifests, pruneManifests, clusterImageSetNameRef, holdInstallation, nodes
  and, when a new reinstall is requested, reinstall (and the presence of cpuArchitecture, which a CRD
  upgrade may add or remove).\<close>

theorem webhook_immutable_fields:
  assumes "ValidateUpdate old new = Admit" "settled new" "spec_ok (ci_Spec old)" "spec_ok (ci_Spec new)"
    "k \<notin> set (mutable_fields (isReinstallRequested new))" "k \<noteq> ''cpuArchitecture''"
  shows "spec_field (ci_Spec new) k = spec_field (ci_Spec old) k"
  using accepted_field [OF admitted_partial_update(1) [OF assms(1,2)] assms(3-6)] .

definition relabelled_ci :: ClusterInstance where
  "relabelled_ci = sample_ci\<lparr>ci_Spec := sample_spec\<lparr>s_ExtraLabels := [(''ManagedCluster'', [(''a'', ''b'')])]\<rparr>\<rparr>"

theorem webhook_immutable_fields_witness:
  "spec_field (ci_Spec relabelled_ci) ''baseDomain'' = spec_field (ci_Spec sample_ci) ''baseDomain''"
proof (rule webhook_immutable_fields)
  show "ValidateUpdate sample_ci relabelled_ci = Admit" by code_simp
  show "settled relabelled_ci" by code_simp
  show "spec_ok (ci_Spec sample_ci)" by code_simp
  show "spec_ok (ci_Spec relabelled_ci)" by code_simp
  show "''baseDomain'' \<notin> set (mutable_fields (isReinstallRequested relabelled_ci))" by code_simp
  show "''baseDomain'' \<noteq> ''cpuArchitecture''" by simp
qed

text \<open>C13: While the cluster is being provisioned for the first time (installation not on hold) or
  reinstalled, an admitted update leaves the spec semantically unchanged.\<close>

theorem webhook_blocks_during_installation:
  assumes "ValidateUpdate old new = Admit" "IsZero (om_DeletionTimestamp (ci_Meta new))"
    "if isProvisioningCompleted new then isReinstallInProgress new else \<not> s_HoldInstallation (ci_Spec old)"
  shows "canon_spec (ci_Spec new) = canon_spec (ci_Spec old)"
proof -
  have "determineSpecChangePermission old new = SpecChangeBlocked" using assms(3) permission_cases(4) by blast
  with admitted_change_unblocked [OF assms(1,2)] show ?thesis by blast
qed

definition provisioning_ci :: ClusterInstance where
  "provisioning_ci = sample_ci\<lparr>ci_Status := sample_status\<lparr>st_Conditions :=
     [sample_condition ''Provisioned'' ''False'' ''InProgress'']\<rparr>\<rparr>"

theorem webhook_blocks_during_installation_witness:
  "canon_spec (ci_Spec provisioning_ci) = canon_spec (ci_Spec sample_ci)"
proof (rule webhook_blocks_during_installation)
  show "ValidateUpdate sample_ci provisioning_ci = Admit" by code_simp
  show "IsZero (om_DeletionTimestamp (ci_Meta provisioning_ci))" by code_simp
  show "if isProvisioningCompleted provisioning_ci then isReinstallInProgress provisioning_ci
        else \<not> s_HoldInstallation (ci_Spec sample_ci)" by code_simp
qed


definition reinstall_request_ci :: ClusterInstance where
  "reinstall_request_ci = sample_ci\<lparr>ci_Spec := sample_spec\<lparr>s_Reinstall :=
     Some \<lparr>rs_Generation = ''g1'', rs_PreservationMode = ''None''\<rparr>\<rparr>\<rparr>"



definition relabelled_node :: NodeSpec where
  "relabelled_node = sample_node\<lparr>n_ExtraLabels := [(''BareMetalHost'', [(''a'', ''b'')])]\<rparr>"

definition relabelled_node_ci :: ClusterInstance where
  "relabelled_node_ci = sample_ci\<lparr>ci_Spec := sample_spec\<lparr>s_Nodes := [relabelled_node]\<rparr>\<rparr>"


text \<open>The update handler never reaches the comparison of the two reinstall generations with a nil
  old reinstall spec: its verdict is always an admission or a denial.\<close>

theorem webhook_update_no_nil_dereference: "ValidateUpdate old new \<noteq> Crash"
  using permission_cases(1) [of old new] reinstall_checks_no_crash [of new old]
  by (auto simp: ValidateUpdate_def Let_def split: option.splits)

text \<open>holdInstallation cannot be switched on by an update: an admitted update of an object that is
  not being deleted keeps it off when it was off.\<close>

theorem webhook_hold_only_at_creation:
  assumes "ValidateUpdate old new = Admit" "IsZero (om_DeletionTimestamp (ci_Meta new))"
    "\<not> s_HoldInstallation (ci_Spec old)"
  shows "\<not> s_HoldInstallation (ci_Spec new)"
  using assms by (auto simp: ValidateUpdate_def split: if_splits)

theorem webhook_hold_only_at_creation_witness: "\<not> s_HoldInstallation (ci_Spec relabelled_ci)"
proof (rule webhook_hold_only_at_creation)
  show "ValidateUpdate sample_ci relabelled_ci = Admit" by code_simp
  show "IsZero (om_DeletionTimestamp (ci_Meta relabelled_ci))" by code_simp
  show "\<not> s_HoldInstallation (ci_Spec sample_ci)" by code_simp
qed

text \<open>C21: With installation on hold before provisioning, the handler does not look at the reinstall
  field: there is an update that sets a reinstall request on a ClusterInstance that was never
  provisioned and is admitted, although a creation with that field is denied and a reinstall may
  only be requested after provisioning completed.\<close>

definition held_ci :: ClusterInstance where
  "held_ci = sample_ci\<lparr>ci_Spec := sample_spec\<lparr>s_HoldInstallation := True\<rparr>,
     ci_Status := sample_status\<lparr>st_Conditions := []\<rparr>\<rparr>"

definition held_reinstall_ci :: ClusterInstance where
  "held_reinstall_ci = held_ci\<lparr>ci_Spec := (ci_Spec reinstall_request_ci)\<lparr>s_HoldInstallation := True\<rparr>\<rparr>"


text \<open>C22: The node check accepts a change by a substring of its path: a node label whose key contains
  the name of a permissible field can be added to a provisioned node, although nodeLabels is not a
  permissible field.\<close>

definition node_labels_ci :: "smap \<Rightarrow> ClusterInstance" where
  "node_labels_ci m = sample_ci\<lparr>ci_Spec := sample_spec\<lparr>s_Nodes := [sample_node\<lparr>n_NodeLabels := m\<rparr>]\<rparr>\<rparr>"


section \<open>Properties of the validation\<close>

text \<open>The control-plane check accepts exactly: a hosted control plane has no master and no arbiter;
  a single node cluster has one master and no arbiter; a highly available cluster with arbiter has at
  least two masters and one arbiter; any other cluster type has at least one master and no arbiter.\<close>

theorem control_plane_count:
  "validateControlPlaneAgentCount ci = None \<longleftrightarrow>
     (let m = count_role ''master'' (s_Nodes (ci_Spec ci)); a = count_role ''arbiter'' (s_Nodes (ci_Spec ci));
          t = s_ClusterType (ci_Spec ci)
      in if t = ClusterTypeHostedControlPlane then m = 0 \<and> a = 0
         else if t = ClusterTypeSNO then m = 1 \<and> a = 0
         else if t = ClusterTypeHighlyAvailableArbiter then 2 \<le> m \<and> 1 \<le> a
         else 1 \<le> m \<and> a = 0)"
  by (auto simp: validateControlPlaneAgentCount_def Let_def ClusterTypeHostedControlPlane_def
      ClusterTypeSNO_def ClusterTypeHighlyAvailableArbiter_def)

text \<open>C20: For node lists whose keys exist and are distinct, the operation that \<open>analyzeNodeChanges\<close>
  reports is a function of the two sets of keys and of the documents of the nodes: no change when each
  key has the same document, a replacement when the counts agree and no key is shared, a
  modification when they agree otherwise, and with different counts a mixed operation, a scale-out
  or a scale-in according to which sides have unmatched keys.\<close>

theorem node_operation:
  assumes "keys_distinct a" "keys_distinct b"
  shows "a_operationType (analyzeNodeChanges a b r) =
    (let A = node_key ` set a; B = node_key ` set b in
     if length a = length b then
       if keyed_docs a = keyed_docs b then OperationTypeNoChange
       else if A \<inter> B = {} then OperationTypeReplacement else OperationTypeModification
     else if \<not> B \<subseteq> A \<and> \<not> A \<subseteq> B then OperationTypeMixed
     else if \<not> B \<subseteq> A then OperationTypeScaleOut else OperationTypeScaleIn)"
proof (cases "length a = length b")
  case True
  then show ?thesis
    using areSameNodeSets_docs [OF assms True] isPureNodeReplacement_keyed [OF assms True]
    by (simp add: analyzeNodeChanges_def Let_def clean_analysis_def with_modifications_def
        split: prod.splits bool.splits)
next
  case False
  have e: "filter (\<lambda>n. node_key n \<notin> node_key ` set x) y = [] \<longleftrightarrow> node_key ` set y \<subseteq> node_key ` set x" for x y
    by (auto simp: filter_empty_conv)
  show ?thesis
    using False analyze_additions_keyed [OF assms]
    by (simp add: analyzeNodeChanges_def Let_def with_modifications_def e split: prod.splits)
qed

theorem node_operation_witness:
  "a_operationType (analyzeNodeChanges [sample_node] [sample_node, sample_node\<lparr>n_HostName := ''h2''\<rparr>] False)
     = OperationTypeScaleOut"
proof -
  have "keys_distinct [sample_node]" "keys_distinct [sample_node, sample_node\<lparr>n_HostName := ''h2''\<rparr>]"
    by code_simp+
  from node_operation [OF this, of False] show ?thesis
    by (simp add: Let_def node_key_def generateNodeMatchingKey_def getNodeStableIdentifier_def sample_node_def)
qed

text \<open>A generation passes \<open>validateReinstallGeneration\<close> exactly when it is a non-empty lower-case
  alphanumeric name with inner hyphens of at most 153 characters.\<close>

theorem reinstall_generation_format:
  "validateReinstallGeneration g = None \<longleftrightarrow>
     length g \<le> 153 \<and> g \<noteq> [] \<and> list_all (\<lambda>c. is_lower_alnum c \<or> c = CHR ''-'') g
     \<and> is_lower_alnum (g ! 0) \<and> is_lower_alnum (g ! (length g - 1))"
  by (cases "g = []")
    (auto simp: validateReinstallGeneration_def maxGenerationLength_def valid_name_def
      hd_conv_nth last_conv_nth)

end
