(* ===== verification/API_Server.thy ===== *)
theory API_Server
  imports Conditions SC_Errors Samples
begin

text \<open>
  The Kubernetes API as the controllers see it through the controller-runtime client: one store of
  ClusterInstances and one of every other object, keyed by apiVersion, kind, namespace and name. An
  operation returns the error or the result together with the new state. What the environment may
  do to a call is a list of injected failures, one consumed per request (\<open>None\<close> and the end of
  the list let the request through); a rejection by an admission webhook or a lost connection is such
  a failure. The clock does not advance within one call of a reconciler. Resource versions are not
  advanced: no operation of the program sends one.
\<close>

section \<open>Objects\<close>

text \<open>
  An object other than a ClusterInstance. A kind uses the fields it has: \<open>o_Type\<close>, \<open>o_Immutable\<close>
  and \<open>o_Data\<close> for Secrets and ConfigMaps, \<open>o_Conditions\<close> for a ManagedCluster, \<open>o_Installed\<close> and
  \<open>o_CDConditions\<close> for a ClusterDeployment, and \<open>o_Doc\<close> for what is read as an unstructured document.
\<close>

record kobject =
  o_APIVersion :: string
  o_Kind :: string
  o_Meta :: ObjectMeta
  o_Type :: string
  o_Immutable :: bool
  o_Data :: smap
  o_Conditions :: "Condition list"
  o_Installed :: bool
  o_CDConditions :: "CDCondition list"
  o_Doc :: json

datatype objkey = ObjKey (k_APIVersion: string) (k_Kind: string) (k_Namespace: string) (k_Name: string)

definition okey :: "kobject \<Rightarrow> objkey" where
  "okey o' = ObjKey (o_APIVersion o') (o_Kind o') (om_Namespace (o_Meta o')) (om_Name (o_Meta o'))"

definition empty_meta :: ObjectMeta where
  "empty_meta = \<lparr>om_Name = [], om_Namespace = [], om_UID = [], om_ResourceVersion = [], om_Generation = 0,
     om_CreationTimestamp = 0, om_DeletionTimestamp = 0, om_Labels = [], om_Annotations = [],
     om_OwnerReferences = [], om_Finalizers = []\<rparr>"

definition new_object :: "string \<Rightarrow> string \<Rightarrow> string \<Rightarrow> string \<Rightarrow> kobject" where
  "new_object api kind ns name = \<lparr>o_APIVersion = api, o_Kind = kind,
     o_Meta = empty_meta\<lparr>om_Name := name, om_Namespace := ns\<rparr>, o_Type = [], o_Immutable = False,
     o_Data = [], o_Conditions = [], o_Installed = False, o_CDConditions = [], o_Doc = JObj []\<rparr>"

record world =
  w_now :: time
  w_faults :: "err option list"
  w_objs :: "(objkey \<times> kobject) list"
  w_cis :: "((string \<times> string) \<times> ClusterInstance) list"

definition ci_key :: "ClusterInstance \<Rightarrow> string \<times> string" where
  "ci_key ci = (om_Namespace (ci_Meta ci), om_Name (ci_Meta ci))"

section \<open>Results of a reconciler (controller-runtime)\<close>

record Result =
  rs_Requeue :: bool
  rs_RequeueAfter :: nat

definition zero_result :: Result where
  "zero_result = \<lparr>rs_Requeue = False, rs_RequeueAfter = 0\<rparr>"

definition requeue :: Result where
  "requeue = \<lparr>rs_Requeue = True, rs_RequeueAfter = 0\<rparr>"

definition result_IsZero :: "Result \<Rightarrow> bool" where
  "result_IsZero r \<longleftrightarrow> \<not> rs_Requeue r \<and> rs_RequeueAfter r = 0"

section \<open>Requests\<close>

definition next_fault :: "world \<Rightarrow> err option \<times> world" where
  "next_fault w = (case w_faults w of [] \<Rightarrow> (None, w) | f # fs \<Rightarrow> (f, w\<lparr>w_faults := fs\<rparr>))"

definition not_found :: "string \<Rightarrow> string \<Rightarrow> err" where
  "not_found kind name = ErrAPI NotFound (kind @ '' '' @ dquote @ name @ dquote @ '' not found'')"

definition Get :: "objkey \<Rightarrow> world \<Rightarrow> (err + kobject) \<times> world" where
  "Get k w = (case next_fault w of
     (Some e, w') \<Rightarrow> (Inl e, w')
   | (None, w') \<Rightarrow>
       ((case map_of (w_objs w') k of
           None \<Rightarrow> Inl (not_found (k_Kind k) (k_Name k))
         | Some o' \<Rightarrow> Inr o'), w'))"

definition ListObjs :: "string \<Rightarrow> string \<Rightarrow> string \<Rightarrow> (smap \<Rightarrow> bool) \<Rightarrow> world \<Rightarrow> (err + kobject list) \<times> world" where
  "ListObjs api kind ns selector w = (case next_fault w of
     (Some e, w') \<Rightarrow> (Inl e, w')
   | (None, w') \<Rightarrow>
       (Inr (filter (\<lambda>o'. o_APIVersion o' = api \<and> o_Kind o' = kind \<and> om_Namespace (o_Meta o') = ns
              \<and> selector (om_Labels (o_Meta o'))) (map snd (w_objs w'))), w'))"

definition Create :: "kobject \<Rightarrow> world \<Rightarrow> (err + kobject) \<times> world" where
  "Create o' w = (case next_fault w of
     (Some e, w') \<Rightarrow> (Inl e, w')
   | (None, w') \<Rightarrow>
       if ghas (w_objs w') (okey o')
       then (Inl (ErrAPI AlreadyExists (o_Kind o' @ '' '' @ dquote @ om_Name (o_Meta o') @ dquote @ '' already exists'')), w')
       else (let o'' = o'\<lparr>o_Meta := (o_Meta o')\<lparr>om_CreationTimestamp := w_now w', om_DeletionTimestamp := 0\<rparr>\<rparr>
             in (Inr o'', w'\<lparr>w_objs := gset (okey o') o'' (w_objs w')\<rparr>)))"

text \<open>
  The data of an immutable Secret or ConfigMap cannot be changed by an update; the timestamps and the
  UID are the server's.
\<close>

definition Update :: "kobject \<Rightarrow> world \<Rightarrow> (err + kobject) \<times> world" where
  "Update o' w = (case next_fault w of
     (Some e, w') \<Rightarrow> (Inl e, w')
   | (None, w') \<Rightarrow>
       (case map_of (w_objs w') (okey o') of
          None \<Rightarrow> (Inl (not_found (o_Kind o') (om_Name (o_Meta o'))), w')
        | Some old \<Rightarrow>
            if o_Immutable old \<and> (\<not> o_Immutable o' \<or> o_Data o' \<noteq> o_Data old)
            then (Inl (ErrAPI OtherReason (o_Kind o' @ '' '' @ om_Name (o_Meta o') @ '' is immutable'')), w')
            else (let o'' = o'\<lparr>o_Meta := (o_Meta o')\<lparr>om_UID := om_UID (o_Meta old),
                        om_CreationTimestamp := om_CreationTimestamp (o_Meta old),
                        om_DeletionTimestamp := om_DeletionTimestamp (o_Meta old)\<rparr>\<rparr>
                  in (Inr o'', w'\<lparr>w_objs := gset (okey o') o'' (w_objs w')\<rparr>))))"

text \<open>
  A deletion request: an object with finalizers is marked, one without is removed. The dependents of
  the object are removed by the garbage collector (background propagation), not here.
\<close>

definition Delete :: "objkey \<Rightarrow> world \<Rightarrow> err option \<times> world" where
  "Delete k w = (case next_fault w of
     (Some e, w') \<Rightarrow> (Some e, w')
   | (None, w') \<Rightarrow>
       (case map_of (w_objs w') k of
          None \<Rightarrow> (Some (not_found (k_Kind k) (k_Name k)), w')
        | Some o' \<Rightarrow>
            if om_Finalizers (o_Meta o') = [] then (None, w'\<lparr>w_objs := gdel k (w_objs w')\<rparr>)
            else if om_DeletionTimestamp (o_Meta o') = 0
            then (None, w'\<lparr>w_objs := gset k (o'\<lparr>o_Meta := (o_Meta o')\<lparr>om_DeletionTimestamp := w_now w'\<rparr>\<rparr>) (w_objs w')\<rparr>)
            else (None, w')))"

definition IgnoreNotFound :: "err option \<Rightarrow> err option" where
  "IgnoreNotFound eo = (case eo of None \<Rightarrow> None | Some e \<Rightarrow> if IsNotFound e then None else Some e)"

text \<open>
  \<open>controllerutil.CreateOrUpdate\<close>: the object is read; a missing one is mutated and created, an
  existing one is mutated and updated if that changed it.
\<close>

definition CreateOrUpdate :: "kobject \<Rightarrow> (kobject \<Rightarrow> kobject) \<Rightarrow> world \<Rightarrow> (err + kobject) \<times> world" where
  "CreateOrUpdate obj mutateFn w =
     (case Get (okey obj) w of
        (Inl e, w') \<Rightarrow> if IsNotFound e then Create (mutateFn obj) w' else (Inl e, w')
      | (Inr existing, w') \<Rightarrow>
          if mutateFn existing = existing then (Inr existing, w') else Update (mutateFn existing) w')"

section \<open>Merge patches\<close>

text \<open>
  \<open>client.MergeFrom(original)\<close> sends what differs between the original and the object in memory; the
  server changes exactly that. A changed list is replaced as a whole, a map or nested struct is
  merged member by member.
\<close>

definition merge :: "'a \<Rightarrow> 'a \<Rightarrow> 'a \<Rightarrow> 'a" where
  "merge orig new server = (if new = orig then server else new)"

definition merge_smap :: "smap \<Rightarrow> smap \<Rightarrow> smap \<Rightarrow> smap" where
  "merge_smap orig new server =
     foldl (\<lambda>m p. if map_of orig (fst p) = Some (snd p) then m else gset (fst p) (snd p) m)
       (foldl (\<lambda>m k. if ghas new k then m else gdel k m) server (map fst orig)) new"

definition merge_meta :: "ObjectMeta \<Rightarrow> ObjectMeta \<Rightarrow> ObjectMeta \<Rightarrow> ObjectMeta" where
  "merge_meta orig new server = server\<lparr>
     om_Labels := merge_smap (om_Labels orig) (om_Labels new) (om_Labels server),
     om_Annotations := merge_smap (om_Annotations orig) (om_Annotations new) (om_Annotations server),
     om_OwnerReferences := merge (om_OwnerReferences orig) (om_OwnerReferences new) (om_OwnerReferences server),
     om_Finalizers := merge (om_Finalizers orig) (om_Finalizers new) (om_Finalizers server)\<rparr>"

definition empty_reinstall :: ReinstallStatus where
  "empty_reinstall = \<lparr>r_Conditions = [], r_InProgressGeneration = [], r_ObservedGeneration = [],
     r_RequestStartTime = 0, r_RequestEndTime = 0, r_History = []\<rparr>"

definition merge_reinstall_fields :: "ReinstallStatus \<Rightarrow> ReinstallStatus \<Rightarrow> ReinstallStatus \<Rightarrow> ReinstallStatus" where
  "merge_reinstall_fields orig new server =
     \<lparr>r_Conditions = merge (r_Conditions orig) (r_Conditions new) (r_Conditions server),
      r_InProgressGeneration =
        merge (r_InProgressGeneration orig) (r_InProgressGeneration new) (r_InProgressGeneration server),
      r_ObservedGeneration =
        merge (r_ObservedGeneration orig) (r_ObservedGeneration new) (r_ObservedGeneration server),
      r_RequestStartTime = merge (r_RequestStartTime orig) (r_RequestStartTime new) (r_RequestStartTime server),
      r_RequestEndTime = merge (r_RequestEndTime orig) (r_RequestEndTime new) (r_RequestEndTime server),
      r_History = merge (r_History orig) (r_History new) (r_History server)\<rparr>"

fun merge_struct :: "'a \<Rightarrow> ('a \<Rightarrow> 'a \<Rightarrow> 'a \<Rightarrow> 'a) \<Rightarrow> 'a option \<Rightarrow> 'a option \<Rightarrow> 'a option \<Rightarrow> 'a option" where
  "merge_struct z f None None server = server"
| "merge_struct z f (Some orig) None server = None"
| "merge_struct z f None (Some new) server =
     Some (f z new (case server of None \<Rightarrow> z | Some s \<Rightarrow> s))"
| "merge_struct z f (Some orig) (Some new) server =
     (if new = orig then server else Some (f orig new (case server of None \<Rightarrow> z | Some s \<Rightarrow> s)))"

definition empty_paused :: PausedStatus where
  "empty_paused = \<lparr>p_TimeSet = 0, p_Reason = []\<rparr>"

definition merge_paused_fields :: "PausedStatus \<Rightarrow> PausedStatus \<Rightarrow> PausedStatus \<Rightarrow> PausedStatus" where
  "merge_paused_fields orig new server =
     \<lparr>p_TimeSet = merge (p_TimeSet orig) (p_TimeSet new) (p_TimeSet server),
      p_Reason = merge (p_Reason orig) (p_Reason new) (p_Reason server)\<rparr>"

definition merge_status ::
  "ClusterInstanceStatus \<Rightarrow> ClusterInstanceStatus \<Rightarrow> ClusterInstanceStatus \<Rightarrow> ClusterInstanceStatus" where
  "merge_status orig new server =
     \<lparr>st_Conditions = merge (st_Conditions orig) (st_Conditions new) (st_Conditions server),
      st_ClusterDeploymentRef =
        merge (st_ClusterDeploymentRef orig) (st_ClusterDeploymentRef new) (st_ClusterDeploymentRef server),
      st_DeploymentConditions =
        merge (st_DeploymentConditions orig) (st_DeploymentConditions new) (st_DeploymentConditions server),
      st_ManifestsRendered =
        merge (st_ManifestsRendered orig) (st_ManifestsRendered new) (st_ManifestsRendered server),
      st_ObservedGeneration =
        merge (st_ObservedGeneration orig) (st_ObservedGeneration new) (st_ObservedGeneration server),
      st_Reinstall = merge_struct empty_reinstall merge_reinstall_fields
        (st_Reinstall orig) (st_Reinstall new) (st_Reinstall server),
      st_Paused = merge_struct empty_paused merge_paused_fields
        (st_Paused orig) (st_Paused new) (st_Paused server)\<rparr>"

section \<open>ClusterInstances\<close>

definition GetCI :: "string \<times> string \<Rightarrow> world \<Rightarrow> (err + ClusterInstance) \<times> world" where
  "GetCI k w = (case next_fault w of
     (Some e, w') \<Rightarrow> (Inl e, w')
   | (None, w') \<Rightarrow>
       ((case map_of (w_cis w') k of
           None \<Rightarrow> Inl (not_found ''ClusterInstance'' (snd k)) | Some ci \<Rightarrow> Inr ci), w'))"

text \<open>
  A patch of the status subresource and of the object itself. On success the object in memory becomes
  what the server returns; the status subresource ignores changes of the metadata, a patch of the
  object ignores changes of the status. No caller patches the spec. An object that is being deleted
  goes away with its last finalizer.
\<close>

definition StatusPatchCI :: "ClusterInstance \<Rightarrow> ClusterInstance \<Rightarrow> world \<Rightarrow> (err + ClusterInstance) \<times> world" where
  "StatusPatchCI orig ci w = (case next_fault w of
     (Some e, w') \<Rightarrow> (Inl e, w')
   | (None, w') \<Rightarrow>
       (case map_of (w_cis w') (ci_key ci) of
          None \<Rightarrow> (Inl (not_found ''ClusterInstance'' (snd (ci_key ci))), w')
        | Some s \<Rightarrow>
            (let s' = s\<lparr>ci_Status := merge_status (ci_Status orig) (ci_Status ci) (ci_Status s)\<rparr>
             in (Inr s', w'\<lparr>w_cis := gset (ci_key ci) s' (w_cis w')\<rparr>))))"

definition PatchCI :: "ClusterInstance \<Rightarrow> ClusterInstance \<Rightarrow> world \<Rightarrow> (err + ClusterInstance) \<times> world" where
  "PatchCI orig ci w = (case next_fault w of
     (Some e, w') \<Rightarrow> (Inl e, w')
   | (None, w') \<Rightarrow>
       (case map_of (w_cis w') (ci_key ci) of
          None \<Rightarrow> (Inl (not_found ''ClusterInstance'' (snd (ci_key ci))), w')
        | Some s \<Rightarrow>
            (let s' = s\<lparr>ci_Meta := merge_meta (ci_Meta orig) (ci_Meta ci) (ci_Meta s)\<rparr>
             in (Inr s', w'\<lparr>w_cis :=
                  (if om_DeletionTimestamp (ci_Meta s') \<noteq> 0 \<and> om_Finalizers (ci_Meta s') = []
                   then gdel (ci_key ci) (w_cis w') else gset (ci_key ci) s' (w_cis w'))\<rparr>))))"

definition PatchObj :: "kobject \<Rightarrow> kobject \<Rightarrow> world \<Rightarrow> (err + kobject) \<times> world" where
  "PatchObj orig o' w = (case next_fault w of
     (Some e, w') \<Rightarrow> (Inl e, w')
   | (None, w') \<Rightarrow>
       (case map_of (w_objs w') (okey o') of
          None \<Rightarrow> (Inl (not_found (o_Kind o') (om_Name (o_Meta o'))), w')
        | Some s \<Rightarrow>
            (let s' = s\<lparr>o_Meta := merge_meta (o_Meta orig) (o_Meta o') (o_Meta s)\<rparr>
             in (Inr s', w'\<lparr>w_objs := gset (okey o') s' (w_objs w')\<rparr>))))"

section \<open>Retries (retry.go) and the status patch of conditions.go\<close>

definition isRetriable :: "err \<Rightarrow> bool" where
  "isRetriable e \<longleftrightarrow> as_api_status e \<in> {Some InternalError, Some ServiceUnavailable, Some ConnectionRefused}"

definition isConflictOrRetriable :: "err \<Rightarrow> bool" where
  "isConflictOrRetriable e \<longleftrightarrow> as_api_status e = Some Conflict \<or> isRetriable e"

definition RetryBackoff30Seconds :: nat where
  "RetryBackoff30Seconds = 30"

lemma RetryBackoff30Seconds_Suc: "RetryBackoff30Seconds = Suc (Suc 28)"
  by (simp add: RetryBackoff30Seconds_def)

text \<open>
  \<open>retry.OnError\<close>: at most \<open>steps\<close> attempts, as long as the error is retriable; after the last one
  its error is returned. No caller passes zero steps.
\<close>

fun OnError :: "nat \<Rightarrow> (err \<Rightarrow> bool) \<Rightarrow> (world \<Rightarrow> (err + 'a) \<times> world) \<Rightarrow> world \<Rightarrow> (err + 'a) \<times> world" where
  "OnError 0 retriable fn w = (Inl (ErrNew ''timed out waiting for the condition''), w)"
| "OnError (Suc 0) retriable fn w = fn w"
| "OnError (Suc (Suc n)) retriable fn w =
     (case fn w of
        (Inr x, w') \<Rightarrow> (Inr x, w')
      | (Inl e, w') \<Rightarrow> if retriable e then OnError (Suc n) retriable fn w' else (Inl e, w'))"

definition RetryOnRetriable :: "nat \<Rightarrow> (world \<Rightarrow> (err + 'a) \<times> world) \<Rightarrow> world \<Rightarrow> (err + 'a) \<times> world" where
  "RetryOnRetriable steps fn = OnError steps isRetriable fn"

definition RetryOnConflictOrRetriable :: "nat \<Rightarrow> (world \<Rightarrow> (err + 'a) \<times> world) \<Rightarrow> world \<Rightarrow> (err + 'a) \<times> world" where
  "RetryOnConflictOrRetriable steps fn = OnError steps isConflictOrRetriable fn"

text \<open>The result is the error and the ClusterInstance in memory.\<close>

definition PatchCIStatus :: "ClusterInstance \<Rightarrow> ClusterInstance \<Rightarrow> world \<Rightarrow> err option \<times> ClusterInstance \<times> world" where
  "PatchCIStatus orig ci w =
     (case RetryOnRetriable RetryBackoff30Seconds (StatusPatchCI orig ci) w of
        (Inl e, w') \<Rightarrow> (Some (ErrWrap ''failed to update ClusterInstance status: '' e), ci, w')
      | (Inr ci', w') \<Rightarrow> (None, ci', w'))"

text \<open>
  An update of the status subresource replaces the stored status by the one in memory. The server refuses it with
  a conflict when the object has changed since it was read; such a refusal is among the failures of \<open>w_faults\<close>.
\<close>

definition StatusUpdateCI :: "ClusterInstance \<Rightarrow> world \<Rightarrow> (err + ClusterInstance) \<times> world" where
  "StatusUpdateCI ci w = (case next_fault w of
     (Some e, w') \<Rightarrow> (Inl e, w')
   | (None, w') \<Rightarrow>
       (case map_of (w_cis w') (ci_key ci) of
          None \<Rightarrow> (Inl (not_found ''ClusterInstance'' (snd (ci_key ci))), w')
        | Some s \<Rightarrow>
            (let s' = s\<lparr>ci_Status := ci_Status ci\<rparr>
             in (Inr s', w'\<lparr>w_cis := gset (ci_key ci) s' (w_cis w')\<rparr>))))"

definition UpdateCIStatus :: "ClusterInstance \<Rightarrow> world \<Rightarrow> err option \<times> ClusterInstance \<times> world" where
  "UpdateCIStatus ci w =
     (case RetryOnConflictOrRetriable RetryBackoff30Seconds (StatusUpdateCI ci) w of
        (Inl e, w') \<Rightarrow> (Some (ErrWrap ''failed to update ClusterInstance status: '' e), ci, w')
      | (Inr ci', w') \<Rightarrow> (None, ci', w'))"

section \<open>Lemmas\<close>

text \<open>
  Injected failures that are API errors other than NotFound: the server answers NotFound only for
  objects that do not exist.
\<close>

definition faults_ok :: "world \<Rightarrow> bool" where
  "faults_ok w \<longleftrightarrow> list_all (\<lambda>f. case f of None \<Rightarrow> True
     | Some e \<Rightarrow> (case e of ErrAPI r m \<Rightarrow> r \<noteq> NotFound | _ \<Rightarrow> False)) (w_faults w)"

lemma faults_ok_update [simp]:
  "faults_ok (w\<lparr>w_objs := x\<rparr>) = faults_ok w" "faults_ok (w\<lparr>w_cis := y\<rparr>) = faults_ok w"
  by (simp_all add: faults_ok_def)

lemma next_fault_ok:
  assumes "next_fault w = (f, w')" "faults_ok w"
  shows "faults_ok w' \<and> (f = None \<or> (\<exists>r m. f = Some (ErrAPI r m) \<and> r \<noteq> NotFound))"
  using assms by (auto simp: next_fault_def faults_ok_def split: list.splits option.splits err.splits)

lemma next_fault_frame [simp]:
  "next_fault w = (f, w') \<Longrightarrow> w_objs w' = w_objs w"
  "next_fault w = (f, w') \<Longrightarrow> w_cis w' = w_cis w"
  "next_fault w = (f, w') \<Longrightarrow> w_now w' = w_now w"
  by (auto simp: next_fault_def split: list.splits)

lemma next_fault_Nil [simp]: "w_faults w = [] \<Longrightarrow> next_fault w = (None, w)"
  by (simp add: next_fault_def)

text \<open>What a sequence of requests may have changed: only the objects with the given keys.\<close>

definition touches :: "objkey set \<Rightarrow> world \<Rightarrow> world \<Rightarrow> bool" where
  "touches K w w' \<longleftrightarrow> map_of (w_objs w') |` (- K) = map_of (w_objs w) |` (- K)
     \<and> w_cis w' = w_cis w \<and> w_now w' = w_now w"

lemma touches_refl [simp, intro]: "touches K w w"
  by (simp add: touches_def)

lemma touches_trans: "touches K w w' \<Longrightarrow> touches K w' w'' \<Longrightarrow> touches K w w''"
  by (simp add: touches_def)

lemma touches_obj: "touches K w w' \<Longrightarrow> k \<notin> K \<Longrightarrow> map_of (w_objs w') k = map_of (w_objs w) k"
  using restrict_in [of k "- K"] by (auto simp: touches_def dest: fun_cong [where x = k])

lemma touches_mono: "touches K w w' \<Longrightarrow> K \<subseteq> L \<Longrightarrow> touches L w w'"
proof -
  assume t: "touches K w w'" and "K \<subseteq> L"
  then have l: "- K \<inter> - L = - L" by blast
  have "map_of (w_objs w') |` (- K) |` (- L) = map_of (w_objs w) |` (- K) |` (- L)"
    using t by (simp only: touches_def)
  then have "map_of (w_objs w') |` (- L) = map_of (w_objs w) |` (- L)"
    by (simp only: restrict_restrict l)
  with t show ?thesis by (simp add: touches_def)
qed

lemma touches_cis: "touches K w w' \<Longrightarrow> w_cis w' = w_cis w" "touches K w w' \<Longrightarrow> w_now w' = w_now w"
  by (simp_all add: touches_def)

lemma Get_touches: "Get k w = (r, w') \<Longrightarrow> touches {} w w'"
  by (auto simp: Get_def touches_def split: prod.splits option.splits)

lemma Get_objs: "Get k w = (r, w') \<Longrightarrow> w_objs w' = w_objs w"
  by (auto simp: Get_def split: prod.splits option.splits)

lemma Get_found: "Get k w = (Inr o', w') \<Longrightarrow> map_of (w_objs w) k = Some o'"
  by (auto simp: Get_def split: prod.splits option.splits)

lemma ListObjs_touches: "ListObjs api kind ns sel w = (r, w') \<Longrightarrow> touches {} w w'"
  by (auto simp: ListObjs_def touches_def split: prod.splits option.splits)

lemma ListObjs_objs: "ListObjs api kind ns sel w = (r, w') \<Longrightarrow> w_objs w' = w_objs w"
  by (auto simp: ListObjs_def split: prod.splits option.splits)

lemma Create_touches: "Create o' w = (r, w') \<Longrightarrow> touches {okey o'} w w'"
  by (auto simp: Create_def touches_def Let_def split: prod.splits option.splits if_splits)

lemma Update_touches: "Update o' w = (r, w') \<Longrightarrow> touches {okey o'} w w'"
  by (auto simp: Update_def touches_def Let_def split: prod.splits option.splits if_splits)

lemma Delete_touches: "Delete k w = (r, w') \<Longrightarrow> touches {k} w w'"
  by (auto simp: Delete_def touches_def split: prod.splits option.splits if_splits)

lemma PatchObj_touches: "PatchObj orig o' w = (r, w') \<Longrightarrow> touches {okey o'} w w'"
  by (auto simp: PatchObj_def touches_def Let_def split: prod.splits option.splits)

lemma requests_faults_ok:
  "faults_ok w \<Longrightarrow> Get k w = (r, w') \<Longrightarrow> faults_ok w'"
  "faults_ok w \<Longrightarrow> Delete k w = (eo, w') \<Longrightarrow> faults_ok w'"
  "faults_ok w \<Longrightarrow> ListObjs api kind ns sel w = (l, w') \<Longrightarrow> faults_ok w'"
  "faults_ok w \<Longrightarrow> Create o' w = (r, w') \<Longrightarrow> faults_ok w'"
  "faults_ok w \<Longrightarrow> Update o' w = (r, w') \<Longrightarrow> faults_ok w'"
  "faults_ok w \<Longrightarrow> PatchObj orig o' w = (r, w') \<Longrightarrow> faults_ok w'"
  by (auto simp: Get_def Delete_def ListObjs_def Create_def Update_def PatchObj_def Let_def
      split: prod.splits option.splits if_splits dest: next_fault_ok)

lemma Get_error:
  assumes "Get k w = (Inl e, w')" "faults_ok w"
  shows "\<exists>r m. e = ErrAPI r m \<and> (r = NotFound \<longrightarrow> map_of (w_objs w) k = None)"
  using assms by (auto simp: Get_def not_found_def split: prod.splits option.splits dest!: next_fault_ok)

lemma Delete_error:
  assumes "Delete k w = (Some e, w')" "faults_ok w"
  shows "\<exists>r m. e = ErrAPI r m"
  using assms by (auto simp: Delete_def not_found_def split: prod.splits option.splits if_splits dest!: next_fault_ok)

text \<open>The object store: every object is stored once, under its own key.\<close>

definition objs_ok :: "world \<Rightarrow> bool" where
  "objs_ok w \<longleftrightarrow> gmap_ok (w_objs w) \<and> list_all (\<lambda>p. okey (snd p) = fst p) (w_objs w)"

lemma objs_ok_lookup: "objs_ok w \<Longrightarrow> map_of (w_objs w) k = Some obj \<Longrightarrow> okey obj = k"
  by (auto simp: objs_ok_def list_all_iff dest!: map_of_SomeD)

lemma set_gset_subset: "p \<in> set (gset k v m) \<Longrightarrow> p = (k, v) \<or> p \<in> set m"
  unfolding gset_def by (induction m) (auto split: if_splits)

lemma objs_ok_gset:
  assumes "objs_ok w" "okey obj = k" "w_objs w' = gset k obj (w_objs w)"
  shows "objs_ok w'"
  using assms by (auto simp: objs_ok_def list_all_iff dest!: set_gset_subset)

lemma objs_ok_cong: "w_objs w' = w_objs w \<Longrightarrow> objs_ok w' = objs_ok w"
  by (simp add: objs_ok_def)

lemma okey_meta [simp]:
  "okey (obj\<lparr>o_Meta := (o_Meta obj)\<lparr>om_CreationTimestamp := t, om_DeletionTimestamp := d\<rparr>\<rparr>) = okey obj"
  "okey (obj\<lparr>o_Meta := (o_Meta obj)\<lparr>om_UID := u, om_CreationTimestamp := t, om_DeletionTimestamp := d\<rparr>\<rparr>) = okey obj"
  "okey (obj\<lparr>o_Meta := merge_meta a b (o_Meta obj)\<rparr>) = okey obj"
  by (simp_all add: okey_def merge_meta_def)

text \<open>The outcomes of a successful create-or-update whose mutation keeps the key.\<close>

lemma CreateOrUpdate_cases:
  assumes "CreateOrUpdate obj f w = (Inr r, w')" "faults_ok w" "objs_ok w" "\<And>x. okey (f x) = okey x"
  obtains
    (created) "map_of (w_objs w) (okey obj) = None"
      "r = (f obj)\<lparr>o_Meta := (o_Meta (f obj))\<lparr>om_CreationTimestamp := w_now w, om_DeletionTimestamp := 0\<rparr>\<rparr>"
      "w_objs w' = gset (okey obj) r (w_objs w)"
  | (unchanged) "map_of (w_objs w) (okey obj) = Some r" "f r = r" "w_objs w' = w_objs w"
  | (updated) old where "map_of (w_objs w) (okey obj) = Some old"
      "r = (f old)\<lparr>o_Meta := (o_Meta (f old))\<lparr>om_UID := om_UID (o_Meta old),
         om_CreationTimestamp := om_CreationTimestamp (o_Meta old),
         om_DeletionTimestamp := om_DeletionTimestamp (o_Meta old)\<rparr>\<rparr>"
      "w_objs w' = gset (okey obj) r (w_objs w)" "o_Immutable old \<longrightarrow> o_Data (f old) = o_Data old"
proof -
  obtain g w1 where g: "Get (okey obj) w = (g, w1)" by fastforce
  have o1: "w_objs w1 = w_objs w" "w_now w1 = w_now w"
    using Get_objs [OF g] touches_cis(2) [OF Get_touches [OF g]] by simp_all
  show thesis
  proof (cases g)
    case (Inl e)
    then have nf: "IsNotFound e" "Create (f obj) w1 = (Inr r, w')"
      using assms(1) g by (auto simp: CreateOrUpdate_def split: if_splits)
    with Get_error [OF _ assms(2)] g Inl have "map_of (w_objs w) (okey obj) = None"
      by (force simp: IsNotFound_def)
    with nf(2) o1 assms(4) show thesis
      by (intro created) (auto simp: Create_def Let_def split: prod.splits option.splits if_splits)
  next
    case (Inr old)
    then have old: "map_of (w_objs w) (okey obj) = Some old" using Get_found g by blast
    then have k: "okey (f old) = okey obj" using objs_ok_lookup [OF assms(3)] assms(4) by simp
    show thesis
    proof (cases "f old = old")
      case True
      with assms(1) g Inr o1 old show thesis by (intro unchanged) (auto simp: CreateOrUpdate_def)
    next
      case False
      with assms(1) g Inr have u: "Update (f old) w1 = (Inr r, w')" by (simp add: CreateOrUpdate_def)
      show thesis
        using u old k o1 by (intro updated [OF old])
          (auto simp: Update_def Let_def split: prod.splits option.splits if_splits)
    qed
  qed
qed

lemma CreateOrUpdate_touches:
  assumes "CreateOrUpdate obj f w = (r, w')" "objs_ok w" "\<And>x. okey (f x) = okey x"
  shows "touches {okey obj} w w'"
proof -
  obtain g w1 where g: "Get (okey obj) w = (g, w1)" by fastforce
  have t: "touches {okey obj} w w1" using touches_mono [OF Get_touches [OF g]] by simp
  have "touches {okey obj} w1 w'"
  proof (cases g)
    case (Inl e)
    with assms(1,3) g show ?thesis
      by (auto simp: CreateOrUpdate_def split: if_splits dest: Create_touches)
  next
    case (Inr old)
    then have "okey old = okey obj" using Get_found g objs_ok_lookup [OF assms(2)] by blast
    with assms(1,3) g Inr show ?thesis
      by (auto simp: CreateOrUpdate_def split: if_splits dest: Update_touches)
  qed
  with t show ?thesis by (rule touches_trans)
qed

lemma CreateOrUpdate_faults_ok:
  "CreateOrUpdate obj f w = (r, w') \<Longrightarrow> faults_ok w \<Longrightarrow> faults_ok w'"
  by (auto simp: CreateOrUpdate_def split: prod.splits sum.splits if_splits dest: requests_faults_ok)

lemma failed_requests:
  "Create obj w = (Inl e, w') \<Longrightarrow> w_objs w' = w_objs w"
  "Update obj w = (Inl e, w') \<Longrightarrow> w_objs w' = w_objs w"
  by (auto simp: Create_def Update_def Let_def split: prod.splits option.splits if_splits)

lemma CreateOrUpdate_failed: "CreateOrUpdate obj f w = (Inl e, w') \<Longrightarrow> w_objs w' = w_objs w"
  by (auto simp: CreateOrUpdate_def split: prod.splits sum.splits if_splits) (metis Get_objs failed_requests)+

text \<open>A merge patch against the very object it was computed from stores the object in memory.\<close>

lemma merge_same [simp]: "merge x y x = y" "merge x x y = y"
  by (simp_all add: merge_def)

lemma merge_reinstall_same [simp]: "merge_reinstall_fields a b a = b" "merge_reinstall_fields a a b = b"
  by (simp_all add: merge_reinstall_fields_def)

lemma merge_paused_same [simp]: "merge_paused_fields a b a = b" "merge_paused_fields a a b = b"
  by (simp_all add: merge_paused_fields_def)

lemma merge_struct_same:
  "(\<And>a b. f a b a = b) \<Longrightarrow> merge_struct z f a b a = b"
  "(\<And>a b. f a a b = b) \<Longrightarrow> merge_struct z f a a b = b"
  by (cases a; cases b; simp)+

lemma merge_status_same [simp]: "merge_status a b a = b" "merge_status a a b = b"
  by (simp_all add: merge_status_def merge_struct_same)

text \<open>Requests that fail leave the stored state alone, so a retried request starts from it.\<close>

definition same_state :: "world \<Rightarrow> world \<Rightarrow> bool" where
  "same_state w v \<longleftrightarrow> w_objs v = w_objs w \<and> w_cis v = w_cis w \<and> w_now v = w_now w"

lemma same_state_refl [simp]: "same_state w w"
  by (simp add: same_state_def)

lemma same_state_trans: "same_state u v \<Longrightarrow> same_state v w \<Longrightarrow> same_state u w"
  by (simp add: same_state_def)

lemma OnError_last_attempt:
  assumes "\<And>w w' e. fn w = (Inl e, w') \<Longrightarrow> same_state w w'"
    and "OnError (Suc n) retriable fn w = (r, w')"
  shows "\<exists>v. same_state w v \<and> fn v = (r, w')"
  using assms(2)
proof (induction n arbitrary: w)
  case 0
  then show ?case by (auto intro: exI [of _ w])
next
  case (Suc n)
  obtain x w1 where x: "fn w = (x, w1)" by fastforce
  show ?case
  proof (cases x)
    case (Inl e)
    show ?thesis
    proof (cases "retriable e")
      case True
      then have "OnError (Suc n) retriable fn w1 = (r, w')" using Suc.prems x Inl by simp
      from Suc.IH [OF this] show ?thesis using assms(1) x Inl same_state_trans by blast
    qed (use Suc.prems x Inl in \<open>auto intro: exI [of _ w]\<close>)
  qed (use Suc.prems x in \<open>auto intro: exI [of _ w]\<close>)
qed

lemma OnError_success: "fn w = (Inr x, w') \<Longrightarrow> OnError (Suc n) retriable fn w = (Inr x, w')"
  by (cases n) simp_all

lemma StatusPatchCI_fail: "StatusPatchCI orig ci w = (Inl e, w') \<Longrightarrow> same_state w w'"
  by (auto simp: StatusPatchCI_def same_state_def Let_def split: prod.splits option.splits)

lemma StatusPatchCI_ok:
  assumes "StatusPatchCI orig ci w = (Inr ci', w')"
  shows "\<exists>s. map_of (w_cis w) (ci_key ci) = Some s
    \<and> ci' = s\<lparr>ci_Status := merge_status (ci_Status orig) (ci_Status ci) (ci_Status s)\<rparr>
    \<and> w_cis w' = gset (ci_key ci) ci' (w_cis w) \<and> w_objs w' = w_objs w \<and> w_now w' = w_now w"
  using assms by (auto simp: StatusPatchCI_def Let_def split: prod.splits option.splits)

text \<open>
  The contract of a status patch that the reconcilers rely on: objects and other ClusterInstances are
  left alone, a failure changes nothing, and after a success memory and server agree on the merged
  object.
\<close>

locale status_patcher =
  fixes patch :: "ClusterInstance \<Rightarrow> ClusterInstance \<Rightarrow> world \<Rightarrow> err option \<times> ClusterInstance \<times> world"
  assumes patch_frame:
      "patch orig ci w = (eo, ci', w') \<Longrightarrow> w_objs w' = w_objs w \<and> w_now w' = w_now w"
    and patch_fail: "patch orig ci w = (Some e, ci', w') \<Longrightarrow> ci' = ci \<and> w_cis w' = w_cis w"
    and patch_ok: "patch orig ci w = (None, ci', w') \<Longrightarrow>
      \<exists>s. map_of (w_cis w) (ci_key ci) = Some s
        \<and> ci' = s\<lparr>ci_Status := merge_status (ci_Status orig) (ci_Status ci) (ci_Status s)\<rparr>
        \<and> w_cis w' = gset (ci_key ci) ci' (w_cis w)"
begin

lemma patch_other_ci:
  "patch orig ci w = (eo, ci', w') \<Longrightarrow> k \<noteq> ci_key ci \<Longrightarrow> map_of (w_cis w') k = map_of (w_cis w) k"
  by (cases eo) (auto dest: patch_fail patch_ok)

text \<open>Without a concurrent writer (the server still holds the original) memory is stored as it is.\<close>

lemma patch_synced:
  assumes "patch orig ci w = (None, ci', w')" "map_of (w_cis w) (ci_key ci) = Some orig"
    "ci_Meta ci = ci_Meta orig" "ci_Spec ci = ci_Spec orig"
  shows "ci' = ci \<and> map_of (w_cis w') (ci_key ci) = Some ci"
  using patch_ok [OF assms(1)] assms(2-4) by auto

text \<open>The spec in memory is replaced by the server's.\<close>

lemma patch_spec:
  assumes "patch orig ci w = (None, ci', w')" "map_of (w_cis w) (ci_key ci) = Some s"
  shows "ci_Spec ci' = ci_Spec s \<and> ci_Meta ci' = ci_Meta s"
  using patch_ok [OF assms(1)] assms(2) by auto

end

lemma PatchCIStatus_cases:
  assumes "PatchCIStatus orig ci w = (eo, ci', w')"
  obtains v r where "same_state w v" "StatusPatchCI orig ci v = (r, w')"
    "eo = (case r of Inl e \<Rightarrow> Some (ErrWrap ''failed to update ClusterInstance status: '' e) | Inr x \<Rightarrow> None)"
    "ci' = (case r of Inl e \<Rightarrow> ci | Inr x \<Rightarrow> x)"
proof -
  obtain r w1 where r: "OnError RetryBackoff30Seconds isRetriable (StatusPatchCI orig ci) w = (r, w1)"
    by fastforce
  with assms have "w1 = w'"
    "eo = (case r of Inl e \<Rightarrow> Some (ErrWrap ''failed to update ClusterInstance status: '' e) | Inr x \<Rightarrow> None)"
    "ci' = (case r of Inl e \<Rightarrow> ci | Inr x \<Rightarrow> x)"
    by (auto simp: PatchCIStatus_def RetryOnRetriable_def split: sum.splits)
  moreover obtain v where "same_state w v" "StatusPatchCI orig ci v = (r, w1)"
    using OnError_last_attempt [OF _ r [unfolded RetryBackoff30Seconds_Suc]] StatusPatchCI_fail by blast
  ultimately show ?thesis using that by blast
qed

interpretation ci_status: status_patcher PatchCIStatus
proof
  fix orig ci w eo ci' w' assume "PatchCIStatus orig ci w = (eo, ci', w')"
  then show "w_objs w' = w_objs w \<and> w_now w' = w_now w"
    by (rule PatchCIStatus_cases)
      (auto simp: same_state_def split: sum.splits dest: StatusPatchCI_fail StatusPatchCI_ok)
next
  fix orig ci w e ci' w' assume "PatchCIStatus orig ci w = (Some e, ci', w')"
  then show "ci' = ci \<and> w_cis w' = w_cis w"
    by (rule PatchCIStatus_cases) (auto simp: same_state_def split: sum.splits dest: StatusPatchCI_fail)
next
  fix orig ci w ci' w' assume "PatchCIStatus orig ci w = (None, ci', w')"
  then show "\<exists>s. map_of (w_cis w) (ci_key ci) = Some s
      \<and> ci' = s\<lparr>ci_Status := merge_status (ci_Status orig) (ci_Status ci) (ci_Status s)\<rparr>
      \<and> w_cis w' = gset (ci_key ci) ci' (w_cis w)"
    by (rule PatchCIStatus_cases) (auto simp: same_state_def split: sum.splits dest!: StatusPatchCI_ok)
qed

text \<open>Without injected failures the patch of an existing ClusterInstance succeeds.\<close>

lemma PatchCIStatus_no_fault:
  assumes "w_faults w = []" "map_of (w_cis w) (ci_key ci) = Some s"
  shows "PatchCIStatus orig ci w =
    (None, s\<lparr>ci_Status := merge_status (ci_Status orig) (ci_Status ci) (ci_Status s)\<rparr>,
     w\<lparr>w_cis := gset (ci_key ci) (s\<lparr>ci_Status := merge_status (ci_Status orig) (ci_Status ci) (ci_Status s)\<rparr>) (w_cis w)\<rparr>)"
  using assms OnError_success [of "StatusPatchCI orig ci" w, where n = "Suc 28" and retriable = isRetriable]
  unfolding PatchCIStatus_def RetryOnRetriable_def RetryBackoff30Seconds_Suc
  by (simp add: StatusPatchCI_def Let_def)


text \<open>The update goes over a conflict, which ends the patch.\<close>

lemma conflict_handling:
  assumes "w_faults w = [Some (ErrAPI Conflict m)]" "map_of (w_cis w) (ci_key ci) = Some s"
  shows "\<exists>w'. UpdateCIStatus ci w = (None, s\<lparr>ci_Status := ci_Status ci\<rparr>, w') \<and> w_objs w' = w_objs w"
    "\<exists>e w'. PatchCIStatus orig ci w = (Some e, ci, w') \<and> w_cis w' = w_cis w"
  using assms
  by (simp_all add: UpdateCIStatus_def RetryOnConflictOrRetriable_def PatchCIStatus_def RetryOnRetriable_def RetryBackoff30Seconds_Suc
      StatusUpdateCI_def StatusPatchCI_def next_fault_def isConflictOrRetriable_def isRetriable_def numeral_eq_Suc Let_def)

section \<open>The retry budget\<close>

lemma StatusPatchCI_fault:
  "w_faults w = Some e # fs \<Longrightarrow> StatusPatchCI orig ci w = (Inl e, w\<lparr>w_faults := fs\<rparr>)"
  by (simp add: StatusPatchCI_def next_fault_def)

lemma StatusPatchCI_no_fault:
  "w_faults w = [] \<or> hd (w_faults w) = None \<Longrightarrow> map_of (w_cis w) (ci_key ci) = Some s \<Longrightarrow>
   \<exists>w'. StatusPatchCI orig ci w = (Inr (s\<lparr>ci_Status := merge_status (ci_Status orig) (ci_Status ci) (ci_Status s)\<rparr>), w')"
  by (cases "w_faults w") (auto simp: StatusPatchCI_def next_fault_def Let_def)

lemma OnError_budget:
  assumes "\<forall>e\<in>set errs. retriable e" "rest = [] \<or> hd rest = None" "map_of (w_cis w) (ci_key ci) = Some s"
    "w_faults w = map Some errs @ rest"
  shows "(\<exists>x w'. OnError (Suc n) retriable (StatusPatchCI orig ci) w = (Inr x, w')) \<longleftrightarrow> length errs \<le> n"
  using assms
proof (induction n arbitrary: errs w)
  case 0
  then show ?case
  proof (cases errs)
    case Nil
    then show ?thesis using 0 StatusPatchCI_no_fault [of w ci s orig] by auto
  next
    case (Cons e es)
    then show ?thesis using 0 StatusPatchCI_fault [of w e "map Some es @ rest" orig ci] by simp
  qed
next
  case (Suc n)
  show ?case
  proof (cases errs)
    case Nil
    then show ?thesis using Suc.prems StatusPatchCI_no_fault [of w ci s orig] by auto
  next
    case (Cons e es)
    then have f: "StatusPatchCI orig ci w = (Inl e, w\<lparr>w_faults := map Some es @ rest\<rparr>)"
      using Suc.prems(4) StatusPatchCI_fault by simp
    have "(\<exists>x w'. OnError (Suc n) retriable (StatusPatchCI orig ci) (w\<lparr>w_faults := map Some es @ rest\<rparr>) = (Inr x, w'))
        \<longleftrightarrow> length es \<le> n"
      using Suc.prems Cons by (intro Suc.IH) simp_all
    with f Cons Suc.prems(1) show ?thesis by simp
  qed
qed

text \<open>C35: A status patch survives any 29 retriable failures in a row and no more: when the API server answers with
  internal errors, is unavailable or refuses the connection, and then recovers, \<open>PatchCIStatus\<close> on an
  existing ClusterInstance succeeds if and only if the recovery comes within its 30 attempts.\<close>

theorem status_patch_retry_budget:
  assumes "\<forall>e\<in>set errs. isRetriable e" "rest = [] \<or> hd rest = None" "map_of (w_cis w) (ci_key ci) = Some s"
    "w_faults w = map Some errs @ rest"
  shows "fst (PatchCIStatus orig ci w) = None \<longleftrightarrow> length errs < 30"
proof -
  obtain r w' where r: "OnError (Suc 29) isRetriable (StatusPatchCI orig ci) w = (r, w')" by fastforce
  have "fst (PatchCIStatus orig ci w) = None \<longleftrightarrow> (\<exists>x. r = Inr x)"
    using r by (cases r) (simp_all add: PatchCIStatus_def RetryOnRetriable_def RetryBackoff30Seconds_def numeral_eq_Suc)
  also have "\<dots> \<longleftrightarrow> length errs \<le> 29" using OnError_budget [OF assms, where n = 29 and orig = orig] unfolding r by simp
  finally show ?thesis by linarith
qed


definition flaky_world :: world where
  "flaky_world = \<lparr>w_now = 9, w_faults = map Some [ErrAPI ServiceUnavailable [], ErrAPI InternalError []], w_objs = [],
     w_cis = [(ci_key sample_ci, sample_ci)]\<rparr>"

theorem status_patch_retry_budget_witness: "fst (PatchCIStatus sample_ci sample_ci flaky_world) = None"
  using status_patch_retry_budget [of "[ErrAPI ServiceUnavailable [], ErrAPI InternalError []]" "[]" flaky_world sample_ci sample_ci]
  by (simp add: flaky_world_def isRetriable_def)

end
