(* ===== verification/Manifests.thy ===== *)
theory Manifests
  imports API_Server
begin

text \<open>
  \<open>api/v1alpha1/clusterinstance_utils.go\<close> and \<open>internal/controller/clusterinstance/ownership.go\<close>:
  manifest references and their identity, the extra labels and annotations of a kind, the paused
  annotation, and the owned-by label. Nil receivers and pointers do not occur in the callers.
\<close>

section \<open>Accessors of the ClusterInstance (clusterinstance\_utils.go)\<close>

definition cluster_ExtraAnnotationSearch :: "ClusterInstanceSpec \<Rightarrow> string \<Rightarrow> smap option" where
  "cluster_ExtraAnnotationSearch c kind = map_of (s_ExtraAnnotations c) kind"

definition node_ExtraAnnotationSearch :: "NodeSpec \<Rightarrow> string \<Rightarrow> ClusterInstanceSpec \<Rightarrow> smap option" where
  "node_ExtraAnnotationSearch node kind cluster =
     (case map_of (n_ExtraAnnotations node) kind of
        Some annotations \<Rightarrow> Some annotations
      | None \<Rightarrow> cluster_ExtraAnnotationSearch cluster kind)"

definition cluster_ExtraLabelSearch :: "ClusterInstanceSpec \<Rightarrow> string \<Rightarrow> smap option" where
  "cluster_ExtraLabelSearch c kind = map_of (s_ExtraLabels c) kind"

definition node_ExtraLabelSearch :: "NodeSpec \<Rightarrow> string \<Rightarrow> ClusterInstanceSpec \<Rightarrow> smap option" where
  "node_ExtraLabelSearch node kind cluster =
     (case map_of (n_ExtraLabels node) kind of
        Some labels \<Rightarrow> Some labels
      | None \<Rightarrow> cluster_ExtraLabelSearch cluster kind)"

definition MatchesIdentity :: "ManifestReference \<Rightarrow> ManifestReference \<Rightarrow> bool" where
  "MatchesIdentity m other \<longleftrightarrow>
     (m_APIGroup m = None \<and> m_APIGroup other = None \<or>
      m_APIGroup m \<noteq> None \<and> m_APIGroup other \<noteq> None \<and> the (m_APIGroup m) = the (m_APIGroup other))
     \<and> m_Kind m = m_Kind other \<and> m_Name m = m_Name other \<and> m_Namespace m = m_Namespace other"

definition UpdateStatus :: "time \<Rightarrow> string \<Rightarrow> string \<Rightarrow> ManifestReference \<Rightarrow> ManifestReference" where
  "UpdateStatus now status message m =
     (if m_Status m \<noteq> status \<or> m_Message m \<noteq> message
      then m\<lparr>m_Status := status, m_Message := message, m_LastAppliedTime := now\<rparr> else m)"

definition manifest_String :: "ManifestReference \<Rightarrow> string" where
  "manifest_String m =
     (let apiGroup = (case m_APIGroup m of None \<Rightarrow> [] | Some g \<Rightarrow> if g \<noteq> [] then ''.'' @ g else [])
      in if m_Namespace m \<noteq> []
         then ToLower (m_Kind m) @ apiGroup @ ''/namespaces/'' @ m_Namespace m @ ''/'' @ m_Name m
         else ToLower (m_Kind m) @ apiGroup @ ''/'' @ m_Name m)"

definition IndexOfManifestByIdentity :: "ManifestReference \<Rightarrow> ManifestReference list \<Rightarrow> err + nat" where
  "IndexOfManifestByIdentity target manifestRefs =
     (case find_index (\<lambda>ref. MatchesIdentity ref target) manifestRefs of
        Some i \<Rightarrow> Inr i
      | None \<Rightarrow> Inl (ErrNew (''manifestReference ('' @ manifest_String target @ '') not found'')))"

definition IsPaused :: "ClusterInstance \<Rightarrow> bool" where
  "IsPaused ci \<longleftrightarrow> ghas (om_Annotations (ci_Meta ci)) PausedAnnotation"

section \<open>Ownership (ownership.go, helper.go)\<close>

definition OwnedByLabel :: string where
  "OwnedByLabel = Group @ ''/owned-by''"

definition GetResourceId :: "string \<Rightarrow> string \<Rightarrow> string \<Rightarrow> string" where
  "GetResourceId name namespace kind =
     (if namespace \<noteq> [] then kind @ '':'' @ namespace @ ''/'' @ name else kind @ '':'' @ name)"

definition GetOwner :: "kobject \<Rightarrow> string" where
  "GetOwner obj = gindex (om_Labels (o_Meta obj)) OwnedByLabel"

definition VerifyOwnership :: "kobject \<Rightarrow> string \<Rightarrow> err option" where
  "VerifyOwnership obj ownerRefLabel =
     (if GetOwner obj \<noteq> ownerRefLabel then
        (let resourceId = GetResourceId (om_Name (o_Meta obj)) (om_Namespace (o_Meta obj)) (o_Kind obj)
         in Some (ErrWrap (''ownership verification failed for object '' @ resourceId @ '': '')
              (NewNotOwnedObjectError ownerRefLabel resourceId)))
      else None)"

definition GenerateOwnedByLabelValue :: "string \<Rightarrow> string \<Rightarrow> string" where
  "GenerateOwnedByLabelValue namespace name = namespace @ ''_'' @ name"

definition GetNamespacedNameFromOwnedByLabel :: "string \<Rightarrow> err + (string \<times> string)" where
  "GetNamespacedNameFromOwnedByLabel ownedByLabel =
     (case Split (CHR ''_'') ownedByLabel of
        [namespace, name] \<Rightarrow> Inr (namespace, name)
      | _ \<Rightarrow> Inl (ErrNew (''expecting single underscore delimiter in '' @ ownedByLabel @ '' label value'')))"

definition GetNameFromOwnedByLabel :: "string \<Rightarrow> string" where
  "GetNameFromOwnedByLabel ownedByLabel =
     (case GetNamespacedNameFromOwnedByLabel ownedByLabel of Inl e \<Rightarrow> [] | Inr r \<Rightarrow> snd r)"

section \<open>Lemmas\<close>

lemma MatchesIdentity_iff:
  "MatchesIdentity m m' \<longleftrightarrow>
     m_APIGroup m = m_APIGroup m' \<and> m_Kind m = m_Kind m' \<and> m_Name m = m_Name m' \<and> m_Namespace m = m_Namespace m'"
  by (cases "m_APIGroup m"; cases "m_APIGroup m'") (auto simp: MatchesIdentity_def)

definition identity :: "ManifestReference \<Rightarrow> string option \<times> string \<times> string \<times> string" where
  "identity m = (m_APIGroup m, m_Kind m, m_Name m, m_Namespace m)"

lemma MatchesIdentity_identity: "MatchesIdentity m m' \<longleftrightarrow> identity m = identity m'"
  by (auto simp: MatchesIdentity_iff identity_def)

lemma UpdateStatus_identity [simp]: "identity (UpdateStatus now s msg m) = identity m"
  by (simp add: UpdateStatus_def identity_def)

lemma IndexOfManifest_Inr:
  "IndexOfManifestByIdentity t ms = Inr i \<Longrightarrow> i < length ms \<and> identity (ms ! i) = identity t"
  by (auto simp: IndexOfManifestByIdentity_def MatchesIdentity_identity split: option.splits
      dest!: find_index_SomeD)

lemma IndexOfManifest_Inl_iff:
  "(\<exists>e. IndexOfManifestByIdentity t ms = Inl e) \<longleftrightarrow> identity t \<notin> identity ` set ms"
proof -
  have "(\<exists>e. IndexOfManifestByIdentity t ms = Inl e) \<longleftrightarrow> find_index (\<lambda>ref. MatchesIdentity ref t) ms = None"
    by (cases "find_index (\<lambda>ref. MatchesIdentity ref t) ms") (simp_all add: IndexOfManifestByIdentity_def del: find_index_None)
  then show ?thesis unfolding find_index_None MatchesIdentity_identity image_iff by metis
qed

lemma VerifyOwnership_not_owned:
  "VerifyOwnership obj l = Some e \<Longrightarrow> IsNotOwnedObject (Some (ErrWrap p e))"
  by (auto simp: VerifyOwnership_def Let_def NewNotOwnedObjectError_def New_def IsNotOwnedObject_def
      isErrorOfType_def ci_error_of_type_def split: if_splits)

lemma VerifyOwnership_None [simp]: "VerifyOwnership obj l = None \<longleftrightarrow> GetOwner obj = l"
  by (simp add: VerifyOwnership_def Let_def)

text \<open>The owned-by label of a ClusterInstance names it: parsing the label value of a namespace and
  a name without underscores (no Kubernetes name has one) gives them back.\<close>

theorem owned_by_round_trip:
  assumes "CHR ''_'' \<notin> set namespace" "CHR ''_'' \<notin> set name"
  shows "GetNamespacedNameFromOwnedByLabel (GenerateOwnedByLabelValue namespace name) = Inr (namespace, name)"
  using assms by (simp add: GetNamespacedNameFromOwnedByLabel_def GenerateOwnedByLabelValue_def
      Split_append_sep Split_free)

theorem owned_by_round_trip_witness:
  "GetNamespacedNameFromOwnedByLabel (GenerateOwnedByLabelValue ''ns'' ''c'') = Inr (''ns'', ''c'')"
  by (rule owned_by_round_trip) simp_all

end
