(* ===== verification/Rendered_Object.thy ===== *)
theory Rendered_Object
  imports Manifests "HOL-Library.Multiset"
begin

text \<open>
  \<open>internal/controller/clusterinstance/rendered_object.go\<close>: rendered objects, their sync wave and
  identity, and the collections ordered by sync wave. An unstructured object is its JSON document
  (\<open>None\<close> for a nil map); marshalling a manifest and reading it back gives the same document. The
  order \<open>sort.Slice\<close> gives to objects of equal kind is not specified by Go; the model takes the
  stable one.
\<close>

datatype action = actionNone | actionRender | actionSuppress | actionPrune

record RenderedObject =
  ro_object :: "(string \<times> json) list option"
  ro_action :: action

definition WaveAnnotation :: string where
  "WaveAnnotation = Group @ ''/sync-wave''"

definition DefaultWaveAnnotation :: string where
  "DefaultWaveAnnotation = ''0''"

section \<open>Documents (apimachinery unstructured)\<close>

fun nestedField :: "json \<Rightarrow> string list \<Rightarrow> json option" where
  "nestedField j [] = Some j"
| "nestedField (JObj m) (f # fs) = (case map_of m f of None \<Rightarrow> None | Some v \<Rightarrow> nestedField v fs)"
| "nestedField j (f # fs) = None"

definition getNestedString :: "(string \<times> json) list option \<Rightarrow> string list \<Rightarrow> string" where
  "getNestedString obj path =
     (case obj of None \<Rightarrow> []
      | Some m \<Rightarrow> (case nestedField (JObj m) path of Some (JStr s) \<Rightarrow> s | _ \<Rightarrow> []))"

fun string_value :: "json \<Rightarrow> string option" where
  "string_value (JStr s) = Some s"
| "string_value JNull = Some []"
| "string_value _ = None"

definition stringMap :: "(string \<times> json) list option \<Rightarrow> string list \<Rightarrow> smap" where
  "stringMap obj path =
     (case obj of None \<Rightarrow> []
      | Some m \<Rightarrow>
          (case nestedField (JObj m) path of
             Some (JObj kvs) \<Rightarrow>
               if list_all (\<lambda>p. string_value (snd p) \<noteq> None) kvs
               then map (\<lambda>p. (fst p, the (string_value (snd p)))) kvs else []
           | _ \<Rightarrow> []))"

section \<open>Rendered objects\<close>

definition GetAPIVersion :: "RenderedObject \<Rightarrow> string" where
  "GetAPIVersion r = getNestedString (ro_object r) [''apiVersion'']"

definition GetKind :: "RenderedObject \<Rightarrow> string" where
  "GetKind r = getNestedString (ro_object r) [''kind'']"

definition GetNamespace :: "RenderedObject \<Rightarrow> string" where
  "GetNamespace r = getNestedString (ro_object r) [''metadata'', ''namespace'']"

definition GetName :: "RenderedObject \<Rightarrow> string" where
  "GetName r = getNestedString (ro_object r) [''metadata'', ''name'']"

definition GetAnnotations :: "RenderedObject \<Rightarrow> smap" where
  "GetAnnotations r = stringMap (ro_object r) [''metadata'', ''annotations'']"

definition GetLabels :: "RenderedObject \<Rightarrow> smap" where
  "GetLabels r = stringMap (ro_object r) [''metadata'', ''labels'']"

text \<open>
  \<open>SetObject\<close> stores the document; decoding fails afterwards when the kind is empty, or unreadable
  because the apiVersion has more than one slash.
\<close>

definition SetObject :: "(string \<times> json) list \<Rightarrow> RenderedObject \<Rightarrow> err option \<times> RenderedObject" where
  "SetObject manifest r =
     (let r' = r\<lparr>ro_object := Some manifest\<rparr> in
      (if GetKind r' = [] \<or> length (Split (CHR ''/'') (GetAPIVersion r')) > 2
       then Some (ErrWrap ''failed to unmarshal JSON content into object: '' (ErrNew (''Object '' @ squote @ ''Kind'' @ squote @ '' is missing'')))
       else None, r'))"

definition NewRenderedObject :: "(string \<times> json) list \<Rightarrow> err option \<times> RenderedObject" where
  "NewRenderedObject manifest = SetObject manifest \<lparr>ro_object = None, ro_action = actionNone\<rparr>"

definition GetSyncWave :: "RenderedObject \<Rightarrow> err + int" where
  "GetSyncWave r =
     (let syncWaveStr = (case map_of (GetAnnotations r) WaveAnnotation of
            None \<Rightarrow> DefaultWaveAnnotation | Some s \<Rightarrow> s)
      in case Atoi syncWaveStr of
           None \<Rightarrow> Inl (ErrWrap (''failed to convert sync wave annotation '' @ syncWaveStr @ '' to int: '')
             (ErrNew ''invalid syntax''))
         | Some result \<Rightarrow> Inr result)"

definition GetResourceIdOf :: "RenderedObject \<Rightarrow> string" where
  "GetResourceIdOf r = GetResourceId (GetName r) (GetNamespace r) (GetKind r)"

text \<open>The manifest reference of a rendered object; \<open>None\<close> is the nil pointer.\<close>

definition ManifestReferenceOf :: "time \<Rightarrow> RenderedObject \<Rightarrow> ManifestReference option" where
  "ManifestReferenceOf now r =
     (case GetSyncWave r of
        Inl e \<Rightarrow> None
      | Inr syncWave \<Rightarrow> Some \<lparr>m_APIGroup = Some (GetAPIVersion r), m_Kind = GetKind r, m_Name = GetName r,
          m_Namespace = GetNamespace r, m_SyncWave = syncWave, m_Status = [], m_LastAppliedTime = now,
          m_Message = []\<rparr>)"

definition object_MatchesIdentity :: "RenderedObject \<Rightarrow> RenderedObject \<Rightarrow> bool" where
  "object_MatchesIdentity r other \<longleftrightarrow>
     GetAPIVersion r = GetAPIVersion other \<and> GetKind r = GetKind other
     \<and> GetName r = GetName other \<and> GetNamespace r = GetNamespace other"

definition IndexOfObjectByIdentity :: "RenderedObject \<Rightarrow> RenderedObject list \<Rightarrow> err + nat" where
  "IndexOfObjectByIdentity target objects =
     (case find_index (\<lambda>obj. object_MatchesIdentity obj target) objects of
        Some i \<Rightarrow> Inr i
      | None \<Rightarrow> Inl (ErrNew (''renderedObject ('' @ GetResourceIdOf target @ '') not found'')))"

section \<open>Collections by sync wave\<close>

type_synonym SyncWaveMap = "(int, RenderedObject list) gomap"

definition GetAscendingSyncWaves :: "SyncWaveMap \<Rightarrow> int list" where
  "GetAscendingSyncWaves s = sort (map fst s)"

definition GetDescendingSyncWaves :: "SyncWaveMap \<Rightarrow> int list" where
  "GetDescendingSyncWaves s = rev (sort (map fst s))"

definition GetObjectsForSyncWave :: "SyncWaveMap \<Rightarrow> int \<Rightarrow> RenderedObject list" where
  "GetObjectsForSyncWave s syncWave =
     (case map_of s syncWave of Some res \<Rightarrow> sort_key GetKind res | None \<Rightarrow> [])"

definition Add :: "RenderedObject \<Rightarrow> SyncWaveMap \<Rightarrow> err option \<times> SyncWaveMap" where
  "Add obj s =
     (if ro_object obj = None then (None, s)
      else case GetSyncWave obj of
        Inl e \<Rightarrow> (Some e, s)
      | Inr syncWave \<Rightarrow>
          (None, gset syncWave ((case map_of s syncWave of None \<Rightarrow> [] | Some objs \<Rightarrow> objs) @ [obj]) s))"

fun add_loop :: "(RenderedObject \<Rightarrow> 's \<Rightarrow> err option \<times> 's) \<Rightarrow> string \<Rightarrow> RenderedObject list \<Rightarrow> 's \<Rightarrow> err list \<times> 's" where
  "add_loop add what [] s = ([], s)"
| "add_loop add what (object # objects) s =
     (case add object s of
        (eo, s') \<Rightarrow>
          (case add_loop add what objects s' of
             (errs, s'') \<Rightarrow>
               ((case eo of None \<Rightarrow> []
                 | Some e \<Rightarrow> [ErrNew (''error adding object ('' @ GetResourceIdOf object @ '') to '' @ what
                     @ '', err: '' @ Error e)]) @ errs, s'')))"

definition AddObjects :: "RenderedObject list \<Rightarrow> SyncWaveMap \<Rightarrow> err option \<times> SyncWaveMap" where
  "AddObjects objects s =
     (case add_loop Add ''SyncWaveMap'' objects s of (errs, s') \<Rightarrow> (NewAggregate errs, s'))"

record RenderedObjectCollection =
  col_prune :: SyncWaveMap
  col_suppress :: SyncWaveMap
  col_render :: SyncWaveMap

definition AddObject :: "RenderedObject \<Rightarrow> RenderedObjectCollection \<Rightarrow> err option \<times> RenderedObjectCollection" where
  "AddObject object r =
     (case ro_action object of
        actionRender \<Rightarrow> (case Add object (col_render r) of (eo, s) \<Rightarrow> (eo, r\<lparr>col_render := s\<rparr>))
      | actionPrune \<Rightarrow> (case Add object (col_prune r) of (eo, s) \<Rightarrow> (eo, r\<lparr>col_prune := s\<rparr>))
      | actionSuppress \<Rightarrow> (case Add object (col_suppress r) of (eo, s) \<Rightarrow> (eo, r\<lparr>col_suppress := s\<rparr>))
      | actionNone \<Rightarrow> (None, r))"

definition collection_AddObjects ::
  "RenderedObject list \<Rightarrow> RenderedObjectCollection \<Rightarrow> err option \<times> RenderedObjectCollection" where
  "collection_AddObjects objects r =
     (case add_loop AddObject ''RenderedObjectCollection'' objects r of (errs, r') \<Rightarrow> (NewAggregate errs, r'))"

definition GetRenderObjects :: "RenderedObjectCollection \<Rightarrow> RenderedObject list" where
  "GetRenderObjects r =
     concat (map (GetObjectsForSyncWave (col_render r)) (GetAscendingSyncWaves (col_render r)))"

definition GetPruneObjects :: "RenderedObjectCollection \<Rightarrow> RenderedObject list" where
  "GetPruneObjects r =
     concat (map (GetObjectsForSyncWave (col_prune r)) (GetDescendingSyncWaves (col_prune r)))"

definition GetSuppressObjects :: "RenderedObjectCollection \<Rightarrow> RenderedObject list" where
  "GetSuppressObjects r =
     concat (map (GetObjectsForSyncWave (col_suppress r)) (GetAscendingSyncWaves (col_suppress r)))"


section \<open>Lemmas\<close>

text \<open>The objects of a sync wave map, as a multiset, and the invariant of the map.\<close>

definition wave_objects :: "SyncWaveMap \<Rightarrow> RenderedObject multiset" where
  "wave_objects s = mset (concat (map snd s))"

definition waves_ok :: "SyncWaveMap \<Rightarrow> bool" where
  "waves_ok s \<longleftrightarrow> gmap_ok s \<and> list_all (\<lambda>p. list_all (\<lambda>r. GetSyncWave r = Inr (fst p)) (snd p)) s"

definition addable :: "RenderedObject \<Rightarrow> bool" where
  "addable r \<longleftrightarrow> ro_object r \<noteq> None \<and> (\<exists>i. GetSyncWave r = Inr i)"

lemma addable_code [code]:
  "addable r \<longleftrightarrow> ro_object r \<noteq> None \<and> (case GetSyncWave r of Inl e \<Rightarrow> False | Inr i \<Rightarrow> True)"
  by (auto simp: addable_def split: sum.splits)

definition wave_of :: "RenderedObject \<Rightarrow> int" where
  "wave_of r = (case GetSyncWave r of Inr i \<Rightarrow> i | Inl e \<Rightarrow> 0)"

lemma mset_concat_gset:
  "mset (concat (map snd (gset k v s))) + mset (case map_of s k of None \<Rightarrow> [] | Some x \<Rightarrow> x)
     = mset (concat (map snd s)) + mset v"
  unfolding gset_def by (induction s) (auto simp: ac_simps)

lemma set_gset: "p \<in> set (gset k v s) \<Longrightarrow> p = (k, v) \<or> p \<in> set s"
  unfolding gset_def by (induction s) (auto split: if_splits)

lemma Add_objects:
  "wave_objects (snd (Add obj s)) = wave_objects s + (if addable obj then {#obj#} else {#})"
proof (cases "GetSyncWave obj")
  case (Inr k)
  let ?old = "case map_of s k of None \<Rightarrow> [] | Some objs \<Rightarrow> objs"
  have "mset (concat (map snd (gset k (?old @ [obj]) s))) + mset ?old
      = (mset (concat (map snd s)) + {#obj#}) + mset ?old"
    using mset_concat_gset [of k "?old @ [obj]" s] by (simp add: ac_simps)
  then have "mset (concat (map snd (gset k (?old @ [obj]) s))) = mset (concat (map snd s)) + {#obj#}"
    by (rule add_right_imp_eq)
  with Inr show ?thesis by (simp add: Add_def wave_objects_def addable_def)
qed (simp add: Add_def addable_def)

lemma Add_error: "fst (Add obj s) = None \<longleftrightarrow> ro_object obj = None \<or> addable obj"
  by (auto simp: Add_def addable_def split: sum.splits)

lemma Add_ok: "waves_ok s \<Longrightarrow> waves_ok (snd (Add obj s))"
  by (force simp: Add_def waves_ok_def list_all_iff split: sum.splits option.splits
      dest!: set_gset map_of_SomeD)

text \<open>What a loop of additions keeps and accumulates, for any collection.\<close>

lemma add_loop_inv:
  assumes "\<And>obj s. I s \<Longrightarrow> I (snd (add obj s))" "I s"
  shows "I (snd (add_loop add what objs s))"
  using assms(2)
proof (induction objs arbitrary: s)
  case (Cons x xs)
  from assms(1) [OF Cons.prems, of x] Cons.IH show ?case by (auto split: prod.splits) (metis snd_conv)
qed simp

lemma add_loop_count:
  fixes f :: "'s \<Rightarrow> RenderedObject multiset"
  assumes "\<And>obj s. f (snd (add obj s)) = f s + (if P obj then {#obj#} else {#})"
  shows "f (snd (add_loop add what objs s)) = f s + filter_mset P (mset objs)"
proof (induction objs arbitrary: s)
  case (Cons x xs)
  from assms [of x s] Cons [of "snd (add x s)"] show ?case by (auto split: prod.splits)
qed simp

lemma add_loop_errors:
  assumes "\<And>obj s. fst (add obj s) = None \<longleftrightarrow> Q obj"
  shows "fst (add_loop add what objs s) = [] \<longleftrightarrow> list_all Q objs"
proof (induction objs arbitrary: s)
  case (Cons x xs)
  from assms [of x s] Cons [of "snd (add x s)"] show ?case by (auto split: prod.splits option.splits)
qed simp

text \<open>Reading a sync wave map in wave order: all objects, sorted by wave and then by kind.\<close>

lemma concat_lookup:
  "gmap_ok s \<Longrightarrow> mset (concat (map (GetObjectsForSyncWave s) (map fst s))) = wave_objects s"
proof -
  assume ok: "gmap_ok s"
  have "map (\<lambda>k. mset (GetObjectsForSyncWave s k)) (map fst s) = map (\<lambda>p. mset (snd p)) s"
    using ok by (auto simp: gmap_ok_def GetObjectsForSyncWave_def)
  then show ?thesis
    by (metis (no_types, lifting) wave_objects_def mset_concat map_map comp_def map_eq_conv)
qed

lemma mset_waves:
  assumes "gmap_ok s"
  shows "mset (concat (map (GetObjectsForSyncWave s) (GetAscendingSyncWaves s))) = wave_objects s"
    and "mset (concat (map (GetObjectsForSyncWave s) (GetDescendingSyncWaves s))) = wave_objects s"
proof -
  have perm: "mset (concat (map f xs)) = mset (concat (map f ys))" if "mset xs = mset ys"
    for f :: "int \<Rightarrow> RenderedObject list" and xs ys
    using that by (simp add: mset_concat sum_mset_sum_list [symmetric] del: sum_mset_sum_list)
  show "mset (concat (map (GetObjectsForSyncWave s) (GetAscendingSyncWaves s))) = wave_objects s"
    using perm [of "GetAscendingSyncWaves s" "map fst s"] concat_lookup [OF assms]
    by (simp add: GetAscendingSyncWaves_def)
  show "mset (concat (map (GetObjectsForSyncWave s) (GetDescendingSyncWaves s))) = wave_objects s"
    using perm [of "GetDescendingSyncWaves s" "map fst s"] concat_lookup [OF assms]
    by (simp add: GetDescendingSyncWaves_def)
qed

lemma wave_of_lookup:
  "waves_ok s \<Longrightarrow> r \<in> set (GetObjectsForSyncWave s k) \<Longrightarrow> wave_of r = k"
  by (cases "map_of s k")
    (force simp: GetObjectsForSyncWave_def waves_ok_def list_all_iff wave_of_def dest: map_of_SomeD)+

definition in_order :: "(int \<Rightarrow> int \<Rightarrow> bool) \<Rightarrow> RenderedObject \<Rightarrow> RenderedObject \<Rightarrow> bool" where
  "in_order le a b \<longleftrightarrow> le (wave_of a) (wave_of b) \<and> (wave_of a = wave_of b \<longrightarrow> GetKind a \<le> GetKind b)"

lemma concat_sorted:
  assumes "waves_ok s" "sorted_wrt le ks" "distinct ks" "\<And>k. le k k"
  shows "sorted_wrt (in_order le) (concat (map (GetObjectsForSyncWave s) ks))"
  using assms(2,3)
proof (induction ks)
  case (Cons k ks)
  have "sorted (map GetKind (GetObjectsForSyncWave s k))"
    by (simp add: GetObjectsForSyncWave_def split: option.splits)
  then have "sorted_wrt (\<lambda>a b. GetKind a \<le> GetKind b) (GetObjectsForSyncWave s k)"
    by (simp only: sorted_map)
  then have "sorted_wrt (in_order le) (GetObjectsForSyncWave s k)"
    by (rule sorted_wrt_mono_rel [rotated]) (simp add: in_order_def assms(4) wave_of_lookup [OF assms(1)])
  moreover have "in_order le a b"
    if "a \<in> set (GetObjectsForSyncWave s k)" "b \<in> set (concat (map (GetObjectsForSyncWave s) ks))" for a b
  proof -
    from that(2) obtain k' where k': "k' \<in> set ks" "b \<in> set (GetObjectsForSyncWave s k')" by auto
    then have "le k k'" "k \<noteq> k'" using Cons.prems by auto
    then show ?thesis
      using wave_of_lookup [OF assms(1) that(1)] wave_of_lookup [OF assms(1) k'(2)] by (simp add: in_order_def)
  qed
  ultimately show ?case using Cons by (auto simp: sorted_wrt_append)
qed simp


section \<open>Properties of the collections\<close>

definition empty_collection :: RenderedObjectCollection where
  "empty_collection = \<lparr>col_prune = [], col_suppress = [], col_render = []\<rparr>"

definition collection_ok :: "RenderedObjectCollection \<Rightarrow> bool" where
  "collection_ok r \<longleftrightarrow> waves_ok (col_prune r) \<and> waves_ok (col_suppress r) \<and> waves_ok (col_render r)"

lemma AddObject_ok: "collection_ok r \<Longrightarrow> collection_ok (snd (AddObject obj r))"
  by (auto simp: AddObject_def collection_ok_def split: action.splits prod.splits dest: Add_ok [of _ obj])

lemma AddObject_objects:
  "wave_objects (col_render (snd (AddObject obj r))) =
     wave_objects (col_render r) + (if ro_action obj = actionRender \<and> addable obj then {#obj#} else {#})"
  "wave_objects (col_prune (snd (AddObject obj r))) =
     wave_objects (col_prune r) + (if ro_action obj = actionPrune \<and> addable obj then {#obj#} else {#})"
  "wave_objects (col_suppress (snd (AddObject obj r))) =
     wave_objects (col_suppress r) + (if ro_action obj = actionSuppress \<and> addable obj then {#obj#} else {#})"
  using Add_objects [of obj]
  by (auto simp: AddObject_def split: action.splits prod.splits) (metis snd_conv)+

lemma collection_AddObjects_objects:
  assumes "collection_AddObjects objs empty_collection = (eo, col)"
  shows "collection_ok col"
    and "wave_objects (col_render col) = filter_mset (\<lambda>r. ro_action r = actionRender \<and> addable r) (mset objs)"
    and "wave_objects (col_prune col) = filter_mset (\<lambda>r. ro_action r = actionPrune \<and> addable r) (mset objs)"
    and "wave_objects (col_suppress col) = filter_mset (\<lambda>r. ro_action r = actionSuppress \<and> addable r) (mset objs)"
proof -
  have col: "col = snd (add_loop AddObject ''RenderedObjectCollection'' objs empty_collection)"
    using assms by (simp add: collection_AddObjects_def split: prod.splits)
  have e: "collection_ok empty_collection" "wave_objects [] = {#}"
    by (simp_all add: collection_ok_def empty_collection_def waves_ok_def wave_objects_def)
  show "collection_ok col" unfolding col by (rule add_loop_inv [of collection_ok, OF AddObject_ok e(1)])
  show "wave_objects (col_render col) = filter_mset (\<lambda>r. ro_action r = actionRender \<and> addable r) (mset objs)"
    using add_loop_count [of "\<lambda>r. wave_objects (col_render r)", OF AddObject_objects(1)] e(2)
    by (simp add: col empty_collection_def)
  show "wave_objects (col_prune col) = filter_mset (\<lambda>r. ro_action r = actionPrune \<and> addable r) (mset objs)"
    using add_loop_count [of "\<lambda>r. wave_objects (col_prune r)", OF AddObject_objects(2)] e(2)
    by (simp add: col empty_collection_def)
  show "wave_objects (col_suppress col) = filter_mset (\<lambda>r. ro_action r = actionSuppress \<and> addable r) (mset objs)"
    using add_loop_count [of "\<lambda>r. wave_objects (col_suppress r)", OF AddObject_objects(3)] e(2)
    by (simp add: col empty_collection_def)
qed

text \<open>C29: The render list of a collection holds exactly the objects that were added with the render
  action and a readable sync wave, in ascending order of sync wave and, within a wave, of kind. The
  prune list holds exactly those with the prune action, in descending order of sync wave.\<close>

theorem collection_order:
  assumes "collection_AddObjects objs empty_collection = (eo, col)"
  shows "mset (GetRenderObjects col) = filter_mset (\<lambda>r. ro_action r = actionRender \<and> addable r) (mset objs)
    \<and> sorted_wrt (in_order (\<le>)) (GetRenderObjects col)
    \<and> mset (GetPruneObjects col) = filter_mset (\<lambda>r. ro_action r = actionPrune \<and> addable r) (mset objs)
    \<and> sorted_wrt (in_order (\<ge>)) (GetPruneObjects col)"
proof -
  note c = collection_AddObjects_objects [OF assms]
  have g: "gmap_ok (col_render col)" "gmap_ok (col_prune col)" "waves_ok (col_render col)" "waves_ok (col_prune col)"
    using c(1) by (simp_all add: collection_ok_def waves_ok_def)
  have "sorted_wrt (in_order (\<le>)) (GetRenderObjects col)"
    unfolding GetRenderObjects_def GetAscendingSyncWaves_def
    by (rule concat_sorted [OF g(3)]) (use g(1) in \<open>auto simp: gmap_ok_def\<close>)
  moreover have "sorted_wrt (in_order (\<ge>)) (GetPruneObjects col)"
    unfolding GetPruneObjects_def GetDescendingSyncWaves_def
    by (rule concat_sorted [OF g(4)]) (use g(2) in \<open>auto simp: gmap_ok_def sorted_wrt_rev\<close>)
  ultimately show ?thesis
    using mset_waves(1) [OF g(1)] mset_waves(2) [OF g(2)] c(2,3)
    by (simp add: GetRenderObjects_def GetPruneObjects_def)
qed


definition sample_object :: "string \<Rightarrow> string \<Rightarrow> action \<Rightarrow> RenderedObject" where
  "sample_object kind wave a = \<lparr>ro_object = Some [(''apiVersion'', JStr ''v1''), (''kind'', JStr kind),
     (''metadata'', JObj [(''name'', JStr ''n''), (''namespace'', JStr ''ns''),
        (''annotations'', JObj [(WaveAnnotation, JStr wave)])])], ro_action = a\<rparr>"

theorem collection_order_witness:
  "sorted_wrt (in_order (\<le>)) (GetRenderObjects (snd (collection_AddObjects
     [sample_object ''B'' ''1'' actionRender, sample_object ''A'' ''1'' actionRender] empty_collection)))"
  using collection_order [OF surjective_pairing] by blast

end
