(* ===== verification/Deletion.thy ===== *)
theory Deletion
  imports Rendered_Object Samples
begin

text \<open>
  \<open>internal/controller/deletion/deletion.go\<close>: deletion of rendered objects in descending order of sync
  wave, with ownership checks, a timeout, and the bookkeeping in the status of the ClusterInstance.
  A nil APIGroup of a manifest reference, which the code dereferences, is the result \<open>None\<close>.
\<close>

definition DefaultDeletionTimeout :: time where
  "DefaultDeletionTimeout = 30 * 60"

definition timeoutExceeded :: "time \<Rightarrow> time \<Rightarrow> time option \<Rightarrow> bool" where
  "timeoutExceeded now startTime timeout =
     (case timeout of None \<Rightarrow> False | Some t \<Rightarrow> now > startTime + t)"

definition objectKey :: "RenderedObject \<Rightarrow> objkey" where
  "objectKey r = ObjKey (GetAPIVersion r) (GetKind r) (GetNamespace r) (GetName r)"

text \<open>The object that was found, or \<open>None\<close> when it is deleted.\<close>

definition isObjectDeleted :: "objkey \<Rightarrow> world \<Rightarrow> (err + kobject option) \<times> world" where
  "isObjectDeleted k w =
     (case Get k w of
        (Inr obj, w') \<Rightarrow> (Inr (Some obj), w')
      | (Inl e, w') \<Rightarrow>
          (if IsNotFound e then Inr None else Inl (ErrWrap ''failed to retrieve object: '' e), w'))"

definition initiateObjectDeletion :: "objkey \<Rightarrow> world \<Rightarrow> err option \<times> world" where
  "initiateObjectDeletion k w =
     (case Delete k w of
        (eo, w') \<Rightarrow>
          (map_option (ErrWrap (''failed to delete object ('' @ k_Namespace k @ ''/'' @ k_Name k @ ''): ''))
             (IgnoreNotFound eo), w'))"

definition DeleteObject :: "ClusterInstance \<Rightarrow> RenderedObject \<Rightarrow> time option \<Rightarrow> world \<Rightarrow> (err + bool) \<times> world" where
  "DeleteObject ci object deletionTimeout w =
     (let resourceId = GetResourceIdOf object; k = objectKey object in
      case isObjectDeleted k w of
        (Inr None, w') \<Rightarrow> (Inr True, w')
      | (Inl e, w') \<Rightarrow> (Inl e, w')
      | (Inr (Some obj), w') \<Rightarrow>
          (let ownerRefLabel = GenerateOwnedByLabelValue (om_Namespace (ci_Meta ci)) (om_Name (ci_Meta ci)) in
           case VerifyOwnership obj ownerRefLabel of
             Some e \<Rightarrow> (Inl (ErrWrap (''ownership verification failed for object '' @ resourceId @ '': '') e), w')
           | None \<Rightarrow>
               if IsZero (om_DeletionTimestamp (o_Meta obj)) then
                 (case initiateObjectDeletion k w' of
                    (Some e, w'') \<Rightarrow>
                      (Inl (ErrWrap (''failed to initiate deletion for object ('' @ resourceId @ ''): '') e), w'')
                  | (None, w'') \<Rightarrow> (Inr False, w''))
               else if timeoutExceeded (w_now w') (om_DeletionTimestamp (o_Meta obj)) deletionTimeout then
                 (Inl (ErrWrap (''deletion timeout exceeded for object ('' @ resourceId @ ''): '')
                    (NewDeletionTimeoutError resourceId)), w')
               else (Inr False, w')))"

section \<open>Deletion of a list of objects\<close>

record deletion_state =
  ds_manifests :: "ManifestReference list"
  ds_deleted :: "ManifestReference list"
  ds_errs :: "err list"
  ds_world :: world

text \<open>
  The body of the loop over the objects of one sync wave. The result says whether the loop goes on:
  \<open>Continue g\<close> with the flag of the group, or \<open>Return\<close> after a timeout. An object without a readable
  sync wave, which is never in a sync wave map, has no manifest reference.
\<close>

datatype wave_result = Continue bool | Return

definition delete_step :: "ClusterInstance \<Rightarrow> RenderedObject list \<Rightarrow> time option \<Rightarrow> RenderedObject
    \<Rightarrow> bool \<Rightarrow> deletion_state \<Rightarrow> wave_result \<times> deletion_state" where
  "delete_step ci excludeObjects deletionTimeout object groupDeleted ds =
     (let now = w_now (ds_world ds) in
      case IndexOfObjectByIdentity object excludeObjects of
        Inr i \<Rightarrow> (Continue groupDeleted, ds)
      | Inl e \<Rightarrow>
          (case (case ManifestReferenceOf now object of
                   None \<Rightarrow> None
                 | Some ref \<Rightarrow>
                     (case IndexOfManifestByIdentity ref (ds_manifests ds) of Inl e \<Rightarrow> None | Inr i \<Rightarrow> Some i)) of
             None \<Rightarrow> (Continue groupDeleted, ds)
           | Some index \<Rightarrow>
               (let manifest = ds_manifests ds ! index in
                case DeleteObject ci object deletionTimeout (ds_world ds) of
                  (res, w') \<Rightarrow>
                    (let ds' = ds\<lparr>ds_world := w'\<rparr> in
                     case res of
                       Inr True \<Rightarrow> (Continue groupDeleted, ds'\<lparr>ds_deleted := ds_deleted ds @ [manifest]\<rparr>)
                     | Inl e \<Rightarrow>
                         if IsNotOwnedObject (Some e)
                         then (Continue groupDeleted, ds'\<lparr>ds_deleted := ds_deleted ds @ [manifest]\<rparr>)
                         else if IsDeletionTimeoutError (Some e)
                         then (Return, ds'\<lparr>ds_errs := ds_errs ds @ [e],
                                 ds_manifests := (ds_manifests ds)[index := UpdateStatus now ManifestDeletionTimedOut (Error e) manifest]\<rparr>)
                         else (Continue groupDeleted, ds'\<lparr>ds_errs := ds_errs ds @ [e],
                                 ds_manifests := (ds_manifests ds)[index := UpdateStatus now ManifestDeletionFailure (Error e) manifest]\<rparr>)
                     | Inr False \<Rightarrow>
                         (Continue False,
                          if m_Status manifest \<noteq> ManifestDeletionInProgress
                          then ds'\<lparr>ds_manifests := (ds_manifests ds)[index := UpdateStatus now ManifestDeletionInProgress [] manifest]\<rparr>
                          else ds')))))"

fun delete_wave :: "ClusterInstance \<Rightarrow> RenderedObject list \<Rightarrow> time option \<Rightarrow> RenderedObject list
    \<Rightarrow> bool \<Rightarrow> deletion_state \<Rightarrow> wave_result \<times> deletion_state" where
  "delete_wave ci ex tmo [] groupDeleted ds = (Continue groupDeleted, ds)"
| "delete_wave ci ex tmo (object # objects) groupDeleted ds =
     (case delete_step ci ex tmo object groupDeleted ds of
        (Return, ds') \<Rightarrow> (Return, ds')
      | (Continue g, ds') \<Rightarrow> delete_wave ci ex tmo objects g ds')"

text \<open>The loop over the sync waves; the result is \<open>deletionCompleted\<close>.\<close>

fun delete_waves :: "ClusterInstance \<Rightarrow> RenderedObject list \<Rightarrow> time option \<Rightarrow> SyncWaveMap \<Rightarrow> int list
    \<Rightarrow> deletion_state \<Rightarrow> bool \<times> deletion_state" where
  "delete_waves ci ex tmo m [] ds = (True, ds)"
| "delete_waves ci ex tmo m (wave # waves) ds =
     (case delete_wave ci ex tmo (GetObjectsForSyncWave m wave) True ds of
        (Return, ds') \<Rightarrow> (False, ds')
      | (Continue groupDeleted, ds') \<Rightarrow>
          if ds_errs ds' \<noteq> [] \<or> \<not> groupDeleted then (False, ds') else delete_waves ci ex tmo m waves ds')"

definition filterOutDeletedManifests :: "ManifestReference list \<Rightarrow> ManifestReference list \<Rightarrow> ManifestReference list" where
  "filterOutDeletedManifests manifestsRendered manifestsDeleted =
     filter (\<lambda>manifest. case IndexOfManifestByIdentity manifest manifestsDeleted of Inl e \<Rightarrow> True | Inr i \<Rightarrow> False)
       manifestsRendered"

definition with_manifests :: "ManifestReference list \<Rightarrow> ClusterInstance \<Rightarrow> ClusterInstance" where
  "with_manifests ms ci = ci\<lparr>ci_Status := (ci_Status ci)\<lparr>st_ManifestsRendered := ms\<rparr>\<rparr>"

text \<open>The deferred function: the status keeps what was not deleted.\<close>

definition delete_finish :: "ClusterInstance \<Rightarrow> deletion_state \<Rightarrow> err option \<times> ClusterInstance \<times> world" where
  "delete_finish ci ds =
     (let manifestsRendered = filterOutDeletedManifests (ds_manifests ds) (ds_deleted ds) in
      if st_ManifestsRendered (ci_Status ci) \<noteq> manifestsRendered then
        (case PatchCIStatus ci (with_manifests manifestsRendered ci) (ds_world ds) of
           (eo, ci', w') \<Rightarrow>
             (NewAggregate (ds_errs ds @ (case eo of None \<Rightarrow> [] | Some e \<Rightarrow> [e])), ci', w'))
      else (NewAggregate (ds_errs ds), ci, ds_world ds))"

definition DeleteObjects :: "ClusterInstance \<Rightarrow> RenderedObject list \<Rightarrow> RenderedObject list \<Rightarrow> time option
    \<Rightarrow> world \<Rightarrow> bool \<times> err option \<times> ClusterInstance \<times> world" where
  "DeleteObjects ci objects excludeObjects deletionTimeout w =
     (let objectSyncWaveMap = snd (AddObjects objects []);
          (deletionCompleted, ds) = delete_waves ci excludeObjects deletionTimeout objectSyncWaveMap
            (GetDescendingSyncWaves objectSyncWaveMap)
            \<lparr>ds_manifests = st_ManifestsRendered (ci_Status ci), ds_deleted = [], ds_errs = [], ds_world = w\<rparr>
      in (deletionCompleted, delete_finish ci ds))"

section \<open>Deletion of the rendered manifests\<close>

definition manifest_document :: "string \<Rightarrow> ManifestReference \<Rightarrow> (string \<times> json) list" where
  "manifest_document apiGroup manifest =
     [(''apiVersion'', JStr apiGroup), (''kind'', JStr (m_Kind manifest)),
      (''metadata'', JObj [(''name'', JStr (m_Name manifest)), (''namespace'', JStr (m_Namespace manifest)),
         (''annotations'', JObj [(WaveAnnotation, JStr (Itoa (m_SyncWave manifest)))])])]"

fun objectsForManifests :: "ManifestReference list \<Rightarrow> RenderedObject list option" where
  "objectsForManifests [] = Some []"
| "objectsForManifests (manifest # manifests) =
     (case m_APIGroup manifest of
        None \<Rightarrow> None
      | Some apiGroup \<Rightarrow>
          (case objectsForManifests manifests of
             None \<Rightarrow> None
           | Some objects \<Rightarrow>
               (case NewRenderedObject (manifest_document apiGroup manifest) of
                  (Some e, object) \<Rightarrow> Some objects
                | (None, object) \<Rightarrow> Some (object # objects))))"

definition objectsForClusterInstance :: "ClusterInstance \<Rightarrow> RenderedObject list option" where
  "objectsForClusterInstance ci = objectsForManifests (st_ManifestsRendered (ci_Status ci))"

definition DeleteRenderedObjects :: "ClusterInstance \<Rightarrow> RenderedObject list \<Rightarrow> time option \<Rightarrow> world
    \<Rightarrow> (bool \<times> err option \<times> ClusterInstance \<times> world) option" where
  "DeleteRenderedObjects ci excludeObjects deletionTimeout w =
     (if st_ManifestsRendered (ci_Status ci) = [] then Some (True, None, ci, w)
      else case objectsForClusterInstance ci of
        None \<Rightarrow> None
      | Some objects \<Rightarrow> Some (DeleteObjects ci objects excludeObjects deletionTimeout w))"


section \<open>Lemmas: one object\<close>

definition owner_label :: "ClusterInstance \<Rightarrow> string" where
  "owner_label ci = GenerateOwnedByLabelValue (om_Namespace (ci_Meta ci)) (om_Name (ci_Meta ci))"

text \<open>An object is cleared when it does not exist or belongs to someone else.\<close>

definition cleared :: "string \<Rightarrow> world \<Rightarrow> objkey \<Rightarrow> bool" where
  "cleared label w k \<longleftrightarrow> (case map_of (w_objs w) k of None \<Rightarrow> True | Some obj \<Rightarrow> GetOwner obj \<noteq> label)"

definition owned_only :: "string \<Rightarrow> world \<Rightarrow> world \<Rightarrow> bool" where
  "owned_only label w w' \<longleftrightarrow> w_cis w' = w_cis w \<and> w_now w' = w_now w
     \<and> (\<forall>k. cleared label w k \<longrightarrow> map_of (w_objs w') k = map_of (w_objs w) k)"

lemma owned_only_refl [simp, intro]: "owned_only l w w"
  by (simp add: owned_only_def)

lemma owned_only_cleared: "owned_only l w w' \<Longrightarrow> cleared l w k \<Longrightarrow> cleared l w' k"
  by (simp add: owned_only_def cleared_def)

lemma owned_only_trans: "owned_only l w w' \<Longrightarrow> owned_only l w' w'' \<Longrightarrow> owned_only l w w''"
  using owned_only_cleared [of l w w'] unfolding owned_only_def by metis

lemma touches_owned_only:
  assumes "touches {k} w w'" "\<not> cleared l w k"
  shows "owned_only l w w'"
  unfolding owned_only_def using assms(2) touches_obj [OF assms(1)] touches_cis [OF assms(1)]
  by (metis singletonD)

lemma cleared_Some [simp]: "map_of (w_objs w) k = Some obj \<Longrightarrow> cleared l w k \<longleftrightarrow> GetOwner obj \<noteq> l"
  by (simp add: cleared_def)

lemma initiate_spec:
  assumes "initiateObjectDeletion k w = (eo, w')"
  shows "touches {k} w w'" "faults_ok w \<Longrightarrow> faults_ok w'"
    "faults_ok w \<Longrightarrow> eo = Some e \<Longrightarrow> \<exists>p r m. e = ErrWrap p (ErrAPI r m)"
  using assms
  by (auto simp: initiateObjectDeletion_def IgnoreNotFound_def split: prod.splits option.splits if_splits
      dest: Delete_touches requests_faults_ok(2) Delete_error)

text \<open>An object that the ClusterInstance owns is either waited for or its deletion fails.\<close>

lemma DeleteObject_owned:
  assumes "DeleteObject ci r tmo w = (res, w')" "faults_ok w"
    "Get (objectKey r) w = (Inr obj, w1)" "VerifyOwnership obj (owner_label ci) = None"
  shows "(res = Inr False \<or> (\<exists>e. res = Inl e \<and> \<not> IsNotOwnedObject (Some e)))
    \<and> owned_only (owner_label ci) w w' \<and> touches {objectKey r} w w'"
proof -
  have nc: "\<not> cleared (owner_label ci) w (objectKey r)" using Get_found [OF assms(3)] assms(4) by simp
  have ok: "faults_ok w1" using assms(2,3) by (rule requests_faults_ok(1))
  have st: "touches {objectKey r} w w1" using touches_mono [OF Get_touches [OF assms(3)]] by simp
  note defs = DeleteObject_def isObjectDeleted_def owner_label_def [symmetric] IsNotOwnedObject_def isErrorOfType_def
    ci_error_of_type_def
  have t: "touches {objectKey r} w w' \<and> (res = Inr False \<or> (\<exists>e. res = Inl e \<and> \<not> IsNotOwnedObject (Some e)))"
  proof (cases "IsZero (om_DeletionTimestamp (o_Meta obj))")
    case True
    obtain d w2 where d: "initiateObjectDeletion (objectKey r) w1 = (d, w2)" by fastforce
    have "touches {objectKey r} w w2" using st initiate_spec(1) [OF d] by (rule touches_trans)
    with assms(1,3,4) True d initiate_spec(3) [OF d ok] show ?thesis by (cases d) (auto simp: defs)
  next
    case False
    with assms(1,3,4) st show ?thesis
      by (auto simp: defs Let_def NewDeletionTimeoutError_def New_def split: if_splits)
  qed
  with nc show ?thesis by (auto intro: touches_owned_only)
qed

text \<open>The four outcomes of \<open>DeleteObject\<close> with the failures above.\<close>

lemma DeleteObject_cases:
  assumes "DeleteObject ci r tmo w = (res, w')" "faults_ok w"
  obtains
    (absent) "res = Inr True" "same_state w w'" "map_of (w_objs w) (objectKey r) = None"
  | (unowned) e where "res = Inl e" "IsNotOwnedObject (Some e)" "same_state w w'"
      "cleared (owner_label ci) w (objectKey r)"
  | (waiting) "res = Inr False" "owned_only (owner_label ci) w w'" "touches {objectKey r} w w'"
  | (failed) e where "res = Inl e" "\<not> IsNotOwnedObject (Some e)" "owned_only (owner_label ci) w w'"
      "touches {objectKey r} w w'"
proof -
  obtain g w1 where g: "Get (objectKey r) w = (g, w1)" by fastforce
  have s: "same_state w w1" using g by (auto simp: same_state_def Get_def split: prod.splits option.splits)
  have st: "touches {objectKey r} w w1" using touches_mono [OF Get_touches [OF g]] by simp
  show thesis
  proof (cases g)
    case (Inl e)
    then obtain q m where e: "e = ErrAPI q m" "q = NotFound \<longrightarrow> map_of (w_objs w) (objectKey r) = None"
      using Get_error [OF _ assms(2)] g by blast
    show thesis
    proof (cases "q = NotFound")
      case True
      with assms(1) Inl e g s show thesis
        by (intro absent) (auto simp: DeleteObject_def isObjectDeleted_def IsNotFound_def)
    next
      case False
      with assms(1) Inl e g s st show thesis
        by (intro failed) (auto simp: DeleteObject_def isObjectDeleted_def IsNotFound_def IsNotOwnedObject_def
            isErrorOfType_def ci_error_of_type_def owned_only_def same_state_def)
    qed
  next
    case (Inr obj)
    then have obj: "map_of (w_objs w) (objectKey r) = Some obj" using Get_found g by blast
    let ?v = "VerifyOwnership obj (owner_label ci)"
    show thesis
    proof (cases ?v)
      case (Some e)
      then have "GetOwner obj \<noteq> owner_label ci" using VerifyOwnership_None [of obj "owner_label ci"] by simp
      with assms(1) Inr g s obj Some show thesis
        by (intro unowned) (auto simp: DeleteObject_def isObjectDeleted_def owner_label_def [symmetric]
            VerifyOwnership_not_owned)
    next
      case None
      then show thesis using DeleteObject_owned [OF assms g [unfolded Inr] None] waiting failed by blast
    qed
  qed
qed

lemma DeleteObject_faults_ok:
  assumes "DeleteObject ci r tmo w = (res, w')" "faults_ok w"
  shows "faults_ok w'"
proof -
  obtain g w1 where g: "Get (objectKey r) w = (g, w1)" by fastforce
  have ok1: "faults_ok w1" using assms(2) g by (rule requests_faults_ok(1))
  have "w' = w1 \<or> (\<exists>d. initiateObjectDeletion (objectKey r) w1 = (d, w'))"
    using assms(1) g
    by (auto simp: DeleteObject_def isObjectDeleted_def Let_def split: sum.splits option.splits prod.splits if_splits)
  with ok1 initiate_spec(2) show ?thesis by blast
qed


section \<open>Lemmas: sync waves\<close>

text \<open>
  The objects the loops act on: not excluded, with a readable sync wave, and recorded among the
  given manifests.
\<close>

definition eligible :: "RenderedObject list \<Rightarrow> ManifestReference list \<Rightarrow> RenderedObject \<Rightarrow> bool" where
  "eligible ex ms r \<longleftrightarrow> \<not> list_ex (\<lambda>x. object_MatchesIdentity x r) ex \<and> addable r
     \<and> (Some (GetAPIVersion r), GetKind r, GetName r, GetNamespace r) \<in> identity ` set ms"

definition object_identity :: "RenderedObject \<Rightarrow> string option \<times> string \<times> string \<times> string" where
  "object_identity r = (Some (GetAPIVersion r), GetKind r, GetName r, GetNamespace r)"

lemma eligible_cong: "map identity ms' = map identity ms \<Longrightarrow> eligible ex ms' r = eligible ex ms r"
  unfolding eligible_def by (metis list.set_map)

lemma excluded_iff: "(\<exists>i. IndexOfObjectByIdentity r ex = Inr i) \<longleftrightarrow> list_ex (\<lambda>x. object_MatchesIdentity x r) ex"
proof (cases "find_index (\<lambda>x. object_MatchesIdentity x r) ex")
  case None
  then show ?thesis by (auto simp: IndexOfObjectByIdentity_def list_ex_iff simp del: find_index_None)
      (metis find_index_None None)
next
  case (Some i)
  then show ?thesis by (auto simp: IndexOfObjectByIdentity_def list_ex_iff dest: find_index_SomeD)
      (meson find_index_SomeD nth_mem)
qed

lemma reference_identity:
  "ManifestReferenceOf now r = Some ref \<Longrightarrow> identity ref = object_identity r"
  by (auto simp: ManifestReferenceOf_def identity_def object_identity_def split: sum.splits)

text \<open>The index the step works on, when the object is eligible.\<close>

lemma eligible_index:
  assumes "eligible ex ms r"
  obtains e ref i where "IndexOfObjectByIdentity r ex = Inl e" "ManifestReferenceOf now r = Some ref"
    "IndexOfManifestByIdentity ref ms = Inr i" "i < length ms" "identity (ms ! i) = object_identity r"
proof -
  obtain e where e: "IndexOfObjectByIdentity r ex = Inl e"
    using assms excluded_iff [of r ex] by (cases "IndexOfObjectByIdentity r ex") (auto simp: eligible_def)
  obtain ref where ref: "ManifestReferenceOf now r = Some ref"
    using assms by (auto simp: eligible_def addable_def ManifestReferenceOf_def)
  have id: "identity ref = object_identity r" using ref by (rule reference_identity)
  moreover have "object_identity r \<in> identity ` set ms"
    using assms by (simp add: eligible_def object_identity_def)
  ultimately obtain i where i: "IndexOfManifestByIdentity ref ms = Inr i"
    using IndexOfManifest_Inl_iff [of ref ms] by (cases "IndexOfManifestByIdentity ref ms") auto
  show thesis using that [OF e ref i] IndexOfManifest_Inr [OF i] id by simp
qed

lemma not_eligible_step:
  assumes "\<not> eligible ex (ds_manifests ds) r" "ro_object r \<noteq> None"
  shows "delete_step ci ex tmo r g ds = (Continue g, ds)"
proof (cases "IndexOfObjectByIdentity r ex")
  case (Inl e)
  then have ne: "\<not> list_ex (\<lambda>x. object_MatchesIdentity x r) ex" using excluded_iff [of r ex] by auto
  show ?thesis
  proof (cases "ManifestReferenceOf (w_now (ds_world ds)) r")
    case (Some ref)
    then have "addable r" using assms(2) by (auto simp: ManifestReferenceOf_def addable_def split: sum.splits)
    with assms(1) ne have "identity ref \<notin> identity ` set (ds_manifests ds)"
      using reference_identity [OF Some] by (simp add: eligible_def object_identity_def)
    then obtain e' where "IndexOfManifestByIdentity ref (ds_manifests ds) = Inl e'"
      using IndexOfManifest_Inl_iff by blast
    with Inl Some show ?thesis by (simp add: delete_step_def)
  qed (simp add: Inl delete_step_def)
qed (simp add: delete_step_def)

text \<open>What one step does to the state of the loops.\<close>

definition step_ok :: "string \<Rightarrow> deletion_state \<Rightarrow> deletion_state \<Rightarrow> bool" where
  "step_ok label ds ds' \<longleftrightarrow> map identity (ds_manifests ds') = map identity (ds_manifests ds)
     \<and> owned_only label (ds_world ds) (ds_world ds') \<and> faults_ok (ds_world ds')
     \<and> (\<exists>es. ds_errs ds' = ds_errs ds @ es) \<and> (\<exists>xs. ds_deleted ds' = ds_deleted ds @ xs)"

lemma step_ok_trans: "step_ok l a b \<Longrightarrow> step_ok l b c \<Longrightarrow> step_ok l a c"
  unfolding step_ok_def using owned_only_trans by (metis append.assoc)

lemma step_ok_refl: "faults_ok (ds_world ds) \<Longrightarrow> step_ok l ds ds"
  by (simp add: step_ok_def)

text \<open>An object is done when it is cleared and its manifest is recorded as deleted.\<close>

definition done_with :: "string \<Rightarrow> deletion_state \<Rightarrow> RenderedObject \<Rightarrow> bool" where
  "done_with label ds r \<longleftrightarrow> cleared label (ds_world ds) (objectKey r) \<and> object_identity r \<in> identity ` set (ds_deleted ds)"

lemma done_with_mono: "step_ok l ds ds' \<Longrightarrow> done_with l ds r \<Longrightarrow> done_with l ds' r"
  unfolding step_ok_def done_with_def using owned_only_cleared by (metis (no_types, lifting) UnCI image_Un set_append)

lemma same_state_owned_only: "same_state w w' \<Longrightarrow> owned_only l w w' \<and> touches {} w w'"
  by (simp add: same_state_def owned_only_def touches_def)

lemma eligible_step:
  assumes "delete_step ci ex tmo r g ds = (res, ds')" "eligible ex (ds_manifests ds) r" "faults_ok (ds_world ds)"
  shows "step_ok (owner_label ci) ds ds' \<and> touches {objectKey r} (ds_world ds) (ds_world ds')
    \<and> (res = Continue True \<and> ds_errs ds' = ds_errs ds \<longrightarrow> g \<and> done_with (owner_label ci) ds' r)"
proof -
  obtain e ref i where i: "IndexOfObjectByIdentity r ex = Inl e"
      "ManifestReferenceOf (w_now (ds_world ds)) r = Some ref"
      "IndexOfManifestByIdentity ref (ds_manifests ds) = Inr i" "i < length (ds_manifests ds)"
      "identity (ds_manifests ds ! i) = object_identity r"
    using eligible_index [OF assms(2)] by blast
  obtain d w' where d: "DeleteObject ci r tmo (ds_world ds) = (d, w')" by fastforce
  have f: "faults_ok w'" using DeleteObject_faults_ok [OF d assms(3)] .
  have upd: "map identity ((ds_manifests ds)[i := UpdateStatus now s m (ds_manifests ds ! i)]) = map identity (ds_manifests ds)"
    for now s m
    using i(4) by (metis UpdateStatus_identity list_update_id map_update nth_map)
  have step: "(res, ds') = delete_step ci ex tmo r g ds" using assms(1) by simp
  note step = step[unfolded delete_step_def Let_def i(1) sum.case i(2) option.case i(3) d prod.case]
  from d assms(3) show ?thesis
  proof (cases rule: DeleteObject_cases)
    case absent
    with step f i(5) same_state_owned_only [OF absent(2)] show ?thesis
      by (auto simp: step_ok_def done_with_def cleared_def same_state_def touches_def)
  next
    case (unowned e)
    with step f i(5) same_state_owned_only [OF unowned(3)] show ?thesis
      by (auto simp: step_ok_def done_with_def cleared_def same_state_def touches_def)
  next
    case waiting
    with step f upd show ?thesis by (auto simp: step_ok_def split: if_splits)
  next
    case (failed e)
    with step f upd show ?thesis by (auto simp: step_ok_def split: if_splits)
  qed
qed


text \<open>An object that a wave changed is an eligible object of that wave.\<close>

lemma touched_object:
  assumes "touches (objectKey ` {r \<in> R. P r}) w w'" "map_of (w_objs w') k \<noteq> map_of (w_objs w) k"
  shows "\<exists>r. r \<in> R \<and> objectKey r = k \<and> P r"
proof (rule ccontr)
  assume "\<nexists>r. r \<in> R \<and> objectKey r = k \<and> P r"
  then have "k \<notin> objectKey ` {r \<in> R. P r}" by auto
  from touches_obj [OF assms(1) this] assms(2) show False by simp
qed

text \<open>One object of a wave, eligible or not, changes nothing but the eligible objects of the wave.\<close>

lemma wave_object_step:
  assumes "delete_step ci ex tmo r g ds = (q, d1)" "faults_ok (ds_world ds)" "ro_object r \<noteq> None" "r \<in> R"
  shows "step_ok (owner_label ci) ds d1"
    "touches (objectKey ` {x \<in> R. eligible ex (ds_manifests ds) x}) (ds_world ds) (ds_world d1)"
    "q = Continue True \<and> ds_errs d1 = ds_errs ds \<longrightarrow>
       g \<and> (eligible ex (ds_manifests ds) r \<longrightarrow> done_with (owner_label ci) d1 r)"
proof -
  let ?K = "objectKey ` {x \<in> R. eligible ex (ds_manifests ds) x}"
  have "step_ok (owner_label ci) ds d1 \<and> touches ?K (ds_world ds) (ds_world d1)
      \<and> (q = Continue True \<and> ds_errs d1 = ds_errs ds \<longrightarrow>
           g \<and> (eligible ex (ds_manifests ds) r \<longrightarrow> done_with (owner_label ci) d1 r))"
  proof (cases "eligible ex (ds_manifests ds) r")
    case True
    then have "{objectKey r} \<subseteq> ?K" using assms(4) by auto
    with eligible_step [OF assms(1) True assms(2)] show ?thesis using touches_mono by blast
  next
    case False
    with not_eligible_step [OF False] assms show ?thesis by (auto simp: step_ok_refl)
  qed
  then show "step_ok (owner_label ci) ds d1" "touches ?K (ds_world ds) (ds_world d1)"
    "q = Continue True \<and> ds_errs d1 = ds_errs ds \<longrightarrow>
       g \<and> (eligible ex (ds_manifests ds) r \<longrightarrow> done_with (owner_label ci) d1 r)"
    by blast+
qed

lemma wave_spec:
  assumes "delete_wave ci ex tmo objs g ds = (res, ds')" "faults_ok (ds_world ds)"
    "list_all (\<lambda>r. ro_object r \<noteq> None) objs"
  shows "step_ok (owner_label ci) ds ds'
    \<and> touches (objectKey ` {r \<in> set objs. eligible ex (ds_manifests ds) r}) (ds_world ds) (ds_world ds')
    \<and> (res = Continue True \<and> ds_errs ds' = ds_errs ds \<longrightarrow>
        g \<and> (\<forall>r\<in>set objs. eligible ex (ds_manifests ds) r \<longrightarrow> done_with (owner_label ci) ds' r))"
  using assms
proof (induction objs arbitrary: g ds)
  case Nil
  then show ?case by (auto simp: step_ok_refl)
next
  case (Cons r objs)
  obtain q d1 where q: "delete_step ci ex tmo r g ds = (q, d1)" by fastforce
  let ?K = "objectKey ` {x \<in> set (r # objs). eligible ex (ds_manifests ds) x}"
  have one: "step_ok (owner_label ci) ds d1" "touches ?K (ds_world ds) (ds_world d1)"
    "q = Continue True \<and> ds_errs d1 = ds_errs ds \<longrightarrow>
       g \<and> (eligible ex (ds_manifests ds) r \<longrightarrow> done_with (owner_label ci) d1 r)"
    using wave_object_step [OF q Cons.prems(2), where R = "set (r # objs)"] Cons.prems(3) by simp_all
  show ?case
  proof (cases q)
    case Return
    with Cons.prems(1) q have "res = Return" "ds' = d1" by auto
    with one show ?thesis by simp
  next
    case (Continue g1)
    with Cons.prems(1) q have rest: "delete_wave ci ex tmo objs g1 d1 = (res, ds')" by simp
    have ids: "map identity (ds_manifests d1) = map identity (ds_manifests ds)" "faults_ok (ds_world d1)"
      using one by (simp_all add: step_ok_def)
    note IH = Cons.IH [OF rest ids(2)] and el = eligible_cong [OF ids(1)]
    have ih: "step_ok (owner_label ci) d1 ds'"
      "touches (objectKey ` {x \<in> set objs. eligible ex (ds_manifests ds) x}) (ds_world d1) (ds_world ds')"
      "res = Continue True \<and> ds_errs ds' = ds_errs d1 \<longrightarrow>
         g1 \<and> (\<forall>x\<in>set objs. eligible ex (ds_manifests ds) x \<longrightarrow> done_with (owner_label ci) ds' x)"
      using IH Cons.prems(3) by (simp_all add: el)
    have "touches ?K (ds_world ds) (ds_world ds')"
      using one ih(2) by (auto intro: touches_trans touches_mono)
    moreover obtain es es' where "ds_errs d1 = ds_errs ds @ es" "ds_errs ds' = ds_errs d1 @ es'"
      using one ih(1) unfolding step_ok_def by blast
    then have errs: "ds_errs ds' = ds_errs ds \<Longrightarrow> ds_errs ds' = ds_errs d1 \<and> ds_errs d1 = ds_errs ds" by simp
    moreover have "step_ok (owner_label ci) ds ds'" using one ih(1) step_ok_trans by blast
    moreover have "g \<and> (\<forall>x\<in>set (r # objs). eligible ex (ds_manifests ds) x \<longrightarrow> done_with (owner_label ci) ds' x)"
      if "res = Continue True" "ds_errs ds' = ds_errs ds"
    proof -
      have e: "ds_errs ds' = ds_errs d1" "ds_errs d1 = ds_errs ds" using errs [OF that(2)] by simp_all
      have "g1" "\<forall>x\<in>set objs. eligible ex (ds_manifests ds) x \<longrightarrow> done_with (owner_label ci) ds' x"
        using ih(3) that(1) e(1) by blast+
      moreover have "g" "eligible ex (ds_manifests ds) r \<longrightarrow> done_with (owner_label ci) d1 r"
        using one Continue e(2) \<open>g1\<close> by simp_all
      ultimately show ?thesis using done_with_mono [OF ih(1)] by simp
    qed
    ultimately show ?thesis by blast
  qed
qed

definition wave_done :: "string \<Rightarrow> RenderedObject list \<Rightarrow> ManifestReference list \<Rightarrow> SyncWaveMap \<Rightarrow> deletion_state \<Rightarrow> int \<Rightarrow> bool" where
  "wave_done label ex ms m ds v \<longleftrightarrow>
     (\<forall>r\<in>set (GetObjectsForSyncWave m v). eligible ex ms r \<longrightarrow> done_with label ds r)"

lemma waves_spec:
  assumes "delete_waves ci ex tmo m waves ds = (c, ds')" "faults_ok (ds_world ds)" "ds_errs ds = []"
    "\<forall>v. list_all (\<lambda>r. ro_object r \<noteq> None) (GetObjectsForSyncWave m v)"
    "ms = ds_manifests ds"
  shows "step_ok (owner_label ci) ds ds'
    \<and> (c \<longrightarrow> ds_errs ds' = [] \<and> (\<forall>v\<in>set waves. wave_done (owner_label ci) ex ms m ds' v))
    \<and> (\<forall>k. map_of (w_objs (ds_world ds')) k \<noteq> map_of (w_objs (ds_world ds)) k \<longrightarrow>
        (\<exists>pre v post r. waves = pre @ v # post \<and> r \<in> set (GetObjectsForSyncWave m v) \<and> objectKey r = k
          \<and> eligible ex ms r \<and> (\<forall>u\<in>set pre. wave_done (owner_label ci) ex ms m ds' u)))"
  using assms
proof (induction waves arbitrary: ds ms)
  case Nil
  then show ?case by (simp add: step_ok_refl)
next
  case (Cons v waves)
  obtain q d1 where q: "delete_wave ci ex tmo (GetObjectsForSyncWave m v) True ds = (q, d1)" by fastforce
  note wv = wave_spec [OF q Cons.prems(2)] and objs = Cons.prems(4)
  have w1: "step_ok (owner_label ci) ds d1"
    "touches (objectKey ` {r \<in> set (GetObjectsForSyncWave m v). eligible ex ms r}) (ds_world ds) (ds_world d1)"
    "q = Continue True \<and> ds_errs d1 = [] \<longrightarrow> wave_done (owner_label ci) ex ms m d1 v"
    using wv objs Cons.prems(3,5) by (simp_all add: wave_done_def)
  note here = touched_object [OF w1(2)]
  show ?case
  proof (cases "q = Continue True \<and> ds_errs d1 = []")
    case False
    then have "c = False" "ds' = d1" using Cons.prems(1) q by (auto split: wave_result.splits if_splits)
    moreover have "\<exists>pre u post r. v # waves = pre @ u # post \<and> r \<in> set (GetObjectsForSyncWave m u)
        \<and> objectKey r = k \<and> eligible ex ms r \<and> (\<forall>u\<in>set pre. wave_done (owner_label ci) ex ms m d1 u)"
      if "map_of (w_objs (ds_world d1)) k \<noteq> map_of (w_objs (ds_world ds)) k" for k
      using here [OF that] by (intro exI [of _ "[]"]) auto
    ultimately show ?thesis using w1(1) by blast
  next
    case True
    then have rest: "delete_waves ci ex tmo m waves d1 = (c, ds')" using Cons.prems(1) q by simp
    have ids: "map identity (ds_manifests d1) = map identity (ds_manifests ds)" "faults_ok (ds_world d1)"
      using w1(1) by (simp_all add: step_ok_def)
    have el: "eligible ex (ds_manifests d1) r = eligible ex ms r" for r
      using eligible_cong [OF ids(1)] Cons.prems(5) by simp
    then have wd: "wave_done l ex (ds_manifests d1) m d u = wave_done l ex ms m d u" for l d u
      by (simp add: wave_done_def)
    note IH = Cons.IH [OF rest ids(2) conjunct2 [OF True] objs refl, unfolded wd el]
    have here': "wave_done (owner_label ci) ex ms m ds' v"
      using w1(3) True IH done_with_mono unfolding wave_done_def by blast
    have "\<exists>pre u post r. v # waves = pre @ u # post \<and> r \<in> set (GetObjectsForSyncWave m u) \<and> objectKey r = k
        \<and> eligible ex ms r \<and> (\<forall>u\<in>set pre. wave_done (owner_label ci) ex ms m ds' u)"
      if "map_of (w_objs (ds_world ds')) k \<noteq> map_of (w_objs (ds_world ds)) k" for k
    proof (cases "map_of (w_objs (ds_world ds')) k \<noteq> map_of (w_objs (ds_world d1)) k")
      case True
      with IH obtain pre u post r where "waves = pre @ u # post" "r \<in> set (GetObjectsForSyncWave m u)"
        "objectKey r = k" "eligible ex ms r" "\<forall>u\<in>set pre. wave_done (owner_label ci) ex ms m ds' u"
        by blast
      with here' show ?thesis by (intro exI [of _ "v # pre"]) auto
    next
      case False
      with that here [of k] show ?thesis by (intro exI [of _ "[]"]) auto
    qed
    with IH w1(1) here' show ?thesis using step_ok_trans by auto
  qed
qed


lemma AddObjects_wave_map:
  assumes "m = snd (AddObjects objects [])"
  shows "waves_ok m" "set_mset (wave_objects m) = {r \<in> set objects. addable r}"
proof -
  have m: "m = snd (add_loop Add ''SyncWaveMap'' objects [])"
    using assms by (simp add: AddObjects_def split: prod.splits)
  show "waves_ok m"
    unfolding m using Add_ok by (rule add_loop_inv [of waves_ok]) (simp_all add: waves_ok_def)
  have "wave_objects m = filter_mset addable (mset objects)"
    unfolding m using add_loop_count [of wave_objects, OF Add_objects] by (simp add: wave_objects_def)
  then show "set_mset (wave_objects m) = {r \<in> set objects. addable r}" by auto
qed

lemma wave_map_lookup:
  assumes m: "m = snd (AddObjects objects [])"
  shows "r \<in> set (GetObjectsForSyncWave m v) \<longleftrightarrow> r \<in> set objects \<and> addable r \<and> wave_of r = v"
proof -
  note ok = AddObjects_wave_map [OF m]
  have "r \<in> set (GetObjectsForSyncWave m v) \<longleftrightarrow> (\<exists>xs. (v, xs) \<in> set m \<and> r \<in> set xs)"
    using ok(1) by (auto simp: GetObjectsForSyncWave_def waves_ok_def gmap_ok_def split: option.splits
        dest: map_of_SomeD)
  also have "\<dots> \<longleftrightarrow> (\<exists>p\<in>set m. r \<in> set (snd p)) \<and> wave_of r = v"
    using ok(1) by (force simp: waves_ok_def list_all_iff wave_of_def)
  also have "(\<exists>p\<in>set m. r \<in> set (snd p)) \<longleftrightarrow> r \<in># wave_objects m"
    by (simp add: wave_objects_def)
  finally show ?thesis using ok(2) by auto
qed

lemma wave_map_nonempty:
  "r \<in> set (GetObjectsForSyncWave m v) \<Longrightarrow> v \<in> set (GetDescendingSyncWaves m)"
  by (cases "map_of m v")
    (auto simp: GetObjectsForSyncWave_def GetDescendingSyncWaves_def dest!: map_of_SomeD intro: rev_image_eqI)

lemma descending_prefix:
  assumes "waves_ok m" "GetDescendingSyncWaves m = pre @ v # post" "u \<in> set (GetDescendingSyncWaves m)" "v < u"
  shows "u \<in> set pre"
proof -
  have "sorted (rev (pre @ v # post))"
    using assms(2) unfolding GetDescendingSyncWaves_def by (metis rev_rev_ident sorted_sort)
  then have "x \<le> v" if "x \<in> set post" for x using that by (auto simp: sorted_append)
  then show ?thesis using assms(2-4) by force
qed

lemma delete_finish_frame:
  "delete_finish ci ds = (eo, ci', w') \<Longrightarrow> w_objs w' = w_objs (ds_world ds) \<and> w_now w' = w_now (ds_world ds)"
  by (auto simp: delete_finish_def Let_def split: if_splits prod.splits dest: ci_status.patch_frame)

text \<open>The facts about one call of \<open>DeleteObjects\<close>, from which its properties follow.\<close>

lemma DeleteObjects_spec:
  assumes "DeleteObjects ci objects ex tmo w = (c, eo, ci', w')" "faults_ok w"
  obtains ds where "step_ok (owner_label ci)
      \<lparr>ds_manifests = st_ManifestsRendered (ci_Status ci), ds_deleted = [], ds_errs = [], ds_world = w\<rparr> ds"
    "delete_finish ci ds = (eo, ci', w')"
    "\<And>r. c \<Longrightarrow> r \<in> set objects \<Longrightarrow> eligible ex (st_ManifestsRendered (ci_Status ci)) r \<Longrightarrow> done_with (owner_label ci) ds r"
    "c \<Longrightarrow> ds_errs ds = []"
    "\<And>k. map_of (w_objs w') k \<noteq> map_of (w_objs w) k \<Longrightarrow>
       \<exists>r\<in>set objects. objectKey r = k \<and> eligible ex (st_ManifestsRendered (ci_Status ci)) r
        \<and> (\<forall>r'\<in>set objects. eligible ex (st_ManifestsRendered (ci_Status ci)) r' \<and> wave_of r < wave_of r' \<longrightarrow>
             done_with (owner_label ci) ds r')"
proof -
  define m where m: "m = snd (AddObjects objects [])"
  let ?ms = "st_ManifestsRendered (ci_Status ci)"
  let ?ds0 = "\<lparr>ds_manifests = ?ms, ds_deleted = [], ds_errs = [], ds_world = w\<rparr>"
  obtain ds where ds: "delete_waves ci ex tmo m (GetDescendingSyncWaves m) ?ds0 = (c, ds)"
    "delete_finish ci ds = (eo, ci', w')"
    using assms(1) by (auto simp: DeleteObjects_def m Let_def split: prod.splits)
  have objs: "\<forall>v. list_all (\<lambda>r. ro_object r \<noteq> None) (GetObjectsForSyncWave m v)"
    using wave_map_lookup [OF m] by (auto simp: list_all_iff addable_def)
  have start: "faults_ok (ds_world ?ds0)" "ds_errs ?ds0 = []" "?ms = ds_manifests ?ds0" using assms(2) by simp_all
  note spec = waves_spec [OF ds(1) start(1,2) objs start(3)]
  have wd: "done_with (owner_label ci) ds r"
    if "wave_done (owner_label ci) ex ?ms m ds (wave_of r)" "r \<in> set objects" "eligible ex ?ms r" for r
    using that wave_map_lookup [OF m, of r "wave_of r"] by (auto simp: wave_done_def eligible_def)
  have in_waves: "wave_of r \<in> set (GetDescendingSyncWaves m)" if "r \<in> set objects" "eligible ex ?ms r" for r
    using that wave_map_lookup [OF m, of r "wave_of r"] wave_map_nonempty by (auto simp: eligible_def)
  show thesis
  proof (rule that [of ds])
    show "step_ok (owner_label ci) ?ds0 ds" using spec by blast
    show "delete_finish ci ds = (eo, ci', w')" by (rule ds(2))
    show "c \<Longrightarrow> r \<in> set objects \<Longrightarrow> eligible ex ?ms r \<Longrightarrow> done_with (owner_label ci) ds r" for r
      using spec wd in_waves by blast
    show "c \<Longrightarrow> ds_errs ds = []" using spec by blast
  next
    fix k assume "map_of (w_objs w') k \<noteq> map_of (w_objs w) k"
    then have "map_of (w_objs (ds_world ds)) k \<noteq> map_of (w_objs (ds_world ?ds0)) k"
      using delete_finish_frame [OF ds(2)] by simp
    with spec obtain pre v post r where r: "GetDescendingSyncWaves m = pre @ v # post"
      "r \<in> set (GetObjectsForSyncWave m v)" "objectKey r = k" "eligible ex ?ms r"
      "\<forall>u\<in>set pre. wave_done (owner_label ci) ex ?ms m ds u" by blast
    have rv: "r \<in> set objects" "wave_of r = v" using r(2) wave_map_lookup [OF m] by auto
    have "done_with (owner_label ci) ds r'"
      if "r' \<in> set objects" "eligible ex ?ms r'" "wave_of r < wave_of r'" for r'
      using descending_prefix [OF AddObjects_wave_map(1) [OF m] r(1) in_waves [OF that(1,2)]] that rv(2) r(5) wd
      by blast
    with r(3,4) rv(1) show "\<exists>r\<in>set objects. objectKey r = k \<and> eligible ex ?ms r
        \<and> (\<forall>r'\<in>set objects. eligible ex ?ms r' \<and> wave_of r < wave_of r' \<longrightarrow> done_with (owner_label ci) ds r')"
      by blast
  qed
qed

section \<open>Properties of the deletion\<close>

text \<open>C23: A call of \<open>DeleteObjects\<close> changes (deletes or marks for deletion) only objects that carry the
  owned-by label of the ClusterInstance, that are among the given objects and recorded in its status,
  and that are not excluded; and it does so only when every such object of a higher sync wave is
  already gone or belongs to someone else.\<close>

theorem deletion_owned_and_ordered:
  assumes "DeleteObjects ci objects ex tmo w = (c, eo, ci', w')" "faults_ok w"
    "map_of (w_objs w') k \<noteq> map_of (w_objs w) k"
  shows "(\<exists>obj. map_of (w_objs w) k = Some obj \<and> GetOwner obj = owner_label ci)
    \<and> (\<exists>r\<in>set objects. objectKey r = k \<and> eligible ex (st_ManifestsRendered (ci_Status ci)) r
        \<and> (\<forall>r'\<in>set objects. eligible ex (st_ManifestsRendered (ci_Status ci)) r' \<and> wave_of r < wave_of r'
             \<longrightarrow> cleared (owner_label ci) w' (objectKey r')))"
proof -
  obtain ds where ds: "step_ok (owner_label ci)
      \<lparr>ds_manifests = st_ManifestsRendered (ci_Status ci), ds_deleted = [], ds_errs = [], ds_world = w\<rparr> ds"
    "delete_finish ci ds = (eo, ci', w')"
    "\<exists>r\<in>set objects. objectKey r = k \<and> eligible ex (st_ManifestsRendered (ci_Status ci)) r
        \<and> (\<forall>r'\<in>set objects. eligible ex (st_ManifestsRendered (ci_Status ci)) r' \<and> wave_of r < wave_of r' \<longrightarrow>
             done_with (owner_label ci) ds r')"
    using DeleteObjects_spec [OF assms(1,2)] assms(3) by metis
  have objs: "w_objs w' = w_objs (ds_world ds)" using delete_finish_frame [OF ds(2)] by simp
  have "owned_only (owner_label ci) w (ds_world ds)" using ds(1) by (simp add: step_ok_def)
  then have "\<not> cleared (owner_label ci) w k" using assms(3) objs by (auto simp: owned_only_def)
  then have "\<exists>obj. map_of (w_objs w) k = Some obj \<and> GetOwner obj = owner_label ci"
    by (auto simp: cleared_def split: option.splits)
  moreover have "cleared (owner_label ci) w' k' = cleared (owner_label ci) (ds_world ds) k'" for k'
    by (simp add: cleared_def objs)
  ultimately show ?thesis using ds(3) by (auto simp: done_with_def)
qed

text \<open>C24: When \<open>DeleteObjects\<close> reports completion, every given object that is recorded in the status and
  not excluded is gone or belongs to someone else; and if it also reports no error and nobody else
  wrote the ClusterInstance, the status no longer records any of them.\<close>

theorem deletion_complete:
  assumes "DeleteObjects ci objects ex tmo w = (True, eo, ci', w')" "faults_ok w" "r \<in> set objects"
    "eligible ex (st_ManifestsRendered (ci_Status ci)) r"
  shows "cleared (owner_label ci) w' (objectKey r)
    \<and> (eo = None \<and> map_of (w_cis w) (ci_key ci) = Some ci \<longrightarrow>
        object_identity r \<notin> identity ` set (st_ManifestsRendered (ci_Status ci')))"
proof -
  obtain ds where ds: "step_ok (owner_label ci)
      \<lparr>ds_manifests = st_ManifestsRendered (ci_Status ci), ds_deleted = [], ds_errs = [], ds_world = w\<rparr> ds"
    "delete_finish ci ds = (eo, ci', w')" "done_with (owner_label ci) ds r"
    using DeleteObjects_spec [OF assms(1,2)] assms(3,4) by metis
  have w: "w_objs w' = w_objs (ds_world ds)" "w_cis (ds_world ds) = w_cis w"
    using delete_finish_frame [OF ds(2)] ds(1) by (auto simp: step_ok_def owned_only_def)
  let ?left = "filterOutDeletedManifests (ds_manifests ds) (ds_deleted ds)"
  have gone: "object_identity r \<notin> identity ` set ?left"
    using ds(3) IndexOfManifest_Inl_iff
    by (force simp: filterOutDeletedManifests_def done_with_def split: sum.splits)
  have "st_ManifestsRendered (ci_Status ci') = ?left" if "eo = None" "map_of (w_cis w) (ci_key ci) = Some ci"
  proof (cases "st_ManifestsRendered (ci_Status ci) = ?left")
    case True
    with ds(2) show ?thesis by (simp add: delete_finish_def)
  next
    case False
    let ?ci = "with_manifests ?left ci"
    have "PatchCIStatus ci ?ci (ds_world ds) = (None, ci', w')"
      using ds(2) that(1) False
      by (auto simp: delete_finish_def Let_def NewAggregate_def split: prod.splits option.splits if_splits)
    moreover have "ci_key ?ci = ci_key ci" "ci_Meta ?ci = ci_Meta ci" "ci_Spec ?ci = ci_Spec ci"
      by (simp_all add: with_manifests_def ci_key_def)
    ultimately have "ci' = ?ci" using ci_status.patch_synced [of ci ?ci] w(2) that(2) by metis
    then show ?thesis by (simp add: with_manifests_def)
  qed
  with gone ds(3) w(1) show ?thesis by (auto simp: done_with_def cleared_def)
qed


text \<open>A world with one owned Secret, recorded in the status of the ClusterInstance.\<close>

definition deletion_ref :: ManifestReference where
  "deletion_ref = \<lparr>m_APIGroup = Some ''v1'', m_Kind = ''Secret'', m_Name = ''n'', m_Namespace = ''ns'',
     m_SyncWave = 1, m_Status = ''rendered'', m_LastAppliedTime = 5, m_Message = []\<rparr>"

definition deletion_ci :: ClusterInstance where
  "deletion_ci = with_manifests [deletion_ref] sample_ci"

definition deletion_obj :: kobject where
  "deletion_obj = (new_object ''v1'' ''Secret'' ''ns'' ''n'')\<lparr>o_Meta :=
     empty_meta\<lparr>om_Name := ''n'', om_Namespace := ''ns'', om_Labels := [(OwnedByLabel, ''ns_c'')]\<rparr>\<rparr>"

definition deletion_world :: "kobject list \<Rightarrow> world" where
  "deletion_world objs = \<lparr>w_now = 100, w_faults = [], w_objs = map (\<lambda>obj. (okey obj, obj)) objs,
     w_cis = [(ci_key deletion_ci, deletion_ci)]\<rparr>"

definition deletion_run :: "kobject list \<Rightarrow> bool \<times> err option \<times> ClusterInstance \<times> world" where
  "deletion_run objs = DeleteObjects deletion_ci [sample_object ''Secret'' ''1'' actionNone] [] None (deletion_world objs)"

lemma deletion_run_split:
  "DeleteObjects deletion_ci [sample_object ''Secret'' ''1'' actionNone] [] None (deletion_world objs) =
     (fst (deletion_run objs), fst (snd (deletion_run objs)), fst (snd (snd (deletion_run objs))),
      snd (snd (snd (deletion_run objs))))"
  by (simp add: deletion_run_def)

theorem deletion_owned_and_ordered_witness:
  "\<exists>obj. map_of (w_objs (deletion_world [deletion_obj])) (okey deletion_obj) = Some obj
     \<and> GetOwner obj = owner_label deletion_ci"
proof -
  have "faults_ok (deletion_world [deletion_obj])" by code_simp
  moreover have "map_of (w_objs (snd (snd (snd (deletion_run [deletion_obj]))))) (okey deletion_obj)
      \<noteq> map_of (w_objs (deletion_world [deletion_obj])) (okey deletion_obj)" by code_simp
  ultimately show ?thesis using deletion_owned_and_ordered [OF deletion_run_split] by blast
qed

theorem deletion_complete_witness:
  "cleared (owner_label deletion_ci) (snd (snd (snd (deletion_run []))))
     (objectKey (sample_object ''Secret'' ''1'' actionNone))"
proof -
  have t: "fst (deletion_run []) = True" by code_simp
  have "faults_ok (deletion_world [])" by code_simp
  moreover have "eligible [] (st_ManifestsRendered (ci_Status deletion_ci)) (sample_object ''Secret'' ''1'' actionNone)"
    by code_simp
  ultimately show ?thesis
    using deletion_complete [OF deletion_run_split [of "[]", unfolded t]] by simp
qed

lemma manifest_object_facts:
  assumes "NewRenderedObject (manifest_document g m) = (eo, r)" "m_APIGroup m = Some g" "in_int64 (m_SyncWave m)"
  shows "object_identity r = identity m \<and> GetSyncWave r = Inr (m_SyncWave m)
    \<and> (eo = None \<longleftrightarrow> m_Kind m \<noteq> [] \<and> length (Split (CHR ''/'') g) \<le> 2)"
proof -
  have r: "r = \<lparr>ro_object = Some (manifest_document g m), ro_action = actionNone\<rparr>"
    and eo: "eo = None \<longleftrightarrow> GetKind r \<noteq> [] \<and> length (Split (CHR ''/'') (GetAPIVersion r)) \<le> 2"
    using assms(1) by (auto simp: NewRenderedObject_def SetObject_def Let_def split: if_splits)
  have "GetKind r = m_Kind m" "GetAPIVersion r = g" "GetName r = m_Name m" "GetNamespace r = m_Namespace m"
    "GetAnnotations r = [(WaveAnnotation, Itoa (m_SyncWave m))]"
    by (simp_all add: r GetKind_def GetAPIVersion_def GetName_def GetNamespace_def GetAnnotations_def
        getNestedString_def stringMap_def manifest_document_def)
  with eo assms(2,3) show ?thesis
    by (simp add: object_identity_def identity_def GetSyncWave_def Atoi_Itoa)
qed

text \<open>An object rebuilt from a manifest reference of the status has the identity and the sync wave of
  that reference: the annotation written with \<open>%d\<close> is read back as the same number.\<close>

theorem manifest_object_round_trip:
  assumes "NewRenderedObject (manifest_document g m) = (eo, r)" "m_APIGroup m = Some g" "in_int64 (m_SyncWave m)"
  shows "object_identity r = identity m \<and> GetSyncWave r = Inr (m_SyncWave m)
    \<and> (eo = None \<longleftrightarrow> m_Kind m \<noteq> [] \<and> length (Split (CHR ''/'') g) \<le> 2)"
  using assms by (rule manifest_object_facts)

theorem manifest_object_round_trip_witness:
  "GetSyncWave (snd (NewRenderedObject (manifest_document ''v1'' deletion_ref))) = Inr 1"
  using manifest_object_round_trip [OF surjective_pairing, of deletion_ref "''v1''"]
  by (simp add: deletion_ref_def in_int64_def)

end
