(* ===== verification/Preservation.thy ===== *)
theory Preservation
  imports Deletion
begin

text \<open>
  \<open>internal/controller/preservation\<close>: backup of labelled ConfigMaps and Secrets into Secrets, their
  restoration, the cleanup of the backups and the counts. The YAML library is the parameter
  \<open>codec\<close>; what a reader needs of it is that a document read back is the object that was written.
  A label selector is one requirement. \<open>Spec.Reinstall\<close> is not nil here: \<open>ProcessRequest\<close> checks it.
\<close>

section \<open>Times as text\<close>

text \<open>\<open>metav1.Now().Unix()\<close>, and \<open>time.RFC3339\<close> in UTC, of seconds since 1 January of year 1.\<close>

definition unix_seconds :: "time \<Rightarrow> int" where
  "unix_seconds t = int t - 62135596800"

definition pad :: "nat \<Rightarrow> nat \<Rightarrow> string" where
  "pad n x = (let s = show_nat x in replicate (n - length s) CHR ''0'' @ s)"

definition FormatRFC3339 :: "time \<Rightarrow> string" where
  "FormatRFC3339 t =
     (let z = t div 86400 + 306; secs = t mod 86400;
          era = z div 146097; doe = z mod 146097;
          yoe = (doe + doe div 36524 - doe div 1460 - doe div 146096) div 365;
          doy = doe + yoe div 100 - (365 * yoe + yoe div 4);
          mp = (5 * doy + 2) div 153;
          d = doy - (153 * mp + 2) div 5 + 1;
          m = (if mp < 10 then mp + 3 else mp - 9);
          y = yoe + era * 400 + (if m \<le> 2 then 1 else 0)
      in pad 4 y @ ''-'' @ pad 2 m @ ''-'' @ pad 2 d @ ''T'' @ pad 2 (secs div 3600) @ '':'' @
         pad 2 (secs mod 3600 div 60) @ '':'' @ pad 2 (secs mod 60) @ ''Z'')"

section \<open>Keys and selectors (helper.go)\<close>

definition InternalPreservationLabelKey :: string where
  "InternalPreservationLabelKey = PreservationLabelKey @ ''.internal''"

definition InternalPreservationLabelValue :: string where
  "InternalPreservationLabelValue = ''cluster-instance-required-resource''"

definition PreservationModeInternal :: string where
  "PreservationModeInternal = ''Internal''"

definition preservedDataLabelKey :: string where
  "preservedDataLabelKey = Group @ ''/preserved-data''"

definition preservedInternalDataLabelKey :: string where
  "preservedInternalDataLabelKey = Group @ ''/preserved-internal-data''"

definition ClusterIdentityDataAnnotationKey :: string where
  "ClusterIdentityDataAnnotationKey = preservedDataLabelKey @ ''.cluster-identity''"

definition RestoredAtAnnotationKey :: string where
  "RestoredAtAnnotationKey = PreservationLabelKey @ ''.restored-at''"

definition reinstallGenerationAnnotationKey :: string where
  "reinstallGenerationAnnotationKey = Group @ ''/reinstall-generation''"

definition resourceTypeAnnotationKey :: string where
  "resourceTypeAnnotationKey = PreservationLabelKey @ ''.resource-type''"

definition preservedDataKey :: string where
  "preservedDataKey = ''original-resource''"

definition configMapResourceType :: string where "configMapResourceType = ''ConfigMap''"
definition secretResourceType :: string where "secretResourceType = ''Secret''"

record codec =
  yaml_Marshal :: "kobject \<Rightarrow> string"
  yaml_Unmarshal :: "string \<Rightarrow> string \<Rightarrow> err + kobject"

record config =
  cf_Namespace :: string
  cf_Name :: string
  cf_resourceType :: string
  cf_ownerRef :: string
  cf_reinstallGeneration :: string
  cf_preservationMode :: string

datatype selector = Exists string | Equals string string

fun matches :: "selector \<Rightarrow> smap \<Rightarrow> bool" where
  "matches (Exists k) labels = ghas labels k"
| "matches (Equals k v) labels = (map_of labels k = Some v)"

definition buildBackupLabelSelector :: "string \<Rightarrow> err + selector option" where
  "buildBackupLabelSelector mode =
     (if mode = PreservationModeNone then Inr None
      else if mode = PreservationModeAll then Inr (Some (Exists PreservationLabelKey))
      else if mode = PreservationModeClusterIdentity
      then Inr (Some (Equals PreservationLabelKey ClusterIdentityLabelValue))
      else if mode = PreservationModeInternal
      then Inr (Some (Equals InternalPreservationLabelKey InternalPreservationLabelValue))
      else Inl (ErrNew (''unknown PreservationMode for backup: '' @ mode)))"

definition buildRestoreLabelSelector :: "string \<Rightarrow> err + selector option" where
  "buildRestoreLabelSelector mode =
     (if mode = PreservationModeNone then Inr None
      else if mode = PreservationModeAll \<or> mode = PreservationModeClusterIdentity
      then Inr (Some (Exists preservedDataLabelKey))
      else if mode = PreservationModeInternal then Inr (Some (Exists preservedInternalDataLabelKey))
      else Inl (ErrNew (''unknown PreservationMode for restore: '' @ mode)))"

definition generateBackupName :: "string \<Rightarrow> string \<Rightarrow> string \<Rightarrow> string" where
  "generateBackupName rType name generation = ToLower rType @ ''-'' @ name @ ''-'' @ generation"

text \<open>The type of an object is not cleared with its TypeMeta: in the model it is part of the key.\<close>

definition sanitizeResourceMetadata :: "kobject \<Rightarrow> kobject" where
  "sanitizeResourceMetadata obj = obj\<lparr>o_Meta := (o_Meta obj)\<lparr>om_CreationTimestamp := 0, om_OwnerReferences := [],
     om_ResourceVersion := [], om_UID := []\<rparr>\<rparr>"

section \<open>Backup\<close>

text \<open>\<open>createResource\<close>: the mutation of the preserved Secret.\<close>

definition preserved_mutate :: "time \<Rightarrow> config \<Rightarrow> kobject \<Rightarrow> kobject" where
  "preserved_mutate now conf obj =
     (let labels = om_Labels (o_Meta obj);
          labels = (if cf_ownerRef conf \<noteq> [] then gset OwnedByLabel (cf_ownerRef conf) labels else labels);
          annotations = gset resourceTypeAnnotationKey (cf_resourceType conf) (om_Annotations (o_Meta obj));
          annotations = (if cf_reinstallGeneration conf \<noteq> []
            then gset reinstallGenerationAnnotationKey (cf_reinstallGeneration conf) annotations else annotations);
          internal = (cf_preservationMode conf = PreservationModeInternal);
          preservedDataLabel = (if internal then preservedInternalDataLabelKey else preservedDataLabelKey);
          additionalAnnotation = (if internal then InternalPreservationLabelKey else PreservationLabelKey)
      in obj\<lparr>o_Meta := (o_Meta obj)\<lparr>
           om_Labels := gset preservedDataLabel (Itoa (unix_seconds now)) labels,
           om_Annotations := gset additionalAnnotation (cf_preservationMode conf) annotations\<rparr>\<rparr>)"

definition createResource :: "kobject \<Rightarrow> config \<Rightarrow> world \<Rightarrow> err option \<times> world" where
  "createResource obj conf w =
     (case CreateOrUpdate obj (preserved_mutate (w_now w) conf) w of
        (Inr obj', w') \<Rightarrow> (None, w')
      | (Inl e, w') \<Rightarrow>
          (Some (ErrWrap (''failed to create or update preserved '' @ o_Kind obj @ '' ('' @ om_Namespace (o_Meta obj)
             @ ''/'' @ om_Name (o_Meta obj) @ ''): '') e), w'))"

definition preserved_secret :: "codec \<Rightarrow> string \<Rightarrow> config \<Rightarrow> kobject \<Rightarrow> kobject" where
  "preserved_secret cd backupName conf resource =
     (let obj = new_object ''v1'' ''Secret'' (cf_Namespace conf) backupName
      in obj\<lparr>o_Type := ''Opaque'', o_Immutable := True,
           o_Data := [(preservedDataKey, yaml_Marshal cd (sanitizeResourceMetadata resource))],
           o_Meta := (o_Meta obj)\<lparr>om_Annotations :=
             (if gindex (om_Labels (o_Meta resource)) PreservationLabelKey = ClusterIdentityLabelValue
              then [(ClusterIdentityDataAnnotationKey, [])] else [])\<rparr>\<rparr>)"

definition backupResource :: "codec \<Rightarrow> string \<Rightarrow> config \<Rightarrow> world \<Rightarrow> err option \<times> world" where
  "backupResource cd backupName conf w =
     (if cf_resourceType conf \<noteq> configMapResourceType \<and> cf_resourceType conf \<noteq> secretResourceType
      then (Some (ErrNew ''unsupported resource type for backup: <nil>''), w)
      else case Get (ObjKey ''v1'' (cf_resourceType conf) (cf_Namespace conf) (cf_Name conf)) w of
        (Inl e, w') \<Rightarrow>
          (Some (ErrWrap (''failed to retrieve '' @ cf_resourceType conf @ '' ('' @ cf_Namespace conf @ ''/''
             @ cf_Name conf @ '') for preservation: '') e), w')
      | (Inr resource, w') \<Rightarrow> createResource (preserved_secret cd backupName conf resource) conf w')"

text \<open>The names of the listed ConfigMaps and Secrets.\<close>

definition resourcesForPreservation :: "string \<Rightarrow> selector \<Rightarrow> world \<Rightarrow> (err + (string list \<times> string list)) \<times> world" where
  "resourcesForPreservation ns sel w =
     (case ListObjs ''v1'' ''ConfigMap'' ns (matches sel) w of
        (cms, w1) \<Rightarrow>
          (case ListObjs ''v1'' ''Secret'' ns (matches sel) w1 of
             (secrets, w2) \<Rightarrow>
               (let errs = (case cms of Inl e \<Rightarrow> [ErrWrap ''failed to list ConfigMaps: '' e] | Inr l \<Rightarrow> []) @
                           (case secrets of Inl e \<Rightarrow> [ErrWrap ''failed to list Secrets: '' e] | Inr l \<Rightarrow> []);
                    names = (\<lambda>r. case r of Inl e \<Rightarrow> [] | Inr l \<Rightarrow> map (\<lambda>obj. om_Name (o_Meta obj)) l)
                in if errs \<noteq> [] then (Inl (ErrAgg errs), w2) else (Inr (names cms, names secrets), w2))))"

text \<open>A loop over names that collects the errors of its calls.\<close>

fun collect_errs :: "(string \<Rightarrow> world \<Rightarrow> err option \<times> world) \<Rightarrow> string list \<Rightarrow> world \<Rightarrow> err list \<times> world" where
  "collect_errs f [] w = ([], w)"
| "collect_errs f (name # names) w =
     (case f name w of
        (eo, w') \<Rightarrow>
          (case collect_errs f names w' of
             (errs, w'') \<Rightarrow> ((case eo of None \<Rightarrow> [] | Some e \<Rightarrow> [e]) @ errs, w'')))"

definition backupFn :: "codec \<Rightarrow> string \<Rightarrow> config \<Rightarrow> string \<Rightarrow> string \<Rightarrow> world \<Rightarrow> err option \<times> world" where
  "backupFn cd namespace base rType name =
     backupResource cd (generateBackupName rType name (cf_reinstallGeneration base))
       (base\<lparr>cf_Namespace := namespace, cf_Name := name, cf_resourceType := rType\<rparr>)"

definition backupResources :: "codec \<Rightarrow> selector \<Rightarrow> string \<Rightarrow> config \<Rightarrow> world \<Rightarrow> err option \<times> world" where
  "backupResources cd sel namespace base w =
     (if cf_preservationMode base = PreservationModeNone then (None, w)
      else case resourcesForPreservation namespace sel w of
        (Inl e, w') \<Rightarrow> (Some e, w')
      | (Inr (configMaps, secrets), w') \<Rightarrow>
          (case collect_errs (backupFn cd namespace base configMapResourceType) configMaps w' of
             (errs1, w1) \<Rightarrow>
               (case collect_errs (backupFn cd namespace base secretResourceType) secrets w1 of
                  (errs2, w2) \<Rightarrow> (NewAggregate (errs1 @ errs2), w2))))"

section \<open>Restore\<close>

definition isInternalResource :: "kobject \<Rightarrow> bool" where
  "isInternalResource obj \<longleftrightarrow>
     gindex (om_Labels (o_Meta obj)) InternalPreservationLabelKey = InternalPreservationLabelValue
     \<or> gindex (om_Labels (o_Meta obj)) preservedInternalDataLabelKey \<noteq> []"

text \<open>The checks on a fetched backup; \<open>Inr True\<close> means that the restoration is skipped.\<close>

definition validate_mode :: "kobject \<Rightarrow> config \<Rightarrow> err + bool" where
  "validate_mode obj conf =
     (if isInternalResource obj then Inr False
      else
        (let found = map_of (om_Annotations (o_Meta obj)) PreservationLabelKey in
         if found = None \<and> cf_preservationMode conf \<noteq> PreservationModeNone
         then Inl (ErrNew (''preserved resource ('' @ cf_Namespace conf @ ''/'' @ cf_Name conf @ '') is missing the ''
                @ squote @ PreservationLabelKey @ squote @ '' annotation''))
         else if found \<noteq> None \<and> cf_preservationMode conf = PreservationModeNone then Inr True
         else if cf_preservationMode conf = PreservationModeClusterIdentity
              \<and> gindex (om_Annotations (o_Meta obj)) PreservationLabelKey \<noteq> cf_preservationMode conf then Inr True
         else Inr False))"

definition validate_generation :: "kobject \<Rightarrow> config \<Rightarrow> err option" where
  "validate_generation obj conf =
     (if cf_reinstallGeneration conf = [] then None
      else case map_of (om_Annotations (o_Meta obj)) reinstallGenerationAnnotationKey of
        None \<Rightarrow> Some (ErrNew (''preserved resource ('' @ cf_Namespace conf @ ''/'' @ cf_Name conf @ '') is missing the ''
                @ squote @ reinstallGenerationAnnotationKey @ squote @ '' annotation''))
      | Some value \<Rightarrow>
          if value \<noteq> cf_reinstallGeneration conf
          then Some (ErrNew (''preserved resource'' @ squote @ ''s ('' @ cf_Namespace conf @ ''/'' @ cf_Name conf @ '') ''
                @ squote @ reinstallGenerationAnnotationKey @ squote @ '' annotation ('' @ value
                @ '') does not match ('' @ cf_reinstallGeneration conf @ '')''))
          else None)"

definition fetchAndValidateObjectToRestore :: "config \<Rightarrow> world \<Rightarrow> (err + (bool \<times> kobject)) \<times> world" where
  "fetchAndValidateObjectToRestore conf w =
     (case Get (ObjKey ''v1'' ''Secret'' (cf_Namespace conf) (cf_Name conf)) w of
        (Inl e, w') \<Rightarrow>
          (Inl (ErrWrap (''failed to retrieve resource ('' @ cf_Namespace conf @ ''/'' @ cf_Name conf
             @ '') for restoration: '') e), w')
      | (Inr obj, w') \<Rightarrow>
          ((case validate_mode obj conf of
              Inl e \<Rightarrow> Inl e
            | Inr True \<Rightarrow> Inr (True, obj)
            | Inr False \<Rightarrow>
                (case (if cf_ownerRef conf \<noteq> [] then VerifyOwnership obj (cf_ownerRef conf) else None) of
                   Some e \<Rightarrow> Inl (ErrWrap (''ownership verification failed for object with label '' @ OwnedByLabel @ '': '') e)
                 | None \<Rightarrow>
                     (case validate_generation obj conf of Some e \<Rightarrow> Inl e | None \<Rightarrow> Inr (False, obj)))), w'))"

text \<open>The mutation of a restored object; \<open>orig\<close> is the object read from the backup.\<close>

definition restored_mutate :: "time \<Rightarrow> kobject \<Rightarrow> kobject \<Rightarrow> kobject" where
  "restored_mutate now orig obj = sanitizeResourceMetadata (obj\<lparr>o_Data := o_Data orig, o_Meta := (o_Meta obj)\<lparr>
     om_Annotations := gset RestoredAtAnnotationKey (FormatRFC3339 now) (om_Annotations (o_Meta orig)),
     om_Labels := om_Labels (o_Meta orig)\<rparr>\<rparr>)"

definition restoreResource :: "codec \<Rightarrow> config \<Rightarrow> world \<Rightarrow> err option \<times> world" where
  "restoreResource cd conf w =
     (case fetchAndValidateObjectToRestore conf w of
        (Inl e, w') \<Rightarrow> (Some e, w')
      | (Inr (True, preserved), w') \<Rightarrow> (None, w')
      | (Inr (False, preserved), w') \<Rightarrow>
          (case map_of (om_Annotations (o_Meta preserved)) resourceTypeAnnotationKey of
             None \<Rightarrow> (Some (ErrNew (''missing '' @ squote @ resourceTypeAnnotationKey @ squote
                 @ '' annotation in preserved resource ('' @ cf_Namespace conf @ ''/'' @ cf_Name conf @ '')'')), w')
           | Some rType \<Rightarrow>
               (case map_of (o_Data preserved) preservedDataKey of
                  None \<Rightarrow> (Some (ErrNew (''missing '' @ squote @ preservedDataKey @ squote @ '' key in Secret.Data (''
                      @ cf_Namespace conf @ ''/'' @ cf_Name conf @ '')'')), w')
                | Some data \<Rightarrow>
                    if rType \<noteq> secretResourceType \<and> rType \<noteq> configMapResourceType
                    then (Some (ErrNew (''unknown resource type: '' @ rType)), w')
                    else case yaml_Unmarshal cd rType data of
                      Inl e \<Rightarrow> (Some (ErrWrap (''failed to unmarshal preserved resource ('' @ cf_Namespace conf @ ''/''
                          @ cf_Name conf @ ''): '') e), w')
                    | Inr orig \<Rightarrow>
                        (case CreateOrUpdate orig (restored_mutate (w_now w') orig) w' of
                           (Inr obj, w'') \<Rightarrow> (None, w'')
                         | (Inl e, w'') \<Rightarrow> (Some (ErrWrap (''failed to restore preserved '' @ rType @ '' (''
                             @ om_Namespace (o_Meta orig) @ ''/'' @ om_Name (o_Meta orig) @ ''): '') e), w'')))))"

definition restoreFn :: "codec \<Rightarrow> string \<Rightarrow> config \<Rightarrow> string \<Rightarrow> world \<Rightarrow> err option \<times> world" where
  "restoreFn cd namespace base name =
     restoreResource cd (base\<lparr>cf_Namespace := namespace, cf_Name := name, cf_resourceType := []\<rparr>)"

definition restoreResources :: "codec \<Rightarrow> selector \<Rightarrow> string \<Rightarrow> config \<Rightarrow> world \<Rightarrow> err option \<times> world" where
  "restoreResources cd sel namespace base w =
     (case resourcesForPreservation namespace sel w of
        (Inl e, w') \<Rightarrow> (Some e, w')
      | (Inr (configMaps, secrets), w') \<Rightarrow>
          (case collect_errs (restoreFn cd namespace base) configMaps w' of
             (errs1, w1) \<Rightarrow>
               (case collect_errs (restoreFn cd namespace base) secrets w1 of
                  (errs2, w2) \<Rightarrow> (NewAggregate (errs1 @ errs2), w2))))"

section \<open>Counts\<close>

datatype resourceCategory =
  resourceCategoryUnknown | resourceCategoryClusterIdentity | resourceCategoryOther

definition classifyPreservedResource :: "kobject \<Rightarrow> resourceCategory" where
  "classifyPreservedResource obj =
     (let annotations = om_Annotations (o_Meta obj) in
      if isInternalResource obj then resourceCategoryUnknown
      else if ghas annotations ClusterIdentityDataAnnotationKey then resourceCategoryClusterIdentity
      else if gindex annotations PreservationLabelKey = PreservationModeClusterIdentity then resourceCategoryClusterIdentity
      else if gindex annotations PreservationLabelKey = PreservationModeAll then resourceCategoryOther
      else resourceCategoryUnknown)"

definition classifyRestoredResource :: "kobject \<Rightarrow> resourceCategory" where
  "classifyRestoredResource obj =
     (if isInternalResource obj \<or> gindex (om_Annotations (o_Meta obj)) RestoredAtAnnotationKey = []
      then resourceCategoryUnknown
      else if gindex (om_Labels (o_Meta obj)) PreservationLabelKey = ClusterIdentityLabelValue
      then resourceCategoryClusterIdentity
      else resourceCategoryOther)"

definition count_category :: "(kobject \<Rightarrow> resourceCategory) \<Rightarrow> resourceCategory \<Rightarrow> (err + kobject list) \<Rightarrow> nat" where
  "count_category f cat r = (case r of Inl e \<Rightarrow> 0 | Inr l \<Rightarrow> length (filter (\<lambda>obj. f obj = cat) l))"

definition countMatchingResources :: "string \<Rightarrow> selector \<Rightarrow> bool \<Rightarrow> world \<Rightarrow> (nat \<times> nat \<times> err option) \<times> world" where
  "countMatchingResources namespace sel checkRestored w =
     (let f = (if checkRestored then classifyRestoredResource else classifyPreservedResource) in
      case ListObjs ''v1'' ''Secret'' namespace (matches sel) w of
        (secrets, w1) \<Rightarrow>
          (case ListObjs ''v1'' ''ConfigMap'' namespace (matches sel) w1 of
             (cms, w2) \<Rightarrow>
               ((count_category f resourceCategoryClusterIdentity secrets + count_category f resourceCategoryClusterIdentity cms,
                 count_category f resourceCategoryOther secrets + count_category f resourceCategoryOther cms,
                 NewAggregate ((case secrets of Inl e \<Rightarrow> [ErrWrap ''failed to list Secrets: '' e] | Inr l \<Rightarrow> []) @
                   (case cms of Inl e \<Rightarrow> [ErrWrap ''failed to list ConfigMaps: '' e] | Inr l \<Rightarrow> []))), w2)))"

section \<open>The operations (preservation.go)\<close>

definition reinstall_spec :: "ClusterInstance \<Rightarrow> ReinstallSpec" where
  "reinstall_spec ci = (case s_Reinstall (ci_Spec ci) of
     Some rs \<Rightarrow> rs | None \<Rightarrow> \<lparr>rs_Generation = [], rs_PreservationMode = []\<rparr>)"

definition base_config :: "ClusterInstance \<Rightarrow> string \<Rightarrow> config" where
  "base_config ci mode = \<lparr>cf_Namespace = [], cf_Name = [], cf_resourceType = [],
     cf_ownerRef = GenerateOwnedByLabelValue (om_Namespace (ci_Meta ci)) (om_Name (ci_Meta ci)),
     cf_reinstallGeneration = rs_Generation (reinstall_spec ci), cf_preservationMode = mode\<rparr>"

fun for_modes :: "(string \<Rightarrow> err + selector option) \<Rightarrow> (string \<Rightarrow> selector \<Rightarrow> world \<Rightarrow> err option \<times> world)
    \<Rightarrow> string list \<Rightarrow> world \<Rightarrow> err option \<times> world" where
  "for_modes sel_of run [] w = (None, w)"
| "for_modes sel_of run (mode # modes) w =
     (case sel_of mode of
        Inl e \<Rightarrow> (Some e, w)
      | Inr None \<Rightarrow> for_modes sel_of run modes w
      | Inr (Some sel) \<Rightarrow>
          (case run mode sel w of
             (Some e, w') \<Rightarrow> (Some e, w')
           | (None, w') \<Rightarrow> for_modes sel_of run modes w'))"

definition Backup :: "codec \<Rightarrow> ClusterInstance \<Rightarrow> world \<Rightarrow> err option \<times> world" where
  "Backup cd ci w =
     (if rs_PreservationMode (reinstall_spec ci) = PreservationModeNone then (None, w)
      else for_modes buildBackupLabelSelector
        (\<lambda>mode sel. backupResources cd sel (om_Namespace (ci_Meta ci)) (base_config ci mode))
        [rs_PreservationMode (reinstall_spec ci), PreservationModeInternal] w)"

definition Restore :: "codec \<Rightarrow> ClusterInstance \<Rightarrow> world \<Rightarrow> err option \<times> world" where
  "Restore cd ci w =
     (if rs_PreservationMode (reinstall_spec ci) = PreservationModeNone then (None, w)
      else for_modes buildRestoreLabelSelector
        (\<lambda>mode sel. restoreResources cd sel (om_Namespace (ci_Meta ci)) (base_config ci mode))
        [rs_PreservationMode (reinstall_spec ci), PreservationModeInternal] w)"

fun cleanup_names :: "string \<Rightarrow> string list \<Rightarrow> world \<Rightarrow> (err + (string list \<times> string list)) \<times> world" where
  "cleanup_names ns [] w = (Inr ([], []), w)"
| "cleanup_names ns (mode # modes) w =
     (case buildRestoreLabelSelector mode of
        Inl e \<Rightarrow> (Inl e, w)
      | Inr None \<Rightarrow> cleanup_names ns modes w
      | Inr (Some sel) \<Rightarrow>
          (case resourcesForPreservation ns sel w of
             (Inl e, w') \<Rightarrow> (Inl e, w')
           | (Inr (cms, secrets), w') \<Rightarrow>
               (case cleanup_names ns modes w' of
                  (Inl e, w'') \<Rightarrow> (Inl e, w'')
                | (Inr (cms', secrets'), w'') \<Rightarrow> (Inr (cms @ cms', secrets @ secrets'), w''))))"

definition cleanup_object :: "string \<Rightarrow> string \<Rightarrow> string \<Rightarrow> err option \<times> RenderedObject" where
  "cleanup_object ns rType name = NewRenderedObject [(''apiVersion'', JStr ''v1''), (''kind'', JStr rType),
     (''metadata'', JObj [(''name'', JStr name), (''namespace'', JStr ns)])]"

text \<open>The loop over the names of one type: the errors and whether everything was deleted.\<close>

fun cleanup_loop :: "ClusterInstance \<Rightarrow> string \<Rightarrow> string list \<Rightarrow> world \<Rightarrow> (bool \<times> err list) \<times> world" where
  "cleanup_loop ci rType [] w = ((True, []), w)"
| "cleanup_loop ci rType (name # names) w =
     (case cleanup_object (om_Namespace (ci_Meta ci)) rType name of
        (Some e, object) \<Rightarrow>
          (case cleanup_loop ci rType names w of
             ((completed, errs), w') \<Rightarrow> ((completed, ErrWrap ''failed to set object from raw data: '' e # errs), w'))
      | (None, object) \<Rightarrow>
          (case DeleteObject ci object None w of
             (res, w') \<Rightarrow>
               (case cleanup_loop ci rType names w' of
                  ((completed, errs), w'') \<Rightarrow>
                    (case res of
                       Inl e \<Rightarrow>
                         if IsNotFound e then ((False, errs), w'')
                         else ((completed, ErrWrap (''failed to delete object '' @ GetResourceIdOf object @ '': '') e # errs), w'')
                     | Inr deleted \<Rightarrow> ((deleted \<and> completed, errs), w'')))))"

definition Cleanup :: "ClusterInstance \<Rightarrow> world \<Rightarrow> (bool \<times> err option) \<times> world" where
  "Cleanup ci w =
     (case cleanup_names (om_Namespace (ci_Meta ci))
        [rs_PreservationMode (reinstall_spec ci), PreservationModeInternal] w of
        (Inl e, w') \<Rightarrow> ((False, Some e), w')
      | (Inr (cms, secrets), w') \<Rightarrow>
          (case cleanup_loop ci configMapResourceType cms w' of
             ((c1, errs1), w1) \<Rightarrow>
               (case cleanup_loop ci secretResourceType secrets w1 of
                  ((c2, errs2), w2) \<Rightarrow> ((c1 \<and> c2, NewAggregate (errs1 @ errs2)), w2))))"

definition counts :: "(string \<Rightarrow> err + selector option) \<Rightarrow> bool \<Rightarrow> ClusterInstance \<Rightarrow> world \<Rightarrow> (nat \<times> nat \<times> err option) \<times> world" where
  "counts sel_of checkRestored ci w =
     (let mode = rs_PreservationMode (reinstall_spec ci) in
      if mode = PreservationModeNone then ((0, 0, None), w)
      else case sel_of mode of
        Inl e \<Rightarrow> ((0, 0, Some e), w)
      | Inr None \<Rightarrow> ((0, 0, None), w)
      | Inr (Some sel) \<Rightarrow> countMatchingResources (om_Namespace (ci_Meta ci)) sel checkRestored w)"

definition GetPreservedResourceCounts :: "ClusterInstance \<Rightarrow> world \<Rightarrow> (nat \<times> nat \<times> err option) \<times> world" where
  "GetPreservedResourceCounts = counts buildRestoreLabelSelector False"

definition GetRestoredResourceCounts :: "ClusterInstance \<Rightarrow> world \<Rightarrow> (nat \<times> nat \<times> err option) \<times> world" where
  "GetRestoredResourceCounts = counts buildBackupLabelSelector True"


section \<open>Lemmas: backups\<close>

lemma label_keys [simp]:
  "preservedDataLabelKey \<noteq> OwnedByLabel" "OwnedByLabel \<noteq> preservedDataLabelKey"
  "preservedInternalDataLabelKey \<noteq> OwnedByLabel" "OwnedByLabel \<noteq> preservedInternalDataLabelKey"
  "preservedDataLabelKey \<noteq> preservedInternalDataLabelKey" "preservedInternalDataLabelKey \<noteq> preservedDataLabelKey"
  "InternalPreservationLabelKey \<noteq> preservedInternalDataLabelKey"
  by (simp_all add: preservedDataLabelKey_def preservedInternalDataLabelKey_def OwnedByLabel_def Group_def
      InternalPreservationLabelKey_def PreservationLabelKey_def)

lemma annotation_keys [simp]:
  "reinstallGenerationAnnotationKey \<noteq> resourceTypeAnnotationKey" "resourceTypeAnnotationKey \<noteq> reinstallGenerationAnnotationKey"
  "reinstallGenerationAnnotationKey \<noteq> PreservationLabelKey" "PreservationLabelKey \<noteq> reinstallGenerationAnnotationKey"
  "reinstallGenerationAnnotationKey \<noteq> InternalPreservationLabelKey" "InternalPreservationLabelKey \<noteq> reinstallGenerationAnnotationKey"
  "resourceTypeAnnotationKey \<noteq> PreservationLabelKey" "PreservationLabelKey \<noteq> resourceTypeAnnotationKey"
  "resourceTypeAnnotationKey \<noteq> InternalPreservationLabelKey" "InternalPreservationLabelKey \<noteq> resourceTypeAnnotationKey"
  "PreservationLabelKey \<noteq> InternalPreservationLabelKey" "InternalPreservationLabelKey \<noteq> PreservationLabelKey"
  by (simp_all add: reinstallGenerationAnnotationKey_def resourceTypeAnnotationKey_def PreservationLabelKey_def
      InternalPreservationLabelKey_def Group_def)

lemma mode_neqs [simp]:
  "PreservationModeAll \<noteq> PreservationModeNone" "PreservationModeClusterIdentity \<noteq> PreservationModeNone"
  "PreservationModeInternal \<noteq> PreservationModeNone" "PreservationModeInternal \<noteq> PreservationModeAll"
  "PreservationModeInternal \<noteq> PreservationModeClusterIdentity" "PreservationModeAll \<noteq> PreservationModeInternal"
  "PreservationModeClusterIdentity \<noteq> PreservationModeInternal" "PreservationModeNone \<noteq> PreservationModeInternal"
  "PreservationModeAll \<noteq> PreservationModeClusterIdentity" "PreservationModeClusterIdentity \<noteq> PreservationModeAll"
  by (simp_all add: PreservationModeAll_def PreservationModeNone_def PreservationModeInternal_def
      PreservationModeClusterIdentity_def)

text \<open>Every backup Secret is stamped with its owner and its generation.\<close>

definition stamped :: "string \<Rightarrow> string \<Rightarrow> kobject \<Rightarrow> bool" where
  "stamped owner gen obj \<longleftrightarrow> GetOwner obj = owner \<and> map_of (om_Annotations (o_Meta obj)) reinstallGenerationAnnotationKey = Some gen"

definition backup_label :: "string \<Rightarrow> string" where
  "backup_label mode = (if mode = PreservationModeInternal then preservedInternalDataLabelKey else preservedDataLabelKey)"

definition grows :: "string \<Rightarrow> string \<Rightarrow> kobject \<Rightarrow> kobject \<Rightarrow> bool" where
  "grows owner gen obj obj' \<longleftrightarrow> o_Data obj' = o_Data obj
     \<and> (\<forall>k. ghas (om_Labels (o_Meta obj)) k \<longrightarrow> ghas (om_Labels (o_Meta obj')) k)
     \<and> (stamped owner gen obj \<longrightarrow> stamped owner gen obj')"

lemma grows_refl [simp]: "grows owner gen obj obj"
  by (simp add: grows_def)

lemma grows_trans: "grows owner gen a b \<Longrightarrow> grows owner gen b c \<Longrightarrow> grows owner gen a c"
  by (simp add: grows_def)

lemma preserved_mutate_okey [simp]: "okey (preserved_mutate now conf obj) = okey obj"
  by (simp add: preserved_mutate_def Let_def okey_def)

lemma preserved_mutate_stamped:
  assumes "cf_ownerRef conf \<noteq> []" "cf_reinstallGeneration conf \<noteq> []"
  shows "stamped (cf_ownerRef conf) (cf_reinstallGeneration conf) (preserved_mutate now conf obj)"
    "ghas (om_Labels (o_Meta (preserved_mutate now conf obj))) (backup_label (cf_preservationMode conf))"
    "o_Data (preserved_mutate now conf obj) = o_Data obj"
    "ghas (om_Labels (o_Meta obj)) k \<Longrightarrow> ghas (om_Labels (o_Meta (preserved_mutate now conf obj))) k"
  using assms by (auto simp: preserved_mutate_def Let_def stamped_def GetOwner_def backup_label_def)

text \<open>
  The effect of a sequence of backups: only keys of the given set change, existing objects keep their
  data and labels.
\<close>

definition backup_rel :: "string \<Rightarrow> string \<Rightarrow> objkey set \<Rightarrow> world \<Rightarrow> world \<Rightarrow> bool" where
  "backup_rel owner gen K w w' \<longleftrightarrow> touches K w w' \<and> faults_ok w' \<and> objs_ok w'
     \<and> (\<forall>k obj. map_of (w_objs w) k = Some obj \<longrightarrow>
          (\<exists>obj'. map_of (w_objs w') k = Some obj' \<and> grows owner gen obj obj'))"

lemma backup_rel_same: "objs_ok w \<Longrightarrow> same_state w w' \<Longrightarrow> faults_ok w' \<Longrightarrow> backup_rel owner gen K w w'"
  by (simp add: backup_rel_def touches_def same_state_def objs_ok_cong [of w' w])

lemma backup_rel_trans:
  assumes "backup_rel owner gen K u v" "backup_rel owner gen K v w"
  shows "backup_rel owner gen K u w"
proof -
  have "\<exists>obj'. map_of (w_objs w) k = Some obj' \<and> grows owner gen obj obj'" if k: "map_of (w_objs u) k = Some obj" for k obj
  proof -
    obtain b where b: "map_of (w_objs v) k = Some b" "grows owner gen obj b"
      using assms(1) k unfolding backup_rel_def by blast
    then obtain c where "map_of (w_objs w) k = Some c" "grows owner gen b c"
      using assms(2) unfolding backup_rel_def by blast
    with b(2) grows_trans show ?thesis by blast
  qed
  with assms touches_trans show ?thesis unfolding backup_rel_def by blast
qed

lemma backup_rel_mono: "backup_rel owner gen K u v \<Longrightarrow> K \<subseteq> L \<Longrightarrow> backup_rel owner gen L u v"
  unfolding backup_rel_def using touches_mono by blast

definition backup_key :: "string \<Rightarrow> string \<Rightarrow> string \<Rightarrow> string \<Rightarrow> objkey" where
  "backup_key ns gen rType name = ObjKey ''v1'' ''Secret'' ns (generateBackupName rType name gen)"

text \<open>A stored backup: labelled for restoration and stamped.\<close>

definition backed_up :: "string \<Rightarrow> string \<Rightarrow> string \<Rightarrow> world \<Rightarrow> objkey \<Rightarrow> bool" where
  "backed_up owner gen label w k \<longleftrightarrow>
     (case map_of (w_objs w) k of None \<Rightarrow> False | Some b \<Rightarrow> stamped owner gen b \<and> ghas (om_Labels (o_Meta b)) label)"

lemma backed_up_mono:
  assumes "backup_rel owner gen K w w'" "backed_up owner gen l w k"
  shows "backed_up owner gen l w' k"
proof -
  obtain b where b: "map_of (w_objs w) k = Some b" "stamped owner gen b" "ghas (om_Labels (o_Meta b)) l"
    using assms(2) by (auto simp: backed_up_def split: option.splits)
  then obtain b' where "map_of (w_objs w') k = Some b'" "grows owner gen b b'"
    using assms(1) unfolding backup_rel_def by blast
  with b show ?thesis by (simp add: backed_up_def grows_def)
qed

text \<open>One stored object replaced by a grown one, or a new one added.\<close>

lemma backup_rel_gset:
  assumes "touches {k} w w'" "faults_ok w'" "objs_ok w" "w_objs w' = gset k b (w_objs w)" "okey b = k"
    "\<And>old. map_of (w_objs w) k = Some old \<Longrightarrow> grows owner gen old b"
  shows "backup_rel owner gen {k} w w'"
  unfolding backup_rel_def using assms objs_ok_gset [OF assms(3,5,4)] by auto

lemma createResource_backup:
  assumes "createResource obj conf w = (eo, w')" "objs_ok w" "faults_ok w"
    "cf_ownerRef conf \<noteq> []" "cf_reinstallGeneration conf \<noteq> []"
  shows "backup_rel (cf_ownerRef conf) (cf_reinstallGeneration conf) {okey obj} w w'
    \<and> (eo = None \<longrightarrow> backed_up (cf_ownerRef conf) (cf_reinstallGeneration conf)
         (backup_label (cf_preservationMode conf)) w' (okey obj)
       \<and> (map_of (w_objs w) (okey obj) = None \<longrightarrow> (\<exists>b. map_of (w_objs w') (okey obj) = Some b \<and> o_Data b = o_Data obj)))"
proof -
  let ?f = "preserved_mutate (w_now w) conf"
  note st = preserved_mutate_stamped [OF assms(4,5)]
  obtain r where r: "CreateOrUpdate obj ?f w = (r, w')"
    using assms(1) by (auto simp: createResource_def split: prod.splits sum.splits)
  have eo: "eo = None \<longleftrightarrow> (\<exists>x. r = Inr x)"
    using assms(1) r by (auto simp: createResource_def split: sum.splits)
  have t: "touches {okey obj} w w'" by (rule CreateOrUpdate_touches [OF r assms(2)]) simp
  have f: "faults_ok w'" using CreateOrUpdate_faults_ok [OF r assms(3)] .
  show ?thesis
  proof (cases r)
    case (Inl e)
    then have "same_state w w'"
      using r CreateOrUpdate_failed touches_cis [OF t] by (simp add: same_state_def)
    then show ?thesis using backup_rel_same [OF assms(2) _ f] eo Inl by auto
  next
    case (Inr b)
    note grow = backup_rel_gset [OF t f assms(2)]
    have key: "\<And>x. okey (?f x) = okey x" by simp
    from r [unfolded Inr] assms(3,2) key show ?thesis
    proof (cases rule: CreateOrUpdate_cases)
      case created
      with grow [OF created(3)] st eo Inr show ?thesis
        by (auto simp: backed_up_def stamped_def GetOwner_def)
    next
      case unchanged
      then have "same_state w w'" using touches_cis [OF t] by (simp add: same_state_def)
      moreover have "stamped (cf_ownerRef conf) (cf_reinstallGeneration conf) b"
        "ghas (om_Labels (o_Meta b)) (backup_label (cf_preservationMode conf))"
        using st(1,2) [of "w_now w" b] unchanged(2) by simp_all
      ultimately show ?thesis
        using backup_rel_same [OF assms(2) _ f] unchanged by (simp add: backed_up_def)
    next
      case (updated old)
      have k: "okey b = okey obj" using updated(1,2) objs_ok_lookup [OF assms(2)] by simp
      have "grows (cf_ownerRef conf) (cf_reinstallGeneration conf) old b"
        using st [where obj = old and now = "w_now w"] updated(2)
        by (auto simp: grows_def stamped_def GetOwner_def)
      then have "backup_rel (cf_ownerRef conf) (cf_reinstallGeneration conf) {okey obj} w w'"
        using grow [OF updated(3) k] updated(1) by simp
      moreover have "backed_up (cf_ownerRef conf) (cf_reinstallGeneration conf)
         (backup_label (cf_preservationMode conf)) w' (okey obj)"
        using st [where obj = old and now = "w_now w"] updated(2,3)
        by (simp add: backed_up_def stamped_def GetOwner_def)
      ultimately show ?thesis using updated(1) by simp
    qed
  qed
qed


lemma Get_same_state: "Get k w = (r, w') \<Longrightarrow> same_state w w'"
  by (auto simp: Get_def same_state_def split: prod.splits option.splits)

lemma ListObjs_same_state: "ListObjs api kind ns sel w = (r, w') \<Longrightarrow> same_state w w'"
  by (auto simp: ListObjs_def same_state_def split: prod.splits option.splits)

lemma resources_same_state: "resourcesForPreservation ns sel w = (r, w') \<Longrightarrow> same_state w w' \<and> (faults_ok w \<longrightarrow> faults_ok w')"
  by (auto simp: resourcesForPreservation_def Let_def split: prod.splits if_splits
      dest: ListObjs_same_state requests_faults_ok(3) intro: same_state_trans)

lemma objs_ok_same_state: "same_state w w' \<Longrightarrow> objs_ok w' = objs_ok w"
  by (simp add: same_state_def objs_ok_def)

lemma okey_preserved_secret [simp]:
  "okey (preserved_secret cd backupName conf res) = ObjKey ''v1'' ''Secret'' (cf_Namespace conf) backupName"
  by (simp add: preserved_secret_def Let_def okey_def new_object_def)

lemma backupFn_spec:
  assumes "backupFn cd ns base rt name w = (eo, w')" "objs_ok w" "faults_ok w"
    "cf_ownerRef base \<noteq> []" "cf_reinstallGeneration base \<noteq> []"
  shows "backup_rel (cf_ownerRef base) (cf_reinstallGeneration base) {backup_key ns (cf_reinstallGeneration base) rt name} w w'
    \<and> (eo = None \<longrightarrow> backed_up (cf_ownerRef base) (cf_reinstallGeneration base)
         (backup_label (cf_preservationMode base)) w' (backup_key ns (cf_reinstallGeneration base) rt name)
       \<and> (map_of (w_objs w) (backup_key ns (cf_reinstallGeneration base) rt name) = None \<longrightarrow>
           (\<exists>res b. map_of (w_objs w) (ObjKey ''v1'' rt ns name) = Some res
             \<and> map_of (w_objs w') (backup_key ns (cf_reinstallGeneration base) rt name) = Some b
             \<and> o_Data b = [(preservedDataKey, yaml_Marshal cd (sanitizeResourceMetadata res))])))"
proof (cases "rt \<noteq> configMapResourceType \<and> rt \<noteq> secretResourceType")
  case True
  with assms show ?thesis by (auto simp: backupFn_def backupResource_def intro: backup_rel_same)
next
  case False
  let ?conf = "base\<lparr>cf_Namespace := ns, cf_Name := name, cf_resourceType := rt\<rparr>"
  obtain g w1 where g: "Get (ObjKey ''v1'' rt ns name) w = (g, w1)" by fastforce
  have s: "same_state w w1" "faults_ok w1" "objs_ok w1"
    using Get_same_state [OF g] requests_faults_ok(1) [OF assms(3) g] assms(2) objs_ok_same_state by auto
  show ?thesis
  proof (cases g)
    case (Inl e)
    with assms g False s have "w' = w1" "eo \<noteq> None" by (auto simp: backupFn_def backupResource_def)
    with s assms(2) show ?thesis using backup_rel_same by blast
  next
    case (Inr res)
    let ?obj = "preserved_secret cd (generateBackupName rt name (cf_reinstallGeneration base)) ?conf res"
    have c: "createResource ?obj ?conf w1 = (eo, w')"
      using assms(1) g Inr False by (simp add: backupFn_def backupResource_def)
    have k: "okey ?obj = backup_key ns (cf_reinstallGeneration base) rt name" by (simp add: backup_key_def)
    have d: "o_Data ?obj = [(preservedDataKey, yaml_Marshal cd (sanitizeResourceMetadata res))]"
      by (simp add: preserved_secret_def Let_def)
    have res: "map_of (w_objs w) (ObjKey ''v1'' rt ns name) = Some res" using Get_found g Inr by blast
    have "backup_rel (cf_ownerRef base) (cf_reinstallGeneration base) {okey ?obj} w w1"
      using backup_rel_same [OF assms(2) s(1,2)] .
    with createResource_backup [OF c s(3,2)] assms(4,5) res s(1) show ?thesis
      unfolding k [symmetric] by (auto simp: same_state_def d simp del: okey_preserved_secret intro: backup_rel_trans)
  qed
qed

text \<open>A loop of backups of one type.\<close>

lemma backup_loop:
  assumes "collect_errs (backupFn cd ns base rt) names w = (errs, w')" "objs_ok w" "faults_ok w"
    "cf_ownerRef base \<noteq> []" "cf_reinstallGeneration base \<noteq> []"
  shows "backup_rel (cf_ownerRef base) (cf_reinstallGeneration base)
      (backup_key ns (cf_reinstallGeneration base) rt ` set names) w w'
    \<and> (errs = [] \<longrightarrow> (\<forall>name\<in>set names. backed_up (cf_ownerRef base) (cf_reinstallGeneration base)
         (backup_label (cf_preservationMode base)) w' (backup_key ns (cf_reinstallGeneration base) rt name)))"
  using assms(1-3)
proof (induction names arbitrary: w errs)
  case Nil
  then show ?case by (auto intro!: backup_rel_same)
next
  case (Cons name names)
  let ?bk = "backup_key ns (cf_reinstallGeneration base) rt"
  let ?R = "backup_rel (cf_ownerRef base) (cf_reinstallGeneration base)"
  obtain eo w1 where f: "backupFn cd ns base rt name w = (eo, w1)" by fastforce
  obtain errs2 where r: "collect_errs (backupFn cd ns base rt) names w1 = (errs2, w')"
    and e: "errs = (case eo of None \<Rightarrow> [] | Some e \<Rightarrow> [e]) @ errs2"
    using Cons.prems(1) f by (auto split: prod.splits)
  have one: "?R {?bk name} w w1" and b1: "eo = None \<Longrightarrow> backed_up (cf_ownerRef base) (cf_reinstallGeneration base)
         (backup_label (cf_preservationMode base)) w1 (?bk name)"
    using backupFn_spec [OF f Cons.prems(2,3) assms(4,5)] by blast+
  have ok: "objs_ok w1" "faults_ok w1" using one by (simp_all add: backup_rel_def)
  note IH = Cons.IH [OF r ok]
  have rest: "?R (?bk ` set (name # names)) w1 w'" using IH by (auto intro: backup_rel_mono)
  then have "?R (?bk ` set (name # names)) w w'"
    using backup_rel_trans backup_rel_mono [OF one, of "?bk ` set (name # names)"] by auto
  moreover have "\<forall>n\<in>set (name # names). backed_up (cf_ownerRef base) (cf_reinstallGeneration base)
         (backup_label (cf_preservationMode base)) w' (?bk n)" if "errs = []"
  proof -
    have "eo = None" "errs2 = []" using that e by (auto split: option.splits)
    then show ?thesis using IH b1 backed_up_mono [OF rest] by auto
  qed
  ultimately show ?case by blast
qed


definition backup_keys :: "string \<Rightarrow> string \<Rightarrow> objkey set" where
  "backup_keys ns gen = {backup_key ns gen rt name | rt name. rt = configMapResourceType \<or> rt = secretResourceType}"

lemma listed_name:
  assumes "resourcesForPreservation ns sel w = (Inr (cms, secrets), w')" "objs_ok w"
    "map_of (w_objs w) (ObjKey ''v1'' rt ns name) = Some obj" "matches sel (om_Labels (o_Meta obj))"
  shows "rt = configMapResourceType \<Longrightarrow> name \<in> set cms" "rt = secretResourceType \<Longrightarrow> name \<in> set secrets"
proof -
  have k: "okey obj = ObjKey ''v1'' rt ns name" using objs_ok_lookup [OF assms(2,3)] .
  have m: "obj \<in> set (map snd (w_objs w))" using map_of_SomeD [OF assms(3)] by force
  obtain l1 w1 l2 where l: "ListObjs ''v1'' ''ConfigMap'' ns (matches sel) w = (Inr l1, w1)"
    "ListObjs ''v1'' ''Secret'' ns (matches sel) w1 = (Inr l2, w')"
    "cms = map (\<lambda>obj. om_Name (o_Meta obj)) l1" "secrets = map (\<lambda>obj. om_Name (o_Meta obj)) l2"
    using assms(1) by (auto simp: resourcesForPreservation_def Let_def split: prod.splits sum.splits if_splits)
  have "w_objs w1 = w_objs w" using ListObjs_objs [OF l(1)] .
  then have "l1 = filter (\<lambda>o'. o_APIVersion o' = ''v1'' \<and> o_Kind o' = ''ConfigMap'' \<and> om_Namespace (o_Meta o') = ns
       \<and> matches sel (om_Labels (o_Meta o'))) (map snd (w_objs w))"
    "l2 = filter (\<lambda>o'. o_APIVersion o' = ''v1'' \<and> o_Kind o' = ''Secret'' \<and> om_Namespace (o_Meta o') = ns
       \<and> matches sel (om_Labels (o_Meta o'))) (map snd (w_objs w))"
    using l(1,2) by (auto simp: ListObjs_def split: prod.splits option.splits)
  with m k assms(4) l(3,4) show "rt = configMapResourceType \<Longrightarrow> name \<in> set cms" "rt = secretResourceType \<Longrightarrow> name \<in> set secrets"
    by (auto simp: okey_def configMapResourceType_def secretResourceType_def)
qed

lemma backupResources_spec:
  assumes "backupResources cd sel ns base w = (eo, w')" "objs_ok w" "faults_ok w"
    "cf_ownerRef base \<noteq> []" "cf_reinstallGeneration base \<noteq> []" "cf_preservationMode base \<noteq> PreservationModeNone"
  shows "backup_rel (cf_ownerRef base) (cf_reinstallGeneration base) (backup_keys ns (cf_reinstallGeneration base)) w w'
    \<and> (eo = None \<longrightarrow> (\<forall>rt name obj. map_of (w_objs w) (ObjKey ''v1'' rt ns name) = Some obj \<longrightarrow>
         matches sel (om_Labels (o_Meta obj)) \<longrightarrow> rt = configMapResourceType \<or> rt = secretResourceType \<longrightarrow>
         backed_up (cf_ownerRef base) (cf_reinstallGeneration base) (backup_label (cf_preservationMode base)) w'
           (backup_key ns (cf_reinstallGeneration base) rt name)))"
proof -
  let ?R = "backup_rel (cf_ownerRef base) (cf_reinstallGeneration base)"
  let ?bk = "backup_key ns (cf_reinstallGeneration base)"
  let ?K = "backup_keys ns (cf_reinstallGeneration base)"
  let ?B = "backed_up (cf_ownerRef base) (cf_reinstallGeneration base) (backup_label (cf_preservationMode base))"
  obtain r w0 where r: "resourcesForPreservation ns sel w = (r, w0)" by fastforce
  have s: "same_state w w0" "faults_ok w0" "objs_ok w0"
    using resources_same_state [OF r] assms(2,3) objs_ok_same_state by auto
  have r0: "?R ?K w w0" using backup_rel_same [OF assms(2) s(1,2)] .
  show ?thesis
  proof (cases r)
    case (Inl e)
    with assms(1,6) r r0 show ?thesis by (auto simp: backupResources_def)
  next
    case (Inr p)
    obtain cms secrets where p: "r = Inr (cms, secrets)" using Inr by (cases p) simp
    obtain errs1 w1 where l1: "collect_errs (backupFn cd ns base configMapResourceType) cms w0 = (errs1, w1)" by fastforce
    obtain errs2 w2 where l2: "collect_errs (backupFn cd ns base secretResourceType) secrets w1 = (errs2, w2)" by fastforce
    have res: "eo = NewAggregate (errs1 @ errs2)" "w' = w2"
      using assms(1,6) r p l1 l2 by (simp_all add: backupResources_def)
    note b1 = backup_loop [OF l1 s(3,2) assms(4,5)]
    have ok1: "objs_ok w1" "faults_ok w1" using b1 by (simp_all add: backup_rel_def)
    note b2 = backup_loop [OF l2 ok1 assms(4,5)]
    have sub: "?bk configMapResourceType ` set cms \<subseteq> ?K" "?bk secretResourceType ` set secrets \<subseteq> ?K"
      by (auto simp: backup_keys_def)
    have r1: "?R ?K w0 w1" "?R ?K w1 w2"
      using backup_rel_mono [OF conjunct1 [OF b1] sub(1)] backup_rel_mono [OF conjunct1 [OF b2] sub(2)] .
    have rel: "?R ?K w w'" unfolding res(2) using backup_rel_trans r0 r1 by blast
    have "?B w' (?bk rt name)"
      if "eo = None" "map_of (w_objs w) (ObjKey ''v1'' rt ns name) = Some obj" "matches sel (om_Labels (o_Meta obj))"
        "rt = configMapResourceType \<or> rt = secretResourceType" for rt name obj
    proof -
      have e: "errs1 = []" "errs2 = []" using that(1) res(1) by (auto simp: NewAggregate_def split: if_splits)
      note n = listed_name [OF r [unfolded p] assms(2) that(2,3)]
      from that(4) show ?thesis
      proof
        assume rt: "rt = configMapResourceType"
        then have "?B w1 (?bk rt name)" using b1 e(1) n(1) by blast
        then show ?thesis unfolding res(2) using backed_up_mono [OF r1(2)] by blast
      next
        assume "rt = secretResourceType"
        then show ?thesis unfolding res(2) using b2 e(2) n(2) by blast
      qed
    qed
    with rel show ?thesis by blast
  qed
qed

text \<open>The selector of a mode and the run of \<open>Backup\<close> with both modes.\<close>

lemma Backup_spec:
  assumes "Backup cd ci w = (eo, w')" "objs_ok w" "faults_ok w" "rs_Generation (reinstall_spec ci) \<noteq> []"
    "ns = om_Namespace (ci_Meta ci)" "gen = rs_Generation (reinstall_spec ci)"
  shows "backup_rel (owner_label ci) gen (backup_keys ns gen) w w'
    \<and> (eo = None \<longrightarrow> (\<forall>sel. buildBackupLabelSelector (rs_PreservationMode (reinstall_spec ci)) = Inr (Some sel) \<longrightarrow>
        (\<forall>rt name obj. map_of (w_objs w) (ObjKey ''v1'' rt ns name) = Some obj \<longrightarrow>
          matches sel (om_Labels (o_Meta obj)) \<longrightarrow> rt = configMapResourceType \<or> rt = secretResourceType \<longrightarrow>
          backed_up (owner_label ci) gen (backup_label (rs_PreservationMode (reinstall_spec ci))) w' (backup_key ns gen rt name))))"
proof -
  let ?mode = "rs_PreservationMode (reinstall_spec ci)"
  let ?run = "\<lambda>mode sel. backupResources cd sel ns (base_config ci mode)"
  have cf: "cf_ownerRef (base_config ci m) = owner_label ci" "cf_reinstallGeneration (base_config ci m) = gen"
      "cf_preservationMode (base_config ci m) = m" "owner_label ci \<noteq> []" for m
    using assms(6) by (simp_all add: base_config_def owner_label_def GenerateOwnedByLabelValue_def)
  note one = backupResources_spec [of cd _ ns "base_config ci _", unfolded cf]
  have gen: "gen \<noteq> []" using assms(4,6) by simp
  have sel_internal: "buildBackupLabelSelector PreservationModeInternal =
      Inr (Some (Equals InternalPreservationLabelKey InternalPreservationLabelValue))"
    by (simp add: buildBackupLabelSelector_def)
  show ?thesis
  proof (cases "?mode = PreservationModeNone")
    case True
    with assms show ?thesis by (auto simp: Backup_def buildBackupLabelSelector_def intro!: backup_rel_same)
  next
    case False
    note run = assms(1)[unfolded Backup_def if_not_P [OF False] assms(5)[symmetric]]
    show ?thesis
    proof (cases "buildBackupLabelSelector ?mode")
      case (Inl e)
      with run assms(2,3) show ?thesis by (auto intro!: backup_rel_same)
    next
      case (Inr so)
      then obtain sel where sel: "buildBackupLabelSelector ?mode = Inr (Some sel)"
        using False by (auto simp: buildBackupLabelSelector_def split: if_splits)
      obtain eo1 w1 where r1: "?run ?mode sel w = (eo1, w1)" by fastforce
      note s1 = one [OF r1 assms(2,3) cf(4) gen False]
      have ok: "objs_ok w1" "faults_ok w1" using s1 by (simp_all add: backup_rel_def)
      obtain eo2 w2 where r2: "?run PreservationModeInternal
          (Equals InternalPreservationLabelKey InternalPreservationLabelValue) w1 = (eo2, w2)" by fastforce
      note s2 = one [OF r2 ok cf(4) gen mode_neqs(3)]
      show ?thesis
      proof (cases eo1)
        case None
        with run sel r1 r2 sel_internal have res: "eo = eo2" "w' = w2" by (auto split: option.splits)
        have "backup_rel (owner_label ci) gen (backup_keys ns gen) w w'"
          unfolding res(2) using s1 s2 backup_rel_trans by blast
        moreover have "backup_rel (owner_label ci) gen (backup_keys ns gen) w1 w'" unfolding res(2) using s2 by blast
        ultimately show ?thesis using s1 None sel backed_up_mono by (metis option.inject sum.inject(2))
      next
        case (Some e)
        with run sel r1 have "eo = Some e" "w' = w1" by auto
        with s1 show ?thesis by blast
      qed
    qed
  qed
qed

section \<open>Properties of the backup\<close>

text \<open>C25: A successful backup is complete: every ConfigMap and Secret of the namespace that the preservation
  mode selects has, after \<open>Backup\<close>, a backup Secret under its backup name that carries the label by
  which \<open>Restore\<close> finds it, the owned-by label of the ClusterInstance and the generation of the
  request.\<close>

theorem backup_complete:
  assumes "Backup cd ci w = (None, w')" "objs_ok w" "faults_ok w" "rs_Generation (reinstall_spec ci) \<noteq> []"
    "buildBackupLabelSelector (rs_PreservationMode (reinstall_spec ci)) = Inr (Some sel)"
    "map_of (w_objs w) (ObjKey ''v1'' rt (om_Namespace (ci_Meta ci)) name) = Some obj"
    "matches sel (om_Labels (o_Meta obj))" "rt = configMapResourceType \<or> rt = secretResourceType"
  shows "\<exists>b. map_of (w_objs w') (ObjKey ''v1'' ''Secret'' (om_Namespace (ci_Meta ci))
      (generateBackupName rt name (rs_Generation (reinstall_spec ci)))) = Some b
    \<and> GetOwner b = owner_label ci
    \<and> map_of (om_Annotations (o_Meta b)) reinstallGenerationAnnotationKey = Some (rs_Generation (reinstall_spec ci))
    \<and> ghas (om_Labels (o_Meta b)) (backup_label (rs_PreservationMode (reinstall_spec ci)))"
proof -
  have "backed_up (owner_label ci) (rs_Generation (reinstall_spec ci)) (backup_label (rs_PreservationMode (reinstall_spec ci)))
      w' (backup_key (om_Namespace (ci_Meta ci)) (rs_Generation (reinstall_spec ci)) rt name)"
    using Backup_spec [OF assms(1-4) refl refl] assms(5-8) by blast
  then show ?thesis by (auto simp: backed_up_def stamped_def backup_key_def split: option.splits)
qed

text \<open>C27: \<open>Backup\<close> never loses data: whatever errors occur, every object that exists before exists after with
  the same data (so a backup taken earlier for the same generation is not overwritten by a later
  run), and only Secrets with the name of a backup of this generation in the namespace of the
  ClusterInstance are created or changed at all.\<close>

theorem backup_keeps_data:
  assumes "Backup cd ci w = (eo, w')" "objs_ok w" "faults_ok w" "rs_Generation (reinstall_spec ci) \<noteq> []"
    "map_of (w_objs w) k = Some obj"
  shows "\<exists>obj'. map_of (w_objs w') k = Some obj' \<and> o_Data obj' = o_Data obj
    \<and> (obj' = obj \<or> k \<in> backup_keys (om_Namespace (ci_Meta ci)) (rs_Generation (reinstall_spec ci)))"
proof -
  have rel: "backup_rel (owner_label ci) (rs_Generation (reinstall_spec ci))
      (backup_keys (om_Namespace (ci_Meta ci)) (rs_Generation (reinstall_spec ci))) w w'"
    using Backup_spec [OF assms(1-4) refl refl] by blast
  then obtain obj' where "map_of (w_objs w') k = Some obj'" "o_Data obj' = o_Data obj"
    using assms(5) unfolding backup_rel_def grows_def by blast
  moreover have "obj' = obj" if "k \<notin> backup_keys (om_Namespace (ci_Meta ci)) (rs_Generation (reinstall_spec ci))"
    using touches_obj [OF _ that] rel assms(5) calculation(1) unfolding backup_rel_def by (metis option.inject)
  ultimately show ?thesis by blast
qed


section \<open>Lemmas: one backup restored\<close>

lemma Itoa_not_Nil [simp]: "Itoa i \<noteq> []"
  using show_nat_head [of "nat i"] by (auto simp: Itoa_def)

definition fresh_backup :: "codec \<Rightarrow> config \<Rightarrow> kobject \<Rightarrow> time \<Rightarrow> kobject" where
  "fresh_backup cd conf res now =
     preserved_mutate now conf (preserved_secret cd
       (generateBackupName (cf_resourceType conf) (cf_Name conf) (cf_reinstallGeneration conf)) conf res)"

lemma backupFn_fresh:
  assumes "backupFn cd ns base rt name w = (None, w')" "objs_ok w" "faults_ok w"
    "map_of (w_objs w) (backup_key ns (cf_reinstallGeneration base) rt name) = None"
    "map_of (w_objs w) (ObjKey ''v1'' rt ns name) = Some res"
    "conf = base\<lparr>cf_Namespace := ns, cf_Name := name, cf_resourceType := rt\<rparr>"
  shows "\<exists>t. map_of (w_objs w') (backup_key ns (cf_reinstallGeneration base) rt name) =
      Some ((fresh_backup cd conf res (w_now w))\<lparr>o_Meta := (o_Meta (fresh_backup cd conf res (w_now w)))\<lparr>
        om_CreationTimestamp := t, om_DeletionTimestamp := 0\<rparr>\<rparr>)
    \<and> (rt = configMapResourceType \<or> rt = secretResourceType)"
proof -
  let ?obj = "preserved_secret cd (generateBackupName rt name (cf_reinstallGeneration base)) conf res"
  obtain g w1 where g: "Get (ObjKey ''v1'' rt ns name) w = (g, w1)" by fastforce
  have s: "same_state w w1" "faults_ok w1" "objs_ok w1"
    using Get_same_state [OF g] requests_faults_ok(1) [OF assms(3) g] assms(2) objs_ok_same_state by auto
  have rt: "rt = configMapResourceType \<or> rt = secretResourceType"
    using assms(1) by (auto simp: backupFn_def backupResource_def split: if_splits)
  have gr: "g = Inr res"
  proof (cases g)
    case (Inl e)
    with assms(1) g rt show ?thesis by (auto simp: backupFn_def backupResource_def)
  next
    case (Inr x)
    with Get_found g assms(5) show ?thesis by fastforce
  qed
  obtain r where r: "CreateOrUpdate ?obj (preserved_mutate (w_now w1) conf) w1 = (Inr r, w')"
    using assms(1,6) g gr rt
    by (auto simp: backupFn_def backupResource_def createResource_def split: prod.splits sum.splits)
  have k: "okey ?obj = backup_key ns (cf_reinstallGeneration base) rt name"
    using assms(6) by (simp add: backup_key_def)
  have key: "\<And>x. okey (preserved_mutate (w_now w1) conf x) = okey x" by simp
  have none: "map_of (w_objs w1) (okey ?obj) = None" using assms(4) s(1) unfolding k by (simp add: same_state_def)
  from r s(2,3) key show ?thesis
  proof (cases rule: CreateOrUpdate_cases)
    case created
    then show ?thesis
      using s(1) rt assms(6) unfolding k by (auto simp: same_state_def fresh_backup_def)
  qed (use none in auto)
qed

lemma fresh_backup_sel:
  assumes "cf_ownerRef conf \<noteq> []" "cf_reinstallGeneration conf \<noteq> []" "cf_preservationMode conf \<noteq> PreservationModeNone"
    "b = (fresh_backup cd conf res now)\<lparr>o_Meta := (o_Meta (fresh_backup cd conf res now))\<lparr>
        om_CreationTimestamp := t, om_DeletionTimestamp := 0\<rparr>\<rparr>"
  shows "cf_preservationMode conf' = cf_preservationMode conf \<Longrightarrow> validate_mode b conf' = Inr False"
    and "GetOwner b = cf_ownerRef conf"
    and "map_of (om_Annotations (o_Meta b)) reinstallGenerationAnnotationKey = Some (cf_reinstallGeneration conf)"
    and "map_of (om_Annotations (o_Meta b)) resourceTypeAnnotationKey = Some (cf_resourceType conf)"
    and "o_Data b = [(preservedDataKey, yaml_Marshal cd (sanitizeResourceMetadata res))]"
  using assms
  by (auto simp: fresh_backup_def preserved_mutate_def preserved_secret_def Let_def GetOwner_def
      validate_mode_def isInternalResource_def new_object_def empty_meta_def gindex_def InternalPreservationLabelValue_def)

lemma sanitize_sel [simp]:
  "okey (sanitizeResourceMetadata obj) = okey obj" "o_Data (sanitizeResourceMetadata obj) = o_Data obj"
  "om_Labels (o_Meta (sanitizeResourceMetadata obj)) = om_Labels (o_Meta obj)"
  "om_Annotations (o_Meta (sanitizeResourceMetadata obj)) = om_Annotations (o_Meta obj)"
  "o_Type (sanitizeResourceMetadata obj) = o_Type obj" "o_Immutable (sanitizeResourceMetadata obj) = o_Immutable obj"
  by (simp_all add: sanitizeResourceMetadata_def okey_def)

lemma restored_mutate_sel [simp]:
  "okey (restored_mutate now orig obj) = okey obj" "o_Data (restored_mutate now orig obj) = o_Data orig"
  "om_Labels (o_Meta (restored_mutate now orig obj)) = om_Labels (o_Meta orig)"
  "om_Annotations (o_Meta (restored_mutate now orig obj)) =
     gset RestoredAtAnnotationKey (FormatRFC3339 now) (om_Annotations (o_Meta orig))"
  "o_Type (restored_mutate now orig obj) = o_Type obj" "o_Immutable (restored_mutate now orig obj) = o_Immutable obj"
  by (simp_all add: restored_mutate_def sanitizeResourceMetadata_def okey_def)

section \<open>Properties of the restoration\<close>

text \<open>C26: A resource that was backed up is restored: if a ConfigMap or Secret is backed up for the first
  time in its generation, then deleted while its backup stays, and no request fails, the restoration
  of the backup succeeds and stores the resource again with the data, type, labels and annotations it
  had, plus the annotation that says when it was restored. (The YAML library reads back the
  document of the resource.)\<close>

theorem backup_restore_round_trip:
  assumes "backupFn cd ns base rt name w = (None, w1)" "objs_ok w" "faults_ok w"
    "map_of (w_objs w) (backup_key ns (cf_reinstallGeneration base) rt name) = None"
    "map_of (w_objs w) (ObjKey ''v1'' rt ns name) = Some res"
    "cf_ownerRef base \<noteq> []" "cf_reinstallGeneration base \<noteq> []" "cf_preservationMode base \<noteq> PreservationModeNone"
    "yaml_Unmarshal cd rt (yaml_Marshal cd (sanitizeResourceMetadata res)) = Inr (sanitizeResourceMetadata res)"
    "map_of (w_objs w2) (backup_key ns (cf_reinstallGeneration base) rt name)
       = map_of (w_objs w1) (backup_key ns (cf_reinstallGeneration base) rt name)"
    "map_of (w_objs w2) (ObjKey ''v1'' rt ns name) = None" "w_faults w2 = []"
  shows "\<exists>w3 obj. restoreFn cd ns base (generateBackupName rt name (cf_reinstallGeneration base)) w2 = (None, w3)
    \<and> map_of (w_objs w3) (ObjKey ''v1'' rt ns name) = Some obj
    \<and> o_Data obj = o_Data res \<and> o_Type obj = o_Type res \<and> om_Labels (o_Meta obj) = om_Labels (o_Meta res)
    \<and> om_Annotations (o_Meta obj) = gset RestoredAtAnnotationKey (FormatRFC3339 (w_now w2)) (om_Annotations (o_Meta res))"
proof -
  let ?conf = "base\<lparr>cf_Namespace := ns, cf_Name := name, cf_resourceType := rt\<rparr>"
  let ?bname = "generateBackupName rt name (cf_reinstallGeneration base)"
  let ?conf2 = "base\<lparr>cf_Namespace := ns, cf_Name := ?bname, cf_resourceType := []\<rparr>"
  let ?s = "sanitizeResourceMetadata res"
  obtain t where b: "map_of (w_objs w1) (backup_key ns (cf_reinstallGeneration base) rt name) =
      Some ((fresh_backup cd ?conf res (w_now w))\<lparr>o_Meta := (o_Meta (fresh_backup cd ?conf res (w_now w)))\<lparr>
        om_CreationTimestamp := t, om_DeletionTimestamp := 0\<rparr>\<rparr>)" "rt = configMapResourceType \<or> rt = secretResourceType"
    using backupFn_fresh [OF assms(1-5) refl] by blast
  define b where "b = (fresh_backup cd ?conf res (w_now w))\<lparr>o_Meta := (o_Meta (fresh_backup cd ?conf res (w_now w)))\<lparr>
        om_CreationTimestamp := t, om_DeletionTimestamp := 0\<rparr>\<rparr>"
  have bk: "map_of (w_objs w2) (ObjKey ''v1'' ''Secret'' ns ?bname) = Some b"
    using b(1) assms(10) by (simp add: backup_key_def b_def)
  note sel = fresh_backup_sel [OF _ _ _ b_def]
  have m: "validate_mode b ?conf2 = Inr False" using sel(1) assms(6-8) by simp
  have o: "GetOwner b = cf_ownerRef base" using sel(2) assms(6-8) by simp
  then have vo: "VerifyOwnership b (cf_ownerRef base) = None" by simp
  have g: "validate_generation b ?conf2 = None" using sel(3) assms(6-8) by (simp add: validate_generation_def)
  have ty: "map_of (om_Annotations (o_Meta b)) resourceTypeAnnotationKey = Some rt" using sel(4) assms(6-8) by simp
  have d: "map_of (o_Data b) preservedDataKey = Some (yaml_Marshal cd ?s)" using sel(5) assms(6-8) by simp
  have f: "fetchAndValidateObjectToRestore ?conf2 w2 = (Inr (False, b), w2)"
    using bk m g assms(12) by (simp add: vo fetchAndValidateObjectToRestore_def Get_def)
  have k: "okey ?s = ObjKey ''v1'' rt ns name" using objs_ok_lookup [OF assms(2,5)] by simp
  let ?r = "restored_mutate (w_now w2) ?s ?s"
  have kr: "okey ?r = ObjKey ''v1'' rt ns name" using k by simp
  define obj where "obj = ?r\<lparr>o_Meta := (o_Meta ?r)\<lparr>om_CreationTimestamp := w_now w2, om_DeletionTimestamp := 0\<rparr>\<rparr>"
  have c: "CreateOrUpdate ?s (restored_mutate (w_now w2) ?s) w2 =
      (Inr obj, w2\<lparr>w_objs := gset (ObjKey ''v1'' rt ns name) obj (w_objs w2)\<rparr>)"
    using assms(11,12) unfolding CreateOrUpdate_def k
    by (simp add: Get_def not_found_def IsNotFound_def Create_def kr ghas_def Let_def obj_def del: restored_mutate_sel)
  have "restoreFn cd ns base ?bname w2 = (None, w2\<lparr>w_objs := gset (ObjKey ''v1'' rt ns name) obj (w_objs w2)\<rparr>)"
    using b(2) by (auto simp: restoreFn_def restoreResource_def f ty d assms(9) c)
  moreover have "o_Data obj = o_Data res \<and> o_Type obj = o_Type res \<and> om_Labels (o_Meta obj) = om_Labels (o_Meta res)
    \<and> om_Annotations (o_Meta obj) = gset RestoredAtAnnotationKey (FormatRFC3339 (w_now w2)) (om_Annotations (o_Meta res))"
    by (simp add: obj_def)
  ultimately show ?thesis by auto
qed

text \<open>C28: A restoration acts only on a backup of its own request: if \<open>restoreResource\<close> changes any object,
  the Secret it was called on carries the owned-by label of the ClusterInstance, the generation of the
  request and a readable backup of the changed object, and no other object changes.\<close>

theorem restore_only_own_backups:
  assumes "restoreResource cd conf w = (eo, w')" "objs_ok w" "cf_ownerRef conf \<noteq> []" "cf_reinstallGeneration conf \<noteq> []"
    "map_of (w_objs w') k \<noteq> map_of (w_objs w) k"
  shows "\<exists>b rt d orig. map_of (w_objs w) (ObjKey ''v1'' ''Secret'' (cf_Namespace conf) (cf_Name conf)) = Some b
    \<and> GetOwner b = cf_ownerRef conf
    \<and> map_of (om_Annotations (o_Meta b)) reinstallGenerationAnnotationKey = Some (cf_reinstallGeneration conf)
    \<and> map_of (o_Data b) preservedDataKey = Some d \<and> yaml_Unmarshal cd rt d = Inr orig \<and> okey orig = k"
proof -
  obtain f w1 where f: "fetchAndValidateObjectToRestore conf w = (f, w1)" by fastforce
  have s: "same_state w w1"
    using f Get_same_state by (fastforce simp: fetchAndValidateObjectToRestore_def split: prod.splits sum.splits)
  have ne: "w' \<noteq> w1" using assms(5) s by (auto simp: same_state_def)
  obtain b rt d orig where b: "f = Inr (False, b)" "map_of (o_Data b) preservedDataKey = Some d"
    "yaml_Unmarshal cd rt d = Inr orig" "\<exists>r. CreateOrUpdate orig (restored_mutate (w_now w1) orig) w1 = (r, w')"
    using assms(1) f ne
    by (auto simp: restoreResource_def split: sum.splits prod.splits bool.splits option.splits if_splits)
  have "touches {okey orig} w1 w'"
    using b(4) CreateOrUpdate_touches objs_ok_same_state [OF s] assms(2) by fastforce
  then have "okey orig = k" using touches_obj assms(5) s by (metis same_state_def singletonD)
  moreover have "map_of (w_objs w) (ObjKey ''v1'' ''Secret'' (cf_Namespace conf) (cf_Name conf)) = Some b
    \<and> GetOwner b = cf_ownerRef conf
    \<and> map_of (om_Annotations (o_Meta b)) reinstallGenerationAnnotationKey = Some (cf_reinstallGeneration conf)"
    using f b(1) assms(3,4)
    by (auto simp: fetchAndValidateObjectToRestore_def validate_generation_def
        split: prod.splits sum.splits bool.splits option.splits if_splits dest: Get_found)
  ultimately show ?thesis using b(2,3) by blast
qed

text \<open>For a given generation, different resources have different backups: the backup name determines
  the type and the name of the resource.\<close>

theorem backup_name_injective:
  "inj_on (\<lambda>(rt, name). generateBackupName rt name gen) ({configMapResourceType, secretResourceType} \<times> UNIV)"
  by (rule inj_onI) (auto simp: generateBackupName_def configMapResourceType_def secretResourceType_def ToLower_def
      lower_char_def)

text \<open>A namespace with one Secret labelled as cluster identity, and a YAML library that knows its document.\<close>

definition identity_secret :: kobject where
  "identity_secret = (new_object ''v1'' ''Secret'' ''ns'' ''n'')\<lparr>o_Type := ''Opaque'', o_Data := [(''k'', ''v'')],
     o_Meta := empty_meta\<lparr>om_Name := ''n'', om_Namespace := ''ns'',
       om_Labels := [(PreservationLabelKey, ClusterIdentityLabelValue)]\<rparr>\<rparr>"

definition sample_codec :: codec where
  "sample_codec = \<lparr>yaml_Marshal = (\<lambda>obj. ''doc''), yaml_Unmarshal = (\<lambda>kind d. Inr (sanitizeResourceMetadata identity_secret))\<rparr>"

definition preserve_ci :: ClusterInstance where
  "preserve_ci = sample_ci\<lparr>ci_Spec := sample_spec\<lparr>s_Reinstall :=
     Some \<lparr>rs_Generation = ''g1'', rs_PreservationMode = PreservationModeAll\<rparr>\<rparr>\<rparr>"

definition preserve_world :: "kobject list \<Rightarrow> world" where
  "preserve_world objs = \<lparr>w_now = 100, w_faults = [], w_objs = map (\<lambda>obj. (okey obj, obj)) objs,
     w_cis = [(ci_key preserve_ci, preserve_ci)]\<rparr>"

definition backup_run :: "err option \<times> world" where
  "backup_run = Backup sample_codec preserve_ci (preserve_world [identity_secret])"

lemma backup_run_ok: "Backup sample_codec preserve_ci (preserve_world [identity_secret]) = (None, snd backup_run)"
proof -
  have "fst backup_run = None" by code_simp
  then show ?thesis unfolding backup_run_def by (metis prod.collapse)
qed

lemma preserve_world_ok:
  "objs_ok (preserve_world [identity_secret])" "faults_ok (preserve_world [identity_secret])"
  "rs_Generation (reinstall_spec preserve_ci) \<noteq> []"
  by code_simp+

lemma identity_secret_stored:
  "map_of (w_objs (preserve_world [identity_secret])) (ObjKey ''v1'' secretResourceType (om_Namespace (ci_Meta preserve_ci)) ''n'')
     = Some identity_secret"
  by code_simp

theorem backup_complete_witness:
  "\<exists>b. map_of (w_objs (snd backup_run)) (ObjKey ''v1'' ''Secret'' (om_Namespace (ci_Meta preserve_ci))
      (generateBackupName secretResourceType ''n'' (rs_Generation (reinstall_spec preserve_ci)))) = Some b
    \<and> GetOwner b = owner_label preserve_ci"
proof -
  have "buildBackupLabelSelector (rs_PreservationMode (reinstall_spec preserve_ci)) = Inr (Some (Exists PreservationLabelKey))"
    by code_simp
  moreover have "matches (Exists PreservationLabelKey) (om_Labels (o_Meta identity_secret))" by code_simp
  ultimately show ?thesis
    using backup_complete [OF backup_run_ok preserve_world_ok _ identity_secret_stored] by blast
qed

theorem backup_keeps_data_witness:
  "\<exists>obj. map_of (w_objs (snd backup_run)) (ObjKey ''v1'' secretResourceType (om_Namespace (ci_Meta preserve_ci)) ''n'') = Some obj
     \<and> o_Data obj = o_Data identity_secret"
  using backup_keeps_data [OF backup_run_ok preserve_world_ok identity_secret_stored] by blast

definition one_backup :: "err option \<times> world" where
  "one_backup = backupFn sample_codec ''ns'' (base_config preserve_ci PreservationModeAll) secretResourceType ''n''
     (preserve_world [identity_secret])"

definition after_deletion :: world where
  "after_deletion = (snd one_backup)\<lparr>w_objs := gdel (okey identity_secret) (w_objs (snd one_backup))\<rparr>"

theorem backup_restore_round_trip_witness:
  "\<exists>w3 obj. restoreFn sample_codec ''ns'' (base_config preserve_ci PreservationModeAll)
      (generateBackupName secretResourceType ''n'' (cf_reinstallGeneration (base_config preserve_ci PreservationModeAll)))
      after_deletion = (None, w3)
    \<and> map_of (w_objs w3) (ObjKey ''v1'' secretResourceType ''ns'' ''n'') = Some obj \<and> o_Data obj = o_Data identity_secret"
proof -
  let ?base = "base_config preserve_ci PreservationModeAll"
  let ?bk = "backup_key ''ns'' (cf_reinstallGeneration ?base) secretResourceType ''n''"
  have "fst one_backup = None" by code_simp
  then have "backupFn sample_codec ''ns'' ?base secretResourceType ''n'' (preserve_world [identity_secret]) = (None, snd one_backup)"
    unfolding one_backup_def by (metis prod.collapse)
  moreover have "map_of (w_objs (preserve_world [identity_secret])) ?bk = None" by code_simp
  moreover have "map_of (w_objs (preserve_world [identity_secret])) (ObjKey ''v1'' secretResourceType ''ns'' ''n'') = Some identity_secret"
    by code_simp
  moreover have "cf_ownerRef ?base \<noteq> []" "cf_reinstallGeneration ?base \<noteq> []" "cf_preservationMode ?base \<noteq> PreservationModeNone"
    by code_simp+
  moreover have "yaml_Unmarshal sample_codec secretResourceType (yaml_Marshal sample_codec (sanitizeResourceMetadata identity_secret))
      = Inr (sanitizeResourceMetadata identity_secret)" by (simp add: sample_codec_def)
  moreover have "map_of (w_objs after_deletion) ?bk = map_of (w_objs (snd one_backup)) ?bk"
    by (simp add: after_deletion_def backup_key_def identity_secret_def new_object_def okey_def generateBackupName_def
        secretResourceType_def)
  moreover have "map_of (w_objs after_deletion) (ObjKey ''v1'' secretResourceType ''ns'' ''n'') = None"
    by code_simp
  moreover have "w_faults after_deletion = []" by code_simp
  ultimately show ?thesis using backup_restore_round_trip preserve_world_ok(1,2) by blast
qed

definition restore_conf :: config where
  "restore_conf = (base_config preserve_ci PreservationModeAll)\<lparr>cf_Namespace := ''ns'', cf_Name := ''secret-n-g1''\<rparr>"

theorem restore_only_own_backups_witness:
  "\<exists>b. map_of (w_objs after_deletion) (ObjKey ''v1'' ''Secret'' ''ns'' ''secret-n-g1'') = Some b
     \<and> GetOwner b = owner_label preserve_ci"
proof -
  have "objs_ok after_deletion" "cf_ownerRef restore_conf \<noteq> []" "cf_reinstallGeneration restore_conf \<noteq> []" by code_simp+
  moreover have "map_of (w_objs (snd (restoreResource sample_codec restore_conf after_deletion))) (okey identity_secret)
      \<noteq> map_of (w_objs after_deletion) (okey identity_secret)" by code_simp
  moreover have "cf_Namespace restore_conf = ''ns''" "cf_Name restore_conf = ''secret-n-g1''"
    "cf_ownerRef restore_conf = owner_label preserve_ci" by code_simp+
  ultimately show ?thesis
    using restore_only_own_backups [OF surjective_pairing [of "restoreResource sample_codec restore_conf after_deletion"]]
    by metis
qed

end
