(* ===== verification/Pause.thy ===== *)
theory Pause
  imports Manifests Samples
begin

text \<open>
  \<open>internal/controller/clusterinstance/pause.go\<close>: setting and clearing the paused annotation and the
  paused status. The result is the error, the ClusterInstance in memory and the new state.
\<close>

definition SetMetaDataAnnotation :: "string \<Rightarrow> string \<Rightarrow> ClusterInstance \<Rightarrow> ClusterInstance" where
  "SetMetaDataAnnotation k v ci =
     ci\<lparr>ci_Meta := (ci_Meta ci)\<lparr>om_Annotations := gset k v (om_Annotations (ci_Meta ci))\<rparr>\<rparr>"

definition with_paused :: "PausedStatus option \<Rightarrow> ClusterInstance \<Rightarrow> ClusterInstance" where
  "with_paused p ci = ci\<lparr>ci_Status := (ci_Status ci)\<lparr>st_Paused := p\<rparr>\<rparr>"

text \<open>The common course of both functions: patch the metadata, read back, patch the paused status.\<close>

definition ApplyPause :: "ClusterInstance \<Rightarrow> string \<Rightarrow> world \<Rightarrow> err option \<times> ClusterInstance \<times> world" where
  "ApplyPause ci reason w =
     (if IsPaused ci then (None, ci, w)
      else
        (let ci1 = SetMetaDataAnnotation PausedAnnotation [] ci in
         case PatchCI ci ci1 w of
           (Inl e, w1) \<Rightarrow> (Some (ErrWrap ''failed to apply paused annotation: '' e), ci1, w1)
         | (Inr ci2, w1) \<Rightarrow>
             (case GetCI (ci_key ci2) w1 of
                (Inl e, w2) \<Rightarrow>
                  (Some (ErrWrap ''failed to refresh ClusterInstance after metadata patch: '' e), ci2, w2)
              | (Inr ci3, w2) \<Rightarrow>
                  (let ci4 = with_paused (Some \<lparr>p_TimeSet = w_now w2, p_Reason = reason\<rparr>) ci3 in
                   case StatusPatchCI ci3 ci4 w2 of
                     (Inl e, w3) \<Rightarrow> (Some (ErrWrap ''failed to update Pause status: '' e), ci4, w3)
                   | (Inr ci5, w3) \<Rightarrow> (None, ci5, w3)))))"

definition RemovePause :: "ClusterInstance \<Rightarrow> world \<Rightarrow> err option \<times> ClusterInstance \<times> world" where
  "RemovePause ci w =
     (if \<not> IsPaused ci then (None, ci, w)
      else
        (let ci1 = ci\<lparr>ci_Meta := (ci_Meta ci)\<lparr>om_Annotations := gdel PausedAnnotation (om_Annotations (ci_Meta ci))\<rparr>\<rparr> in
         case PatchCI ci ci1 w of
           (Inl e, w1) \<Rightarrow> (Some (ErrWrap ''failed to remove paused annotation: '' e), ci1, w1)
         | (Inr ci2, w1) \<Rightarrow>
             (case GetCI (ci_key ci2) w1 of
                (Inl e, w2) \<Rightarrow>
                  (Some (ErrWrap ''failed to refresh ClusterInstance after metadata patch: '' e), ci2, w2)
              | (Inr ci3, w2) \<Rightarrow>
                  (let ci4 = with_paused None ci3 in
                   case StatusPatchCI ci3 ci4 w2 of
                     (Inl e, w3) \<Rightarrow> (Some (ErrWrap ''failed to clear Paused status: '' e), ci4, w3)
                   | (Inr ci5, w3) \<Rightarrow> (None, ci5, w3)))))"

section \<open>Lemmas\<close>

lemma foldl_del_lookup:
  "map_of (foldl (\<lambda>m k. if ghas new k then m else gdel k m) server ks) k =
     (if k \<in> set ks \<and> \<not> ghas new k then None else map_of server k)"
  by (induction ks arbitrary: server) auto

lemma foldl_set_lookup:
  "gmap_ok new \<Longrightarrow>
   map_of (foldl (\<lambda>m p. if map_of orig (fst p) = Some (snd p) then m else gset (fst p) (snd p) m) server new) k =
     (case map_of new k of None \<Rightarrow> map_of server k
      | Some v \<Rightarrow> if map_of orig k = Some v then map_of server k else Some v)"
proof (induction new arbitrary: server)
  case (Cons p new)
  obtain a v where p: "p = (a, v)" by fastforce
  have "a \<notin> fst ` set new" using Cons.prems p by (auto simp: gmap_ok_def)
  then have "map_of new a = None" by (simp add: map_of_eq_None_iff)
  with Cons p show ?case by (auto simp: gmap_ok_def split: option.splits)
qed simp

text \<open>A merge patch of a string map changes exactly the keys on which the two sides differ.\<close>

lemma merge_smap_lookup:
  assumes "gmap_ok new"
  shows "map_of (merge_smap orig new server) k = merge (map_of orig k) (map_of new k) (map_of server k)"
  unfolding merge_smap_def foldl_set_lookup [OF assms] foldl_del_lookup
  using map_of_eq_None_iff [of orig k]
  by (cases "map_of new k"; cases "map_of orig k") (auto simp: merge_def ghas_def)

lemma PatchCI_ok:
  assumes "PatchCI orig ci w = (Inr ci', w')"
  shows "\<exists>s. map_of (w_cis w) (ci_key ci) = Some s \<and> ci' = s\<lparr>ci_Meta := merge_meta (ci_Meta orig) (ci_Meta ci) (ci_Meta s)\<rparr>
    \<and> w_objs w' = w_objs w \<and> w_now w' = w_now w
    \<and> (map_of (w_cis w') (ci_key ci) = None \<or> map_of (w_cis w') (ci_key ci) = Some ci')
    \<and> (\<forall>k. k \<noteq> ci_key ci \<longrightarrow> map_of (w_cis w') k = map_of (w_cis w) k)"
  using assms by (auto simp: PatchCI_def Let_def split: prod.splits option.splits if_splits)

lemma GetCI_ok:
  "GetCI k w = (Inr ci, w') \<Longrightarrow> map_of (w_cis w) k = Some ci \<and> same_state w w'"
  by (auto simp: GetCI_def same_state_def split: prod.splits option.splits)

definition cis_ok :: "world \<Rightarrow> bool" where
  "cis_ok w \<longleftrightarrow> list_all (\<lambda>p. ci_key (snd p) = fst p) (w_cis w)"

lemma cis_ok_lookup: "cis_ok w \<Longrightarrow> map_of (w_cis w) k = Some ci \<Longrightarrow> ci_key ci = k"
  by (auto simp: cis_ok_def list_all_iff dest!: map_of_SomeD)

lemma ci_key_updates [simp]:
  "ci_key (ci\<lparr>ci_Status := s\<rparr>) = ci_key ci"
  "ci_key (ci\<lparr>ci_Meta := merge_meta a b (ci_Meta ci)\<rparr>) = ci_key ci"
  "ci_key (SetMetaDataAnnotation x y ci) = ci_key ci"
  "ci_key (ci\<lparr>ci_Meta := (ci_Meta ci)\<lparr>om_Annotations := an\<rparr>\<rparr>) = ci_key ci"
  "ci_key (with_paused p ci) = ci_key ci"
  by (simp_all add: ci_key_def merge_meta_def SetMetaDataAnnotation_def with_paused_def)

text \<open>The three requests of a pause or an unpause, when they all succeed.\<close>

lemma pause_chain:
  assumes "PatchCI orig ci1 w = (Inr ci2, w1)" "GetCI (ci_key ci2) w1 = (Inr ci3, w2)"
    "StatusPatchCI ci3 (with_paused p ci3) w2 = (Inr ci5, w3)" "cis_ok w"
  shows "\<exists>s. map_of (w_cis w) (ci_key ci1) = Some s
    \<and> ci5 = with_paused p (s\<lparr>ci_Meta := merge_meta (ci_Meta orig) (ci_Meta ci1) (ci_Meta s)\<rparr>)
    \<and> map_of (w_cis w3) (ci_key ci1) = Some ci5 \<and> w_objs w3 = w_objs w
    \<and> (\<forall>k. k \<noteq> ci_key ci1 \<longrightarrow> map_of (w_cis w3) k = map_of (w_cis w) k) \<and> w_now w2 = w_now w"
proof -
  obtain s where s: "map_of (w_cis w) (ci_key ci1) = Some s"
    "ci2 = s\<lparr>ci_Meta := merge_meta (ci_Meta orig) (ci_Meta ci1) (ci_Meta s)\<rparr>" "w_objs w1 = w_objs w"
    "w_now w1 = w_now w"
    "map_of (w_cis w1) (ci_key ci1) = None \<or> map_of (w_cis w1) (ci_key ci1) = Some ci2"
    "\<forall>k. k \<noteq> ci_key ci1 \<longrightarrow> map_of (w_cis w1) k = map_of (w_cis w) k"
    using PatchCI_ok [OF assms(1)] by auto
  have k: "ci_key ci2 = ci_key ci1" using cis_ok_lookup [OF assms(4) s(1)] s(2) by simp
  have g: "ci3 = ci2" "same_state w1 w2" using GetCI_ok [OF assms(2)] s(5) unfolding k by auto
  obtain t where t: "map_of (w_cis w2) (ci_key ci1) = Some t"
    "ci5 = t\<lparr>ci_Status := merge_status (ci_Status ci2) (ci_Status (with_paused p ci2)) (ci_Status t)\<rparr>"
    "w_cis w3 = gset (ci_key ci1) ci5 (w_cis w2)" "w_objs w3 = w_objs w2"
    using StatusPatchCI_ok [OF assms(3)[unfolded g(1)]] k by auto
  have "t = ci2" using t(1) g(2) s(5) by (auto simp: same_state_def)
  then have "ci5 = with_paused p ci2" using t(2) by (simp add: with_paused_def)
  with s t(3,4) g(2) show ?thesis by (auto simp: same_state_def)
qed

lemma ApplyPause_ok:
  assumes "ApplyPause ci reason w = (None, ci', w')" "\<not> IsPaused ci" "cis_ok w"
    "gmap_ok (om_Annotations (ci_Meta ci))"
  obtains s where "map_of (w_cis w) (ci_key ci) = Some s" "map_of (w_cis w') (ci_key ci) = Some ci'"
    "ci_Spec ci' = ci_Spec s" "ci_Status ci' = (ci_Status s)\<lparr>st_Paused := Some \<lparr>p_TimeSet = w_now w, p_Reason = reason\<rparr>\<rparr>"
    "map_of (om_Annotations (ci_Meta ci')) = (map_of (om_Annotations (ci_Meta s)))(PausedAnnotation \<mapsto> [])"
    "w_objs w' = w_objs w"
proof -
  let ?ci1 = "SetMetaDataAnnotation PausedAnnotation [] ci"
  obtain ci2 w1 ci3 w2 where c: "PatchCI ci ?ci1 w = (Inr ci2, w1)" "GetCI (ci_key ci2) w1 = (Inr ci3, w2)"
    "StatusPatchCI ci3 (with_paused (Some \<lparr>p_TimeSet = w_now w2, p_Reason = reason\<rparr>) ci3) w2 = (Inr ci', w')"
    using assms(1,2) by (auto simp: ApplyPause_def Let_def split: prod.splits sum.splits)
  from pause_chain [OF c assms(3)] obtain s where s: "map_of (w_cis w) (ci_key ci) = Some s"
    "ci' = with_paused (Some \<lparr>p_TimeSet = w_now w2, p_Reason = reason\<rparr>)
       (s\<lparr>ci_Meta := merge_meta (ci_Meta ci) (ci_Meta ?ci1) (ci_Meta s)\<rparr>)"
    "map_of (w_cis w') (ci_key ci) = Some ci'" "w_objs w' = w_objs w" "w_now w2 = w_now w" by auto
  have "map_of (om_Annotations (ci_Meta ci')) k =
      merge (map_of (om_Annotations (ci_Meta ci)) k) (map_of (om_Annotations (ci_Meta ?ci1)) k)
        (map_of (om_Annotations (ci_Meta s)) k)" for k
    using assms(4)
    by (simp add: s(2) with_paused_def merge_meta_def merge_smap_lookup SetMetaDataAnnotation_def)
  then have an: "map_of (om_Annotations (ci_Meta ci')) = (map_of (om_Annotations (ci_Meta s)))(PausedAnnotation \<mapsto> [])"
    using assms(2) by (auto simp: SetMetaDataAnnotation_def merge_def IsPaused_def ghas_def fun_eq_iff)
  show thesis by (rule that [OF s(1,3) _ _ an s(4)]) (simp_all add: s(2,5) with_paused_def)
qed

lemma RemovePause_ok:
  assumes "RemovePause ci w = (None, ci', w')" "IsPaused ci" "cis_ok w" "gmap_ok (om_Annotations (ci_Meta ci))"
  obtains s where "map_of (w_cis w) (ci_key ci) = Some s" "map_of (w_cis w') (ci_key ci) = Some ci'"
    "ci_Spec ci' = ci_Spec s" "ci_Status ci' = (ci_Status s)\<lparr>st_Paused := None\<rparr>"
    "map_of (om_Annotations (ci_Meta ci')) = (map_of (om_Annotations (ci_Meta s)))(PausedAnnotation := None)"
proof -
  let ?ci1 = "ci\<lparr>ci_Meta := (ci_Meta ci)\<lparr>om_Annotations := gdel PausedAnnotation (om_Annotations (ci_Meta ci))\<rparr>\<rparr>"
  obtain ci2 w1 ci3 w2 where c: "PatchCI ci ?ci1 w = (Inr ci2, w1)" "GetCI (ci_key ci2) w1 = (Inr ci3, w2)"
    "StatusPatchCI ci3 (with_paused None ci3) w2 = (Inr ci', w')"
    using assms(1,2) by (auto simp: RemovePause_def Let_def split: prod.splits sum.splits)
  from pause_chain [OF c assms(3)] obtain s where s: "map_of (w_cis w) (ci_key ci) = Some s"
    "ci' = with_paused None (s\<lparr>ci_Meta := merge_meta (ci_Meta ci) (ci_Meta ?ci1) (ci_Meta s)\<rparr>)"
    "map_of (w_cis w') (ci_key ci) = Some ci'" by auto
  have "map_of (om_Annotations (ci_Meta ci')) k =
      merge (map_of (om_Annotations (ci_Meta ci)) k) (map_of (om_Annotations (ci_Meta ?ci1)) k)
        (map_of (om_Annotations (ci_Meta s)) k)" for k
    using assms(4) by (simp add: s(2) with_paused_def merge_meta_def merge_smap_lookup)
  then have an: "map_of (om_Annotations (ci_Meta ci')) = (map_of (om_Annotations (ci_Meta s)))(PausedAnnotation := None)"
    using assms(2) by (auto simp: merge_def IsPaused_def ghas_def fun_eq_iff)
  show thesis by (rule that [OF s(1,3) _ _ an]) (simp_all add: s(2) with_paused_def)
qed

section \<open>Properties\<close>

text \<open>When \<open>ApplyPause\<close> succeeds on a ClusterInstance that is not paused, the stored ClusterInstance
  has the paused annotation and the paused status with the given reason and the current time; its spec
  and the rest of its status are as they were stored, every other annotation too, and no other object
  is changed.\<close>

theorem apply_pause_sets:
  assumes "ApplyPause ci reason w = (None, ci', w')" "\<not> IsPaused ci" "cis_ok w"
    "gmap_ok (om_Annotations (ci_Meta ci))"
  shows "\<exists>s. map_of (w_cis w) (ci_key ci) = Some s \<and> map_of (w_cis w') (ci_key ci) = Some ci'
    \<and> IsPaused ci' \<and> ci_Spec ci' = ci_Spec s
    \<and> ci_Status ci' = (ci_Status s)\<lparr>st_Paused := Some \<lparr>p_TimeSet = w_now w, p_Reason = reason\<rparr>\<rparr>
    \<and> map_of (om_Annotations (ci_Meta ci')) = (map_of (om_Annotations (ci_Meta s)))(PausedAnnotation \<mapsto> [])
    \<and> w_objs w' = w_objs w"
  using ApplyPause_ok [OF assms] by (metis IsPaused_def fun_upd_same ghas_def option.distinct(1))

definition pause_world :: world where
  "pause_world = \<lparr>w_now = 9, w_faults = [], w_objs = [], w_cis = [(ci_key sample_ci, sample_ci)]\<rparr>"

definition pause_run :: "err option \<times> ClusterInstance \<times> world" where
  "pause_run = ApplyPause sample_ci ''r'' pause_world"

lemma pause_run_ok: "ApplyPause sample_ci ''r'' pause_world = (None, fst (snd pause_run), snd (snd pause_run))"
proof -
  have "fst pause_run = None" by code_simp
  then show ?thesis unfolding pause_run_def by (metis prod.collapse)
qed

theorem apply_pause_sets_witness: "IsPaused (fst (snd pause_run))"
proof -
  have "\<not> IsPaused sample_ci" "cis_ok pause_world" "gmap_ok (om_Annotations (ci_Meta sample_ci))"
    by code_simp+
  with apply_pause_sets [OF pause_run_ok] show ?thesis by blast
qed

text \<open>C30: \<open>RemovePause\<close> undoes \<open>ApplyPause\<close>: pausing and then unpausing a ClusterInstance, both with
  success and with nobody else writing in between, leaves the stored spec and status as they were
  before, apart from the paused status, which is cleared, and every annotation as it was before.\<close>

theorem remove_pause_undoes:
  assumes "ApplyPause ci reason w = (None, ci1, w1)" "RemovePause ci1 w1 = (None, ci2, w2)"
    "\<not> IsPaused ci" "cis_ok w" "cis_ok w1" "map_of (w_cis w) (ci_key ci) = Some ci"
    "gmap_ok (om_Annotations (ci_Meta ci))" "gmap_ok (om_Annotations (ci_Meta ci1))"
  shows "map_of (w_cis w2) (ci_key ci) = Some ci2 \<and> ci_Spec ci2 = ci_Spec ci
    \<and> ci_Status ci2 = (ci_Status ci)\<lparr>st_Paused := None\<rparr>
    \<and> map_of (om_Annotations (ci_Meta ci2)) = map_of (om_Annotations (ci_Meta ci))"
proof -
  obtain s where s: "map_of (w_cis w) (ci_key ci) = Some s" "map_of (w_cis w1) (ci_key ci) = Some ci1"
    "ci_Spec ci1 = ci_Spec s" "ci_Status ci1 = (ci_Status s)\<lparr>st_Paused := Some \<lparr>p_TimeSet = w_now w, p_Reason = reason\<rparr>\<rparr>"
    "map_of (om_Annotations (ci_Meta ci1)) = (map_of (om_Annotations (ci_Meta s)))(PausedAnnotation \<mapsto> [])"
    using ApplyPause_ok [OF assms(1,3,4,7)] by blast
  have p: "IsPaused ci1" using s(5) by (simp add: IsPaused_def ghas_def)
  have k: "ci_key ci1 = ci_key ci" using cis_ok_lookup [OF assms(5) s(2)] .
  obtain t where t: "map_of (w_cis w1) (ci_key ci1) = Some t" "map_of (w_cis w2) (ci_key ci1) = Some ci2"
    "ci_Spec ci2 = ci_Spec t" "ci_Status ci2 = (ci_Status t)\<lparr>st_Paused := None\<rparr>"
    "map_of (om_Annotations (ci_Meta ci2)) = (map_of (om_Annotations (ci_Meta t)))(PausedAnnotation := None)"
    using RemovePause_ok [OF assms(2) p assms(5,8)] by blast
  have "s = ci" "t = ci1" using s(1,2) t(1) assms(6) unfolding k by simp_all
  moreover have "(map_of (om_Annotations (ci_Meta ci)))(PausedAnnotation := None) = map_of (om_Annotations (ci_Meta ci))"
    using assms(3) by (auto simp: IsPaused_def ghas_def)
  ultimately show ?thesis using s(3-5) t(2-5) unfolding k by simp
qed

definition unpause_run :: "err option \<times> ClusterInstance \<times> world" where
  "unpause_run = RemovePause (fst (snd pause_run)) (snd (snd pause_run))"

theorem remove_pause_undoes_witness:
  "map_of (om_Annotations (ci_Meta (fst (snd unpause_run)))) = map_of (om_Annotations (ci_Meta sample_ci))"
proof -
  have "fst unpause_run = None" by code_simp
  then have "RemovePause (fst (snd pause_run)) (snd (snd pause_run)) = (None, fst (snd unpause_run), snd (snd unpause_run))"
    unfolding unpause_run_def by (metis prod.collapse)
  moreover have "\<not> IsPaused sample_ci" "cis_ok pause_world" "cis_ok (snd (snd pause_run))"
    "gmap_ok (om_Annotations (ci_Meta sample_ci))" "gmap_ok (om_Annotations (ci_Meta (fst (snd pause_run))))"
    by code_simp+
  moreover have "map_of (w_cis pause_world) (ci_key sample_ci) = Some sample_ci" by (simp add: pause_world_def)
  ultimately show ?thesis using remove_pause_undoes [OF pause_run_ok] by blast
qed

end
