(* ===== verification/Reinstall.thy ===== *)
theory Reinstall
  imports Preservation Pause Spec_Document
begin

text \<open>
  \<open>internal/controller/reinstall/reinstall.go\<close> and \<open>helper.go\<close>: the processing of a reinstall request as a
  sequence of tasks, each reconciled until it reports no further requeue. A task returns the reconcile
  result, the error, the ClusterInstance in memory and the state; \<open>None\<close> is the panic on a manifest
  reference without APIGroup. What the code takes from elsewhere is the record \<open>reinstall_env\<close>: the
  YAML library, the decoding of the last-observed spec, the JSON text of a patch, and the value of
  \<open>ConfigStore.GetAllowReinstalls()\<close>. After \<open>ProcessRequest\<close> has found the \<open>ReinstallRequestProcessed\<close>
  condition, \<open>Status.Reinstall\<close> is not nil.
\<close>

definition requeueWithShortInterval :: nat where "requeueWithShortInterval = 2"
definition deletionRequeueWithMediumInterval :: nat where "deletionRequeueWithMediumInterval = 30"

record reinstall_env =
  e_codec :: codec
  e_UnmarshalSpec :: "string \<Rightarrow> err + ClusterInstanceSpec"
  e_MarshalValue :: "json \<Rightarrow> string"
  e_MarshalPatch :: "Operation list \<Rightarrow> string"
  e_AllowReinstalls :: bool

type_synonym task_result = "Result \<times> err option \<times> ClusterInstance \<times> world"

section \<open>Conditions and status (helper.go)\<close>

definition findReinstallStatusCondition :: "ClusterInstance \<Rightarrow> string \<Rightarrow> Condition option" where
  "findReinstallStatusCondition ci conditionType =
     (case st_Reinstall (ci_Status ci) of
        None \<Rightarrow> None | Some r \<Rightarrow> FindStatusCondition (r_Conditions r) conditionType)"

definition upd_reinstall :: "(ReinstallStatus \<Rightarrow> ReinstallStatus) \<Rightarrow> ClusterInstance \<Rightarrow> ClusterInstance" where
  "upd_reinstall f ci = ci\<lparr>ci_Status := (ci_Status ci)\<lparr>st_Reinstall := map_option f (st_Reinstall (ci_Status ci))\<rparr>\<rparr>"

definition setReinstallStatusCondition :: "time \<Rightarrow> ClusterInstance \<Rightarrow> Condition \<Rightarrow> bool \<times> ClusterInstance" where
  "setReinstallStatusCondition now ci condition =
     (case st_Reinstall (ci_Status ci) of
        None \<Rightarrow> (False, ci)
      | Some r \<Rightarrow>
          (case meta_SetStatusCondition now (r_Conditions r) condition of
             (conds, changed) \<Rightarrow> (changed, upd_reinstall (\<lambda>r. r\<lparr>r_Conditions := conds\<rparr>) ci)))"

text \<open>\<open>conditionSetter\<close>: the transition time is left zero and filled in when the condition is set.\<close>

definition conditionSetter :: "string \<Rightarrow> string \<Rightarrow> string \<Rightarrow> string \<Rightarrow> Condition" where
  "conditionSetter conditionType conditionStatus conditionReason message =
     \<lparr>c_Type = conditionType, c_Status = conditionStatus, c_ObservedGeneration = 0, c_LastTransitionTime = 0,
      c_Reason = conditionReason, c_Message = message\<rparr>"

definition reinstall_status :: "ClusterInstance \<Rightarrow> ReinstallStatus" where
  "reinstall_status ci = (case st_Reinstall (ci_Status ci) of None \<Rightarrow> empty_reinstall | Some r \<Rightarrow> r)"

definition logAndWrapUpdateFailure :: "err option \<Rightarrow> err \<Rightarrow> string \<Rightarrow> err" where
  "logAndWrapUpdateFailure currentError updateError errorMsg =
     (case currentError of
        None \<Rightarrow> ErrWrap (errorMsg @ '', update error: '') updateError
      | Some e \<Rightarrow> ErrWrap2 (errorMsg @ '', update error: '') updateError '', error: '' e)"

definition update_condition_msg :: "string \<Rightarrow> string" where
  "update_condition_msg t = ''failed to update reinstall condition '' @ squote @ t @ squote"

definition setOrUpdateLabel :: "string \<Rightarrow> string \<Rightarrow> kobject \<Rightarrow> bool \<times> kobject" where
  "setOrUpdateLabel key value obj =
     (if map_of (om_Labels (o_Meta obj)) key = Some value then (False, obj)
      else (True, obj\<lparr>o_Meta := (o_Meta obj)\<lparr>om_Labels := gset key value (om_Labels (o_Meta obj))\<rparr>\<rparr>))"

definition reinstallConditionTypes :: "string list" where
  "reinstallConditionTypes = [ReinstallRequestProcessed, ReinstallRequestValidated, ReinstallPreservationDataBackedup,
     ReinstallClusterIdentityDataDetected, ReinstallRenderedManifestsDeleted, ReinstallPreservationDataRestored,
     ReinstallClusterReimported]"

definition initial_condition :: "time \<Rightarrow> string \<Rightarrow> Condition" where
  "initial_condition now t = \<lparr>c_Type = t, c_Status = ConditionUnknown, c_ObservedGeneration = 0,
     c_LastTransitionTime = now, c_Reason = Initialized, c_Message = ''Condition Initialized''\<rparr>"

text \<open>The loop that sets the initial conditions, with the flag of changes.\<close>

fun set_all :: "time \<Rightarrow> Condition list \<Rightarrow> Condition list \<Rightarrow> bool \<Rightarrow> Condition list \<times> bool" where
  "set_all now conds [] updateRequired = (conds, updateRequired)"
| "set_all now conds (c # cs) updateRequired =
     (case meta_SetStatusCondition now conds c of
        (conds', changed) \<Rightarrow> set_all now conds' cs (updateRequired \<or> changed))"

definition initialized_status :: "time \<Rightarrow> string \<Rightarrow> ReinstallStatus option \<Rightarrow> ReinstallStatus \<times> bool" where
  "initialized_status now gen status =
     (let (r, u1) = (case status of None \<Rightarrow> (empty_reinstall\<lparr>r_InProgressGeneration := gen\<rparr>, True) | Some r \<Rightarrow> (r, False));
          (r, u2) = (if r_InProgressGeneration r \<noteq> gen
            then (r\<lparr>r_InProgressGeneration := gen, r_Conditions := []\<rparr>, True) else (r, u1));
          (r, u3) = (if \<not> IsZero (r_RequestStartTime r) then (r\<lparr>r_RequestStartTime := 0\<rparr>, True) else (r, u2));
          (r, u4) = (if \<not> IsZero (r_RequestEndTime r) then (r\<lparr>r_RequestEndTime := 0\<rparr>, True) else (r, u3));
          (conds, u5) = set_all now (r_Conditions r) (map (initial_condition now) reinstallConditionTypes) u4
      in (r\<lparr>r_Conditions := conds\<rparr>, u5))"

definition initializeReinstallStatus :: "ClusterInstance \<Rightarrow> world \<Rightarrow> err option \<times> ClusterInstance \<times> world" where
  "initializeReinstallStatus ci w =
     (let (r, updateRequired) = initialized_status (w_now w) (rs_Generation (reinstall_spec ci)) (st_Reinstall (ci_Status ci));
          ci1 = ci\<lparr>ci_Status := (ci_Status ci)\<lparr>st_Reinstall := Some r\<rparr>\<rparr>
      in if updateRequired then
           (case PatchCIStatus ci ci1 w of
              (Some e, ci2, w') \<Rightarrow> (Some (ErrWrap ''failed to initialize reinstall status, error: '' e), ci2, w')
            | (None, ci2, w') \<Rightarrow> (None, ci2, w'))
         else (None, ci1, w))"

definition getManagedClusterManifest :: "ClusterInstance \<Rightarrow> ManifestReference option" where
  "getManagedClusterManifest ci =
     find (\<lambda>m. m_Kind m = ''ManagedCluster'' \<and> m_Status m = ManifestRenderedSuccess) (st_ManifestsRendered (ci_Status ci))"

definition managed_cluster_document :: "string \<Rightarrow> ManifestReference \<Rightarrow> (string \<times> json) list" where
  "managed_cluster_document apiGroup manifest =
     [(''apiVersion'', JStr apiGroup), (''kind'', JStr (m_Kind manifest)),
      (''metadata'', JObj [(''name'', JStr (m_Name manifest)),
         (''annotations'', JObj [(WaveAnnotation, JStr (Itoa (m_SyncWave manifest)))])])]"

definition getManagedCluster :: "ClusterInstance \<Rightarrow> (err + RenderedObject option) option" where
  "getManagedCluster ci =
     (case getManagedClusterManifest ci of
        None \<Rightarrow> Some (Inr None)
      | Some manifest \<Rightarrow>
          (case m_APIGroup manifest of
             None \<Rightarrow> None
           | Some apiGroup \<Rightarrow>
               (case NewRenderedObject (managed_cluster_document apiGroup manifest) of
                  (Some e, obj) \<Rightarrow> Some (Inl (ErrWrap
                    ''encountered an error while converting ManagedCluster to RenderedObject, err: '' e))
                | (None, obj) \<Rightarrow> Some (Inr (Some obj)))))"

definition getDataPreservationSummary :: "ClusterInstance \<Rightarrow> world \<Rightarrow> (Condition \<times> Condition \<times> err option) \<times> world" where
  "getDataPreservationSummary ci w =
     (case GetPreservedResourceCounts ci w of
        ((clusterIDCount, otherCount, Some e), w') \<Rightarrow>
          ((conditionSetter ReinstallPreservationDataBackedup ConditionFalse Failed (Error e),
            conditionSetter ReinstallClusterIdentityDataDetected ConditionFalse Failed (Error e), Some e), w')
      | ((clusterIDCount, otherCount, None), w') \<Rightarrow>
          (let total = clusterIDCount + otherCount;
               backedup = (if total = 0
                 then conditionSetter ReinstallPreservationDataBackedup ConditionFalse DataUnavailable
                   ''No resources were found to be preserved in the ClusterInstance namespace with the preservation data label''
                 else conditionSetter ReinstallPreservationDataBackedup ConditionTrue Completed
                   (''Number of resources preserved: '' @ show_nat total @ '' ''))
           in if clusterIDCount = 0 then
                (if rs_PreservationMode (reinstall_spec ci) = PreservationModeClusterIdentity then
                   (let errorMsg = ''preservationMode set to '' @ squote @ PreservationModeClusterIdentity @ squote
                          @ '', found no cluster-identity resources''
                    in ((backedup, conditionSetter ReinstallClusterIdentityDataDetected ConditionFalse Failed errorMsg,
                         Some (ErrNew errorMsg)), w'))
                 else ((backedup, conditionSetter ReinstallClusterIdentityDataDetected ConditionFalse DataUnavailable
                         ''No cluster identity resources were detected for preservation'', None), w'))
              else ((backedup, conditionSetter ReinstallClusterIdentityDataDetected ConditionTrue DataAvailable
                      (''Number of cluster identity resources detected: '' @ show_nat clusterIDCount @ '' ''), None), w')))"

definition getDataRestorationSummary :: "ClusterInstance \<Rightarrow> world \<Rightarrow> (Condition \<times> err option) \<times> world" where
  "getDataRestorationSummary ci w =
     (case GetRestoredResourceCounts ci w of
        ((clusterIDCount, otherCount, Some e), w') \<Rightarrow>
          ((conditionSetter ReinstallPreservationDataRestored ConditionFalse Failed (Error e), Some e), w')
      | ((clusterIDCount, otherCount, None), w') \<Rightarrow>
          (let total = clusterIDCount + otherCount in
           if total = 0 then
             (if rs_PreservationMode (reinstall_spec ci) = PreservationModeClusterIdentity then
                (let errorMsg = ''no restored resources found, PreservationMode '' @ squote @ PreservationModeClusterIdentity
                       @ squote @ '' expects data to be restored''
                 in ((conditionSetter ReinstallPreservationDataRestored ConditionFalse Failed errorMsg, Some (ErrNew errorMsg)), w'))
              else ((conditionSetter ReinstallPreservationDataRestored ConditionFalse DataUnavailable
                       ''No restored resources found'', None), w'))
           else ((conditionSetter ReinstallPreservationDataRestored ConditionTrue Completed
                    (show_nat total @ '' resources were successfully restored: '' @ show_nat clusterIDCount
                     @ '' cluster-identity resources, '' @ show_nat otherCount @ '' other resources''), None), w')))"

text \<open>The order of the recorded differences: by path, then by the JSON text of the value, then by type.\<close>

definition diff_key :: "reinstall_env \<Rightarrow> Operation \<Rightarrow> string list" where
  "diff_key env d = [op_Path d, e_MarshalValue env (op_Value d),
     (case op_Type d of OperationAdd \<Rightarrow> ''add'' | OperationReplace \<Rightarrow> ''replace'' | OperationRemove \<Rightarrow> ''remove'')]"

definition computeClusterInstanceSpecDiff :: "reinstall_env \<Rightarrow> ClusterInstance \<Rightarrow> err + string" where
  "computeClusterInstanceSpecDiff env ci =
     (case map_of (om_Annotations (ci_Meta ci)) LastClusterInstanceSpecAnnotation of
        None \<Rightarrow> Inr []
      | Some lastObserved \<Rightarrow>
          (case e_UnmarshalSpec env lastObserved of
             Inl e \<Rightarrow> Inl (ErrWrap ''failed to unmarshal last-observed spec: '' e)
           | Inr lastObservedSpec \<Rightarrow>
               (let specDiff = CompareJSON (marshalSpec lastObservedSpec) (marshalSpec (ci_Spec ci)) in
                if specDiff = [] then Inr [] else Inr (e_MarshalPatch env (sort_key (diff_key env) specDiff)))))"


section \<open>Predicates on the request (reinstall.go)\<close>

definition isRequestProcessed :: "ClusterInstance \<Rightarrow> bool" where
  "isRequestProcessed ci =
     (case st_Reinstall (ci_Status ci) of
        None \<Rightarrow> False
      | Some status \<Rightarrow>
          if r_ObservedGeneration status = rs_Generation (reinstall_spec ci) then True
          else case FindStatusCondition (r_Conditions status) ReinstallRequestProcessed of
            None \<Rightarrow> False
          | Some cond \<Rightarrow>
              r_InProgressGeneration status = rs_Generation (reinstall_spec ci)
              \<and> \<not> IsZero (r_RequestEndTime status)
              \<and> (c_Reason cond = Completed \<or> c_Reason cond = Failed \<or> c_Reason cond = TimedOut)
              \<and> c_Status cond \<noteq> ConditionUnknown)"

definition isNewRequest :: "ClusterInstance \<Rightarrow> bool" where
  "isNewRequest ci \<longleftrightarrow>
     (case st_Reinstall (ci_Status ci) of
        None \<Rightarrow> True | Some status \<Rightarrow> r_InProgressGeneration status \<noteq> rs_Generation (reinstall_spec ci))"

section \<open>Tasks\<close>

text \<open>Patch the status with a message for the failure; used by the deferred functions.\<close>

definition patch_or_wrap :: "ClusterInstance \<Rightarrow> ClusterInstance \<Rightarrow> err option \<Rightarrow> string \<Rightarrow> world
    \<Rightarrow> err option \<times> bool \<times> ClusterInstance \<times> world" where
  "patch_or_wrap orig ci err msg w =
     (case PatchCIStatus orig ci w of
        (None, ci', w') \<Rightarrow> (err, True, ci', w')
      | (Some e, ci', w') \<Rightarrow> (Some (logAndWrapUpdateFailure err e msg), False, ci', w'))"

definition ensureValidReinstallRequest :: "reinstall_env \<Rightarrow> ClusterInstance \<Rightarrow> world \<Rightarrow> task_result" where
  "ensureValidReinstallRequest env ci w =
     (let (err, condition) =
        (if \<not> e_AllowReinstalls env
         then (Some (ErrNew ''siteConfig operator is not configured for cluster reinstalls''),
               conditionSetter ReinstallRequestValidated ConditionFalse Failed ''Cluster Reinstallation is not enabled'')
         else (None, conditionSetter ReinstallRequestValidated ConditionTrue Completed ''Valid reinstall request''));
        (updateRequired, ci1) = setReinstallStatusCondition (w_now w) ci condition
      in if updateRequired then
           (case patch_or_wrap ci ci1 err (update_condition_msg ReinstallRequestValidated) w of
              (err', ok, ci2, w') \<Rightarrow> (requeue, err', ci2, w'))
         else (zero_result, err, ci1, w))"

definition ensureStartTimeIsSet :: "reinstall_env \<Rightarrow> ClusterInstance \<Rightarrow> world \<Rightarrow> task_result" where
  "ensureStartTimeIsSet env ci w =
     (if IsZero (r_RequestStartTime (reinstall_status ci)) then
        (case patch_or_wrap ci (upd_reinstall (\<lambda>r. r\<lparr>r_RequestStartTime := w_now w\<rparr>) ci) None
           ''failed to update Reinstall.RequestStartTime'' w of
           (err, ok, ci', w') \<Rightarrow> (requeue, err, ci', w'))
      else (zero_result, None, ci, w))"

text \<open>The label on one secret; a missing secret is ignored.\<close>

definition applyPreservationLabel :: "string \<Rightarrow> string \<Rightarrow> world \<Rightarrow> err option \<times> world" where
  "applyPreservationLabel ns name w =
     (case Get (ObjKey ''v1'' ''Secret'' ns name) w of
        (Inl e, w') \<Rightarrow>
          (if IsNotFound e then None
           else Some (ErrWrap ''failed to retrieve Secret for applying preservation label, err: '' e), w')
      | (Inr secret, w') \<Rightarrow>
          (case setOrUpdateLabel InternalPreservationLabelKey InternalPreservationLabelValue secret of
             (False, secret') \<Rightarrow> (None, w')
           | (True, secret') \<Rightarrow>
               (case PatchObj secret secret' w' of
                  (Inr x, w'') \<Rightarrow> (None, w'')
                | (Inl e, w'') \<Rightarrow> (Some (ErrWrap (''failed to update Secret '' @ ns @ ''/'' @ name
                    @ '' with preservation label, err: '') e), w''))))"

fun label_secrets :: "string \<Rightarrow> string list \<Rightarrow> world \<Rightarrow> err option \<times> world" where
  "label_secrets ns [] w = (None, w)"
| "label_secrets ns (name # names) w =
     (case applyPreservationLabel ns name w of
        (Some e, w') \<Rightarrow> (Some (ErrWrap ''encountered an error applying preservation label to ClusterInstance Secret, err: '' e), w')
      | (None, w') \<Rightarrow> label_secrets ns names w')"

definition applyPreservedLabelToClusterInstanceSecrets :: "reinstall_env \<Rightarrow> ClusterInstance \<Rightarrow> world \<Rightarrow> task_result" where
  "applyPreservedLabelToClusterInstanceSecrets env ci w =
     (case label_secrets (om_Namespace (ci_Meta ci))
        (s_PullSecretRef (ci_Spec ci) # map n_BmcCredentialsName (s_Nodes (ci_Spec ci))) w of
        (err, w') \<Rightarrow> (zero_result, err, ci, w'))"

text \<open>\<open>ensureDataIsPreserved\<close>: the body, which leaves the two conditions and the error to the deferred function.\<close>

definition preserve_data :: "reinstall_env \<Rightarrow> ClusterInstance \<Rightarrow> world \<Rightarrow> Condition \<times> Condition \<times> err option \<times> world" where
  "preserve_data env ci w =
     (if rs_PreservationMode (reinstall_spec ci) = PreservationModeNone then
        (conditionSetter ReinstallPreservationDataBackedup ConditionFalse PreservationNotRequired ''PreservationMode is set to None.'',
         conditionSetter ReinstallClusterIdentityDataDetected ConditionFalse PreservationNotRequired ''PreservationMode is set to None.'',
         None, w)
      else case Backup (e_codec env) ci w of
        (Some e, w') \<Rightarrow>
          (conditionSetter ReinstallPreservationDataBackedup ConditionFalse Failed (Error e),
           conditionSetter ReinstallClusterIdentityDataDetected ConditionFalse Failed ''Data preservation failed'',
           Some e, w')
      | (None, w') \<Rightarrow>
          (case getDataPreservationSummary ci w' of ((b, d, err), w'') \<Rightarrow> (b, d, err, w'')))"

definition ensureDataIsPreserved :: "reinstall_env \<Rightarrow> ClusterInstance \<Rightarrow> world \<Rightarrow> task_result" where
  "ensureDataIsPreserved env ci w =
     (let (backedup, detected, err, w1) = preserve_data env ci w;
          (u1, ci1) = setReinstallStatusCondition (w_now w1) ci backedup;
          (u2, ci2) = setReinstallStatusCondition (w_now w1) ci1 detected
      in if u1 \<or> u2 then
           (case patch_or_wrap ci ci2 err ''failed to update reinstall preservation condition(s)'' w1 of
              (err', ok, ci3, w') \<Rightarrow> (zero_result\<lparr>rs_RequeueAfter := requeueWithShortInterval\<rparr>, err', ci3, w'))
         else (zero_result, err, ci2, w1))"

text \<open>The deferred function of the deletion task, with the condition it is left with.\<close>

definition finish_deletion :: "ClusterInstance \<Rightarrow> Condition \<Rightarrow> Result \<Rightarrow> err option \<Rightarrow> ClusterInstance \<Rightarrow> world \<Rightarrow> task_result" where
  "finish_deletion orig cond result err ci w =
     (case setReinstallStatusCondition (w_now w) ci cond of
        (False, ci1) \<Rightarrow> (result, err, ci1, w)
      | (True, ci1) \<Rightarrow>
          (case patch_or_wrap orig ci1 err (update_condition_msg (c_Type cond)) w of
             (err', ok, ci2, w') \<Rightarrow>
               (if ok \<and> err = None then result\<lparr>rs_RequeueAfter := requeueWithShortInterval\<rparr> else result, err', ci2, w')))"

definition deleted_condition :: "string \<Rightarrow> string \<Rightarrow> string \<Rightarrow> Condition" where
  "deleted_condition = conditionSetter ReinstallRenderedManifestsDeleted"

definition ensureRenderedManifestsAreDeleted :: "reinstall_env \<Rightarrow> ClusterInstance \<Rightarrow> world \<Rightarrow> task_result option" where
  "ensureRenderedManifestsAreDeleted env ci w =
     (case getManagedCluster ci of
        None \<Rightarrow> None
      | Some (Inl e) \<Rightarrow>
          Some (finish_deletion ci (deleted_condition ConditionFalse Failed (Error e)) zero_result (Some e) ci w)
      | Some (Inr mc) \<Rightarrow>
          (let excludeFromDeletion = (case mc of None \<Rightarrow> [] | Some obj \<Rightarrow> [obj]);
               start = Some (finish_deletion ci (deleted_condition ConditionFalse InProgress ''Rendered manifests are being deleted'')
                 zero_result None ci w)
           in case findReinstallStatusCondition ci ReinstallRenderedManifestsDeleted of
                None \<Rightarrow> start
              | Some cond \<Rightarrow>
                  if c_Reason cond = Initialized then start
                  else if c_Reason cond = Failed \<or> c_Reason cond = Completed
                  then Some (finish_deletion ci cond zero_result None ci w)
                  else case DeleteRenderedObjects ci excludeFromDeletion (Some DefaultDeletionTimeout) w of
                    None \<Rightarrow> None
                  | Some (completed, Some e, ci1, w1) \<Rightarrow>
                      Some (finish_deletion ci
                        (if IsDeletionTimeoutError (Some e)
                         then deleted_condition ConditionFalse TimedOut ''Timed-out waiting for rendered manifests to be deleted.''
                         else deleted_condition ConditionFalse Failed (Error e)) zero_result (Some e) ci1 w1)
                  | Some (False, None, ci1, w1) \<Rightarrow>
                      Some (finish_deletion ci cond
                        \<lparr>rs_Requeue = True, rs_RequeueAfter = deletionRequeueWithMediumInterval\<rparr> None ci1 w1)
                  | Some (True, None, ci1, w1) \<Rightarrow>
                      Some (finish_deletion ci (deleted_condition ConditionTrue Completed
                        ''Successfully deleted rendered manifests'') zero_result None ci1 w1)))"

definition restore_data :: "reinstall_env \<Rightarrow> ClusterInstance \<Rightarrow> world \<Rightarrow> Condition \<times> err option \<times> world" where
  "restore_data env ci w =
     (if rs_PreservationMode (reinstall_spec ci) = PreservationModeNone then
        (conditionSetter ReinstallPreservationDataRestored ConditionFalse PreservationNotRequired ''PreservationMode is set to None.'',
         None, w)
      else case Restore (e_codec env) ci w of
        (Some e, w') \<Rightarrow> (conditionSetter ReinstallPreservationDataRestored ConditionFalse Failed (Error e), Some e, w')
      | (None, w') \<Rightarrow> (case getDataRestorationSummary ci w' of ((c, err), w'') \<Rightarrow> (c, err, w'')))"

definition ensurePreservedDataIsRestored :: "reinstall_env \<Rightarrow> ClusterInstance \<Rightarrow> world \<Rightarrow> task_result" where
  "ensurePreservedDataIsRestored env ci w =
     (case restore_data env ci w of
        (cond, err, w1) \<Rightarrow>
          (case setReinstallStatusCondition (w_now w1) ci cond of
             (False, ci1) \<Rightarrow> (zero_result, err, ci1, w1)
           | (True, ci1) \<Rightarrow>
               (case patch_or_wrap ci ci1 err (''failed to update reinstall restore data condition '' @ squote
                    @ ReinstallPreservationDataRestored @ squote) w1 of
                  (err', ok, ci2, w') \<Rightarrow> (zero_result\<lparr>rs_RequeueAfter := requeueWithShortInterval\<rparr>, err', ci2, w'))))"

section \<open>Completion\<close>

definition finalized_status :: "time \<Rightarrow> string \<Rightarrow> string \<Rightarrow> ReinstallStatus \<Rightarrow> ReinstallStatus \<times> bool" where
  "finalized_status now gen specDiff r =
     (let (r, u1) = (if r_ObservedGeneration r \<noteq> gen then (r\<lparr>r_ObservedGeneration := gen\<rparr>, True) else (r, False));
          (r, u2) = (if r_InProgressGeneration r \<noteq> [] then (r\<lparr>r_InProgressGeneration := []\<rparr>, True) else (r, u1));
          (r, u3) = (if IsZero (r_RequestEndTime r) then (r\<lparr>r_RequestEndTime := now\<rparr>, True) else (r, u2));
          record = \<lparr>h_Generation = gen, h_RequestStartTime = r_RequestStartTime r,
            h_RequestEndTime = r_RequestEndTime r, h_ClusterInstanceSpecDiff = specDiff\<rparr>
      in if list_ex (\<lambda>h. h_Generation h = gen) (r_History r) then (r, u3)
         else (r\<lparr>r_History := r_History r @ [record]\<rparr>, True))"

definition finalizeReinstallRequest :: "reinstall_env \<Rightarrow> ClusterInstance \<Rightarrow> world \<Rightarrow> err option \<times> ClusterInstance \<times> world" where
  "finalizeReinstallRequest env ci w =
     (case Cleanup ci w of
        ((completed, Some e), w') \<Rightarrow> (Some (ErrWrap ''failed to cleanup preserved resources, error: '' e), ci, w')
      | ((completed, None), w') \<Rightarrow>
          (case computeClusterInstanceSpecDiff env ci of
             Inl e \<Rightarrow> (Some (ErrWrap ''encountered an error determining the ClusterInstance Spec changes, error: '' e), ci, w')
           | Inr specDiff \<Rightarrow>
               (let (r, updateRequired) = finalized_status (w_now w') (rs_Generation (reinstall_spec ci)) specDiff (reinstall_status ci);
                    ci1 = upd_reinstall (\<lambda>x. r) ci
                in if updateRequired then
                     (case patch_or_wrap ci ci1 None ''failed to update reinstall status'' w' of
                        (err, ok, ci2, w'') \<Rightarrow> (err, ci2, w''))
                   else (None, ci1, w'))))"

section \<open>The request\<close>

datatype task = Task (t_Description: string)
  (t_Run: "reinstall_env \<Rightarrow> ClusterInstance \<Rightarrow> world \<Rightarrow> task_result option") (t_FailOnError: bool)

definition total :: "(reinstall_env \<Rightarrow> ClusterInstance \<Rightarrow> world \<Rightarrow> task_result)
    \<Rightarrow> reinstall_env \<Rightarrow> ClusterInstance \<Rightarrow> world \<Rightarrow> task_result option" where
  "total f env ci w = Some (f env ci w)"

definition tasks :: "task list" where
  "tasks =
    [Task ''Validating reinstall request'' (total ensureValidReinstallRequest) True,
     Task ''Setting reinstall request startTime'' (total ensureStartTimeIsSet) True,
     Task ''Applying preservation labels to ClusterInstance secrets'' (total applyPreservedLabelToClusterInstanceSecrets) True,
     Task ''Preserving data'' (total ensureDataIsPreserved) True,
     Task ''Deleting rendered manifests'' ensureRenderedManifestsAreDeleted False,
     Task ''Restoring preserved data'' (total ensurePreservedDataIsRestored) True]"

definition processed_condition :: "string \<Rightarrow> string \<Rightarrow> string \<Rightarrow> Condition" where
  "processed_condition = conditionSetter ReinstallRequestProcessed"

record loop_state =
  l_result :: Result
  l_err :: "err option"
  l_cond :: Condition
  l_setEndtime :: bool
  l_applyPause :: bool
  l_ci :: ClusterInstance
  l_world :: world

text \<open>The body after the initialization: the tasks in order, then the completion.\<close>

definition finish_request :: "reinstall_env \<Rightarrow> ClusterInstance \<Rightarrow> world \<Rightarrow> loop_state" where
  "finish_request env ci w =
     (case finalizeReinstallRequest env ci w of
        (Some e, ci', w') \<Rightarrow> \<lparr>l_result = zero_result, l_err = Some e,
           l_cond = processed_condition ConditionFalse InProgress ''Finalizing reinstall request'',
           l_setEndtime = False, l_applyPause = False, l_ci = ci', l_world = w'\<rparr>
      | (None, ci', w') \<Rightarrow> \<lparr>l_result = zero_result, l_err = None,
           l_cond = processed_condition ConditionTrue Completed
             ''The reinstall process completed successfully and the cluster is ready to be reprovisioned.'',
           l_setEndtime = False, l_applyPause = False, l_ci = ci', l_world = w'\<rparr>)"

fun run_tasks :: "reinstall_env \<Rightarrow> task list \<Rightarrow> ClusterInstance \<Rightarrow> world \<Rightarrow> loop_state option" where
  "run_tasks env [] ci w = Some (finish_request env ci w)"
| "run_tasks env (task # rest) ci w =
     (case t_Run task env ci w of
        None \<Rightarrow> None
      | Some (result, err, ci', w') \<Rightarrow>
          (let ls = \<lparr>l_result = result, l_err = err,
                 l_cond = processed_condition ConditionFalse InProgress (t_Description task),
                 l_setEndtime = False, l_applyPause = False, l_ci = ci', l_world = w'\<rparr>
           in if \<not> result_IsZero result then Some ls
              else case err of
                Some e \<Rightarrow> Some (ls\<lparr>l_cond := processed_condition ConditionFalse Failed
                    (''Encountered error executing task: '' @ t_Description task @ ''. Error: '' @ Error e),
                    l_setEndtime := t_FailOnError task, l_applyPause := \<not> t_FailOnError task\<rparr>)
              | None \<Rightarrow> run_tasks env rest ci' w'))"

text \<open>The deferred function of \<open>ProcessRequest\<close>.\<close>

definition conclude :: "loop_state \<Rightarrow> task_result" where
  "conclude ls =
     (let now = w_now (l_world ls); orig = l_ci ls; err = l_err ls;
          ci1 = (if l_setEndtime ls \<and> err \<noteq> None then upd_reinstall (\<lambda>r. r\<lparr>r_RequestEndTime := now\<rparr>) orig else orig);
          (changed, ci2) = setReinstallStatusCondition now ci1 (l_cond ls);
          (err', ok, ci3, w') = (if changed \<or> l_setEndtime ls
            then patch_or_wrap orig ci2 err (update_condition_msg ReinstallRequestProcessed) (l_world ls)
            else (err, True, ci2, l_world ls))
      in if ok \<and> l_applyPause ls then
           (case ApplyPause ci3 (case err' of None \<Rightarrow> [] | Some e \<Rightarrow> Error e) w' of
              (err1, ci4, w'') \<Rightarrow>
                (l_result ls,
                 (case (err1, err') of
                    (Some e1, None) \<Rightarrow> Some (ErrWrap ''encountered an error pausing ClusterInstance, error: '' e1)
                  | _ \<Rightarrow> err'), ci4, w''))
         else (l_result ls, err', ci3, w'))"

definition ProcessRequest :: "reinstall_env \<Rightarrow> ClusterInstance \<Rightarrow> world \<Rightarrow> task_result option" where
  "ProcessRequest env ci w =
     (case s_Reinstall (ci_Spec ci) of
        None \<Rightarrow> Some (zero_result, Some (ErrNew ''missing ReinstallSpec''), ci, w)
      | Some spec \<Rightarrow>
          if isRequestProcessed ci then Some (zero_result, None, ci, w)
          else case (findReinstallStatusCondition ci ReinstallRequestProcessed, isNewRequest ci) of
            (Some cond, False) \<Rightarrow>
              if c_Reason cond = Initialized then
                (case setReinstallStatusCondition (w_now w)
                   (upd_reinstall (\<lambda>r. r\<lparr>r_RequestStartTime := w_now w\<rparr>) ci)
                   (processed_condition ConditionFalse InProgress
                     (''Processing reinstall request for generation '' @ rs_Generation spec)) of
                   (changed, ci1) \<Rightarrow>
                     (case patch_or_wrap ci ci1 None (update_condition_msg ReinstallRequestProcessed) w of
                        (err, ok, ci2, w') \<Rightarrow> Some (if ok then requeue else zero_result, err, ci2, w')))
              else map_option conclude (run_tasks env tasks ci w)
          | _ \<Rightarrow>
              (case initializeReinstallStatus ci w of
                 (Some e, ci', w') \<Rightarrow> Some (zero_result, Some e, ci', w')
               | (None, ci', w') \<Rightarrow> Some (requeue, None, ci', w')))"

end
