(* ===== verification/Reinstall_Request.thy ===== *)
theory Reinstall_Request
  imports Reinstall
begin

text \<open>
  What a call of \<open>ProcessRequest\<close> guarantees: the contract of a task, its interpretation by the six
  tasks, and the properties of the whole request.
\<close>

section \<open>Lemmas: conditions and patches\<close>

lemma set_reinstall_unchanged:
  "setReinstallStatusCondition now ci c = (False, ci') \<Longrightarrow> ci' = ci"
  using meta_Set_unchanged [of now "r_Conditions (reinstall_status ci)" c]
  by (auto simp: setReinstallStatusCondition_def upd_reinstall_def reinstall_status_def split: option.splits prod.splits)

lemma upd_reinstall_frame [simp]:
  "ci_Meta (upd_reinstall f ci) = ci_Meta ci" "ci_Spec (upd_reinstall f ci) = ci_Spec ci"
  "ci_key (upd_reinstall f ci) = ci_key ci" "reinstall_spec (upd_reinstall f ci) = reinstall_spec ci"
  "st_Reinstall (ci_Status (upd_reinstall f ci)) = map_option f (st_Reinstall (ci_Status ci))"
  "st_ManifestsRendered (ci_Status (upd_reinstall f ci)) = st_ManifestsRendered (ci_Status ci)"
  by (simp_all add: upd_reinstall_def ci_key_def reinstall_spec_def)

lemma set_reinstall_frame:
  assumes "setReinstallStatusCondition now ci c = (b, ci')"
  shows "\<exists>f. ci' = upd_reinstall (\<lambda>r. r\<lparr>r_Conditions := f r\<rparr>) ci"
proof (cases "st_Reinstall (ci_Status ci)")
  case None
  with assms have "ci' = upd_reinstall (\<lambda>r. r\<lparr>r_Conditions := []\<rparr>) ci"
    by (simp add: setReinstallStatusCondition_def upd_reinstall_def)
  then show ?thesis by (intro exI [of _ "\<lambda>r. []"]) simp
next
  case (Some r)
  with assms show ?thesis
    by (intro exI [of _ "\<lambda>r. fst (meta_SetStatusCondition now (r_Conditions r) c)"])
      (auto simp: setReinstallStatusCondition_def upd_reinstall_def split: prod.splits)
qed

text \<open>Writing back the condition that was found is no change.\<close>

lemma set_found_condition:
  assumes "findReinstallStatusCondition ci t = Some c"
  shows "setReinstallStatusCondition now ci c = (False, ci)"
proof -
  obtain r where r: "st_Reinstall (ci_Status ci) = Some r" "FindStatusCondition (r_Conditions r) t = Some c"
    using assms by (auto simp: findReinstallStatusCondition_def split: option.splits)
  then have "FindStatusCondition (r_Conditions r) (c_Type c) = Some c" using Find_type by metis
  then have "fst (setReinstallStatusCondition now ci c) = False"
    using r(1) by (simp add: setReinstallStatusCondition_def meta_SetStatusCondition_def)
  then show ?thesis using set_reinstall_unchanged by (metis prod.collapse)
qed

text \<open>A condition that differs in its reason is a change.\<close>

lemma set_other_reason:
  assumes "findReinstallStatusCondition ci t = Some old" "c_Type c = t" "c_Reason c \<noteq> c_Reason old"
  shows "fst (setReinstallStatusCondition now ci c)"
  using assms by (auto simp: findReinstallStatusCondition_def setReinstallStatusCondition_def
      meta_SetStatusCondition_def split: option.splits)

section \<open>Lemmas: what a request may change of the status\<close>

text \<open>The fields that say which requests there are and were.\<close>

definition ledger :: "ReinstallStatus \<Rightarrow> ReinstallHistory list \<times> string \<times> string" where
  "ledger r = (r_History r, r_InProgressGeneration r, r_ObservedGeneration r)"

definition advances :: "ClusterInstance \<Rightarrow> ClusterInstance \<Rightarrow> bool" where
  "advances base ci \<longleftrightarrow> ci_Meta ci = ci_Meta base \<and> ci_Spec ci = ci_Spec base
     \<and> (\<exists>r r0. st_Reinstall (ci_Status ci) = Some r \<and> st_Reinstall (ci_Status base) = Some r0
          \<and> ledger r = ledger r0 \<and> r_RequestEndTime r = r_RequestEndTime r0
          \<and> (conds_ok (r_Conditions r0) \<longrightarrow> conds_ok (r_Conditions r)))"

definition state_kept :: "ClusterInstance \<Rightarrow> ClusterInstance \<Rightarrow> world \<Rightarrow> bool" where
  "state_kept base ci w \<longleftrightarrow> advances base ci \<and>
     (case map_of (w_cis w) (ci_key base) of None \<Rightarrow> False | Some s \<Rightarrow> advances base s)"

definition synced :: "ClusterInstance \<Rightarrow> world \<Rightarrow> bool" where
  "synced ci w \<longleftrightarrow> map_of (w_cis w) (ci_key ci) = Some ci \<and> st_Reinstall (ci_Status ci) \<noteq> None"

lemma advances_key: "advances base ci \<Longrightarrow> ci_key ci = ci_key base"
  by (simp add: advances_def ci_key_def)

lemma synced_kept: "synced ci w \<Longrightarrow> state_kept ci ci w"
  by (auto simp: synced_def state_kept_def advances_def)

lemma merge_advances:
  assumes "advances base orig" "advances base new" "advances base s"
  shows "advances base (s\<lparr>ci_Status := merge_status (ci_Status orig) (ci_Status new) (ci_Status s)\<rparr>)"
  using assms by (auto simp: advances_def merge_status_def merge_reinstall_fields_def merge_def ledger_def)

lemma patch_kept:
  assumes "PatchCIStatus orig new w = (eo, ci', w')" "state_kept base orig w" "advances base new"
  shows "state_kept base ci' w'"
proof (cases eo)
  case None
  then obtain s where s: "map_of (w_cis w) (ci_key new) = Some s"
    "ci' = s\<lparr>ci_Status := merge_status (ci_Status orig) (ci_Status new) (ci_Status s)\<rparr>"
    "w_cis w' = gset (ci_key new) ci' (w_cis w)"
    using ci_status.patch_ok assms(1) by blast
  have k: "ci_key new = ci_key base" using advances_key assms(3) .
  with s(1) assms(2) have "advances base orig" "advances base s" by (auto simp: state_kept_def)
  then have "advances base ci'" using merge_advances assms(3) s(2) by blast
  with s(3) k show ?thesis by (simp add: state_kept_def)
next
  case (Some e)
  with assms show ?thesis using ci_status.patch_fail by (fastforce simp: state_kept_def)
qed

lemma patch_or_wrap_cases:
  assumes "patch_or_wrap orig new err msg w = (err', ok, ci', w')"
  obtains eo where "PatchCIStatus orig new w = (eo, ci', w')" "ok = (eo = None)"
    "err' = (case eo of None \<Rightarrow> err | Some e \<Rightarrow> Some (logAndWrapUpdateFailure err e msg))"
  using assms by (auto simp: patch_or_wrap_def split: prod.splits option.splits)

lemma patch_or_wrap_kept:
  "patch_or_wrap orig new err msg w = (err', ok, ci', w') \<Longrightarrow> state_kept base orig w \<Longrightarrow> advances base new \<Longrightarrow>
   state_kept base ci' w'"
  by (erule patch_or_wrap_cases) (blast intro: patch_kept)

lemma patch_or_wrap_frame:
  "patch_or_wrap orig new err msg w = (err', ok, ci', w') \<Longrightarrow> w_objs w' = w_objs w \<and> w_now w' = w_now w"
  by (erule patch_or_wrap_cases) (blast dest: ci_status.patch_frame)

lemma set_condition_advances:
  assumes "setReinstallStatusCondition now ci c = (b, ci')" "advances base ci"
  shows "advances base ci'"
proof -
  obtain r where r: "st_Reinstall (ci_Status ci) = Some r" using assms(2) by (auto simp: advances_def)
  with assms(1) have "ci' = upd_reinstall (\<lambda>r. r\<lparr>r_Conditions := fst (meta_SetStatusCondition now (r_Conditions r) c)\<rparr>) ci"
    by (auto simp: setReinstallStatusCondition_def upd_reinstall_def split: prod.splits)
  with assms(2) show ?thesis by (auto simp: advances_def ledger_def meta_Set_ok)
qed


section \<open>Lemmas: the deletion leaves the reinstall status alone\<close>

lemma DeleteObject_frame:
  "DeleteObject ci r tmo w = (res, w') \<Longrightarrow> w_cis w' = w_cis w \<and> w_now w' = w_now w"
  by (auto simp: DeleteObject_def isObjectDeleted_def Let_def touches_def
      split: prod.splits sum.splits option.splits if_splits dest!: Get_touches initiate_spec(1))

lemma delete_step_frame:
  "delete_step ci ex tmo r g ds = (res, ds') \<Longrightarrow>
   w_cis (ds_world ds') = w_cis (ds_world ds) \<and> w_now (ds_world ds') = w_now (ds_world ds)"
  by (auto simp: delete_step_def Let_def split: sum.splits option.splits prod.splits bool.splits if_splits
      dest!: DeleteObject_frame)

lemma delete_wave_frame:
  "delete_wave ci ex tmo objs g ds = (res, ds') \<Longrightarrow>
   w_cis (ds_world ds') = w_cis (ds_world ds) \<and> w_now (ds_world ds') = w_now (ds_world ds)"
  by (induction objs arbitrary: g ds) (auto split: prod.splits wave_result.splits dest!: delete_step_frame)

lemma delete_waves_frame:
  "delete_waves ci ex tmo m waves ds = (res, ds') \<Longrightarrow>
   w_cis (ds_world ds') = w_cis (ds_world ds) \<and> w_now (ds_world ds') = w_now (ds_world ds)"
  by (induction waves arbitrary: ds) (auto split: prod.splits wave_result.splits if_splits dest!: delete_wave_frame)

lemma DeleteObjects_outcome:
  assumes "DeleteObjects ci objects ex tmo w = (c, eo, ci', w')"
  obtains (unpatched) "ci' = ci" "w_cis w' = w_cis w" "w_now w' = w_now w"
  | (patched) ms v po where "PatchCIStatus ci (with_manifests ms ci) v = (po, ci', w')" "w_cis v = w_cis w" "w_now v = w_now w"
      "eo = None \<longrightarrow> po = None"
proof -
  obtain m waves ds where ds: "delete_waves ci ex tmo m waves
      \<lparr>ds_manifests = st_ManifestsRendered (ci_Status ci), ds_deleted = [], ds_errs = [], ds_world = w\<rparr> = (c, ds)"
    "delete_finish ci ds = (eo, ci', w')"
    using assms by (auto simp: DeleteObjects_def Let_def split: prod.splits)
  have v: "w_cis (ds_world ds) = w_cis w" "w_now (ds_world ds) = w_now w" using delete_waves_frame [OF ds(1)] by simp_all
  show thesis
  proof (cases "st_ManifestsRendered (ci_Status ci) = filterOutDeletedManifests (ds_manifests ds) (ds_deleted ds)")
    case True
    with ds(2) v unpatched show thesis by (auto simp: delete_finish_def)
  next
    case False
    with ds(2) obtain po where
      "PatchCIStatus ci (with_manifests (filterOutDeletedManifests (ds_manifests ds) (ds_deleted ds)) ci) (ds_world ds) = (po, ci', w')"
      "eo = None \<longrightarrow> po = None"
      by (auto simp: delete_finish_def Let_def NewAggregate_def split: prod.splits option.splits if_splits)
    with patched v show thesis by blast
  qed
qed

lemma DeleteRenderedObjects_outcome:
  assumes "DeleteRenderedObjects ci ex tmo w = Some (c, eo, ci', w')"
  obtains (empty) "c" "eo = None" "ci' = ci" "w' = w"
  | (unpatched) "ci' = ci" "w_cis w' = w_cis w" "w_now w' = w_now w"
  | (patched) ms v po where "PatchCIStatus ci (with_manifests ms ci) v = (po, ci', w')" "w_cis v = w_cis w" "w_now v = w_now w"
proof (cases "st_ManifestsRendered (ci_Status ci) = []")
  case True
  with assms empty show thesis by (simp add: DeleteRenderedObjects_def)
next
  case False
  then obtain objects where "DeleteObjects ci objects ex tmo w = (c, eo, ci', w')"
    using assms by (auto simp: DeleteRenderedObjects_def split: option.splits)
  then show thesis by (rule DeleteObjects_outcome) (use unpatched patched in blast)+
qed

lemma with_manifests_advances [simp]: "advances base (with_manifests ms ci) = advances base ci"
  by (simp add: advances_def with_manifests_def)

lemma state_kept_cong: "w_cis w' = w_cis w \<Longrightarrow> state_kept base ci w' = state_kept base ci w"
  by (simp add: state_kept_def)

lemma DeleteRenderedObjects_kept:
  assumes "DeleteRenderedObjects ci ex tmo w = Some (c, eo, ci', w')" "state_kept base ci w"
  shows "state_kept base ci' w' \<and> w_now w' = w_now w"
  using assms(1)
proof (cases rule: DeleteRenderedObjects_outcome)
  case (patched ms v po)
  have "state_kept base ci v" using assms(2) patched(2) state_kept_cong by metis
  with patched show ?thesis
    using patch_kept [OF patched(1)] ci_status.patch_frame [OF patched(1)] by (simp add: state_kept_def)
qed (use assms(2) state_kept_cong in \<open>simp_all add: state_kept_def\<close>)

text \<open>Without a concurrent writer the conditions in memory are the ones before the deletion.\<close>

lemma DeleteRenderedObjects_conditions:
  assumes "DeleteRenderedObjects ci ex tmo w = Some (c, eo, ci', w')" "synced ci w"
  shows "findReinstallStatusCondition ci' t = findReinstallStatusCondition ci t"
  using assms(1)
proof (cases rule: DeleteRenderedObjects_outcome)
  case (patched ms v po)
  have k: "ci_key (with_manifests ms ci) = ci_key ci" "ci_Meta (with_manifests ms ci) = ci_Meta ci"
    "ci_Spec (with_manifests ms ci) = ci_Spec ci" by (simp_all add: with_manifests_def ci_key_def)
  have "ci' = with_manifests ms ci"
  proof (cases po)
    case None
    then show ?thesis using ci_status.patch_synced [of ci "with_manifests ms ci" v ci' w'] patched assms(2) k
      by (simp add: synced_def)
  next
    case (Some e)
    then show ?thesis using ci_status.patch_fail patched(1) by blast
  qed
  then show ?thesis by (simp add: findReinstallStatusCondition_def with_manifests_def)
qed simp_all

section \<open>Lemmas: the other operations leave the ClusterInstances alone\<close>

named_theorems frame_rules

lemma touches_UNIV: "touches UNIV w w' \<longleftrightarrow> w_cis w' = w_cis w \<and> w_now w' = w_now w"
  by (simp add: touches_def)

lemma requests_frame [frame_rules]:
  "Get k w = (g, w') \<Longrightarrow> touches UNIV w w'" "Create obj w = (c, w') \<Longrightarrow> touches UNIV w w'"
  "Update obj w = (u, w') \<Longrightarrow> touches UNIV w w'" "ListObjs api kind ns sel w = (l, w') \<Longrightarrow> touches UNIV w w'"
  "PatchObj orig obj w = (p, w') \<Longrightarrow> touches UNIV w w'" "DeleteObject ci ro tmo w = (d, w') \<Longrightarrow> touches UNIV w w'"
  by (simp_all add: touches_UNIV DeleteObject_frame touches_cis [OF Get_touches] touches_cis [OF Create_touches]
      touches_cis [OF Update_touches] touches_cis [OF ListObjs_touches] touches_cis [OF PatchObj_touches])

lemma CreateOrUpdate_frame [frame_rules]: "CreateOrUpdate obj f w = (r, w') \<Longrightarrow> touches UNIV w w'"
  by (auto simp: CreateOrUpdate_def split: prod.splits sum.splits if_splits dest!: frame_rules intro: touches_trans)

lemma collect_errs_frame:
  "collect_errs f names w = (errs, w') \<Longrightarrow> (\<And>n w eo w'. f n w = (eo, w') \<Longrightarrow> touches UNIV w w') \<Longrightarrow> touches UNIV w w'"
proof (induction names arbitrary: w errs)
  case (Cons n names)
  then show ?case by (auto split: prod.splits) (metis touches_trans)
qed auto

lemma for_modes_frame:
  "for_modes sel_of run modes w = (eo, w') \<Longrightarrow> (\<And>m s w eo w'. run m s w = (eo, w') \<Longrightarrow> touches UNIV w w') \<Longrightarrow>
   touches UNIV w w'"
proof (induction modes arbitrary: w)
  case (Cons m modes)
  then show ?case by (auto split: prod.splits sum.splits option.splits) (metis touches_trans)
qed auto

lemma resources_frame [frame_rules]: "resourcesForPreservation ns sel w = (r, w') \<Longrightarrow> touches UNIV w w'"
  using resources_same_state by (auto simp: touches_UNIV same_state_def)

lemma backupFn_frame: "backupFn cd ns base rt name w = (eo, w') \<Longrightarrow> touches UNIV w w'"
  by (auto simp: backupFn_def backupResource_def createResource_def split: prod.splits sum.splits if_splits
      dest!: frame_rules intro: touches_trans)

lemma restoreFn_frame: "restoreFn cd ns base name w = (eo, w') \<Longrightarrow> touches UNIV w w'"
  by (auto simp: restoreFn_def restoreResource_def fetchAndValidateObjectToRestore_def
      split: prod.splits sum.splits option.splits if_splits bool.splits dest!: frame_rules intro: touches_trans)

lemma both_resources_frame:
  "backupResources cd sel ns base w = (eo, w') \<Longrightarrow> touches UNIV w w'"
  "restoreResources cd sel ns base w = (eo, w') \<Longrightarrow> touches UNIV w w'"
proof -
  note b = collect_errs_frame [of "backupFn cd ns base _", OF _ backupFn_frame]
  show "backupResources cd sel ns base w = (eo, w') \<Longrightarrow> touches UNIV w w'"
    by (auto simp: backupResources_def touches_UNIV split: if_splits prod.splits sum.splits dest!: resources_frame b)
  note r = collect_errs_frame [of "restoreFn cd ns base", OF _ restoreFn_frame]
  show "restoreResources cd sel ns base w = (eo, w') \<Longrightarrow> touches UNIV w w'"
    by (auto simp: restoreResources_def touches_UNIV split: if_splits prod.splits sum.splits dest!: resources_frame r)
qed

lemma Backup_frame [frame_rules]: "Backup cd ci w = (eo, w') \<Longrightarrow> touches UNIV w w'"
  by (auto simp: Backup_def simp del: for_modes.simps split: if_splits
      elim!: for_modes_frame intro: both_resources_frame)

lemma Restore_frame [frame_rules]: "Restore cd ci w = (eo, w') \<Longrightarrow> touches UNIV w w'"
  by (auto simp: Restore_def simp del: for_modes.simps split: if_splits
      elim!: for_modes_frame intro: both_resources_frame)

lemma counts_frame: "counts sel_of b ci w = (r, w') \<Longrightarrow> touches UNIV w w'"
  by (auto simp: counts_def countMatchingResources_def Let_def split: if_splits prod.splits sum.splits option.splits
      dest!: frame_rules simp: touches_UNIV)

lemma summary_frame [frame_rules]:
  "getDataPreservationSummary ci w = (p, w') \<Longrightarrow> touches UNIV w w'"
  "getDataRestorationSummary ci w = (q, w') \<Longrightarrow> touches UNIV w w'"
  by (auto simp: getDataPreservationSummary_def getDataRestorationSummary_def GetPreservedResourceCounts_def
      GetRestoredResourceCounts_def Let_def split: prod.splits option.splits if_splits dest!: counts_frame)

lemma counts_objs: "counts sel_of b ci w = (r, w') \<Longrightarrow> w_objs w' = w_objs w"
  by (auto simp: counts_def countMatchingResources_def Let_def split: if_splits prod.splits sum.splits option.splits
      dest!: ListObjs_objs)

lemma summary_objs:
  "getDataPreservationSummary ci w = (p, w') \<Longrightarrow> w_objs w' = w_objs w"
  "getDataRestorationSummary ci w = (q, w') \<Longrightarrow> w_objs w' = w_objs w"
  by (auto simp: getDataPreservationSummary_def getDataRestorationSummary_def GetPreservedResourceCounts_def
      GetRestoredResourceCounts_def Let_def split: prod.splits option.splits if_splits dest!: counts_objs)

lemma cleanup_names_frame [frame_rules]: "cleanup_names ns modes w = (r, w') \<Longrightarrow> touches UNIV w w'"
  by (induction modes arbitrary: w r) (auto split: prod.splits sum.splits option.splits dest!: resources_frame simp: touches_UNIV)

lemma cleanup_loop_frame [frame_rules]: "cleanup_loop ci rt names w = (r, w') \<Longrightarrow> touches UNIV w w'"
  by (induction names arbitrary: w r)
    (auto split: prod.splits sum.splits option.splits if_splits dest!: requests_frame(6) simp: touches_UNIV)

lemma Cleanup_frame [frame_rules]: "Cleanup ci w = (r, w') \<Longrightarrow> touches UNIV w w'"
  by (auto simp: Cleanup_def simp del: cleanup_names.simps split: prod.splits sum.splits dest!: cleanup_names_frame cleanup_loop_frame simp: touches_UNIV)

lemma label_secrets_frame [frame_rules]: "label_secrets ns names w = (r, w') \<Longrightarrow> touches UNIV w w'"
  by (induction names arbitrary: w)
    (auto simp: applyPreservationLabel_def split: prod.splits sum.splits option.splits if_splits bool.splits
      dest!: requests_frame(1,5) simp: touches_UNIV)

section \<open>The contract of a task\<close>

text \<open>
  A task that lets the loop go on has changed neither the ClusterInstance in memory nor the stored one;
  any task leaves the record of the requests, the spec and the end time alone, in memory and on the
  server, and keeps the conditions well formed.
\<close>

locale reinstall_task =
  fixes run :: "reinstall_env \<Rightarrow> ClusterInstance \<Rightarrow> world \<Rightarrow> task_result option"
  assumes quiet: "run env ci w = Some (res, None, ci', w') \<Longrightarrow> result_IsZero res \<Longrightarrow> synced ci w \<Longrightarrow>
      ci' = ci \<and> w_cis w' = w_cis w"
    and kept: "run env ci w = Some (res, eo, ci', w') \<Longrightarrow> state_kept base ci w \<Longrightarrow> state_kept base ci' w'"
    and clock: "run env ci w = Some (res, eo, ci', w') \<Longrightarrow> state_kept base ci w \<Longrightarrow> w_now w' = w_now w"
begin

lemma quiet_synced:
  "run env ci w = Some (res, None, ci', w') \<Longrightarrow> result_IsZero res \<Longrightarrow> synced ci w \<Longrightarrow> synced ci' w'"
  using quiet by (metis synced_def)

lemma stored:
  assumes "run env ci w = Some (res, eo, ci', w')" "synced ci w"
  obtains s where "map_of (w_cis w') (ci_key ci) = Some s" "advances ci s"
  using kept [OF assms(1) synced_kept [OF assms(2)]] that by (auto simp: state_kept_def split: option.splits)

end


lemma result_nonzero [simp]:
  "\<not> result_IsZero requeue" "result_IsZero zero_result"
  "\<not> result_IsZero (r\<lparr>rs_RequeueAfter := requeueWithShortInterval\<rparr>)"
  "\<not> result_IsZero \<lparr>rs_Requeue = True, rs_RequeueAfter = n\<rparr>"
  by (simp_all add: result_IsZero_def requeue_def zero_result_def requeueWithShortInterval_def)

lemma kept_frame: "touches UNIV w w' \<Longrightarrow> state_kept base ci w' = state_kept base ci w"
  by (rule state_kept_cong) (simp add: touches_UNIV)

lemma state_kept_advances: "state_kept base ci w \<Longrightarrow> advances base ci"
  by (simp add: state_kept_def)

text \<open>The common end of a task: either nothing changed, or a condition was set and the change patched.\<close>

definition task_end :: "ClusterInstance \<Rightarrow> world \<Rightarrow> Result \<Rightarrow> ClusterInstance \<Rightarrow> world \<Rightarrow> bool" where
  "task_end ci w res ci' w' \<longleftrightarrow> ci' = ci \<and> w' = w
     \<or> \<not> result_IsZero res \<and> (\<exists>ci1 err msg err' ok. (\<forall>base. advances base ci \<longrightarrow> advances base ci1)
         \<and> patch_or_wrap ci ci1 err msg w = (err', ok, ci', w'))"

lemma task_end_contract:
  assumes "task_end ci v res ci' w'" "touches UNIV w v"
  shows "result_IsZero res \<Longrightarrow> ci' = ci \<and> w_cis w' = w_cis w"
    "state_kept base ci w \<Longrightarrow> state_kept base ci' w'" "w_now w' = w_now w"
proof -
  show "result_IsZero res \<Longrightarrow> ci' = ci \<and> w_cis w' = w_cis w" using assms by (auto simp: task_end_def touches_UNIV)
  show "w_now w' = w_now w" using assms patch_or_wrap_frame by (fastforce simp: task_end_def touches_UNIV)
  assume "state_kept base ci w"
  then have "state_kept base ci v" using kept_frame [OF assms(2)] by blast
  then show "state_kept base ci' w'"
    using assms(1) patch_or_wrap_kept state_kept_advances unfolding task_end_def by metis
qed

lemma task_end_condition:
  assumes "(case setReinstallStatusCondition now ci c of
       (False, ci1) \<Rightarrow> (zero_result, err, ci1, w)
     | (True, ci1) \<Rightarrow> (case patch_or_wrap ci ci1 err msg w of (err', ok, ci2, w') \<Rightarrow> (r, err', ci2, w'))) = (res, eo, ci', w')"
    "\<not> result_IsZero r"
  shows "task_end ci w res ci' w'"
proof -
  obtain b ci1 where s: "setReinstallStatusCondition now ci c = (b, ci1)" by fastforce
  show ?thesis
  proof (cases b)
    case True
    with s assms have "\<not> result_IsZero res" "\<exists>err' ok. patch_or_wrap ci ci1 err msg w = (err', ok, ci', w')"
      by (auto split: prod.splits)
    then show ?thesis unfolding task_end_def using set_condition_advances [OF s] by blast
  next
    case False
    with s assms show ?thesis by (auto simp: task_end_def dest: set_reinstall_unchanged)
  qed
qed

lemma task_by_end:
  assumes ends: "\<And>env ci w res eo ci' w'. f env ci w = (res, eo, ci', w') \<Longrightarrow>
    \<exists>v. task_end ci v res ci' w' \<and> touches UNIV w v"
  shows "reinstall_task (total f)"
proof -
  have v: "\<exists>v. task_end ci v res ci' w' \<and> touches UNIV w v" if "total f env ci w = Some (res, eo, ci', w')"
    for env ci w res eo ci' w'
    using ends [of env ci w res eo ci' w'] that by (simp add: total_def)
  show ?thesis
    by unfold_locales (blast dest!: v dest: task_end_contract)+
qed

lemma validate_end:
  assumes "ensureValidReinstallRequest env ci w = (res, eo, ci', w')"
  shows "task_end ci w res ci' w'"
proof -
  obtain err c where e: "(if \<not> e_AllowReinstalls env
         then (Some (ErrNew ''siteConfig operator is not configured for cluster reinstalls''),
               conditionSetter ReinstallRequestValidated ConditionFalse Failed ''Cluster Reinstallation is not enabled'')
         else (None, conditionSetter ReinstallRequestValidated ConditionTrue Completed ''Valid reinstall request'')) = (err, c)"
    by fastforce
  obtain b ci1 where s: "setReinstallStatusCondition (w_now w) ci c = (b, ci1)" by fastforce
  show ?thesis
    using assms s unfolding ensureValidReinstallRequest_def Let_def e
    by (intro task_end_condition [where r = requeue and now = "w_now w" and c = c and err = err
          and msg = "update_condition_msg ReinstallRequestValidated"]) (auto split: if_splits)
qed

interpretation validate_task: reinstall_task "total ensureValidReinstallRequest"
  by (rule task_by_end) (use validate_end touches_refl in blast)

lemma start_time_end:
  assumes "ensureStartTimeIsSet env ci w = (res, eo, ci', w')"
  shows "task_end ci w res ci' w'"
proof -
  let ?ci = "upd_reinstall (\<lambda>r. r\<lparr>r_RequestStartTime := w_now w\<rparr>) ci"
  have "\<forall>base. advances base ci \<longrightarrow> advances base ?ci" by (auto simp: advances_def ledger_def)
  with assms show ?thesis
    unfolding ensureStartTimeIsSet_def task_end_def by (auto split: if_splits prod.splits) blast+
qed

interpretation start_time_task: reinstall_task "total ensureStartTimeIsSet"
  by (rule task_by_end) (use start_time_end touches_refl in blast)

lemma label_end:
  assumes "applyPreservedLabelToClusterInstanceSecrets env ci w = (res, eo, ci', w')"
  shows "task_end ci w' res ci' w'" "touches UNIV w w'"
  using assms by (auto simp: task_end_def applyPreservedLabelToClusterInstanceSecrets_def simp del: label_secrets.simps
      split: prod.splits dest: label_secrets_frame)

interpretation label_task: reinstall_task "total applyPreservedLabelToClusterInstanceSecrets"
  by (rule task_by_end) (use label_end in blast)

lemma preserve_data_effect:
  assumes "preserve_data env ci w = (b, d, err, v)"
  shows "touches UNIV w v"
    "rs_PreservationMode (reinstall_spec ci) \<noteq> PreservationModeNone \<Longrightarrow>
       \<exists>eo u. Backup (e_codec env) ci w = (eo, u) \<and> w_objs v = w_objs u \<and> (err = None \<longrightarrow> eo = None)"
    "rs_PreservationMode (reinstall_spec ci) = PreservationModeNone \<Longrightarrow> v = w"
proof -
  note d = assms [unfolded preserve_data_def]
  show "touches UNIV w v"
    using d by (auto split: if_splits prod.splits option.splits dest!: Backup_frame summary_frame(1) simp: touches_UNIV)
  show "v = w" if "rs_PreservationMode (reinstall_spec ci) = PreservationModeNone" using d that by simp
  assume m: "rs_PreservationMode (reinstall_spec ci) \<noteq> PreservationModeNone"
  obtain eo u where u: "Backup (e_codec env) ci w = (eo, u)" by fastforce
  have "w_objs v = w_objs u \<and> (err = None \<longrightarrow> eo = None)"
    using d m u by (auto split: prod.splits option.splits dest: summary_objs(1))
  with u show "\<exists>eo u. Backup (e_codec env) ci w = (eo, u) \<and> w_objs v = w_objs u \<and> (err = None \<longrightarrow> eo = None)" by blast
qed

lemma preserve_end:
  assumes "ensureDataIsPreserved env ci w = (res, eo, ci', w')"
  obtains b d err v where "preserve_data env ci w = (b, d, err, v)" "task_end ci v res ci' w'" "err \<noteq> None \<longrightarrow> eo \<noteq> None"
proof -
  obtain b d err v where e: "preserve_data env ci w = (b, d, err, v)" by (metis prod_cases4)
  obtain u1 ci1 where s1: "setReinstallStatusCondition (w_now v) ci b = (u1, ci1)" by fastforce
  obtain u2 ci2 where s2: "setReinstallStatusCondition (w_now v) ci1 d = (u2, ci2)" by fastforce
  have adv: "\<forall>base. advances base ci \<longrightarrow> advances base ci2"
    using set_condition_advances [OF s1] set_condition_advances [OF s2] by blast
  define msg where "msg = ''failed to update reinstall preservation condition(s)''"
  have run: "(if u1 \<or> u2 then (case patch_or_wrap ci ci2 err msg v of
              (err', ok, ci3, w') \<Rightarrow> (zero_result\<lparr>rs_RequeueAfter := requeueWithShortInterval\<rparr>, err', ci3, w'))
         else (zero_result, err, ci2, v)) = (res, eo, ci', w')"
    using assms unfolding ensureDataIsPreserved_def Let_def e msg_def by (simp add: s1 s2)
  show thesis
  proof (cases "u1 \<or> u2")
    case True
    then obtain ok where p: "\<not> result_IsZero res" "patch_or_wrap ci ci2 err msg v = (eo, ok, ci', w')"
      using run by (auto split: prod.splits)
    then have "task_end ci v res ci' w'" using adv unfolding task_end_def by blast
    moreover have "err \<noteq> None \<longrightarrow> eo \<noteq> None" using p(2) by (auto simp: patch_or_wrap_def split: prod.splits option.splits)
    ultimately show thesis using that e by blast
  next
    case False
    with run s1 s2 have "task_end ci v res ci' w'" "eo = err" by (auto simp: task_end_def dest!: set_reinstall_unchanged)
    with that e show thesis by blast
  qed
qed

lemma restore_data_frame: "restore_data env ci w = (c, err, v) \<Longrightarrow> touches UNIV w v"
  unfolding restore_data_def
  by (auto split: if_splits prod.splits option.splits dest!: Restore_frame summary_frame(2) simp: touches_UNIV)

lemma restore_end:
  assumes "ensurePreservedDataIsRestored env ci w = (res, eo, ci', w')"
  obtains v where "task_end ci v res ci' w'" "touches UNIV w v"
proof -
  obtain c err v where r: "restore_data env ci w = (c, err, v)" by (metis prod_cases3)
  have "task_end ci v res ci' w'"
    by (rule task_end_condition [OF assms [unfolded ensurePreservedDataIsRestored_def r prod.case]]) simp
  with that restore_data_frame [OF r] show thesis by blast
qed

interpretation preserve_task: reinstall_task "total ensureDataIsPreserved"
  by (rule task_by_end) (metis preserve_end preserve_data_effect(1))

interpretation restore_task: reinstall_task "total ensurePreservedDataIsRestored"
  by (rule task_by_end) (metis restore_end)


section \<open>The deletion task\<close>

lemma finish_deletion_frame:
  assumes "finish_deletion orig cond result err ci w = (res, eo, ci', w')"
  shows "w_objs w' = w_objs w" "w_now w' = w_now w"
    "result_IsZero res \<Longrightarrow> eo = None \<Longrightarrow>
       setReinstallStatusCondition (w_now w) ci cond = (False, ci) \<and> result = res \<and> err = None \<and> ci' = ci \<and> w' = w"
    "err \<noteq> None \<Longrightarrow> eo \<noteq> None \<and> res = result"
    "\<not> result_IsZero result \<Longrightarrow> \<not> result_IsZero res"
proof -
  obtain b ci1 where s: "setReinstallStatusCondition (w_now w) ci cond = (b, ci1)" by fastforce
  obtain e' ok ci2 w2 where p: "patch_or_wrap orig ci1 err (update_condition_msg (c_Type cond)) w = (e', ok, ci2, w2)"
    by (metis prod_cases4)
  note f = assms [unfolded finish_deletion_def s prod.case p]
  note pf = patch_or_wrap_frame [OF p]
  show "w_objs w' = w_objs w" "w_now w' = w_now w" using f pf by (auto split: bool.splits)
  show "err \<noteq> None \<Longrightarrow> eo \<noteq> None \<and> res = result"
    using f p by (auto simp: patch_or_wrap_def split: bool.splits prod.splits option.splits)
  show "\<not> result_IsZero result \<Longrightarrow> \<not> result_IsZero res" using f by (auto split: bool.splits if_splits)
  show "setReinstallStatusCondition (w_now w) ci cond = (False, ci) \<and> result = res \<and> err = None \<and> ci' = ci \<and> w' = w"
    if "result_IsZero res" "eo = None"
  proof (cases b)
    case True
    with f that p show ?thesis by (auto simp: patch_or_wrap_def split: if_splits prod.splits option.splits)
  next
    case False
    with f that s show ?thesis using set_reinstall_unchanged by auto
  qed
qed

lemma finish_deletion_kept:
  assumes "finish_deletion orig cond result err ci w = (res, eo, ci', w')" "state_kept base ci w" "advances base orig"
  shows "state_kept base ci' w'"
proof -
  obtain b ci1 where s: "setReinstallStatusCondition (w_now w) ci cond = (b, ci1)" by fastforce
  have a: "advances base ci1" using set_condition_advances [OF s state_kept_advances [OF assms(2)]] .
  have o: "state_kept base orig w" using assms(2,3) by (simp add: state_kept_def)
  obtain e' ok ci2 w2 where p: "patch_or_wrap orig ci1 err (update_condition_msg (c_Type cond)) w = (e', ok, ci2, w2)"
    by (metis prod_cases4)
  note f = assms(1) [unfolded finish_deletion_def s prod.case p]
  show ?thesis
    using f patch_or_wrap_kept [OF p o a] assms(2) s by (cases b) (auto dest: set_reinstall_unchanged)
qed

text \<open>The outcomes of the task: the deletion was not attempted, or it ran and the task ends here.\<close>

text \<open>The end of the deletion task by what the deletion reports: the condition and the result that are left to the
  deferred function.\<close>

lemma deletion_reported:
  assumes "(case (completed, err, ci1, w1) of
      (completed, Some e, ci1, w1) \<Rightarrow>
        Some (finish_deletion ci
          (if IsDeletionTimeoutError (Some e)
           then deleted_condition ConditionFalse TimedOut ''Timed-out waiting for rendered manifests to be deleted.''
           else deleted_condition ConditionFalse Failed (Error e)) zero_result (Some e) ci1 w1)
    | (False, None, ci1, w1) \<Rightarrow>
        Some (finish_deletion ci c \<lparr>rs_Requeue = True, rs_RequeueAfter = deletionRequeueWithMediumInterval\<rparr> None ci1 w1)
    | (True, None, ci1, w1) \<Rightarrow>
        Some (finish_deletion ci (deleted_condition ConditionTrue Completed
          ''Successfully deleted rendered manifests'') zero_result None ci1 w1)) = Some (res, eo, ci', w')"
  shows "\<exists>cond result. finish_deletion ci cond result err ci1 w1 = (res, eo, ci', w')
    \<and> (err = None \<and> completed \<longrightarrow> cond = deleted_condition ConditionTrue Completed ''Successfully deleted rendered manifests'')
    \<and> (err = None \<and> \<not> completed \<longrightarrow> \<not> result_IsZero result)"
proof (cases "err = None \<and> \<not> completed")
  case True
  with assms have "finish_deletion ci c \<lparr>rs_Requeue = True, rs_RequeueAfter = deletionRequeueWithMediumInterval\<rparr>
      None ci1 w1 = (res, eo, ci', w')" by simp
  with True show ?thesis
    by (intro exI [of _ c] exI [of _ "\<lparr>rs_Requeue = True, rs_RequeueAfter = deletionRequeueWithMediumInterval\<rparr>"])
      (simp add: result_IsZero_def)
next
  case False
  with assms show ?thesis by (cases err; cases completed) (auto split: if_splits)
qed

lemma deletion_task_cases:
  assumes "ensureRenderedManifestsAreDeleted env ci w = Some (res, eo, ci', w')"
  obtains (idle) cond err where "finish_deletion ci cond zero_result err ci w = (res, eo, ci', w')"
      "\<And>c. err = None \<Longrightarrow> findReinstallStatusCondition ci ReinstallRenderedManifestsDeleted = Some c \<Longrightarrow>
         c_Reason c = Initialized \<and> c_Type cond = ReinstallRenderedManifestsDeleted \<and> c_Reason cond = InProgress
         \<or> cond = c \<and> (c_Reason c = Failed \<or> c_Reason c = Completed)"
  | (ran) c ex completed err ci1 w1 cond result where "findReinstallStatusCondition ci ReinstallRenderedManifestsDeleted = Some c"
      "c_Reason c \<noteq> Initialized" "c_Reason c \<noteq> Failed" "c_Reason c \<noteq> Completed"
      "DeleteRenderedObjects ci ex (Some DefaultDeletionTimeout) w = Some (completed, err, ci1, w1)"
      "finish_deletion ci cond result err ci1 w1 = (res, eo, ci', w')"
      "err = None \<and> completed \<Longrightarrow> cond = deleted_condition ConditionTrue Completed ''Successfully deleted rendered manifests''"
      "err = None \<and> \<not> completed \<Longrightarrow> \<not> result_IsZero result"
proof -
  obtain mc where mc: "getManagedCluster ci = Some mc"
    using assms by (auto simp: ensureRenderedManifestsAreDeleted_def split: option.splits)
  show thesis
  proof (cases mc)
    case (Inl e)
    with assms mc have "finish_deletion ci (deleted_condition ConditionFalse Failed (Error e)) zero_result (Some e) ci w
        = (res, eo, ci', w')" by (simp add: ensureRenderedManifestsAreDeleted_def)
    then show thesis by (rule idle) simp
  next
    case (Inr obj)
    define ex where "ex = (case obj of None \<Rightarrow> [] | Some obj \<Rightarrow> [obj])"
    note run = assms [unfolded ensureRenderedManifestsAreDeleted_def mc Inr option.case sum.case Let_def, folded ex_def]
    show thesis
    proof (cases "findReinstallStatusCondition ci ReinstallRenderedManifestsDeleted")
      case None
      with run have "finish_deletion ci (deleted_condition ConditionFalse InProgress ''Rendered manifests are being deleted'')
          zero_result None ci w = (res, eo, ci', w')" by simp
      then show thesis by (rule idle) (simp add: None)
    next
      case (Some c)
      show thesis
      proof (cases "c_Reason c = Initialized \<or> c_Reason c = Failed \<or> c_Reason c = Completed")
        case True
        then have "finish_deletion ci (if c_Reason c = Initialized
            then deleted_condition ConditionFalse InProgress ''Rendered manifests are being deleted'' else c)
            zero_result None ci w = (res, eo, ci', w')" using run Some by (auto split: if_splits)
        then show thesis by (rule idle) (use True Some in \<open>auto simp: deleted_condition_def conditionSetter_def\<close>)
      next
        case False
        then have n: "c_Reason c \<noteq> Initialized" "c_Reason c \<noteq> Failed" "c_Reason c \<noteq> Completed" by simp_all
        obtain completed err ci1 w1 where d: "DeleteRenderedObjects ci ex (Some DefaultDeletionTimeout) w = Some (completed, err, ci1, w1)"
          using run Some n by (auto split: option.splits)
        have "\<exists>cond result. finish_deletion ci cond result err ci1 w1 = (res, eo, ci', w')
          \<and> (err = None \<and> completed \<longrightarrow> cond = deleted_condition ConditionTrue Completed ''Successfully deleted rendered manifests'')
          \<and> (err = None \<and> \<not> completed \<longrightarrow> \<not> result_IsZero result)"
          by (rule deletion_reported [where completed = completed and err = err and ?ci1.0 = ci1 and ?w1.0 = w1 and ci = ci and c = c]) (use run n d Some in simp)
        then show thesis using ran [OF Some n d] by blast
      qed
    qed
  qed
qed


lemma deletion_quiet:
  assumes "ensureRenderedManifestsAreDeleted env ci w = Some (res, None, ci', w')" "result_IsZero res" "synced ci w"
  shows "ci' = ci \<and> w' = w \<and> (\<forall>c. findReinstallStatusCondition ci ReinstallRenderedManifestsDeleted = Some c \<longrightarrow>
    c_Reason c = Failed \<or> c_Reason c = Completed)"
  using assms(1)
proof (cases rule: deletion_task_cases)
  case (idle cond err)
  note q = finish_deletion_frame(3) [OF idle(1) assms(2) refl]
  have "c_Reason c = Failed \<or> c_Reason c = Completed"
    if c: "findReinstallStatusCondition ci ReinstallRenderedManifestsDeleted = Some c" for c
  proof (rule ccontr)
    assume "\<not> ?thesis"
    then have i: "c_Reason c = Initialized" "c_Type cond = ReinstallRenderedManifestsDeleted" "c_Reason cond = InProgress"
      using idle(2) [OF _ c] q by auto
    have "InProgress \<noteq> Initialized" by (simp add: InProgress_def Initialized_def)
    then have "fst (setReinstallStatusCondition (w_now w) ci cond)" using i by (intro set_other_reason [OF c i(2)]) simp
    then show False using q by simp
  qed
  with q show ?thesis by blast
next
  case (ran c ex completed err ci1 w1 cond result)
  note q = finish_deletion_frame(3) [OF ran(6) assms(2) refl]
  then have "completed" "cond = deleted_condition ConditionTrue Completed ''Successfully deleted rendered manifests''"
    using ran(7,8) assms(2) by auto
  moreover have "findReinstallStatusCondition ci1 ReinstallRenderedManifestsDeleted = Some c"
    using DeleteRenderedObjects_conditions [OF ran(5) assms(3)] ran(1) by simp
  ultimately have "fst (setReinstallStatusCondition (w_now w1) ci1 cond)"
    using ran(4) not_sym [OF ran(4)] by (intro set_other_reason) (simp_all add: deleted_condition_def conditionSetter_def)
  with q show ?thesis by simp
qed

interpretation deletion_task: reinstall_task ensureRenderedManifestsAreDeleted
proof
  fix env ci w res ci' w'
  assume a: "ensureRenderedManifestsAreDeleted env ci w = Some (res, None, ci', w')" "result_IsZero res" "synced ci w"
  then show "ci' = ci \<and> w_cis w' = w_cis w" using deletion_quiet by blast
next
  fix env ci w res eo ci' w' base
  assume a: "ensureRenderedManifestsAreDeleted env ci w = Some (res, eo, ci', w')" "state_kept base ci w"
  note adv = state_kept_advances [OF a(2)]
  from a(1) have "state_kept base ci' w' \<and> w_now w' = w_now w"
  proof (cases rule: deletion_task_cases)
    case (idle cond err)
    show ?thesis using finish_deletion_kept [OF idle(1) a(2) adv] finish_deletion_frame(2) [OF idle(1)] by simp
  next
    case (ran c ex completed err ci1 w1 cond result)
    have "state_kept base ci1 w1" "w_now w1 = w_now w" using DeleteRenderedObjects_kept [OF ran(5) a(2)] by auto
    then show ?thesis using finish_deletion_kept [OF ran(6) _ adv] finish_deletion_frame(2) [OF ran(6)] by simp
  qed
  then show "state_kept base ci' w'" "w_now w' = w_now w" by blast+
qed


section \<open>The loop over the tasks\<close>

lemma tasks_contract: "\<forall>t\<in>set tasks. reinstall_task (t_Run t)"
  by (simp add: tasks_def validate_task.reinstall_task_axioms start_time_task.reinstall_task_axioms
      label_task.reinstall_task_axioms preserve_task.reinstall_task_axioms deletion_task.reinstall_task_axioms
      restore_task.reinstall_task_axioms)

text \<open>
  The loop ends with the completion, reached with the ClusterInstance of the start, or at the first task
  that asks for a requeue or fails. Up to there nothing was written to the ClusterInstance.
\<close>

definition stopped_at :: "task \<Rightarrow> loop_state \<Rightarrow> bool" where
  "stopped_at t ls \<longleftrightarrow>
     (if \<not> result_IsZero (l_result ls)
      then l_cond ls = processed_condition ConditionFalse InProgress (t_Description t) \<and> \<not> l_setEndtime ls \<and> \<not> l_applyPause ls
      else l_err ls \<noteq> None \<and> c_Type (l_cond ls) = ReinstallRequestProcessed \<and> c_Status (l_cond ls) = ConditionFalse
        \<and> c_Reason (l_cond ls) = Failed \<and> l_setEndtime ls = t_FailOnError t \<and> l_applyPause ls = (\<not> t_FailOnError t))"

lemma run_tasks_cases:
  assumes "run_tasks env ts ci w = Some ls" "synced ci w" "\<forall>t\<in>set ts. reinstall_task (t_Run t)"
  obtains (finished) v where "w_cis v = w_cis w" "w_now v = w_now w" "ls = finish_request env ci v"
  | (stopped) t v where "t \<in> set ts" "w_cis v = w_cis w" "w_now v = w_now w"
      "t_Run t env ci v = Some (l_result ls, l_err ls, l_ci ls, l_world ls)" "stopped_at t ls"
  using assms
proof (induction ts arbitrary: w thesis)
  case Nil
  then show ?case by auto
next
  case (Cons t ts)
  obtain res eo ci' w' where r: "t_Run t env ci w = Some (res, eo, ci', w')"
    using Cons.prems(3) by (auto split: option.splits)
  have c: "reinstall_task (t_Run t)" using Cons.prems(5) by simp
  show ?case
  proof (cases "result_IsZero res \<and> eo = None")
    case True
    then have q: "ci' = ci" "w_cis w' = w_cis w" "w_now w' = w_now w"
      using reinstall_task.quiet [OF c, of env ci w res ci' w'] r Cons.prems(4)
        reinstall_task.clock [OF c r synced_kept] by auto
    with True r Cons.prems(3) have "run_tasks env ts ci w' = Some ls" by simp
    then show ?thesis
      by (rule Cons.IH [rotated 2]) (use Cons.prems q in \<open>auto simp: synced_def\<close>)
  next
    case False
    then have "(l_result ls, l_err ls, l_ci ls, l_world ls) = (res, eo, ci', w')" "stopped_at t ls"
      using Cons.prems(3) r
      by (auto simp: stopped_at_def processed_condition_def conditionSetter_def Let_def split: if_splits option.splits)
    with Cons.prems(2) [of t w] r show ?thesis by simp
  qed
qed


section \<open>The end of a call\<close>

lemma stored_after_patch:
  assumes "PatchCIStatus orig new w = (eo, ci', w')" "map_of (w_cis w) (ci_key new) = Some s"
  shows "map_of (w_cis w') (ci_key new) =
      Some (if eo = None then s\<lparr>ci_Status := merge_status (ci_Status orig) (ci_Status new) (ci_Status s)\<rparr> else s)"
    "eo = None \<Longrightarrow> ci' = s\<lparr>ci_Status := merge_status (ci_Status orig) (ci_Status new) (ci_Status s)\<rparr>"
    "eo \<noteq> None \<Longrightarrow> ci' = new"
  using assms ci_status.patch_ok [of orig new w ci' w'] ci_status.patch_fail [of orig new w _ ci' w'] by (cases eo; auto)+

lemma ApplyPause_keeps:
  assumes "ApplyPause ci reason w = (eo, ci', w')" "map_of (w_cis w') k = Some s'"
  shows "\<exists>s. map_of (w_cis w) k = Some s \<and> ci_Spec s' = ci_Spec s
    \<and> st_Reinstall (ci_Status s') = st_Reinstall (ci_Status s) \<and> w_objs w' = w_objs w"
proof -
  let ?keep = "\<lambda>u v. w_objs v = w_objs u \<and> (\<forall>t'. map_of (w_cis v) k = Some t' \<longrightarrow> (\<exists>t. map_of (w_cis u) k = Some t
      \<and> ci_Spec t' = ci_Spec t \<and> st_Reinstall (ci_Status t') = st_Reinstall (ci_Status t)))"
  have p: "?keep u v" if "PatchCI a b u = (r, v)" for a b u r v
    using that by (auto simp: PatchCI_def Let_def split: prod.splits option.splits if_splits)
  have g: "?keep u v" if "GetCI j u = (r, v)" for j u r v
    using that by (auto simp: GetCI_def split: prod.splits option.splits)
  have st: "?keep u v" if "StatusPatchCI a (with_paused x a) u = (r, v)" for a x u r v
  proof -
    have [simp]: "st_Reinstall (merge_status (ci_Status a) (ci_Status (with_paused x a)) y) = st_Reinstall y" for y
      by (simp add: merge_status_def with_paused_def merge_struct_same)
    show ?thesis
      using that by (auto simp: StatusPatchCI_def Let_def split: prod.splits option.splits if_splits)
  qed
  have tr: "?keep u y" if "?keep u v" "?keep v y" for u v y using that by metis
  have "?keep w w'"
  proof (cases "IsPaused ci")
    case True
    with assms(1) show ?thesis by (simp add: ApplyPause_def)
  next
    case False
    obtain r1 w1 where r1: "PatchCI ci (SetMetaDataAnnotation PausedAnnotation [] ci) w = (r1, w1)" by fastforce
    show ?thesis
    proof (cases r1)
      case (Inl e)
      with assms(1) False r1 p [OF r1] show ?thesis by (simp add: ApplyPause_def)
    next
      case (Inr ci2)
      obtain r2 w2 where r2: "GetCI (ci_key ci2) w1 = (r2, w2)" by fastforce
      show ?thesis
      proof (cases r2)
        case (Inl e)
        with assms(1) False r1 Inr r2 tr [OF p [OF r1] g [OF r2]] show ?thesis by (simp add: ApplyPause_def)
      next
        case (Inr ci3)
        obtain r3 w3 where r3: "StatusPatchCI ci3 (with_paused (Some \<lparr>p_TimeSet = w_now w2, p_Reason = reason\<rparr>) ci3) w2 = (r3, w3)"
          by fastforce
        then have "w' = w3"
          using assms(1) False r1 \<open>r1 = Inr ci2\<close> r2 Inr by (auto simp: ApplyPause_def split: sum.splits)
        with tr [OF tr [OF p [OF r1] g [OF r2]] st [OF r3]] show ?thesis by blast
      qed
    qed
  qed
  with assms(2) show ?thesis by blast
qed

text \<open>The status that the deferred function of \<open>ProcessRequest\<close> wants to store.\<close>

definition concluded :: "loop_state \<Rightarrow> ReinstallStatus \<Rightarrow> ReinstallStatus" where
  "concluded ls r =
     (let now = w_now (l_world ls);
          r1 = (if l_setEndtime ls \<and> l_err ls \<noteq> None then r\<lparr>r_RequestEndTime := now\<rparr> else r)
      in r1\<lparr>r_Conditions := fst (meta_SetStatusCondition now (r_Conditions r) (l_cond ls))\<rparr>)"

lemma conclude_effect:
  assumes "conclude ls = (res, eo, ci', w')" "k = ci_key (l_ci ls)" "map_of (w_cis (l_world ls)) k = Some s"
    "st_Reinstall (ci_Status (l_ci ls)) = Some r" "st_Reinstall (ci_Status s) = Some rs"
    "map_of (w_cis w') k = Some s'"
  shows "ci_Spec s' = ci_Spec s" "w_objs w' = w_objs (l_world ls)" "res = l_result ls"
    "st_Reinstall (ci_Status s') = Some rs \<or> st_Reinstall (ci_Status s') = Some (merge_reinstall_fields r (concluded ls r) rs)"
proof -
  define ci1 where "ci1 = (if l_setEndtime ls \<and> l_err ls \<noteq> None
    then upd_reinstall (\<lambda>r. r\<lparr>r_RequestEndTime := w_now (l_world ls)\<rparr>) (l_ci ls) else l_ci ls)"
  obtain changed ci2 where c2: "setReinstallStatusCondition (w_now (l_world ls)) ci1 (l_cond ls) = (changed, ci2)" by fastforce
  obtain err' ok ci3 w3 where c3: "(if changed \<or> l_setEndtime ls
      then patch_or_wrap (l_ci ls) ci2 (l_err ls) (update_condition_msg ReinstallRequestProcessed) (l_world ls)
      else (l_err ls, True, ci2, l_world ls)) = (err', ok, ci3, w3)"
    by (metis prod_cases4)
  note run = assms(1) [unfolded conclude_def Let_def ci1_def [symmetric] c2 prod.case c3]
  have r2: "st_Reinstall (ci_Status ci2) = Some (concluded ls r)"
    using c2 assms(4) by (auto simp: setReinstallStatusCondition_def ci1_def concluded_def Let_def split: prod.splits if_splits)
  have k2: "ci_key ci2 = k"
    using set_reinstall_frame [OF c2] assms(2) by (auto simp: ci1_def)
  have s3: "\<exists>s3. map_of (w_cis w3) k = Some s3 \<and> ci_Spec s3 = ci_Spec s \<and> w_objs w3 = w_objs (l_world ls)
    \<and> (st_Reinstall (ci_Status s3) = Some rs \<or> st_Reinstall (ci_Status s3) = Some (merge_reinstall_fields r (concluded ls r) rs))"
  proof (cases "changed \<or> l_setEndtime ls")
    case True
    then have "patch_or_wrap (l_ci ls) ci2 (l_err ls) (update_condition_msg ReinstallRequestProcessed) (l_world ls) = (err', ok, ci3, w3)"
      using c3 by simp
    then obtain po where po: "PatchCIStatus (l_ci ls) ci2 (l_world ls) = (po, ci3, w3)" by (rule patch_or_wrap_cases)
    have m: "map_of (w_cis (l_world ls)) (ci_key ci2) = Some s" using k2 assms(3) by simp
    show ?thesis
      using stored_after_patch(1) [OF po m] ci_status.patch_frame [OF po] k2 r2 assms(4,5)
      by (auto simp: merge_status_def)
  next
    case False
    with c3 assms(3,5) show ?thesis by simp
  qed
  show "res = l_result ls" using run by (auto split: if_splits prod.splits)
  have "\<exists>s3. map_of (w_cis w3) k = Some s3 \<and> ci_Spec s' = ci_Spec s3
      \<and> st_Reinstall (ci_Status s') = st_Reinstall (ci_Status s3) \<and> w_objs w' = w_objs w3"
  proof (cases "ok \<and> l_applyPause ls")
    case True
    then obtain reason e1 where "ApplyPause ci3 reason w3 = (e1, ci', w')"
      using run by (auto split: prod.splits)
    from ApplyPause_keeps [OF this assms(6)] show ?thesis by blast
  next
    case False
    with run assms(6) show ?thesis by auto
  qed
  with s3 show "ci_Spec s' = ci_Spec s" "w_objs w' = w_objs (l_world ls)"
    "st_Reinstall (ci_Status s') = Some rs \<or> st_Reinstall (ci_Status s') = Some (merge_reinstall_fields r (concluded ls r) rs)"
    by auto
qed


section \<open>The completion\<close>

lemma finalized_fields:
  assumes "finalized_status now gen d r = (r', u)"
  shows "r_ObservedGeneration r' = gen" "r_InProgressGeneration r' = []" "r_Conditions r' = r_Conditions r"
    "r_RequestEndTime r' = (if IsZero (r_RequestEndTime r) then now else r_RequestEndTime r)"
    "r_RequestStartTime r' = r_RequestStartTime r"
    "r_History r' = (if gen \<in> h_Generation ` set (r_History r) then r_History r else r_History r @
       [\<lparr>h_Generation = gen, h_RequestStartTime = r_RequestStartTime r, h_RequestEndTime = r_RequestEndTime r',
         h_ClusterInstanceSpecDiff = d\<rparr>])"
    "\<not> u \<Longrightarrow> r' = r"
proof -
  have mem: "list_ex (\<lambda>h. h_Generation h = g) hs \<longleftrightarrow> g \<in> h_Generation ` set hs" for g hs
    by (auto simp: list_ex_iff)
  note d = assms [unfolded finalized_status_def mem]
  show "r_ObservedGeneration r' = gen" "r_InProgressGeneration r' = []" "r_Conditions r' = r_Conditions r"
    "r_RequestEndTime r' = (if IsZero (r_RequestEndTime r) then now else r_RequestEndTime r)"
    "r_RequestStartTime r' = r_RequestStartTime r"
    "r_History r' = (if gen \<in> h_Generation ` set (r_History r) then r_History r else r_History r @
       [\<lparr>h_Generation = gen, h_RequestStartTime = r_RequestStartTime r, h_RequestEndTime = r_RequestEndTime r',
         h_ClusterInstanceSpecDiff = d\<rparr>])"
    "\<not> u \<Longrightarrow> r' = r"
    using d by (auto simp: Let_def split: if_splits)
qed

lemma finalize_effect:
  assumes "finalizeReinstallRequest env ci v = (eo, ci', w')" "synced ci v" "st_Reinstall (ci_Status ci) = Some r"
  shows "\<exists>s' rm. map_of (w_cis w') (ci_key ci) = Some s' \<and> ci_Spec s' = ci_Spec ci \<and> ci_key ci' = ci_key ci
    \<and> st_Reinstall (ci_Status ci') = Some rm \<and> w_now w' = w_now v
    \<and> (if eo = None then st_Reinstall (ci_Status s') = Some rm
         \<and> (\<exists>d u. finalized_status (w_now v) (rs_Generation (reinstall_spec ci)) d r = (rm, u))
       else st_Reinstall (ci_Status s') = Some r \<and> r_Conditions rm = r_Conditions r)"
proof -
  obtain c ce w1 where c: "Cleanup ci v = ((c, ce), w1)" by (metis prod.collapse)
  have f1: "w_cis w1 = w_cis v" "w_now w1 = w_now v" using Cleanup_frame [OF c] by (simp_all add: touches_UNIV)
  have sync: "map_of (w_cis w1) (ci_key ci) = Some ci" using assms(2) f1 by (simp add: synced_def)
  note run = assms(1) [unfolded finalizeReinstallRequest_def c prod.case]
  show ?thesis
  proof (cases "ce \<noteq> None \<or> (\<exists>e. computeClusterInstanceSpecDiff env ci = Inl e)")
    case True
    with run have "eo \<noteq> None" "ci' = ci" "w' = w1" by (auto split: option.splits)
    with sync assms(3) f1 show ?thesis by auto
  next
    case False
    then obtain d where ce: "ce = None" and d: "computeClusterInstanceSpecDiff env ci = Inr d" by (cases "computeClusterInstanceSpecDiff env ci") auto
    have rs: "reinstall_status ci = r" using assms(3) by (simp add: reinstall_status_def)
    obtain rm u where fin: "finalized_status (w_now v) (rs_Generation (reinstall_spec ci)) d r = (rm, u)" by fastforce
    let ?ci = "upd_reinstall (\<lambda>x. rm) ci"
    have ci1: "ci_key ?ci = ci_key ci" "ci_Meta ?ci = ci_Meta ci" "ci_Spec ?ci = ci_Spec ci" "st_Reinstall (ci_Status ?ci) = Some rm"
      using assms(3) by simp_all
    note run2 = run [unfolded ce d option.case sum.case Let_def rs f1(2) fin prod.case]
    show ?thesis
    proof (cases u)
      case True
      then obtain ok where "patch_or_wrap ci ?ci None ''failed to update reinstall status'' w1 = (eo, ok, ci', w')"
        using run2 by (auto split: prod.splits)
      then obtain po where po: "PatchCIStatus ci ?ci w1 = (po, ci', w')" "eo = None \<longleftrightarrow> po = None"
        by (elim patch_or_wrap_cases) (auto split: option.splits)
      have m: "map_of (w_cis w1) (ci_key ?ci) = Some ci" using sync by simp
      note st = stored_after_patch [OF po(1) m]
      have w: "w_now w' = w_now v" using ci_status.patch_frame [OF po(1)] f1 by simp
      show ?thesis
      proof (cases po)
        case None
        then have "ci' = ci\<lparr>ci_Status := ci_Status ?ci\<rparr>" "map_of (w_cis w') (ci_key ci) = Some ci'" using st by simp_all
        then show ?thesis using None po(2) fin w ci1 by (auto intro!: exI [of _ ci'] exI [of _ rm])
      next
        case (Some e)
        then have "ci' = ?ci" "map_of (w_cis w') (ci_key ci) = Some ci" using st by simp_all
        then show ?thesis
          using Some po(2) w ci1 assms(3) finalized_fields(3) [OF fin] by (auto intro!: exI [of _ ci] exI [of _ rm])
      qed
    next
      case False
      then have e: "eo = None" "ci' = ?ci" "w' = w1" "rm = r" using run2 finalized_fields(7) [OF fin] by auto
      with sync assms(3) fin f1 ci1 show ?thesis by (auto intro!: exI [of _ ci] exI [of _ rm])
    qed
  qed
qed


section \<open>The initialization\<close>

lemma set_all_foldl:
  "fst (set_all now conds cs u) = foldl (\<lambda>ds c. fst (meta_SetStatusCondition now ds c)) conds cs"
  by (induction cs arbitrary: conds u) (auto split: prod.splits)

lemma initialized_fields:
  assumes "initialized_status now gen st = (r', u)"
  shows "r_History r' = (case st of None \<Rightarrow> [] | Some r \<Rightarrow> r_History r)" "r_InProgressGeneration r' = gen"
    "r_ObservedGeneration r' = (case st of None \<Rightarrow> [] | Some r \<Rightarrow> r_ObservedGeneration r)"
    "r_RequestEndTime r' = 0" "r_RequestStartTime r' = 0"
    "\<exists>cs. r_Conditions r' = foldl (\<lambda>ds c. fst (meta_SetStatusCondition now ds c)) cs (map (initial_condition now) reinstallConditionTypes)
       \<and> (cs = [] \<or> (\<exists>r. st = Some r \<and> cs = r_Conditions r))"
proof -
  define conds0 where "conds0 = (case st of None \<Rightarrow> [] | Some r \<Rightarrow> if r_InProgressGeneration r \<noteq> gen then [] else r_Conditions r)"
  have e: "r' = (case st of None \<Rightarrow> empty_reinstall | Some r \<Rightarrow> r)\<lparr>r_InProgressGeneration := gen, r_RequestStartTime := 0,
      r_RequestEndTime := 0, r_Conditions := foldl (\<lambda>ds c. fst (meta_SetStatusCondition now ds c)) conds0
        (map (initial_condition now) reinstallConditionTypes)\<rparr>"
  proof -
    have sa: "cs' = foldl (\<lambda>ds c. fst (meta_SetStatusCondition now ds c)) cs L" if "set_all now cs L x = (cs', y)" for cs cs' L x y
      using that set_all_foldl [of now cs L x] by simp
    show ?thesis
      using assms unfolding initialized_status_def Let_def conds0_def
      by (cases st) (auto simp: IsZero_def empty_reinstall_def split: if_splits prod.splits
          dest!: sa intro!: ReinstallStatus.equality)
  qed
  show "r_History r' = (case st of None \<Rightarrow> [] | Some r \<Rightarrow> r_History r)" "r_InProgressGeneration r' = gen"
    "r_ObservedGeneration r' = (case st of None \<Rightarrow> [] | Some r \<Rightarrow> r_ObservedGeneration r)"
    "r_RequestEndTime r' = 0" "r_RequestStartTime r' = 0"
    by (simp_all add: e empty_reinstall_def split: option.splits)
  show "\<exists>cs. r_Conditions r' = foldl (\<lambda>ds c. fst (meta_SetStatusCondition now ds c)) cs (map (initial_condition now) reinstallConditionTypes)
       \<and> (cs = [] \<or> (\<exists>r. st = Some r \<and> cs = r_Conditions r))"
    by (rule exI [of _ conds0]) (auto simp: e conds0_def split: option.splits)
qed

end
