(* ===== verification/Reinstall_Ledger.thy ===== *)
theory Reinstall_Ledger
  imports Reinstall_Request "HOL-Library.Sublist"
begin

text \<open>
  The record of reinstall requests as an abstract machine: the history, the generation in progress and
  the one observed last. A call of \<open>ProcessRequest\<close> refines one step of it, and so does any
  interleaving of calls with edits of the ClusterInstance and changes of everything else.
\<close>

section \<open>The abstract machine\<close>

type_synonym ledger_state = "ReinstallHistory list \<times> string \<times> string"

inductive ledger_step :: "string \<Rightarrow> ledger_state \<Rightarrow> ledger_state \<Rightarrow> bool" for gen where
  idle: "ledger_step gen a a"
| start: "obs \<noteq> gen \<Longrightarrow> ledger_step gen (hist, inProgress, obs) (hist, gen, obs)"
| finish: "obs \<noteq> gen \<Longrightarrow> h_Generation rec = gen \<Longrightarrow>
    ledger_step gen (hist, gen, obs) (if gen \<in> h_Generation ` set hist then hist else hist @ [rec], [], gen)"

definition ledger_abs :: "ClusterInstance \<Rightarrow> ledger_state" where
  "ledger_abs ci = ledger (reinstall_status ci)"

text \<open>No generation is recorded twice, and the one observed last is recorded.\<close>

definition ledger_ok :: "ledger_state \<Rightarrow> bool" where
  "ledger_ok a = (case a of (hist, inProgress, obs) \<Rightarrow>
     distinct (map h_Generation hist) \<and> (obs = [] \<or> obs \<in> h_Generation ` set hist))"

lemma ledger_step_ok: "ledger_step gen a b \<Longrightarrow> ledger_ok a \<Longrightarrow> ledger_ok b"
  by (induction rule: ledger_step.induct) (auto simp: ledger_ok_def)

lemma ledger_step_prefix: "ledger_step gen a b \<Longrightarrow> prefix (fst a) (fst b)"
  by (induction rule: ledger_step.induct) auto

section \<open>Refinement\<close>

lemma ledger_abs_Some: "st_Reinstall (ci_Status s) = Some r \<Longrightarrow> ledger_abs s = ledger r"
  by (simp add: ledger_abs_def reinstall_status_def)

lemma concluded_ledger:
  "ledger (concluded ls r) = ledger r" "ledger (merge_reinstall_fields r (concluded ls r) rs) = ledger rs"
  by (simp_all add: concluded_def ledger_def Let_def merge_reinstall_fields_def)

text \<open>After the loop, the stored record is what it was when the loop stopped.\<close>

lemma conclude_ledger:
  assumes "conclude ls = (res, eo, ci', w')" "k = ci_key (l_ci ls)" "map_of (w_cis (l_world ls)) k = Some s"
    "st_Reinstall (ci_Status (l_ci ls)) = Some r" "st_Reinstall (ci_Status s) = Some rs" "map_of (w_cis w') k = Some s'"
  shows "ledger_abs s' = ledger_abs s \<and> ci_Spec s' = ci_Spec s"
proof -
  note c = conclude_effect [OF assms]
  obtain r' where "st_Reinstall (ci_Status s') = Some r'" "ledger r' = ledger rs"
    using c(4) concluded_ledger by auto
  with assms(5) c(1) show ?thesis by (simp add: ledger_abs_Some)
qed

lemma run_tasks_ledger:
  assumes "run_tasks env tasks ci w = Some ls" "synced ci w" "st_Reinstall (ci_Status ci) = Some r"
  shows "\<exists>s rs rm. map_of (w_cis (l_world ls)) (ci_key ci) = Some s \<and> st_Reinstall (ci_Status s) = Some rs
    \<and> ci_key (l_ci ls) = ci_key ci \<and> st_Reinstall (ci_Status (l_ci ls)) = Some rm \<and> ci_Spec s = ci_Spec ci
    \<and> (ledger rs = ledger r \<or> (\<exists>d u. finalized_status (w_now w) (rs_Generation (reinstall_spec ci)) d r = (rs, u)))"
  using assms(1,2) tasks_contract
proof (cases rule: run_tasks_cases)
  case (finished v)
  obtain eo ci' w' where f: "finalizeReinstallRequest env ci v = (eo, ci', w')" by (metis prod_cases3)
  have ls: "l_ci ls = ci'" "l_world ls = w'"
    using finished(3) f by (simp_all add: finish_request_def split: option.splits)
  have "synced ci v" using assms(2) finished(1) by (simp add: synced_def)
  from finalize_effect [OF f this assms(3)] show ?thesis
    unfolding ls finished(2) by (auto split: if_splits)
next
  case (stopped t v)
  have sync: "synced ci v" using assms(2) stopped(2) by (simp add: synced_def)
  have "reinstall_task (t_Run t)" using tasks_contract stopped(1) by blast
  from reinstall_task.kept [OF this stopped(4) synced_kept [OF sync]]
  have kept: "state_kept ci (l_ci ls) (l_world ls)" .
  then obtain s where "map_of (w_cis (l_world ls)) (ci_key ci) = Some s" "advances ci s" "advances ci (l_ci ls)"
    by (auto simp: state_kept_def split: option.splits)
  with assms(3) show ?thesis by (auto simp: advances_def ci_key_def)
qed


text \<open>The branches of \<open>ProcessRequest\<close>.\<close>

lemma ProcessRequest_cases:
  assumes "ProcessRequest env ci w = Some (res, eo, ci', w')"
  obtains (nothing) "ci' = ci" "w' = w" "s_Reinstall (ci_Spec ci) = None \<or> isRequestProcessed ci"
  | (initialize) ie where "\<not> isRequestProcessed ci" "initializeReinstallStatus ci w = (ie, ci', w')" "eo = ie"
      "res = (if ie = None then requeue else zero_result)"
      "findReinstallStatusCondition ci ReinstallRequestProcessed = None \<or> isNewRequest ci"
  | (enter) ci1 po cond where "\<not> isRequestProcessed ci" "\<not> isNewRequest ci" "PatchCIStatus ci ci1 w = (po, ci', w')"
      "findReinstallStatusCondition ci ReinstallRequestProcessed = Some cond" "c_Reason cond = Initialized"
      "snd (setReinstallStatusCondition (w_now w) (upd_reinstall (\<lambda>r. r\<lparr>r_RequestStartTime := w_now w\<rparr>) ci)
         (processed_condition ConditionFalse InProgress
           (''Processing reinstall request for generation '' @ rs_Generation (reinstall_spec ci)))) = ci1"
      "eo = None \<longrightarrow> res = requeue"
  | (tasks) ls cond where "\<not> isRequestProcessed ci" "\<not> isNewRequest ci" "run_tasks env tasks ci w = Some ls" "conclude ls = (res, eo, ci', w')"
      "findReinstallStatusCondition ci ReinstallRequestProcessed = Some cond" "c_Reason cond \<noteq> Initialized"
proof (cases "s_Reinstall (ci_Spec ci)")
  case None
  with assms have "ci' = ci" "w' = w" by (simp_all add: ProcessRequest_def)
  then show thesis by (rule nothing) (use None in simp)
next
  case (Some spec)
  then have gen: "reinstall_spec ci = spec" by (simp add: reinstall_spec_def)
  note run = assms [unfolded ProcessRequest_def Some option.case]
  show thesis
  proof (cases "isRequestProcessed ci")
    case True
    with run have "ci' = ci" "w' = w" by simp_all
    then show thesis by (rule nothing) (use True in simp)
  next
    case False
    show thesis
    proof (cases "findReinstallStatusCondition ci ReinstallRequestProcessed = None \<or> isNewRequest ci")
      case True
      obtain ie ci1 w1 where i: "initializeReinstallStatus ci w = (ie, ci1, w1)" by (metis prod_cases3)
      with run False True have "ci1 = ci'" "w1 = w'" "eo = ie" "res = (if ie = None then requeue else zero_result)"
        by (auto split: option.splits bool.splits)
      with i True False initialize show thesis by blast
    next
      case False
      then obtain cond where cond: "findReinstallStatusCondition ci ReinstallRequestProcessed = Some cond" "\<not> isNewRequest ci"
        by auto
      note run = run [unfolded if_not_P [OF \<open>\<not> isRequestProcessed ci\<close>] cond prod.case option.case]
      show thesis
      proof (cases "c_Reason cond = Initialized")
        case True
        obtain b ci1 where s: "setReinstallStatusCondition (w_now w) (upd_reinstall (\<lambda>r. r\<lparr>r_RequestStartTime := w_now w\<rparr>) ci)
           (processed_condition ConditionFalse InProgress
             (''Processing reinstall request for generation '' @ rs_Generation spec)) = (b, ci1)" by fastforce
        obtain e ok ci2 w2 where p: "patch_or_wrap ci ci1 None (update_condition_msg ReinstallRequestProcessed) w = (e, ok, ci2, w2)"
          by (metis prod_cases4)
        with run True s cond have "ci2 = ci'" "w2 = w'" "e = eo" "res = (if ok then requeue else zero_result)" by (auto split: if_splits)
        with p obtain po where "PatchCIStatus ci ci1 w = (po, ci', w')" "eo = None \<longrightarrow> res = requeue"
          by (auto elim!: patch_or_wrap_cases split: option.splits)
        from enter [OF \<open>\<not> isRequestProcessed ci\<close> cond(2) this(1) cond(1) True _ this(2)] s gen show thesis by simp
      next
        case False
        with run cond obtain ls where "run_tasks env tasks ci w = Some ls" "conclude ls = (res, eo, ci', w')" by auto
        from tasks [OF \<open>\<not> isRequestProcessed ci\<close> cond(2) this cond(1) False] show thesis .
      qed
    qed
  qed
qed

lemma not_processed:
  "\<not> isRequestProcessed ci \<Longrightarrow> st_Reinstall (ci_Status ci) = Some r \<Longrightarrow> r_ObservedGeneration r \<noteq> rs_Generation (reinstall_spec ci)"
  by (auto simp: isRequestProcessed_def)

lemma begin_frame:
  assumes "snd (setReinstallStatusCondition now (upd_reinstall (\<lambda>r. r\<lparr>r_RequestStartTime := t\<rparr>) ci) c) = ci1"
    "st_Reinstall (ci_Status ci) = Some r"
  shows "advances ci ci1"
proof -
  have "advances ci (upd_reinstall (\<lambda>r. r\<lparr>r_RequestStartTime := t\<rparr>) ci)" using assms(2) by (simp add: advances_def ledger_def)
  with assms(1) show ?thesis by (metis set_condition_advances prod.collapse)
qed

lemma initialize_effect:
  assumes "initializeReinstallStatus ci w = (ie, ci', w')" "map_of (w_cis w) (ci_key ci) = Some ci"
  obtains r' u where "initialized_status (w_now w) (rs_Generation (reinstall_spec ci)) (st_Reinstall (ci_Status ci)) = (r', u)"
    "w_objs w' = w_objs w" "w_now w' = w_now w" "ci' = ci\<lparr>ci_Status := (ci_Status ci)\<lparr>st_Reinstall := Some r'\<rparr>\<rparr>"
    "map_of (w_cis w') (ci_key ci) = Some (if ie = None \<and> u then ci' else ci)"
proof -
  obtain r' u where r: "initialized_status (w_now w) (rs_Generation (reinstall_spec ci)) (st_Reinstall (ci_Status ci)) = (r', u)"
    by fastforce
  let ?ci = "ci\<lparr>ci_Status := (ci_Status ci)\<lparr>st_Reinstall := Some r'\<rparr>\<rparr>"
  note run = assms(1) [unfolded initializeReinstallStatus_def Let_def r prod.case]
  show thesis
  proof (cases u)
    case True
    then obtain po where po: "PatchCIStatus ci ?ci w = (po, ci', w')" "ie = None \<longleftrightarrow> po = None"
      using run by (auto split: prod.splits option.splits)
    have m: "map_of (w_cis w) (ci_key ?ci) = Some ci" using assms(2) by simp
    note st = stored_after_patch [OF po(1) m]
    have "ci' = ?ci" using st(2,3) by (cases po) simp_all
    then show thesis using that [OF r] st(1) ci_status.patch_frame [OF po(1)] po(2) True by simp
  next
    case False
    with run have "ie = None" "ci' = ?ci" "w' = w" by auto
    with that [OF r] False assms(2) show thesis by simp
  qed
qed

lemma initialize_ledger:
  assumes "initializeReinstallStatus ci w = (ie, ci', w')" "map_of (w_cis w) (ci_key ci) = Some ci" "\<not> isRequestProcessed ci"
    "map_of (w_cis w') (ci_key ci) = Some s'"
  shows "ledger_step (rs_Generation (reinstall_spec ci)) (ledger_abs ci) (ledger_abs s') \<and> ci_Spec s' = ci_Spec ci"
proof -
  from assms(1,2) obtain r' u where
    r: "initialized_status (w_now w) (rs_Generation (reinstall_spec ci)) (st_Reinstall (ci_Status ci)) = (r', u)"
    "ci' = ci\<lparr>ci_Status := (ci_Status ci)\<lparr>st_Reinstall := Some r'\<rparr>\<rparr>"
    "map_of (w_cis w') (ci_key ci) = Some (if ie = None \<and> u then ci' else ci)"
    by (rule initialize_effect)
  have r3: "s' = (if ie = None \<and> u then ci' else ci)" using assms(4) r(3) by simp
  note f = initialized_fields [OF r(1)]
  show ?thesis
  proof (cases "s' = ci")
    case True
    then show ?thesis by (simp add: ledger_step.idle)
  next
    case False
    then have s: "st_Reinstall (ci_Status s') = Some r'" "ci_Spec s' = ci_Spec ci" using r(2) r3 by (auto split: if_splits)
    have abs: "ledger_abs ci = ledger (case st_Reinstall (ci_Status ci) of None \<Rightarrow> empty_reinstall | Some r \<Rightarrow> r)"
      by (simp add: ledger_abs_def reinstall_status_def)
    have "ledger_abs s' = (fst (ledger_abs ci), rs_Generation (reinstall_spec ci), snd (snd (ledger_abs ci)))"
      using f(1-3) by (simp add: ledger_abs_Some [OF s(1)] abs ledger_def empty_reinstall_def split: option.splits)
    moreover have "(fst (ledger_abs ci), rs_Generation (reinstall_spec ci), snd (snd (ledger_abs ci))) = ledger_abs ci
        \<or> snd (snd (ledger_abs ci)) \<noteq> rs_Generation (reinstall_spec ci)"
      using not_processed [OF assms(3)]
      by (cases "st_Reinstall (ci_Status ci)") (auto simp: abs ledger_def empty_reinstall_def)
    ultimately show ?thesis
      using s(2) ledger_step.idle ledger_step.start by (metis prod.collapse)
  qed
qed

lemma finished_ledger:
  assumes "finalized_status now (rs_Generation (reinstall_spec ci)) d r = (rs, u)" "st_Reinstall (ci_Status s) = Some rs"
    "st_Reinstall (ci_Status ci) = Some r" "r_InProgressGeneration r = rs_Generation (reinstall_spec ci)" "\<not> isRequestProcessed ci"
  shows "ledger_step (rs_Generation (reinstall_spec ci)) (ledger_abs ci) (ledger_abs s)"
proof -
  note f = finalized_fields [OF assms(1)]
  define rec where "rec = \<lparr>h_Generation = rs_Generation (reinstall_spec ci), h_RequestStartTime = r_RequestStartTime r,
    h_RequestEndTime = r_RequestEndTime rs, h_ClusterInstanceSpecDiff = d\<rparr>"
  have "ledger_abs s = (if rs_Generation (reinstall_spec ci) \<in> h_Generation ` set (r_History r) then r_History r
      else r_History r @ [rec], [], rs_Generation (reinstall_spec ci))"
    using f by (simp add: ledger_abs_Some [OF assms(2)] ledger_def rec_def)
  moreover have "ledger_abs ci = (r_History r, rs_Generation (reinstall_spec ci), r_ObservedGeneration r)"
    using assms(3,4) by (simp add: ledger_abs_Some ledger_def)
  moreover have "h_Generation rec = rs_Generation (reinstall_spec ci)" by (simp add: rec_def)
  ultimately show ?thesis using ledger_step.finish not_processed [OF assms(5,3)] by metis
qed

lemma process_ledger_step:
  assumes "ProcessRequest env ci w = Some (res, eo, ci', w')" "map_of (w_cis w) (ci_key ci) = Some ci"
    "map_of (w_cis w') (ci_key ci) = Some s'"
  shows "ledger_step (rs_Generation (reinstall_spec ci)) (ledger_abs ci) (ledger_abs s') \<and> ci_Spec s' = ci_Spec ci"
  using assms(1)
proof (cases rule: ProcessRequest_cases)
  case nothing
  with assms(2,3) show ?thesis by (simp add: ledger_step.idle)
next
  case (initialize ie)
  then show ?thesis using initialize_ledger assms(2,3) by blast
next
  case (enter ci1 po cond)
  obtain r where r: "st_Reinstall (ci_Status ci) = Some r"
    using enter(2) by (auto simp: isNewRequest_def split: option.splits)
  have sync: "synced ci w" using assms(2) r by (simp add: synced_def)
  have "state_kept ci ci' w'"
    using patch_kept [OF enter(3) synced_kept [OF sync]] begin_frame [OF enter(6) r] by blast
  then have "advances ci s'" using assms(3) by (simp add: state_kept_def)
  then show ?thesis using r by (auto simp: advances_def ledger_step.idle ledger_abs_Some)
next
  case (tasks ls cond)
  obtain r where r: "st_Reinstall (ci_Status ci) = Some r" "r_InProgressGeneration r = rs_Generation (reinstall_spec ci)"
    using tasks(2) by (auto simp: isNewRequest_def split: option.splits)
  have sync: "synced ci w" using assms(2) r by (simp add: synced_def)
  obtain s rs rm where s: "map_of (w_cis (l_world ls)) (ci_key ci) = Some s" "st_Reinstall (ci_Status s) = Some rs"
    "ci_key (l_ci ls) = ci_key ci" "st_Reinstall (ci_Status (l_ci ls)) = Some rm" "ci_Spec s = ci_Spec ci"
    "ledger rs = ledger r \<or> (\<exists>d u. finalized_status (w_now w) (rs_Generation (reinstall_spec ci)) d r = (rs, u))"
    using run_tasks_ledger [OF tasks(3) sync r(1)] by blast
  have c: "ledger_abs s' = ledger_abs s" "ci_Spec s' = ci_Spec ci"
    using conclude_ledger [OF tasks(4) s(3)[symmetric] s(1,4,2) assms(3)] s(5) by auto
  from s(6) show ?thesis
  proof
    assume "ledger rs = ledger r"
    with c s(2) r(1) show ?thesis by (simp add: ledger_step.idle ledger_abs_Some)
  next
    assume "\<exists>d u. finalized_status (w_now w) (rs_Generation (reinstall_spec ci)) d r = (rs, u)"
    then show ?thesis using finished_ledger [OF _ s(2) r tasks(1)] c by auto
  qed
qed


section \<open>The system\<close>

text \<open>
  The ClusterInstance with the given key, in a system where the reinstall handler runs on what is
  stored, anyone changes the ClusterInstance except for \<open>Status.Reinstall\<close> (the spec, the metadata, the
  rest of the status, its removal), and everything else changes freely.
\<close>

inductive system_step :: "reinstall_env \<Rightarrow> string \<times> string \<Rightarrow> world \<Rightarrow> world \<Rightarrow> bool" for env k where
  reconcile: "map_of (w_cis w) k = Some ci \<Longrightarrow> ci_key ci = k \<Longrightarrow> ProcessRequest env ci w = Some (res, eo, ci', w') \<Longrightarrow>
    system_step env k w w'"
| edit: "map_of (w_cis w) k = Some ci \<Longrightarrow> st_Reinstall (ci_Status ci') = st_Reinstall (ci_Status ci) \<Longrightarrow>
    map_of (w_cis w') k = Some ci' \<Longrightarrow> system_step env k w w'"
| remove: "map_of (w_cis w') k = None \<Longrightarrow> system_step env k w w'"
| environment: "map_of (w_cis w') k = map_of (w_cis w) k \<Longrightarrow> system_step env k w w'"

definition ledger_at :: "string \<times> string \<Rightarrow> world \<Rightarrow> ledger_state option" where
  "ledger_at k w = map_option ledger_abs (map_of (w_cis w) k)"

lemma system_step_ledger:
  assumes "system_step env k w w'" "ledger_at k w = Some a" "ledger_at k w' = Some b"
  shows "\<exists>gen. ledger_step gen a b"
  using assms
proof (induction rule: system_step.induct)
  case (reconcile w ci res eo ci' w')
  then obtain s' where s': "map_of (w_cis w') (ci_key ci) = Some s'" "b = ledger_abs s'" "a = ledger_abs ci"
    by (auto simp: ledger_at_def)
  have "map_of (w_cis w) (ci_key ci) = Some ci" using reconcile(1,2) by simp
  from process_ledger_step [OF reconcile(3) this s'(1)] show ?case using s' by blast
qed (auto simp: ledger_at_def ledger_abs_def reinstall_status_def intro!: exI ledger_step.idle)


lemma system_step_present: "system_step env k w w' \<Longrightarrow> ledger_at k w' \<noteq> None \<Longrightarrow> ledger_at k w \<noteq> None"
  by (induction rule: system_step.induct) (auto simp: ledger_at_def)

lemma system_run_ledger:
  assumes "(system_step env k)\<^sup>*\<^sup>* w w'" "ledger_at k w = Some a" "ledger_at k w' = Some b" "ledger_ok a"
  shows "ledger_ok b \<and> prefix (fst a) (fst b)"
  using assms
proof (induction arbitrary: b rule: rtranclp_induct)
  case base
  then show ?case by simp
next
  case (step v w')
  obtain c where c: "ledger_at k v = Some c" using system_step_present [OF step.hyps(2)] step.prems(2) by auto
  then obtain gen where g: "ledger_step gen c b" using system_step_ledger step by blast
  from step.IH [OF step.prems(1) c step.prems(3)] show ?case
    using ledger_step_ok [OF g] ledger_step_prefix [OF g] prefix_order.trans by blast
qed

section \<open>Properties\<close>

text \<open>C2: \<open>ProcessRequest\<close> refines the abstract record of requests. Whatever task it is at and whatever
  requests to the API server fail, a call on the stored ClusterInstance leaves the stored record
  (history, generation in progress, observed generation) as it was, or starts the requested
  generation, or finishes the generation in progress, which appends it to the history unless it is
  there already. The stored spec is never changed.\<close>

theorem reinstall_refines_ledger:
  assumes "ProcessRequest env ci w = Some (res, eo, ci', w')" "map_of (w_cis w) (ci_key ci) = Some ci"
    "map_of (w_cis w') (ci_key ci) = Some s'"
  shows "ledger_step (rs_Generation (reinstall_spec ci)) (ledger_abs ci) (ledger_abs s') \<and> ci_Spec s' = ci_Spec ci"
  using process_ledger_step [OF assms] .

text \<open>C3: The history of reinstalls is append-only and records no generation twice, over any number of calls
  of \<open>ProcessRequest\<close> interleaved with edits of the ClusterInstance, writes of the rest of its status and
  arbitrary changes of the other objects, of the clock and of the failures to come.\<close>

theorem reinstall_history_append_only:
  assumes "(system_step env k)\<^sup>*\<^sup>* w w'" "map_of (w_cis w) k = Some ci" "map_of (w_cis w') k = Some ci'"
    "ledger_ok (ledger_abs ci)"
  shows "ledger_ok (ledger_abs ci') \<and> prefix (r_History (reinstall_status ci)) (r_History (reinstall_status ci'))"
  using system_run_ledger [OF assms(1) _ _ assms(4)] assms(2,3) by (simp add: ledger_at_def ledger_abs_def ledger_def)

text \<open>A ClusterInstance with a reinstall request and one rendered Secret; reinstalls are allowed.\<close>

definition reinstall_ci :: "string \<Rightarrow> ClusterInstance" where
  "reinstall_ci mode = with_manifests [deletion_ref] (sample_ci\<lparr>ci_Spec := sample_spec\<lparr>s_Reinstall :=
     Some \<lparr>rs_Generation = ''g1'', rs_PreservationMode = mode\<rparr>\<rparr>\<rparr>)"

definition reinstall_world :: "string \<Rightarrow> world" where
  "reinstall_world mode = \<lparr>w_now = 100, w_faults = [], w_objs = [(okey deletion_obj, deletion_obj)],
     w_cis = [(ci_key (reinstall_ci mode), reinstall_ci mode)]\<rparr>"

definition sample_env :: "bool \<Rightarrow> reinstall_env" where
  "sample_env allow = \<lparr>e_codec = sample_codec, e_UnmarshalSpec = (\<lambda>s. Inr sample_spec),
     e_MarshalValue = (\<lambda>j. []), e_MarshalPatch = (\<lambda>p. ''diff''), e_AllowReinstalls = allow\<rparr>"

text \<open>One call on what is stored under the key; the state stays when the call panics.\<close>

definition call :: "reinstall_env \<Rightarrow> world \<Rightarrow> world" where
  "call env w = (case map_of (w_cis w) (''ns'', ''c'') of
     None \<Rightarrow> w
   | Some ci \<Rightarrow> (case ProcessRequest env ci w of None \<Rightarrow> w | Some (res, eo, ci', w') \<Rightarrow> w'))"

definition stored_ci :: "world \<Rightarrow> ClusterInstance" where
  "stored_ci w = (case map_of (w_cis w) (''ns'', ''c'') of None \<Rightarrow> sample_ci | Some ci \<Rightarrow> ci)"

definition calls :: "nat \<Rightarrow> reinstall_env \<Rightarrow> world \<Rightarrow> world" where
  "calls n env = (call env ^^ n)"


lemma call_run:
  assumes "map_of (w_cis w) (''ns'', ''c'') = Some ci" "ProcessRequest env ci w \<noteq> None"
  obtains res eo ci' where "ProcessRequest env ci w = Some (res, eo, ci', call env w)"
  using assms by (auto simp: call_def)

lemma first_call:
  fixes mode defines "w \<equiv> reinstall_world PreservationModeNone" and "ci \<equiv> reinstall_ci PreservationModeNone"
  shows "map_of (w_cis w) (''ns'', ''c'') = Some ci" "ci_key ci = (''ns'', ''c'')"
    "ProcessRequest (sample_env True) ci w \<noteq> None"
    "map_of (w_cis (call (sample_env True) w)) (''ns'', ''c'') = Some (stored_ci (call (sample_env True) w))"
  unfolding w_def ci_def by code_simp+

theorem reinstall_refines_ledger_witness:
  "ledger_step (rs_Generation (reinstall_spec (reinstall_ci PreservationModeNone))) (ledger_abs (reinstall_ci PreservationModeNone))
     (ledger_abs (stored_ci (call (sample_env True) (reinstall_world PreservationModeNone))))"
  by (rule call_run [OF first_call(1,3)]) (use reinstall_refines_ledger first_call(1,2,4) in metis)

theorem reinstall_history_append_only_witness:
  "ledger_ok (ledger_abs (stored_ci (call (sample_env True) (reinstall_world PreservationModeNone))))"
proof -
  have "system_step (sample_env True) (''ns'', ''c'') (reinstall_world PreservationModeNone)
      (call (sample_env True) (reinstall_world PreservationModeNone))"
    by (rule call_run [OF first_call(1,3)]) (use system_step.reconcile first_call(1,2) in metis)
  moreover have "ledger_ok (ledger_abs (reinstall_ci PreservationModeNone))" by code_simp
  ultimately show ?thesis using reinstall_history_append_only [OF _ first_call(1,4)] by blast
qed

end
