(* ===== verification/Reinstall_Safety.thy ===== *)
theory Reinstall_Safety
  imports Reinstall_Ledger
begin

text \<open>
  What a reinstall request may do to the objects of the hub cluster: nothing when reinstalls are not
  enabled, no deletion before a complete backup, and what the end of a request means.
\<close>

section \<open>Lemmas: labelling the secrets\<close>

text \<open>The labels of the stored objects are maps: no key occurs twice.\<close>

definition labels_ok :: "world \<Rightarrow> bool" where
  "labels_ok w \<longleftrightarrow> list_all (\<lambda>p. gmap_ok (om_Labels (o_Meta (snd p)))) (w_objs w)"

lemma labels_ok_lookup: "labels_ok w \<Longrightarrow> map_of (w_objs w) k = Some obj \<Longrightarrow> gmap_ok (om_Labels (o_Meta obj))"
  by (auto simp: labels_ok_def list_all_iff dest!: map_of_SomeD)

lemma labels_ok_gset:
  "labels_ok w \<Longrightarrow> gmap_ok (om_Labels (o_Meta obj)) \<Longrightarrow> w_objs w' = gset k obj (w_objs w) \<Longrightarrow> labels_ok w'"
  by (auto simp: labels_ok_def list_all_iff dest!: set_gset_subset)

lemma merge_smap_ok: "gmap_ok server \<Longrightarrow> gmap_ok (merge_smap orig new server)"
proof -
  have d: "gmap_ok (foldl (\<lambda>m k. if ghas new k then m else gdel k m) m ks)" if "gmap_ok m" for m ks
    using that by (induction ks arbitrary: m) auto
  have s: "gmap_ok (foldl (\<lambda>m p. if map_of orig (fst p) = Some (snd p) then m else gset (fst p) (snd p) m) m ps)"
    if "gmap_ok m" for m ps
    using that by (induction ps arbitrary: m) auto
  show "gmap_ok server \<Longrightarrow> gmap_ok (merge_smap orig new server)" unfolding merge_smap_def by (intro s d)
qed

text \<open>The internal label is added to some Secrets; nothing else changes.\<close>

definition label_added :: "kobject \<Rightarrow> kobject \<Rightarrow> bool" where
  "label_added obj obj' \<longleftrightarrow> map_of (om_Labels (o_Meta obj')) \<in> {map_of (om_Labels (o_Meta obj)),
     (map_of (om_Labels (o_Meta obj)))(InternalPreservationLabelKey \<mapsto> InternalPreservationLabelValue)}"

lemma label_added_refl [simp]: "label_added obj obj"
  by (simp add: label_added_def)

lemma label_added_trans: "label_added a b \<Longrightarrow> label_added b c \<Longrightarrow> label_added a c"
  by (auto simp: label_added_def)

lemma label_added_matches:
  assumes "label_added obj obj'" "buildBackupLabelSelector mode = Inr (Some sel)" "matches sel (om_Labels (o_Meta obj))"
  shows "matches sel (om_Labels (o_Meta obj'))"
  using assms by (auto simp: label_added_def buildBackupLabelSelector_def ghas_def split: if_splits)

definition labelled :: "world \<Rightarrow> world \<Rightarrow> bool" where
  "labelled w w' \<longleftrightarrow> touches {k. k_Kind k = ''Secret''} w w' \<and> objs_ok w' \<and> labels_ok w' \<and> faults_ok w'
     \<and> (\<forall>k obj. map_of (w_objs w) k = Some obj \<longrightarrow>
          (\<exists>obj'. map_of (w_objs w') k = Some obj' \<and> label_added obj obj'))"

lemma labelled_trans: "labelled u v \<Longrightarrow> labelled v w \<Longrightarrow> labelled u w"
  unfolding labelled_def by (meson label_added_trans touches_trans)

lemma labelled_same:
  assumes "same_state w w'" "objs_ok w" "labels_ok w" "faults_ok w'"
  shows "labelled w w'"
  using assms objs_ok_same_state [OF assms(1)] by (auto simp: labelled_def touches_def same_state_def labels_ok_def)


lemma label_patch_labelled:
  assumes "PatchObj secret secret' w = (p, w')" "map_of (w_objs w) (ObjKey ''v1'' ''Secret'' ns name) = Some secret"
    "secret' = secret\<lparr>o_Meta := (o_Meta secret)\<lparr>om_Labels :=
       gset InternalPreservationLabelKey InternalPreservationLabelValue (om_Labels (o_Meta secret))\<rparr>\<rparr>"
    "objs_ok w" "labels_ok w" "faults_ok w"
  shows "labelled w w'"
proof -
  note key = objs_ok_lookup [OF assms(4,2)] and ok = labels_ok_lookup [OF assms(5,2)]
  have k': "okey secret' = ObjKey ''v1'' ''Secret'' ns name" using key assms(3) by (simp add: okey_def)
  have f: "faults_ok w'" using requests_faults_ok(6) [OF assms(6,1)] .
  have t: "touches {k. k_Kind k = ''Secret''} w w'" using touches_mono [OF PatchObj_touches [OF assms(1)]] k' by simp
  show ?thesis
  proof (cases p)
    case (Inl e)
    then have "same_state w w'" using assms(1) by (auto simp: PatchObj_def Let_def same_state_def split: prod.splits option.splits)
    then show ?thesis using labelled_same assms(4,5) f by blast
  next
    case (Inr obj)
    then have o: "obj = secret\<lparr>o_Meta := merge_meta (o_Meta secret) (o_Meta secret') (o_Meta secret)\<rparr>"
      "w_objs w' = gset (ObjKey ''v1'' ''Secret'' ns name) obj (w_objs w)"
      using assms(1,2) k' by (auto simp: PatchObj_def Let_def split: prod.splits option.splits)
    have lab: "map_of (om_Labels (o_Meta obj)) =
        (map_of (om_Labels (o_Meta secret)))(InternalPreservationLabelKey \<mapsto> InternalPreservationLabelValue)"
      using ok by (auto simp: o(1) assms(3) merge_meta_def merge_smap_lookup merge_def fun_eq_iff)
    have "gmap_ok (om_Labels (o_Meta obj))" using ok by (simp add: o(1) merge_meta_def merge_smap_ok)
    moreover have "okey obj = ObjKey ''v1'' ''Secret'' ns name" using key by (simp add: o(1))
    moreover have "label_added secret obj" using lab by (simp add: label_added_def)
    ultimately show ?thesis
      unfolding labelled_def using t f objs_ok_gset [OF assms(4) _ o(2)] labels_ok_gset [OF assms(5) _ o(2)] o(2) assms(2)
      by auto
  qed
qed

lemma applyPreservationLabel_labelled:
  assumes "applyPreservationLabel ns name w = (eo, w')" "objs_ok w" "labels_ok w" "faults_ok w"
  shows "labelled w w'"
proof -
  obtain g w1 where g: "Get (ObjKey ''v1'' ''Secret'' ns name) w = (g, w1)" by fastforce
  have s: "same_state w w1" "faults_ok w1" using Get_same_state [OF g] requests_faults_ok(1) [OF assms(4) g] by auto
  have w1: "labelled w w1" "objs_ok w1" "labels_ok w1"
    using labelled_same [OF s(1) assms(2,3) s(2)] by (simp_all add: labelled_def)
  show ?thesis
  proof (cases g)
    case (Inl e)
    with assms(1) g w1 show ?thesis by (auto simp: applyPreservationLabel_def split: if_splits)
  next
    case (Inr secret)
    then have found: "map_of (w_objs w1) (ObjKey ''v1'' ''Secret'' ns name) = Some secret"
      using Get_found g s(1) by (simp add: same_state_def)
    obtain b secret' where l: "setOrUpdateLabel InternalPreservationLabelKey InternalPreservationLabelValue secret = (b, secret')"
      by fastforce
    show ?thesis
    proof (cases b)
      case False
      with assms(1) g Inr l w1 show ?thesis by (simp add: applyPreservationLabel_def)
    next
      case True
      then have s': "secret' = secret\<lparr>o_Meta := (o_Meta secret)\<lparr>om_Labels :=
          gset InternalPreservationLabelKey InternalPreservationLabelValue (om_Labels (o_Meta secret))\<rparr>\<rparr>"
        using l by (auto simp: setOrUpdateLabel_def split: if_splits)
      obtain p w2 where p: "PatchObj secret secret' w1 = (p, w2)" by fastforce
      have "w' = w2" using assms(1) g Inr l True p by (auto simp: applyPreservationLabel_def split: sum.splits)
      then show ?thesis using labelled_trans [OF w1(1)] label_patch_labelled [OF p found s' w1(2,3) s(2)] by blast
    qed
  qed
qed

lemma label_secrets_labelled:
  assumes "label_secrets ns names w = (eo, w')" "objs_ok w" "labels_ok w" "faults_ok w"
  shows "labelled w w'"
  using assms
proof (induction names arbitrary: w)
  case Nil
  then show ?case by (auto intro: labelled_same)
next
  case (Cons name names)
  obtain e1 w1 where a: "applyPreservationLabel ns name w = (e1, w1)" by fastforce
  note l = applyPreservationLabel_labelled [OF a Cons.prems(2-4)]
  show ?case
  proof (cases e1)
    case (Some e)
    with Cons.prems(1) a l show ?thesis by auto
  next
    case None
    with Cons.prems(1) a have "label_secrets ns names w1 = (eo, w')" by simp
    then have "labelled w1 w'" using Cons.IH l by (simp add: labelled_def)
    with l show ?thesis by (rule labelled_trans)
  qed
qed


section \<open>Lemmas: the tasks in order\<close>

lemma run_tasks_Cons_cases:
  assumes "run_tasks env (Task d f b # ts) ci w = Some ls" "synced ci w" "reinstall_task f"
  obtains (stop) "f env ci w = Some (l_result ls, l_err ls, l_ci ls, l_world ls)" "stopped_at (Task d f b) ls"
  | (go_on) res w' where "f env ci w = Some (res, None, ci, w')" "result_IsZero res" "synced ci w'"
      "w_now w' = w_now w" "run_tasks env ts ci w' = Some ls"
proof -
  obtain res eo ci' w' where r: "f env ci w = Some (res, eo, ci', w')"
    using assms(1) by (auto split: option.splits)
  show thesis
  proof (cases "result_IsZero res \<and> eo = None")
    case True
    then have q: "ci' = ci" "synced ci w'" "w_now w' = w_now w"
      using reinstall_task.quiet [OF assms(3), of env ci w res ci' w'] r assms(2)
        reinstall_task.clock [OF assms(3) r synced_kept] by (auto simp: synced_def)
    with True r assms(1) show thesis by (intro go_on [of res w']) simp_all
  next
    case False
    then have "(l_result ls, l_err ls, l_ci ls, l_world ls) = (res, eo, ci', w')" "stopped_at (Task d f b) ls"
      using assms(1) r
      by (auto simp: stopped_at_def processed_condition_def conditionSetter_def Let_def split: if_splits option.splits)
    with r stop show thesis by simp
  qed
qed

lemma task_end_quiet: "task_end ci w res ci' w' \<Longrightarrow> result_IsZero res \<Longrightarrow> ci' = ci \<and> w' = w"
  by (auto simp: task_end_def)

lemma task_end_objs: "task_end ci w res ci' w' \<Longrightarrow> w_objs w' = w_objs w"
  by (auto simp: task_end_def dest: patch_or_wrap_frame)

text \<open>The deferred function changes no object.\<close>

lemma ApplyPause_objs: "ApplyPause ci reason w = (eo, ci', w') \<Longrightarrow> w_objs w' = w_objs w"
  by (auto simp: ApplyPause_def PatchCI_def GetCI_def StatusPatchCI_def Let_def split: prod.splits sum.splits option.splits if_splits)

lemma conclude_objs:
  assumes "conclude ls = (res, eo, ci', w')"
  shows "w_objs w' = w_objs (l_world ls)"
proof -
  define ci1 where "ci1 = (if l_setEndtime ls \<and> l_err ls \<noteq> None
    then upd_reinstall (\<lambda>r. r\<lparr>r_RequestEndTime := w_now (l_world ls)\<rparr>) (l_ci ls) else l_ci ls)"
  obtain changed ci2 where c2: "setReinstallStatusCondition (w_now (l_world ls)) ci1 (l_cond ls) = (changed, ci2)" by fastforce
  obtain err' ok ci3 w3 where c3: "(if changed \<or> l_setEndtime ls
      then patch_or_wrap (l_ci ls) ci2 (l_err ls) (update_condition_msg ReinstallRequestProcessed) (l_world ls)
      else (l_err ls, True, ci2, l_world ls)) = (err', ok, ci3, w3)"
    by (metis prod_cases4)
  note run = assms [unfolded conclude_def Let_def ci1_def [symmetric] c2 prod.case c3]
  have "w_objs w3 = w_objs (l_world ls)" using c3 by (auto split: if_splits dest: patch_or_wrap_frame)
  moreover have "w_objs w' = w_objs w3"
    using run by (auto split: if_splits prod.splits dest: ApplyPause_objs)
  ultimately show ?thesis by simp
qed


section \<open>Lemmas: the state before a deletion\<close>

lemma summary_faults_ok:
  "getDataPreservationSummary ci w = (p, w') \<Longrightarrow> faults_ok w \<Longrightarrow> faults_ok w'"
  by (auto simp: getDataPreservationSummary_def GetPreservedResourceCounts_def counts_def countMatchingResources_def Let_def
      split: prod.splits option.splits sum.splits if_splits dest: requests_faults_ok(3))

lemma preserve_data_spec:
  assumes "preserve_data env ci w = (b, d, err, v)" "objs_ok w" "faults_ok w"
    "rs_PreservationMode (reinstall_spec ci) \<noteq> PreservationModeNone"
  obtains eo u where "Backup (e_codec env) ci w = (eo, u)" "w_objs v = w_objs u" "err = None \<longrightarrow> eo = None"
    "faults_ok u \<longrightarrow> faults_ok v"
proof -
  obtain eo u where u: "Backup (e_codec env) ci w = (eo, u)" by fastforce
  have "w_objs v = w_objs u \<and> (err = None \<longrightarrow> eo = None) \<and> (faults_ok u \<longrightarrow> faults_ok v)"
    using assms(1) [unfolded preserve_data_def] assms(4) u
    by (auto split: prod.splits option.splits dest: summary_objs(1) summary_faults_ok)
  with that u show thesis by blast
qed

text \<open>The key of the object that a manifest reference of the status names.\<close>

definition manifest_key :: "ManifestReference \<Rightarrow> objkey" where
  "manifest_key m = ObjKey (case m_APIGroup m of None \<Rightarrow> [] | Some g \<Rightarrow> g) (m_Kind m) (m_Namespace m) (m_Name m)"

lemma objectsForManifests_keys:
  "objectsForManifests ms = Some objects \<Longrightarrow> r \<in> set objects \<Longrightarrow> objectKey r \<in> manifest_key ` set ms"
proof (induction ms arbitrary: objects)
  case (Cons m ms)
  obtain g objs where g: "m_APIGroup m = Some g" "objectsForManifests ms = Some objs"
    using Cons.prems(1) by (auto split: option.splits)
  obtain eo r0 where n: "NewRenderedObject (manifest_document g m) = (eo, r0)" by fastforce
  have "objectKey r0 = manifest_key m"
    using n by (auto simp: NewRenderedObject_def SetObject_def Let_def objectKey_def manifest_key_def g GetKind_def
        GetAPIVersion_def GetName_def GetNamespace_def getNestedString_def manifest_document_def split: if_splits)
  moreover have "r = r0 \<or> r \<in> set objs" using Cons.prems g n by (auto split: option.splits)
  ultimately show ?case using Cons.IH [OF g(2)] by auto
qed simp

lemma deletion_task_objs:
  assumes "ensureRenderedManifestsAreDeleted env ci w = Some (res, eo, ci', w')" "faults_ok w"
    "map_of (w_objs w') k \<noteq> map_of (w_objs w) k"
  shows "k \<in> manifest_key ` set (st_ManifestsRendered (ci_Status ci))"
  using assms(1)
proof (cases rule: deletion_task_cases)
  case (idle cond err)
  with finish_deletion_frame(1) [OF idle(1)] assms(3) show ?thesis by simp
next
  case (ran c ex completed err ci1 w1 cond result)
  then have ch: "map_of (w_objs w1) k \<noteq> map_of (w_objs w) k" using finish_deletion_frame(1) [OF ran(6)] assms(3) by simp
  obtain objects where o: "objectsForManifests (st_ManifestsRendered (ci_Status ci)) = Some objects"
    "DeleteObjects ci objects ex (Some DefaultDeletionTimeout) w = (completed, err, ci1, w1)"
    using ran(5) ch by (auto simp: DeleteRenderedObjects_def objectsForClusterInstance_def split: if_splits option.splits)
  obtain r where "r \<in> set objects" "objectKey r = k" using DeleteObjects_spec [OF o(2) assms(2)] ch by metis
  then show ?thesis using objectsForManifests_keys [OF o(1)] by blast
qed


lemma tasks_1_2_quiet:
  "total ensureValidReinstallRequest env ci w = Some (res, eo, ci', w') \<Longrightarrow> w_objs w' = w_objs w \<and> (result_IsZero res \<longrightarrow> w' = w)"
  "total ensureStartTimeIsSet env ci w = Some (res, eo, ci', w') \<Longrightarrow> w_objs w' = w_objs w \<and> (result_IsZero res \<longrightarrow> w' = w)"
  using task_end_quiet [OF validate_end] task_end_objs [OF validate_end]
    task_end_quiet [OF start_time_end] task_end_objs [OF start_time_end]
  by (auto simp: total_def)

text \<open>An object that a Secret-only operation does not touch.\<close>

definition unharmed :: "world \<Rightarrow> world \<Rightarrow> bool" where
  "unharmed w w' \<longleftrightarrow> (\<forall>k obj. map_of (w_objs w) k = Some obj \<longrightarrow> map_of (w_objs w') k \<noteq> None
     \<and> (k_Kind k \<noteq> ''Secret'' \<longrightarrow> map_of (w_objs w') k = Some obj))"

lemma unharmed_cong: "w_objs w' = w_objs w \<Longrightarrow> unharmed w w'"
  by (simp add: unharmed_def)

lemma unharmed_trans: "unharmed u v \<Longrightarrow> unharmed v w \<Longrightarrow> unharmed u w"
  unfolding unharmed_def by (metis not_None_eq)

lemma labelled_unharmed: "labelled w w' \<Longrightarrow> unharmed w w'"
  unfolding labelled_def unharmed_def using touches_obj [of "{k. k_Kind k = ''Secret''}" w w'] by fastforce

lemma backup_unharmed:
  assumes "backup_rel owner gen (backup_keys ns g) w w'"
  shows "unharmed w w'"
proof -
  have "k_Kind k = ''Secret''" if "k \<in> backup_keys ns g" for k using that by (auto simp: backup_keys_def backup_key_def)
  then have "touches {k. k_Kind k = ''Secret''} w w'"
    using assms touches_mono [of "backup_keys ns g" w w' "{k. k_Kind k = ''Secret''}"] unfolding backup_rel_def by blast
  then show ?thesis
    using assms touches_obj [of "{k. k_Kind k = ''Secret''}" w w'] unfolding backup_rel_def unharmed_def by fastforce
qed

text \<open>Each of the first four tasks leaves the objects unharmed, so a run that harms one goes on.\<close>

lemma task_1_passed:
  assumes "run_tasks env (Task d (total ensureValidReinstallRequest) b # ts) ci w = Some ls" "synced ci w" "\<not> unharmed w (l_world ls)"
  shows "run_tasks env ts ci w = Some ls"
  using assms(1,2) validate_task.reinstall_task_axioms
proof (cases rule: run_tasks_Cons_cases)
  case stop
  then show ?thesis using assms(3) unharmed_cong tasks_1_2_quiet(1) by metis
next
  case (go_on res w')
  then show ?thesis using tasks_1_2_quiet(1) by metis
qed

lemma task_2_passed:
  assumes "run_tasks env (Task d (total ensureStartTimeIsSet) b # ts) ci w = Some ls" "synced ci w" "\<not> unharmed w (l_world ls)"
  shows "run_tasks env ts ci w = Some ls"
  using assms(1,2) start_time_task.reinstall_task_axioms
proof (cases rule: run_tasks_Cons_cases)
  case stop
  then show ?thesis using assms(3) unharmed_cong tasks_1_2_quiet(2) by metis
next
  case (go_on res w')
  then show ?thesis using tasks_1_2_quiet(2) by metis
qed

lemma task_3_passed:
  assumes "run_tasks env (Task d (total applyPreservedLabelToClusterInstanceSecrets) b # ts) ci w = Some ls" "synced ci w"
    "\<not> unharmed w (l_world ls)" "objs_ok w" "labels_ok w" "faults_ok w"
  obtains w3 where "labelled w w3" "synced ci w3" "run_tasks env ts ci w3 = Some ls"
proof -
  let ?f = "total applyPreservedLabelToClusterInstanceSecrets"
  have lab: "labelled w w'" if "?f env ci w = Some (res, eo, ci', w')" for res eo ci' w'
    using that label_secrets_labelled [OF _ assms(4-6)]
    by (auto simp: total_def applyPreservedLabelToClusterInstanceSecrets_def simp del: label_secrets.simps split: prod.splits)
  from assms(1,2) label_task.reinstall_task_axioms show thesis
  proof (cases rule: run_tasks_Cons_cases)
    case stop
    then show ?thesis using assms(3) labelled_unharmed lab by metis
  next
    case (go_on res w')
    then show ?thesis using that lab by metis
  qed
qed

lemma task_4_passed:
  assumes "run_tasks env (Task d (total ensureDataIsPreserved) b # ts) ci w = Some ls" "synced ci w"
    "\<not> unharmed w (l_world ls)" "objs_ok w" "faults_ok w" "rs_Generation (reinstall_spec ci) \<noteq> []"
    "rs_PreservationMode (reinstall_spec ci) \<noteq> PreservationModeNone"
  obtains u w4 where "Backup (e_codec env) ci w = (None, u)" "w_objs w4 = w_objs u" "faults_ok w4" "synced ci w4"
    "run_tasks env ts ci w4 = Some ls"
proof -
  let ?f = "total ensureDataIsPreserved"
  have pres: "\<exists>e u. Backup (e_codec env) ci w = (e, u) \<and> w_objs w' = w_objs u
      \<and> (result_IsZero res \<and> eo = None \<longrightarrow> e = None \<and> faults_ok w')"
    if "?f env ci w = Some (res, eo, ci', w')" for res eo ci' w'
  proof -
    have "ensureDataIsPreserved env ci w = (res, eo, ci', w')" using that by (simp add: total_def)
    then obtain x y err v where p: "preserve_data env ci w = (x, y, err, v)" "task_end ci v res ci' w'" "err \<noteq> None \<longrightarrow> eo \<noteq> None"
      by (rule preserve_end)
    from p(1) assms(4,5,7) obtain e u where u: "Backup (e_codec env) ci w = (e, u)" "w_objs v = w_objs u"
      "err = None \<longrightarrow> e = None" "faults_ok u \<longrightarrow> faults_ok v" by (rule preserve_data_spec)
    have "faults_ok u" using Backup_spec [OF u(1) assms(4-6) refl refl] unfolding backup_rel_def by blast
    with u p(3) task_end_objs [OF p(2)] task_end_quiet [OF p(2)] show ?thesis by auto
  qed
  have harm: "unharmed w w'" if "?f env ci w = Some (res, eo, ci', w')" for res eo ci' w'
    using pres [OF that] Backup_spec [OF _ assms(4-6) refl refl] backup_unharmed unharmed_cong unharmed_trans by metis
  from assms(1,2) preserve_task.reinstall_task_axioms show thesis
  proof (cases rule: run_tasks_Cons_cases)
    case stop
    then show ?thesis using assms(3) harm by metis
  next
    case (go_on res w')
    then obtain u where "Backup (e_codec env) ci w = (None, u)" "w_objs w' = w_objs u" "faults_ok w'"
      using pres by metis
    with go_on that show ?thesis by blast
  qed
qed

text \<open>
  If an object is harmed while the deletion is pending, the loop stopped at the deletion task, and the
  backups had been taken before.
\<close>

lemma harmed_after_backup:
  assumes run: "run_tasks env tasks ci w = Some ls" "synced ci w"
    and ok: "objs_ok w" "labels_ok w" "faults_ok w" "rs_Generation (reinstall_spec ci) \<noteq> []"
    and mode: "rs_PreservationMode (reinstall_spec ci) \<noteq> PreservationModeNone"
    and pending: "findReinstallStatusCondition ci ReinstallRenderedManifestsDeleted = Some c"
      "c_Reason c \<noteq> Failed" "c_Reason c \<noteq> Completed"
    and harmed: "\<not> unharmed w (l_world ls)"
  obtains w3 u w4 where "labelled w w3" "Backup (e_codec env) ci w3 = (None, u)" "w_objs w4 = w_objs u" "faults_ok w4"
    "ensureRenderedManifestsAreDeleted env ci w4 = Some (l_result ls, l_err ls, l_ci ls, l_world ls)"
proof -
  note r2 = task_2_passed [OF task_1_passed [OF run(1) [unfolded tasks_def] run(2) harmed] run(2) harmed]
  from r2 run(2) harmed ok(1-3) obtain w3 where w3: "labelled w w3" "synced ci w3"
    "run_tasks env [Task ''Preserving data'' (total ensureDataIsPreserved) True,
       Task ''Deleting rendered manifests'' ensureRenderedManifestsAreDeleted False,
       Task ''Restoring preserved data'' (total ensurePreservedDataIsRestored) True] ci w3 = Some ls"
    by (rule task_3_passed)
  have ok3: "objs_ok w3" "faults_ok w3" "\<not> unharmed w3 (l_world ls)"
    using w3(1) harmed unharmed_trans labelled_unharmed [OF w3(1)] unfolding labelled_def by blast+
  from w3(3,2) ok3(3,1,2) ok(4) mode obtain u w4 where w4: "Backup (e_codec env) ci w3 = (None, u)" "w_objs w4 = w_objs u"
    "faults_ok w4" "synced ci w4"
    "run_tasks env [Task ''Deleting rendered manifests'' ensureRenderedManifestsAreDeleted False,
       Task ''Restoring preserved data'' (total ensurePreservedDataIsRestored) True] ci w4 = Some ls"
    by (rule task_4_passed)
  from w4(5,4) deletion_task.reinstall_task_axioms show thesis
  proof (cases rule: run_tasks_Cons_cases)
    case stop
    then show ?thesis using that w3(1) w4(1-3) by metis
  next
    case (go_on res w')
    then show ?thesis using deletion_quiet [OF _ go_on(2) w4(4)] pending by metis
  qed
qed


text \<open>Only the loop over the tasks changes objects.\<close>

lemma ProcessRequest_objs:
  assumes "ProcessRequest env ci w = Some (res, eo, ci', w')" "map_of (w_cis w) (ci_key ci) = Some ci" "w_objs w' \<noteq> w_objs w"
  obtains ls where "run_tasks env tasks ci w = Some ls" "conclude ls = (res, eo, ci', w')" "synced ci w"
    "w_objs (l_world ls) = w_objs w'"
  using assms(1)
proof (cases rule: ProcessRequest_cases)
  case nothing
  with assms(3) show ?thesis by simp
next
  case (initialize ie)
  from initialize(2) assms(2) have "w_objs w' = w_objs w" by (rule initialize_effect)
  with assms(3) show ?thesis by simp
next
  case (enter ci1 po cond)
  with assms(3) ci_status.patch_frame [OF enter(3)] show ?thesis by simp
next
  case (tasks ls cond)
  have "synced ci w" using assms(2) tasks(2) by (auto simp: synced_def isNewRequest_def split: option.splits)
  with tasks that conclude_objs [OF tasks(4)] show ?thesis by metis
qed

section \<open>Properties\<close>

text \<open>C1: No deletion before a complete backup: if a call of \<open>ProcessRequest\<close> removes an object, or changes one
  that is not a Secret, while the deletion of the rendered manifests is pending, then every ConfigMap
  and Secret that the preservation mode selects has its backup Secret (with the label by which it is
  restored, the owner and the generation of the request) after the call, unless the backup Secret
  itself is recorded as a rendered manifest.\<close>

theorem reinstall_backs_up_before_deleting:
  assumes "ProcessRequest env ci w = Some (res, eo, ci', w')" "map_of (w_cis w) (ci_key ci) = Some ci"
    "objs_ok w" "labels_ok w" "faults_ok w" "rs_Generation (reinstall_spec ci) \<noteq> []"
    "findReinstallStatusCondition ci ReinstallRenderedManifestsDeleted = Some c" "c_Reason c \<noteq> Failed" "c_Reason c \<noteq> Completed"
    "map_of (w_objs w) k = Some obj" "map_of (w_objs w') k = None \<or> k_Kind k \<noteq> ''Secret'' \<and> map_of (w_objs w') k \<noteq> Some obj"
    "buildBackupLabelSelector (rs_PreservationMode (reinstall_spec ci)) = Inr (Some sel)"
    "map_of (w_objs w) (ObjKey ''v1'' rt (om_Namespace (ci_Meta ci)) name) = Some rsc" "matches sel (om_Labels (o_Meta rsc))"
    "rt = configMapResourceType \<or> rt = secretResourceType"
    "ObjKey ''v1'' ''Secret'' (om_Namespace (ci_Meta ci)) (generateBackupName rt name (rs_Generation (reinstall_spec ci)))
       \<notin> manifest_key ` set (st_ManifestsRendered (ci_Status ci))"
  shows "\<exists>b. map_of (w_objs w') (ObjKey ''v1'' ''Secret'' (om_Namespace (ci_Meta ci))
      (generateBackupName rt name (rs_Generation (reinstall_spec ci)))) = Some b
    \<and> GetOwner b = owner_label ci
    \<and> map_of (om_Annotations (o_Meta b)) reinstallGenerationAnnotationKey = Some (rs_Generation (reinstall_spec ci))
    \<and> ghas (om_Labels (o_Meta b)) (backup_label (rs_PreservationMode (reinstall_spec ci)))"
proof -
  let ?ns = "om_Namespace (ci_Meta ci)" and ?gen = "rs_Generation (reinstall_spec ci)" and ?mode = "rs_PreservationMode (reinstall_spec ci)"
  have ch: "w_objs w' \<noteq> w_objs w" using assms(10,11) by auto
  obtain ls where ls: "run_tasks env tasks ci w = Some ls" "synced ci w" "w_objs (l_world ls) = w_objs w'"
    using ProcessRequest_objs [OF assms(1,2) ch] by blast
  have harmed: "\<not> unharmed w (l_world ls)" using assms(10,11) ls(3) unfolding unharmed_def by auto
  have mode: "?mode \<noteq> PreservationModeNone" using assms(12) by (auto simp: buildBackupLabelSelector_def)
  from ls(1,2) assms(3-6) mode assms(7-9) harmed obtain w3 u w4 where chain: "labelled w w3"
    "Backup (e_codec env) ci w3 = (None, u)" "w_objs w4 = w_objs u" "faults_ok w4"
    "ensureRenderedManifestsAreDeleted env ci w4 = Some (l_result ls, l_err ls, l_ci ls, l_world ls)"
    by (rule harmed_after_backup)
  obtain rsc3 where r3: "map_of (w_objs w3) (ObjKey ''v1'' rt ?ns name) = Some rsc3" "label_added rsc rsc3"
    using chain(1) assms(13) unfolding labelled_def by blast
  have "backed_up (owner_label ci) ?gen (backup_label ?mode) u (backup_key ?ns ?gen rt name)"
    using Backup_spec [OF chain(2) _ _ assms(6) refl refl] chain(1) assms(12,15) r3(1) label_added_matches [OF r3(2) assms(12,14)]
    unfolding labelled_def by blast
  moreover have "map_of (w_objs w') (backup_key ?ns ?gen rt name) = map_of (w_objs u) (backup_key ?ns ?gen rt name)"
    using deletion_task_objs [OF chain(5,4)] assms(16) chain(3) ls(3) unfolding backup_key_def by metis
  ultimately show ?thesis by (auto simp: backed_up_def stamped_def backup_key_def split: option.splits)
qed

text \<open>With reinstalls not enabled in the configuration, a call of \<open>ProcessRequest\<close> creates, changes or deletes
  no object.\<close>

theorem reinstall_disabled_changes_nothing:
  assumes "ProcessRequest env ci w = Some (res, eo, ci', w')" "map_of (w_cis w) (ci_key ci) = Some ci" "\<not> e_AllowReinstalls env"
  shows "w_objs w' = w_objs w"
proof (rule ccontr)
  assume "w_objs w' \<noteq> w_objs w"
  then obtain ls where ls: "run_tasks env tasks ci w = Some ls" "synced ci w" "w_objs (l_world ls) = w_objs w'"
    using ProcessRequest_objs [OF assms(1,2)] by blast
  have fails: "eo \<noteq> None" if "total ensureValidReinstallRequest env ci w = Some (res, eo, ci', w')" for res eo ci' w'
    using that assms(3) by (auto simp: total_def ensureValidReinstallRequest_def Let_def split: prod.splits if_splits
        elim!: patch_or_wrap_cases split: option.splits)
  from ls(1) [unfolded tasks_def] ls(2) validate_task.reinstall_task_axioms have "w_objs (l_world ls) = w_objs w"
  proof (cases rule: run_tasks_Cons_cases)
    case stop
    then show ?thesis using tasks_1_2_quiet(1) by blast
  next
    case (go_on res w')
    then show ?thesis using fails by blast
  qed
  with ls(3) \<open>w_objs w' \<noteq> w_objs w\<close> show False by simp
qed


section \<open>Witnesses\<close>

theorem reinstall_disabled_changes_nothing_witness:
  "w_objs (call (sample_env False) (reinstall_world PreservationModeNone)) = w_objs (reinstall_world PreservationModeNone)"
proof -
  have e: "map_of (w_cis (reinstall_world PreservationModeNone)) (''ns'', ''c'') = Some (reinstall_ci PreservationModeNone)"
    "ci_key (reinstall_ci PreservationModeNone) = (''ns'', ''c'')" "\<not> e_AllowReinstalls (sample_env False)"
    "ProcessRequest (sample_env False) (reinstall_ci PreservationModeNone) (reinstall_world PreservationModeNone) \<noteq> None"
    by code_simp+
  show ?thesis
    by (rule call_run [OF e(1,4)]) (use reinstall_disabled_changes_nothing e(1-3) in metis)
qed

text \<open>
  A request that preserves everything, before the deletion, with one ConfigMap to preserve and one
  rendered Secret.
\<close>

definition identity_config :: kobject where
  "identity_config = (new_object ''v1'' ''ConfigMap'' ''ns'' ''cm'')\<lparr>o_Data := [(''k'', ''v'')],
     o_Meta := empty_meta\<lparr>om_Name := ''cm'', om_Namespace := ''ns'',
       om_Labels := [(PreservationLabelKey, ClusterIdentityLabelValue)]\<rparr>\<rparr>"

definition pending_condition :: Condition where
  "pending_condition = deleted_condition ConditionFalse InProgress ''Rendered manifests are being deleted''"

definition deleting_status :: ReinstallStatus where
  "deleting_status = \<lparr>r_Conditions =
     [processed_condition ConditionFalse InProgress ''Deleting rendered manifests'',
      conditionSetter ReinstallRequestValidated ConditionTrue Completed ''Valid reinstall request'',
      conditionSetter ReinstallPreservationDataBackedup ConditionTrue Completed ''Number of resources preserved: 1 '',
      conditionSetter ReinstallClusterIdentityDataDetected ConditionTrue DataAvailable ''Number of cluster identity resources detected: 1 '',
      pending_condition,
      initial_condition 100 ReinstallPreservationDataRestored,
      initial_condition 100 ReinstallClusterReimported],
     r_InProgressGeneration = ''g1'', r_ObservedGeneration = [], r_RequestStartTime = 100, r_RequestEndTime = 0, r_History = []\<rparr>"

definition deleting_ci :: ClusterInstance where
  "deleting_ci = (reinstall_ci PreservationModeAll)\<lparr>ci_Status :=
     (ci_Status (reinstall_ci PreservationModeAll))\<lparr>st_Reinstall := Some deleting_status\<rparr>\<rparr>"

definition deleting_world :: world where
  "deleting_world = \<lparr>w_now = 100, w_faults = [], w_objs = map (\<lambda>obj. (okey obj, obj)) [deletion_obj, identity_config],
     w_cis = [((''ns'', ''c''), deleting_ci)]\<rparr>"

lemma deleting_call:
  "map_of (w_cis deleting_world) (''ns'', ''c'') = Some deleting_ci" "ci_key deleting_ci = (''ns'', ''c'')"
  "ProcessRequest (sample_env True) deleting_ci deleting_world \<noteq> None"
  "objs_ok deleting_world" "labels_ok deleting_world" "faults_ok deleting_world" "rs_Generation (reinstall_spec deleting_ci) \<noteq> []"
  "findReinstallStatusCondition deleting_ci ReinstallRenderedManifestsDeleted = Some pending_condition"
  "c_Reason pending_condition \<noteq> Failed" "c_Reason pending_condition \<noteq> Completed"
  "map_of (w_objs deleting_world) (okey deletion_obj) = Some deletion_obj"
  "map_of (w_objs (call (sample_env True) deleting_world)) (okey deletion_obj) = None"
  "buildBackupLabelSelector (rs_PreservationMode (reinstall_spec deleting_ci)) = Inr (Some (Exists PreservationLabelKey))"
  "map_of (w_objs deleting_world) (ObjKey ''v1'' configMapResourceType (om_Namespace (ci_Meta deleting_ci)) ''cm'') = Some identity_config"
  "matches (Exists PreservationLabelKey) (om_Labels (o_Meta identity_config))"
  by code_simp+

lemma backup_not_rendered:
  "ObjKey ''v1'' ''Secret'' (om_Namespace (ci_Meta deleting_ci)) (generateBackupName configMapResourceType ''cm''
     (rs_Generation (reinstall_spec deleting_ci))) \<notin> manifest_key ` set (st_ManifestsRendered (ci_Status deleting_ci))"
  by code_simp

theorem reinstall_backs_up_before_deleting_witness:
  "\<exists>b. map_of (w_objs (call (sample_env True) deleting_world)) (ObjKey ''v1'' ''Secret'' (om_Namespace (ci_Meta deleting_ci))
      (generateBackupName configMapResourceType ''cm'' (rs_Generation (reinstall_spec deleting_ci)))) = Some b
    \<and> GetOwner b = owner_label deleting_ci"
proof (rule call_run [OF deleting_call(1,3)])
  fix res eo ci'
  assume run: "ProcessRequest (sample_env True) deleting_ci deleting_world = Some (res, eo, ci', call (sample_env True) deleting_world)"
  have stored: "map_of (w_cis deleting_world) (ci_key deleting_ci) = Some deleting_ci" using deleting_call(1,2) by simp
  show ?thesis
    using reinstall_backs_up_before_deleting [OF run stored deleting_call(4-11) disjI1 [OF deleting_call(12)] deleting_call(13-15)
        disjI1 [OF refl] backup_not_rendered] by blast
qed

end
