(* ===== verification/Reinstall_Outcome.thy ===== *)
theory Reinstall_Outcome
  imports Reinstall_Safety
begin

text \<open>
  How a reinstall request begins and ends: the initial status, what a recorded end time means, and two
  runs in which the recorded outcome does not match what happened.
\<close>

section \<open>Lemmas\<close>

text \<open>A task that fails the request has written nothing to the ClusterInstance.\<close>

definition ends :: "(reinstall_env \<Rightarrow> ClusterInstance \<Rightarrow> world \<Rightarrow> task_result) \<Rightarrow> bool" where
  "ends f \<longleftrightarrow> (\<forall>env ci w res eo ci' w'. f env ci w = (res, eo, ci', w') \<longrightarrow> (\<exists>v. task_end ci v res ci' w' \<and> touches UNIV w v))"

lemma task_ends:
  "ends ensureValidReinstallRequest" "ends ensureStartTimeIsSet" "ends applyPreservedLabelToClusterInstanceSecrets"
  "ends ensureDataIsPreserved" "ends ensurePreservedDataIsRestored"
  unfolding ends_def
  using validate_end start_time_end label_end touches_refl preserve_end preserve_data_effect(1) restore_end by metis+

lemma failing_task_wrote_nothing:
  assumes "t \<in> set tasks" "t_FailOnError t" "t_Run t env ci v = Some (res, eo, ci', w')" "result_IsZero res"
  shows "ci' = ci \<and> w_cis w' = w_cis v"
proof -
  have "\<exists>f. t_Run t = total f \<and> ends f"
    using assms(1,2) task_ends by (auto simp: tasks_def)
  then obtain f where f: "t_Run t = total f" "ends f" by blast
  have "f env ci v = (res, eo, ci', w')" using assms(3) f(1) by (simp add: total_def)
  then obtain u where u: "task_end ci u res ci' w'" "touches UNIV v u" using f(2) unfolding ends_def by blast
  show ?thesis using task_end_contract(1) [OF u assms(4)] .
qed

lemma processed_stays:
  assumes "isRequestProcessed ci" "s_Reinstall (ci_Spec ci) \<noteq> None"
  shows "ProcessRequest env ci w = Some (zero_result, None, ci, w)"
  using assms by (auto simp: ProcessRequest_def)

lemma concluded_end:
  "r_RequestEndTime (concluded ls r) = (if l_setEndtime ls \<and> l_err ls \<noteq> None then w_now (l_world ls) else r_RequestEndTime r)"
  "r_ObservedGeneration (concluded ls r) = r_ObservedGeneration r"
  "r_InProgressGeneration (concluded ls r) = r_InProgressGeneration r"
  by (auto simp: concluded_def Let_def)

lemma concluded_failed:
  assumes "stopped_at t ls" "result_IsZero (l_result ls)"
  shows "\<exists>c. FindStatusCondition (r_Conditions (concluded ls r)) ReinstallRequestProcessed = Some c
    \<and> c_Reason c = Failed \<and> c_Status c = ConditionFalse"
proof -
  have c: "c_Type (l_cond ls) = ReinstallRequestProcessed" "c_Status (l_cond ls) = ConditionFalse" "c_Reason (l_cond ls) = Failed"
    using assms by (auto simp: stopped_at_def)
  show ?thesis
    using meta_Set_find_same [of "w_now (l_world ls)" "r_Conditions r" "l_cond ls"] c by (auto simp: concluded_def Let_def)
qed

text \<open>The two ways in which the loop over the tasks ends, and what an end time that was stored then means.\<close>

lemma finished_end:
  assumes "ls = finish_request env ci x" "synced ci x" "st_Reinstall (ci_Status ci) = Some r" "IsZero (r_RequestEndTime r)"
    "conclude ls = (res, eo, ci', w')" "map_of (w_cis w') (ci_key ci) = Some s'"
    "\<not> IsZero (r_RequestEndTime (reinstall_status s'))" "ci_Spec s' = ci_Spec ci"
  shows "isRequestProcessed s'"
proof -
  obtain fe cf wf where f: "finalizeReinstallRequest env ci x = (fe, cf, wf)" by (metis prod_cases3)
  have ls: "l_ci ls = cf" "l_world ls = wf" "\<not> l_setEndtime ls"
    using assms(1) f by (simp_all add: finish_request_def split: option.splits)
  note fin = finalize_effect [OF f assms(2,3)]
  obtain s rm where s: "map_of (w_cis wf) (ci_key ci) = Some s" "ci_key cf = ci_key ci" "st_Reinstall (ci_Status cf) = Some rm"
    "if fe = None then st_Reinstall (ci_Status s) = Some rm
       \<and> (\<exists>d u. finalized_status (w_now x) (rs_Generation (reinstall_spec ci)) d r = (rm, u))
     else st_Reinstall (ci_Status s) = Some r \<and> r_Conditions rm = r_Conditions r" using fin by blast
  obtain rs where rs: "st_Reinstall (ci_Status s) = Some rs" "fe = None \<longrightarrow> rs = rm" "fe \<noteq> None \<longrightarrow> rs = r"
    using s(4) by (auto split: if_splits)
  have key: "ci_key ci = ci_key (l_ci ls)" using ls s by simp
  note c = conclude_effect(4) [OF assms(5) key _ _ rs(1) assms(6), unfolded ls, OF s(1,3)]
  show ?thesis
  proof (cases fe)
    case None
    then have "st_Reinstall (ci_Status s') = Some rm \<or> st_Reinstall (ci_Status s') = Some (concluded ls rm)" using c rs(2) by simp
    moreover have "r_ObservedGeneration rm = rs_Generation (reinstall_spec ci)"
      using s(4) None finalized_fields(1) by auto
    ultimately show ?thesis
      using assms(8) concluded_end(2) by (auto simp: isRequestProcessed_def reinstall_spec_def)
  next
    case (Some e)
    then have "r_RequestEndTime (reinstall_status s') = r_RequestEndTime r"
      using c rs(3) ls(3) by (auto simp: reinstall_status_def merge_reinstall_fields_def concluded_end)
    with assms(4,7) show ?thesis by simp
  qed
qed

lemma stopped_end:
  assumes "t \<in> set tasks" "t_Run t env ci x = Some (l_result ls, l_err ls, l_ci ls, l_world ls)" "stopped_at t ls" "synced ci x"
    "st_Reinstall (ci_Status ci) = Some r" "r_InProgressGeneration r = rs_Generation (reinstall_spec ci)" "IsZero (r_RequestEndTime r)"
    "conclude ls = (res, eo, ci', w')" "map_of (w_cis w') (ci_key ci) = Some s'"
    "\<not> IsZero (r_RequestEndTime (reinstall_status s'))" "ci_Spec s' = ci_Spec ci"
  shows "isRequestProcessed s'"
proof -
  have "reinstall_task (t_Run t)" using tasks_contract assms(1) by blast
  from reinstall_task.kept [OF this assms(2) synced_kept [OF assms(4)]]
  have kept: "state_kept ci (l_ci ls) (l_world ls)" .
  then obtain s rs rm where s: "map_of (w_cis (l_world ls)) (ci_key ci) = Some s" "st_Reinstall (ci_Status s) = Some rs"
    "st_Reinstall (ci_Status (l_ci ls)) = Some rm" "r_RequestEndTime rs = r_RequestEndTime r" "r_RequestEndTime rm = r_RequestEndTime r"
    "ci_key (l_ci ls) = ci_key ci"
    using assms(5) by (auto simp: state_kept_def advances_def ci_key_def split: option.splits)
  note c = conclude_effect(4) [OF assms(8) s(6)[symmetric] s(1,3,2) assms(9)]
  show ?thesis
  proof (cases "l_setEndtime ls \<and> l_err ls \<noteq> None")
    case False
    then have "r_RequestEndTime (concluded ls rm) = r_RequestEndTime rm" by (auto simp: concluded_end)
    then have "r_RequestEndTime (reinstall_status s') = r_RequestEndTime r"
      using c s(4) by (auto simp: reinstall_status_def merge_reinstall_fields_def)
    with assms(7) assms(10) show ?thesis by simp
  next
    case True
    then have z: "result_IsZero (l_result ls)" "t_FailOnError t" using assms(3) by (auto simp: stopped_at_def split: if_splits)
    have w: "l_ci ls = ci" "w_cis (l_world ls) = w_cis x"
      using failing_task_wrote_nothing [OF assms(1) z(2) assms(2) z(1)] by simp_all
    have "map_of (w_cis (l_world ls)) (ci_key ci) = Some ci" using w(2) assms(4) unfolding synced_def by metis
    with s(1) have "s = ci" by simp
    with s(2,3) w(1) assms(5) have "rs = r" "rm = r" by simp_all
    then have "st_Reinstall (ci_Status s') = Some (concluded ls r)"
      using c assms(10) assms(7) by (auto simp: reinstall_status_def)
    moreover have "\<not> IsZero (r_RequestEndTime (concluded ls r))"
      using assms(10) calculation by (simp add: reinstall_status_def)
    moreover obtain c where "FindStatusCondition (r_Conditions (concluded ls r)) ReinstallRequestProcessed = Some c"
      "c_Reason c = Failed" "c_Status c \<noteq> ConditionUnknown"
      using concluded_failed [OF assms(3) z(1), of r] by (auto simp: ConditionFalse_def ConditionUnknown_def)
    moreover have "r_InProgressGeneration (concluded ls r) = rs_Generation (reinstall_spec s')"
      using assms(6,11) by (simp add: concluded_end reinstall_spec_def)
    ultimately show ?thesis by (simp add: isRequestProcessed_def)
  qed
qed

section \<open>Properties\<close>

text \<open>C4: A request gets an end time only when it is over. If a call of \<open>ProcessRequest\<close> stores an end time for a
  request that had none, the request counts as processed from then on, whether it completed or
  failed: every later call does nothing, in any state of the cluster.\<close>

theorem reinstall_end_is_final:
  assumes "ProcessRequest env ci w = Some (res, eo, ci', w')" "map_of (w_cis w) (ci_key ci) = Some ci"
    "s_Reinstall (ci_Spec ci) \<noteq> None" "w_now w \<noteq> 0" "IsZero (r_RequestEndTime (reinstall_status ci))"
    "map_of (w_cis w') (ci_key ci) = Some s'" "\<not> IsZero (r_RequestEndTime (reinstall_status s'))"
  shows "isRequestProcessed s' \<and> ProcessRequest env' s' v = Some (zero_result, None, s', v)"
proof -
  have spec: "ci_Spec s' = ci_Spec ci" using process_ledger_step [OF assms(1,2,6)] by blast
  have "isRequestProcessed s'"
    using assms(1)
  proof (cases rule: ProcessRequest_cases)
    case nothing
    with assms(2,5-7) show ?thesis by simp
  next
    case (initialize ie)
    from initialize(2) assms(2) obtain r' u where
      r: "initialized_status (w_now w) (rs_Generation (reinstall_spec ci)) (st_Reinstall (ci_Status ci)) = (r', u)"
      "ci' = ci\<lparr>ci_Status := (ci_Status ci)\<lparr>st_Reinstall := Some r'\<rparr>\<rparr>"
      "map_of (w_cis w') (ci_key ci) = Some (if ie = None \<and> u then ci' else ci)"
      by (rule initialize_effect)
    have "r_RequestEndTime r' = 0" using initialized_fields(4) [OF r(1)] .
    with r(2,3) assms(5-7) show ?thesis by (auto simp: reinstall_status_def IsZero_def split: if_splits)
  next
    case (enter ci1 po cond)
    obtain r where r: "st_Reinstall (ci_Status ci) = Some r"
      using enter(2) by (auto simp: isNewRequest_def split: option.splits)
    have sync: "synced ci w" using assms(2) r by (simp add: synced_def)
    have "state_kept ci ci' w'"
      using patch_kept [OF enter(3) synced_kept [OF sync]] begin_frame [OF enter(6) r] by blast
    then have "advances ci s'" using assms(6) by (simp add: state_kept_def)
    then show ?thesis using assms(5,7) by (auto simp: advances_def reinstall_status_def)
  next
    case (tasks ls cond)
    obtain r where r: "st_Reinstall (ci_Status ci) = Some r" "r_InProgressGeneration r = rs_Generation (reinstall_spec ci)"
      using tasks(2) by (auto simp: isNewRequest_def split: option.splits)
    have sync: "synced ci w" using assms(2) r by (simp add: synced_def)
    have zero: "IsZero (r_RequestEndTime r)" using assms(5) r(1) by (simp add: reinstall_status_def)
    from tasks(3) sync tasks_contract show ?thesis
    proof (cases rule: run_tasks_cases)
      case (finished x)
      have "synced ci x" using sync finished(1) by (simp add: synced_def)
      then show ?thesis using finished_end [OF finished(3) _ r(1) zero tasks(4) assms(6,7) spec] by blast
    next
      case (stopped t x)
      have "synced ci x" using sync stopped(2) by (simp add: synced_def)
      then show ?thesis using stopped_end [OF stopped(1,4,5) _ r zero tasks(4) assms(6,7) spec] by blast
    qed
  qed
  then show ?thesis using processed_stays assms(3) spec by simp
qed


text \<open>A new request starts from a clean status: after \<open>initializeReinstallStatus\<close> has succeeded, the requested
  generation is in progress, there is neither a start nor an end time, each of the seven reinstall
  conditions is \<open>Unknown\<close> with the reason \<open>Initialized\<close>, and the history and the observed generation are
  those of before.\<close>

theorem reinstall_initial_status:
  assumes "initializeReinstallStatus ci w = (None, ci', w')" "map_of (w_cis w) (ci_key ci) = Some ci"
    "t \<in> set reinstallConditionTypes"
  shows "r_InProgressGeneration (reinstall_status ci') = rs_Generation (reinstall_spec ci)
    \<and> IsZero (r_RequestStartTime (reinstall_status ci')) \<and> IsZero (r_RequestEndTime (reinstall_status ci'))
    \<and> r_History (reinstall_status ci') = r_History (reinstall_status ci)
    \<and> r_ObservedGeneration (reinstall_status ci') = r_ObservedGeneration (reinstall_status ci)
    \<and> (\<exists>c. findReinstallStatusCondition ci' t = Some c \<and> c_Status c = ConditionUnknown \<and> c_Reason c = Initialized)"
proof -
  from assms(1,2) obtain r' u where
    r: "initialized_status (w_now w) (rs_Generation (reinstall_spec ci)) (st_Reinstall (ci_Status ci)) = (r', u)"
    "ci' = ci\<lparr>ci_Status := (ci_Status ci)\<lparr>st_Reinstall := Some r'\<rparr>\<rparr>"
    by (rule initialize_effect)
  note f = initialized_fields [OF r(1)]
  obtain cs where cs: "r_Conditions r' = foldl (\<lambda>ds c. fst (meta_SetStatusCondition (w_now w) ds c)) cs
      (map (initial_condition (w_now w)) reinstallConditionTypes)" using f(6) by blast
  have "distinct (map c_Type (map (initial_condition (w_now w)) reinstallConditionTypes))"
    by (simp add: reinstallConditionTypes_def initial_condition_def ReinstallRequestProcessed_def ReinstallRequestValidated_def
        ReinstallPreservationDataBackedup_def ReinstallClusterIdentityDataDetected_def ReinstallRenderedManifestsDeleted_def
        ReinstallPreservationDataRestored_def ReinstallClusterReimported_def)
  from meta_store.foldl_set_find [OF this, of "initial_condition (w_now w) t", of "w_now w" cs] assms(3)
  have "\<exists>c. FindStatusCondition (r_Conditions r') t = Some c \<and> c_Status c = ConditionUnknown \<and> c_Reason c = Initialized"
    by (auto simp: cs initial_condition_def)
  then show ?thesis
    using f(1-5) r(2) by (auto simp: reinstall_status_def findReinstallStatusCondition_def IsZero_def empty_reinstall_def split: option.splits)
qed

text \<open>A failed deletion is not tried again: with the condition \<open>RenderedManifestsDeleted\<close> at \<open>Failed\<close> the
  deletion task reports success without a single request to the API server, so the loop goes on to
  the restoration and the completion.\<close>

theorem failed_deletion_not_retried:
  assumes "findReinstallStatusCondition ci ReinstallRenderedManifestsDeleted = Some c" "c_Reason c = Failed"
    "getManagedCluster ci = Some (Inr mc)"
  shows "ensureRenderedManifestsAreDeleted env ci w = Some (zero_result, None, ci, w)"
proof -
  have "Failed \<noteq> Initialized" by (simp add: Failed_def Initialized_def)
  with assms show ?thesis
    by (simp add: ensureRenderedManifestsAreDeleted_def finish_deletion_def set_found_condition)
qed

section \<open>Sample runs\<close>

text \<open>A request without preservation, before its last task; the condition of the deletion is a parameter.\<close>

definition late_status :: "Condition \<Rightarrow> ReinstallStatus" where
  "late_status deleted = \<lparr>r_Conditions =
     [processed_condition ConditionFalse InProgress ''Restoring preserved data'',
      conditionSetter ReinstallRequestValidated ConditionTrue Completed ''Valid reinstall request'',
      conditionSetter ReinstallPreservationDataBackedup ConditionFalse PreservationNotRequired ''PreservationMode is set to None.'',
      conditionSetter ReinstallClusterIdentityDataDetected ConditionFalse PreservationNotRequired ''PreservationMode is set to None.'',
      deleted,
      conditionSetter ReinstallPreservationDataRestored ConditionFalse PreservationNotRequired ''PreservationMode is set to None.'',
      initial_condition 100 ReinstallClusterReimported],
     r_InProgressGeneration = ''g1'', r_ObservedGeneration = [], r_RequestStartTime = 100, r_RequestEndTime = 0, r_History = []\<rparr>"

definition late_ci :: "Condition \<Rightarrow> ClusterInstance" where
  "late_ci deleted = (reinstall_ci PreservationModeNone)\<lparr>ci_Status :=
     (ci_Status (reinstall_ci PreservationModeNone))\<lparr>st_Reinstall := Some (late_status deleted)\<rparr>\<rparr>"

definition late_world :: "Condition \<Rightarrow> err option list \<Rightarrow> world" where
  "late_world deleted faults = \<lparr>w_now = 100, w_faults = faults, w_objs = [(okey deletion_obj, deletion_obj)],
     w_cis = [((''ns'', ''c''), late_ci deleted)]\<rparr>"

definition failed_deletion :: Condition where
  "failed_deletion = deleted_condition ConditionFalse Failed ''forbidden''"

definition forbidden :: err where
  "forbidden = ErrAPI OtherReason ''forbidden''"

definition unfinished_world :: world where
  "unfinished_world = call (sample_env True) (late_world failed_deletion [])"


text \<open>
  The finishing call: two reads, two lists and a status patch succeed, and the patch of the deferred
  function is refused.
\<close>

definition lost_world :: world where
  "lost_world = call (sample_env True)
     (late_world (deleted_condition ConditionTrue Completed ''Successfully deleted rendered manifests'')
        [None, None, None, None, None, Some forbidden])"

lemma lost_world_stored:
  "map_of (w_cis lost_world) (''ns'', ''c'') = Some (stored_ci lost_world) \<and> isRequestProcessed (stored_ci lost_world)
   \<and> s_Reinstall (ci_Spec (stored_ci lost_world)) \<noteq> None
   \<and> map_option c_Reason (findReinstallStatusCondition (stored_ci lost_world) ReinstallRequestProcessed) = Some InProgress"
  by code_simp



section \<open>Witnesses\<close>

definition done_condition :: Condition where
  "done_condition = deleted_condition ConditionTrue Completed ''Successfully deleted rendered manifests''"

lemma late_call:
  fixes w ci w' defines "w \<equiv> late_world done_condition []" and "ci \<equiv> late_ci done_condition"
    and "w' \<equiv> call (sample_env True) w"
  shows "map_of (w_cis w) (''ns'', ''c'') = Some ci" "ci_key ci = (''ns'', ''c'')" "ProcessRequest (sample_env True) ci w \<noteq> None"
    "s_Reinstall (ci_Spec ci) \<noteq> None" "w_now w \<noteq> 0" "IsZero (r_RequestEndTime (reinstall_status ci))"
    "map_of (w_cis w') (''ns'', ''c'') = Some (stored_ci w') \<and> \<not> IsZero (r_RequestEndTime (reinstall_status (stored_ci w')))"
  unfolding w_def ci_def w'_def by code_simp+

theorem reinstall_end_is_final_witness:
  "isRequestProcessed (stored_ci (call (sample_env True) (late_world done_condition [])))"
  by (rule call_run [OF late_call(1,3)]) (use reinstall_end_is_final late_call in metis)

theorem reinstall_initial_status_witness:
  "r_InProgressGeneration (reinstall_status (fst (snd (initializeReinstallStatus (reinstall_ci PreservationModeNone)
     (reinstall_world PreservationModeNone))))) = ''g1''"
proof -
  let ?i = "initializeReinstallStatus (reinstall_ci PreservationModeNone) (reinstall_world PreservationModeNone)"
  have "fst ?i = None" by code_simp
  then have "?i = (None, fst (snd ?i), snd (snd ?i))" by (metis prod.collapse)
  moreover have "map_of (w_cis (reinstall_world PreservationModeNone)) (ci_key (reinstall_ci PreservationModeNone))
      = Some (reinstall_ci PreservationModeNone)" by code_simp
  moreover have "ReinstallRequestProcessed \<in> set reinstallConditionTypes" by (simp add: reinstallConditionTypes_def)
  moreover have "rs_Generation (reinstall_spec (reinstall_ci PreservationModeNone)) = ''g1''" by code_simp
  ultimately show ?thesis using reinstall_initial_status by metis
qed

theorem failed_deletion_not_retried_witness:
  "ensureRenderedManifestsAreDeleted (sample_env True) (late_ci failed_deletion) (late_world failed_deletion [])
     = Some (zero_result, None, late_ci failed_deletion, late_world failed_deletion [])"
proof -
  have "findReinstallStatusCondition (late_ci failed_deletion) ReinstallRenderedManifestsDeleted = Some failed_deletion"
    "c_Reason failed_deletion = Failed" "getManagedCluster (late_ci failed_deletion) = Some (Inr None)" by code_simp+
  then show ?thesis by (rule failed_deletion_not_retried)
qed

end
