(* ===== verification/Template_Data.thy ===== *)
theory Template_Data
  imports Deletion JSON_Scan Validation
begin

text \<open>
  \<open>internal/controller/clusterinstance/helper.go\<close>: the data handed to an installation template, the
  install-config overrides with their network type, the pruning and suppression lists, and the extra
  labels and annotations of a manifest. The conversion between JSON text and Go values (through
  64-bit floating point numbers) is the record \<open>json_text\<close>: reading a text into a map gives the
  error or the map, where \<open>None\<close> is the nil map a \<open>null\<close> leaves behind. A write to a nil map, which
  panics in Go, is the result \<open>None\<close>.
\<close>

type_synonym document = "(string \<times> json) list"

record json_text =
  jt_Unmarshal :: "string \<Rightarrow> err + document option"
  jt_Marshal :: "document \<Rightarrow> err + string"

definition cpuPartitioningKey :: string where "cpuPartitioningKey = ''cpuPartitioningMode''"
definition AnnotationsKey :: string where "AnnotationsKey = ''annotations''"
definition LabelsKey :: string where "LabelsKey = ''labels''"

section \<open>Install-config overrides\<close>

text \<open>The result is the text and the error, as the code returns both.\<close>

definition getWorkloadPinningInstallConfigOverrides ::
  "json_text \<Rightarrow> ClusterInstance \<Rightarrow> (string \<times> err option) option" where
  "getWorkloadPinningInstallConfigOverrides jt ci =
     (let scInstallConfigOverrides = s_InstallConfigOverrides (ci_Spec ci) in
      if s_CPUPartitioning (ci_Spec ci) = CPUPartitioningAllNodes then
        (case (if scInstallConfigOverrides \<noteq> [] then jt_Unmarshal jt scInstallConfigOverrides else Inr (Some [])) of
           Inl e \<Rightarrow> Some (scInstallConfigOverrides, Some (ErrWrap ''failed to unmarshal install config overrides JSON: '' e))
         | Inr None \<Rightarrow> None
         | Inr (Some installOverrideValues) \<Rightarrow>
             (case jt_Marshal jt (gset cpuPartitioningKey (JStr CPUPartitioningAllNodes) installOverrideValues) of
                Inl e \<Rightarrow> Some (scInstallConfigOverrides, Some (ErrWrap ''failed to marshal install override values to JSON: '' e))
              | Inr byteData \<Rightarrow> Some (byteData, None)))
      else Some (scInstallConfigOverrides, None))"

text \<open>The value of a key of a map that may be nil; a \<open>null\<close> member reads as nil, like a missing one.\<close>

definition member :: "document option \<Rightarrow> string \<Rightarrow> json option" where
  "member m key = (case m of None \<Rightarrow> None | Some d \<Rightarrow>
     (case map_of d key of Some JNull \<Rightarrow> None | v \<Rightarrow> v))"

definition mergeJSONCommonKey :: "json_text \<Rightarrow> string \<Rightarrow> string \<Rightarrow> string \<Rightarrow> err + string" where
  "mergeJSONCommonKey jt mergeWith mergeTo key =
     (case jt_Unmarshal jt mergeWith of
        Inl e \<Rightarrow> Inl (ErrWrap ''failed to unmarshal JSON mergeWith string into map: '' e)
      | Inr mapMergeWith \<Rightarrow>
          (case jt_Unmarshal jt mergeTo of
             Inl e \<Rightarrow> Inl (ErrWrap ''failed to unmarshal JSON mergeTo string into map: '' e)
           | Inr mapMergeTo \<Rightarrow>
               (case (member mapMergeWith key, member mapMergeTo key) of
                  (Some mergeWithValue, Some mergeToValue) \<Rightarrow>
                    (case mergeWithValue of
                       JObj mergeWithValueMap \<Rightarrow>
                         (case mergeToValue of
                            JObj mergeToValueMap \<Rightarrow>
                              (case jt_Marshal jt (gset key
                                  (JObj (foldl (\<lambda>m p. gset (fst p) (snd p) m) mergeToValueMap mergeWithValueMap))
                                  (the mapMergeTo)) of
                                 Inl e \<Rightarrow> Inl (ErrWrap ''failed to marshal merged map to JSON: '' e)
                               | Inr mergedJSON \<Rightarrow> Inr mergedJSON)
                          | _ \<Rightarrow> Inl (ErrNew ''value associated with mergeToValue is not a map''))
                     | _ \<Rightarrow> Inl (ErrNew ''value associated with mergeWithValue is not a map''))
                | _ \<Rightarrow> Inl (ErrNew ''key not found in one of the JSON strings''))))"

definition networkAnnotation :: "ClusterInstance \<Rightarrow> string" where
  "networkAnnotation ci =
     ''{'' @ dquote @ ''networking'' @ dquote @ '':{'' @ dquote @ ''networkType'' @ dquote @ '':'' @ dquote
     @ s_NetworkType (ci_Spec ci) @ dquote @ ''}}''"

text \<open>The last error is printed with a nil cause, since \<open>err\<close> is nil there.\<close>

definition getInstallConfigOverrides :: "json_text \<Rightarrow> ClusterInstance \<Rightarrow> (string \<times> err option) option" where
  "getInstallConfigOverrides jt ci =
     (case getWorkloadPinningInstallConfigOverrides jt ci of
        None \<Rightarrow> None
      | Some (installConfigOverrides, Some e) \<Rightarrow> Some (installConfigOverrides, Some e)
      | Some (installConfigOverrides, None) \<Rightarrow> Some
          (if \<not> json_Valid (networkAnnotation ci)
           then (installConfigOverrides, Some (ErrNew ''invalid json conversion of network type''))
           else if installConfigOverrides = [] then (networkAnnotation ci, None)
           else if \<not> json_Valid installConfigOverrides
           then ([], Some (ErrNew ''invalid json parameter set at installConfigOverride''))
           else case jt_Unmarshal jt installConfigOverrides of
             Inl e \<Rightarrow> ([], Some (ErrNew (''failed to unmarshal installConfigOverrides data: '' @ installConfigOverrides)))
           | Inr installConfigOverridesMap \<Rightarrow>
               if (case installConfigOverridesMap of None \<Rightarrow> False | Some d \<Rightarrow> ghas d ''networking'') then
                 (case mergeJSONCommonKey jt (networkAnnotation ci) installConfigOverrides ''networking'' of
                    Inl e \<Rightarrow> ([], Some (ErrWrap ''failed to merge installConfigOverrides objects, error: '' e))
                  | Inr networkMergedJson \<Rightarrow> (networkMergedJson, None))
               else
                 (let trimmedConfigOverrides = TrimPrefix installConfigOverrides ''{'';
                      trimmedNetworkType = TrimSuffix (networkAnnotation ci) ''}'';
                      finalJson = trimmedNetworkType @ '','' @ trimmedConfigOverrides
                  in if \<not> json_Valid finalJson
                     then ([], Some (ErrNew ''failed to marshal annotation for installConfigOverrides, error: %!w(<nil>)''))
                     else (finalJson, None))))"

section \<open>Cluster data\<close>

record SpecialVars =
  sv_CurrentNode :: NodeSpec
  sv_InstallConfigOverrides :: string
  sv_ReleaseImage :: string
  sv_ControlPlaneAgents :: int
  sv_WorkerAgents :: int
  sv_ArbiterAgents :: int

record ClusterData =
  cd_Spec :: ClusterInstanceSpec
  cd_SpecialVars :: SpecialVars

definition zero_node :: NodeSpec where
  "zero_node = \<lparr>n_BmcAddress = [], n_BmcCredentialsName = [], n_BootMACAddress = [],
     n_AutomatedCleaningMode = [], n_RootDeviceHints = None, n_NodeNetwork = None, n_NodeLabels = [],
     n_HostName = [], n_HostRef = None, n_CPUArchitecture = [], n_BootMode = [],
     n_InstallerArgs = [], n_IgnitionConfigOverride = [], n_Role = [],
     n_ExtraAnnotations = [], n_ExtraLabels = [], n_SuppressedManifests = [], n_PruneManifests = [],
     n_IronicInspect = [], n_TemplateRefs = []\<rparr>"

definition imageSetKey :: "string \<Rightarrow> objkey" where
  "imageSetKey name = ObjKey ''hive.openshift.io/v1'' ''ClusterImageSet'' [] name"

text \<open>The loop that counts the roles.\<close>

fun count_agents :: "NodeSpec list \<Rightarrow> int \<times> int \<times> int \<Rightarrow> int \<times> int \<times> int" where
  "count_agents [] n = n"
| "count_agents (node # nodes) (controlPlane, worker, arbiter) =
     count_agents nodes
       (if n_Role node = ''master'' then (controlPlane + 1, worker, arbiter)
        else if n_Role node = ''worker'' then (controlPlane, worker + 1, arbiter)
        else if n_Role node = ''arbiter'' then (controlPlane, worker, arbiter + 1)
        else (controlPlane, worker, arbiter))"

text \<open>
  The error of the overrides is kept in the named result \<open>err\<close> and returned with the data at the end.
  \<open>None\<close> in the first component is the nil pointer.
\<close>

definition buildClusterData :: "json_text \<Rightarrow> ClusterInstance \<Rightarrow> NodeSpec option \<Rightarrow> world
    \<Rightarrow> ((ClusterData option \<times> err option) \<times> world) option" where
  "buildClusterData jt ci node w =
     (case getInstallConfigOverrides jt ci of
        None \<Rightarrow> None
      | Some (overrides, err) \<Rightarrow>
          (let installConfigOverrides = (if err \<noteq> None then [] else overrides);
               (controlPlaneAgents, workers, arbiterAgents) = count_agents (s_Nodes (ci_Spec ci)) (0, 0, 0);
               workerAgents = (if s_ClusterType (ci_Spec ci) = ClusterTypeSNO then 0 else workers)
           in case Get (imageSetKey (s_ClusterImageSetNameRef (ci_Spec ci))) w of
                (Inl e, w') \<Rightarrow> Some ((None, Some (ErrWrap (''failed to get ClusterImageSet ''
                   @ s_ClusterImageSetNameRef (ci_Spec ci) @ '': '') e)), w')
              | (Inr clusterImageSet, w') \<Rightarrow>
                  Some ((Some \<lparr>cd_Spec = ci_Spec ci,
                    cd_SpecialVars = \<lparr>sv_CurrentNode = (case node of None \<Rightarrow> zero_node | Some n \<Rightarrow> n),
                      sv_InstallConfigOverrides = installConfigOverrides,
                      sv_ReleaseImage = (case nestedField (o_Doc clusterImageSet) [''spec'', ''releaseImage''] of
                        Some (JStr s) \<Rightarrow> s | _ \<Rightarrow> []),
                      sv_ControlPlaneAgents = controlPlaneAgents, sv_WorkerAgents = workerAgents,
                      sv_ArbiterAgents = arbiterAgents\<rparr>\<rparr>, err), w')))"

section \<open>Manifests\<close>

definition pruneManifest :: "ResourceRef \<Rightarrow> ResourceRef list \<Rightarrow> bool" where
  "pruneManifest resource pruneList =
     (if rr_APIVersion resource = [] \<or> rr_Kind resource = [] \<or> pruneList = [] then False
      else list_ex (\<lambda>p. rr_APIVersion resource = rr_APIVersion p \<and> rr_Kind resource = rr_Kind p) pruneList)"

definition suppressManifest :: "string \<Rightarrow> string list \<Rightarrow> bool" where
  "suppressManifest kind supressManifestsList =
     (if kind = [] \<or> supressManifestsList = [] then False
      else list_ex (\<lambda>manifest. manifest = kind) supressManifestsList)"

definition add_item :: "document \<Rightarrow> string \<times> string \<Rightarrow> document" where
  "add_item data p = (if ghas data (fst p) then data else gset (fst p) (JStr (snd p)) data)"

definition ensure_map :: "string \<Rightarrow> document \<Rightarrow> document" where
  "ensure_map field m = (case member (Some m) field of None \<Rightarrow> gset field (JObj []) m | Some v \<Rightarrow> m)"

text \<open>
  A field that is there but is no map is left as it is: the items go to a map that is not part of the
  manifest. Metadata that is no map reads as a nil map, and writing the field to it panics.
\<close>

definition appendToManifestMetadata :: "smap \<Rightarrow> string \<Rightarrow> document \<Rightarrow> document option" where
  "appendToManifestMetadata appendData field manifest =
     (if appendData = [] then Some manifest
      else
        (let manifest1 = ensure_map ''metadata'' manifest in
         case map_of manifest1 ''metadata'' of
           Some (JObj metadata) \<Rightarrow>
             (let metadata1 = ensure_map field metadata in
              Some (gset ''metadata''
                (JObj (case map_of metadata1 field of
                   Some (JObj data) \<Rightarrow> gset field (JObj (foldl add_item data appendData)) metadata1
                 | _ \<Rightarrow> metadata1)) manifest1))
         | _ \<Rightarrow> None))"

definition appendManifestAnnotations :: "smap \<Rightarrow> document \<Rightarrow> document option" where
  "appendManifestAnnotations extraAnnotations manifest = appendToManifestMetadata extraAnnotations AnnotationsKey manifest"

definition appendManifestLabels :: "smap \<Rightarrow> document \<Rightarrow> document option" where
  "appendManifestLabels extraLabels manifest = appendToManifestMetadata extraLabels LabelsKey manifest"

section \<open>Lemmas: extra labels and annotations\<close>

lemma nestedField_append: "nestedField j (p @ q) = Option.bind (nestedField j p) (\<lambda>v. nestedField v q)"
  by (induction j p rule: nestedField.induct) (auto split: option.split)

definition meta_item :: "document \<Rightarrow> string \<Rightarrow> string \<Rightarrow> json option" where
  "meta_item m field key = nestedField (JObj m) [''metadata'', field, key]"

text \<open>A field of the metadata to which items can be added: it is absent, null or a map.\<close>

definition settable :: "document \<Rightarrow> string \<Rightarrow> bool" where
  "settable m field \<longleftrightarrow>
     (case nestedField (JObj m) [''metadata'', field] of
        None \<Rightarrow> True | Some JNull \<Rightarrow> True | Some (JObj data) \<Rightarrow> True | Some _ \<Rightarrow> False)"

definition has_metadata :: "document \<Rightarrow> bool" where
  "has_metadata m \<longleftrightarrow> (case map_of m ''metadata'' of Some (JObj metadata) \<Rightarrow> True | _ \<Rightarrow> False)"

lemma add_items_lookup:
  "map_of (foldl add_item data items) k =
     (case map_of data k of Some v \<Rightarrow> Some v | None \<Rightarrow> map_option JStr (map_of items k))"
proof (induction items arbitrary: data)
  case (Cons p items)
  show ?case unfolding foldl_Cons Cons by (cases p) (auto simp: add_item_def ghas_def split: option.split)
qed (simp split: option.split)

text \<open>What adding items to one field of the metadata does to a manifest that has metadata.\<close>

definition only_adds :: "string \<Rightarrow> smap \<Rightarrow> document \<Rightarrow> document \<Rightarrow> bool" where
  "only_adds field items m m' \<longleftrightarrow> has_metadata m'
     \<and> (\<forall>f. f \<noteq> ''metadata'' \<longrightarrow> map_of m' f = map_of m f)
     \<and> (\<forall>f. f \<noteq> field \<longrightarrow> nestedField (JObj m') [''metadata'', f] = nestedField (JObj m) [''metadata'', f])
     \<and> (settable m field \<longrightarrow> settable m' field \<and> (\<forall>key. meta_item m' field key =
          (case meta_item m field key of Some v \<Rightarrow> Some v | None \<Rightarrow> map_option JStr (map_of items key))))"

lemma append_only_adds:
  assumes "appendToManifestMetadata items field m = Some m'" "has_metadata m"
  shows "only_adds field items m m'"
proof -
  obtain metadata where md: "map_of m ''metadata'' = Some (JObj metadata)"
    using assms(2) by (auto simp: has_metadata_def split: option.splits json.splits)
  show ?thesis
  proof (cases "items = []")
    case True
    with assms md show ?thesis
      by (auto simp: appendToManifestMetadata_def only_adds_def split: option.split)
  next
    case False
    let ?md = "ensure_map field metadata"
    let ?new = "case map_of ?md field of Some (JObj data) \<Rightarrow> gset field (JObj (foldl add_item data items)) ?md | _ \<Rightarrow> ?md"
    have e: "ensure_map ''metadata'' m = m" using md by (simp add: ensure_map_def member_def)
    have m': "m' = gset ''metadata'' (JObj ?new) m"
      using assms(1) md False e by (simp add: appendToManifestMetadata_def Let_def)
    have other: "map_of ?new f = map_of metadata f" if "f \<noteq> field" for f
      using that by (auto simp: ensure_map_def member_def split: option.split json.split)
    have same: "\<exists>data data'. map_of ?new field = Some (JObj data') \<and> data' = foldl add_item data items
        \<and> (\<forall>key. meta_item m field key = map_of data key)" if s: "settable m field"
    proof (cases "map_of metadata field")
      case None
      then show ?thesis using md by (auto simp: ensure_map_def member_def meta_item_def)
    next
      case (Some v)
      with s md show ?thesis
        by (cases v) (auto simp: settable_def ensure_map_def member_def meta_item_def split: option.split)
    qed
    show ?thesis
    proof (cases "settable m field")
      case True
      then obtain data data' where d: "map_of ?new field = Some (JObj data')" "data' = foldl add_item data items"
        "\<And>key. meta_item m field key = map_of data key" using same by blast
      have "meta_item m' field key = map_of data' key" for key
        using d(1) by (simp add: m' meta_item_def split: option.split)
      moreover have "settable m' field" using d(1) by (simp add: m' settable_def)
      ultimately show ?thesis
        using d(2,3) other md by (simp add: only_adds_def m' has_metadata_def add_items_lookup)
    qed (use other md in \<open>simp add: only_adds_def m' has_metadata_def\<close>)
  qed
qed

end
