(* ===== verification/Server_Apply.thy ===== *)
theory Server_Apply
  imports Deletion Template_Data
begin

text \<open>
  Server-side apply as the controllers use it (\<open>client.Patch\<close> with \<open>client.Apply\<close>, forced ownership and
  one field manager). How the server merges an applied document into the object it holds is the
  parameter \<open>ssa\<close>, from the stored object, if there is one, and the document to the rejection or the
  new object, which keeps the identity of the document. A dry-run client sends the same request and
  the server stores nothing.
\<close>

type_synonym ssa = "kobject option \<Rightarrow> document \<Rightarrow> err + kobject"

definition document_key :: "document \<Rightarrow> objkey" where
  "document_key d = objectKey \<lparr>ro_object = Some d, ro_action = actionNone\<rparr>"

definition with_key :: "objkey \<Rightarrow> kobject \<Rightarrow> kobject" where
  "with_key k obj = obj\<lparr>o_APIVersion := k_APIVersion k, o_Kind := k_Kind k,
     o_Meta := (o_Meta obj)\<lparr>om_Namespace := k_Namespace k, om_Name := k_Name k\<rparr>\<rparr>"

definition Apply :: "ssa \<Rightarrow> bool \<Rightarrow> document \<Rightarrow> world \<Rightarrow> (err + kobject) \<times> world" where
  "Apply ssa dryRun d w = (case next_fault w of
     (Some e, w') \<Rightarrow> (Inl e, w')
   | (None, w') \<Rightarrow>
       (let k = document_key d in
        case ssa (map_of (w_objs w') k) d of
          Inl e \<Rightarrow> (Inl e, w')
        | Inr obj \<Rightarrow> (Inr (with_key k obj),
            if dryRun then w' else w'\<lparr>w_objs := gset k (with_key k obj) (w_objs w')\<rparr>)))"

section \<open>Lemmas\<close>

lemma okey_with_key [simp]: "okey (with_key k obj) = k"
  by (cases k) (simp add: okey_def with_key_def)

lemma with_key_labels [simp]: "om_Labels (o_Meta (with_key k obj)) = om_Labels (o_Meta obj)"
  by (simp add: with_key_def)

lemma Apply_dry_run: "Apply ssa True d w = (r, w') \<Longrightarrow> same_state w w'"
  by (auto simp: Apply_def Let_def same_state_def split: prod.splits option.splits sum.splits)

lemma Apply_failed: "Apply ssa dry d w = (Inl e, w') \<Longrightarrow> same_state w w'"
  by (auto simp: Apply_def Let_def same_state_def split: prod.splits option.splits sum.splits)

lemma Apply_touches: "Apply ssa dry d w = (r, w') \<Longrightarrow> touches {document_key d} w w'"
  by (auto simp: Apply_def Let_def touches_def split: prod.splits option.splits sum.splits if_splits)

lemma Apply_stored:
  assumes "Apply ssa False d w = (Inr obj, w')"
  shows "map_of (w_objs w') (document_key d) = Some obj"
    "\<exists>o'. ssa (map_of (w_objs w) (document_key d)) d = Inr o' \<and> obj = with_key (document_key d) o'"
  using assms by (auto simp: Apply_def Let_def split: prod.splits option.splits sum.splits)

lemma Apply_faults_ok: "Apply ssa dry d w = (r, w') \<Longrightarrow> faults_ok w \<Longrightarrow> faults_ok w'"
  by (auto simp: Apply_def Let_def split: prod.splits option.splits sum.splits if_splits dest: next_fault_ok)

lemma Apply_objs_ok: "Apply ssa dry d w = (r, w') \<Longrightarrow> objs_ok w \<Longrightarrow> objs_ok w'"
  by (auto simp: Apply_def Let_def split: prod.splits option.splits sum.splits if_splits
      intro: objs_ok_gset [of w, OF _ okey_with_key] objs_ok_cong [THEN iffD2])

end
