(* ===== verification/Template_Engine.thy ===== *)
theory Template_Engine
  imports Template_Data
begin

text \<open>
  \<open>internal/controller/clusterinstance/template_engine.go\<close>: the rendering of the installation
  templates of a ClusterInstance and of its nodes. The template language with the functions a
  template may call, and the YAML library, are the record \<open>template_env\<close>: parsing and executing a
  template text on the cluster data, and decoding a YAML text into a document (a mapping with keys
  that are no strings is a decoding error). The entries of a ConfigMap are visited in the order of the
  association list, which stands for the unspecified order of a Go map. \<open>None\<close> is a panic of
  \<open>buildClusterData\<close> or of the extra labels.
\<close>

record template_env =
  tv_json :: json_text
  tv_Parse :: "string \<Rightarrow> string \<Rightarrow> err option"
  tv_Execute :: "string \<Rightarrow> string \<Rightarrow> ClusterData \<Rightarrow> err + string"
  tv_UnmarshalYAML :: "string \<Rightarrow> err + document"

section \<open>Rendering one template\<close>

definition validateRenderedTemplate :: "document \<Rightarrow> string \<Rightarrow> err option" where
  "validateRenderedTemplate manifest templateKey =
     (if \<not> (case map_of manifest ''apiVersion'' of Some (JStr s) \<Rightarrow> True | _ \<Rightarrow> False)
      then Some (ErrNew (''missing apiVersion in template '' @ templateKey))
      else if \<not> (case map_of manifest ''kind'' of Some (JStr s) \<Rightarrow> True | _ \<Rightarrow> False)
      then Some (ErrNew (''missing kind in template '' @ templateKey))
      else case map_of manifest ''metadata'' of
        Some (JObj metadata) \<Rightarrow>
          if \<not> (case map_of metadata ''name'' of Some (JStr s) \<Rightarrow> True | _ \<Rightarrow> False)
          then Some (ErrNew (''missing metadata.name in template '' @ templateKey)) else None
      | _ \<Rightarrow> Some (ErrNew (''missing metadata in template '' @ templateKey)))"

definition ParseTemplate :: "template_env \<Rightarrow> string \<Rightarrow> string \<Rightarrow> err option" where
  "ParseTemplate env templateKey templateStr =
     map_option (ErrWrap ''failed to parse template: '') (tv_Parse env templateKey templateStr)"

text \<open>\<open>unicode.IsSpace\<close> on the UTF-8 encoding of a text.\<close>

definition ascii_space :: "nat \<Rightarrow> bool" where
  "ascii_space b \<longleftrightarrow> b \<in> {9, 10, 11, 12, 13, 32}"

definition space2 :: "nat \<Rightarrow> nat \<Rightarrow> bool" where
  "space2 a b \<longleftrightarrow> a = 0xC2 \<and> (b = 0x85 \<or> b = 0xA0)"

definition space3 :: "nat \<Rightarrow> nat \<Rightarrow> nat \<Rightarrow> bool" where
  "space3 a b c \<longleftrightarrow> a = 0xE1 \<and> b = 0x9A \<and> c = 0x80
     \<or> a = 0xE2 \<and> b = 0x80 \<and> (0x80 \<le> c \<and> c \<le> 0x8A \<or> c = 0xA8 \<or> c = 0xA9 \<or> c = 0xAF)
     \<or> a = 0xE2 \<and> b = 0x81 \<and> c = 0x9F
     \<or> a = 0xE3 \<and> b = 0x80 \<and> c = 0x80"

fun only_space :: "nat list \<Rightarrow> bool" where
  "only_space [] = True"
| "only_space [a] = ascii_space a"
| "only_space [a, b] = (if ascii_space a then only_space [b] else space2 a b)"
| "only_space (a # b # c # cs) =
     (if ascii_space a then only_space (b # c # cs)
      else if space2 a b then only_space (c # cs)
      else if space3 a b c then only_space cs else False)"

definition render :: "template_env \<Rightarrow> string \<Rightarrow> string \<Rightarrow> ClusterData \<Rightarrow> err + document option" where
  "render env templateKey templateStr data =
     (case ParseTemplate env templateKey templateStr of
        Some e \<Rightarrow> Inl (ErrWrap (''encountered an error parsing template '' @ templateKey @ '': '') e)
      | None \<Rightarrow>
          (case tv_Execute env templateKey templateStr data of
             Inl e \<Rightarrow> Inl (ErrWrap (''failed to execute template '' @ templateKey @ '': '') e)
           | Inr buffer \<Rightarrow>
               if only_space (map of_char buffer) then Inr None
               else case tv_UnmarshalYAML env buffer of
                 Inl e \<Rightarrow> Inl (ErrWrap ''failed to unmarshal YAML: '' e)
               | Inr renderedTemplate \<Rightarrow>
                   (case validateRenderedTemplate renderedTemplate templateKey of
                      Some e \<Rightarrow> Inl e | None \<Rightarrow> Inr (Some renderedTemplate))))"

section \<open>Labels, annotations and the action of a manifest\<close>

definition append_opt :: "(smap \<Rightarrow> document \<Rightarrow> document option) \<Rightarrow> smap option \<Rightarrow> document \<Rightarrow> document option" where
  "append_opt appendFn extra manifest = (case extra of None \<Rightarrow> Some manifest | Some m \<Rightarrow> appendFn m manifest)"

definition appendAnnotationsAndLabels :: "ClusterInstance \<Rightarrow> NodeSpec option \<Rightarrow> document \<Rightarrow> string \<Rightarrow> document option" where
  "appendAnnotationsAndLabels ci node manifest kind =
     (case node of
        None \<Rightarrow>
          Option.bind (append_opt appendManifestAnnotations (cluster_ExtraAnnotationSearch (ci_Spec ci) kind) manifest)
            (append_opt appendManifestLabels (cluster_ExtraLabelSearch (ci_Spec ci) kind))
      | Some n \<Rightarrow>
          Option.bind (append_opt appendManifestAnnotations (node_ExtraAnnotationSearch n kind (ci_Spec ci)) manifest)
            (append_opt appendManifestLabels (node_ExtraLabelSearch n kind (ci_Spec ci))))"

definition zero_object :: RenderedObject where
  "zero_object = \<lparr>ro_object = None, ro_action = actionNone\<rparr>"

text \<open>What \<open>renderManifestFromTemplate\<close> does with the parsed object.\<close>

definition decorate_object :: "ClusterInstance \<Rightarrow> NodeSpec option \<Rightarrow> RenderedObject \<Rightarrow> (err option \<times> RenderedObject) option" where
  "decorate_object ci node object =
     (let kind = GetKind object;
          object1 = object\<lparr>ro_action := actionRender\<rparr>;
          pruneList = s_PruneManifests (ci_Spec ci) @ (case node of None \<Rightarrow> [] | Some n \<Rightarrow> n_PruneManifests n);
          suppressManifestsList = s_SuppressedManifests (ci_Spec ci)
            @ (case node of None \<Rightarrow> [] | Some n \<Rightarrow> n_SuppressedManifests n)
      in if pruneManifest \<lparr>rr_APIVersion = GetAPIVersion object, rr_Kind = kind\<rparr> pruneList
         then Some (None, object1\<lparr>ro_action := actionPrune\<rparr>)
         else if suppressManifest kind suppressManifestsList
         then Some (None, object1\<lparr>ro_action := actionSuppress\<rparr>)
         else
           (case Option.bind (appendAnnotationsAndLabels ci node (the (ro_object object)) kind)
               (appendManifestLabels [(OwnedByLabel,
                  GenerateOwnedByLabelValue (om_Namespace (ci_Meta ci)) (om_Name (ci_Meta ci)))]) of
              None \<Rightarrow> None
            | Some updatedManifest \<Rightarrow> Some (SetObject updatedManifest object1)))"

definition renderManifestFromTemplate :: "template_env \<Rightarrow> ClusterInstance \<Rightarrow> NodeSpec option \<Rightarrow> string \<Rightarrow> string \<Rightarrow> world
    \<Rightarrow> ((err option \<times> RenderedObject) \<times> world) option" where
  "renderManifestFromTemplate env ci node templateKey templateText w =
     (case buildClusterData (tv_json env) ci node w of
        None \<Rightarrow> None
      | Some ((clusterData, Some e), w') \<Rightarrow> Some ((Some e, zero_object), w')
      | Some ((clusterData, None), w') \<Rightarrow>
          (case render env templateKey templateText (the clusterData) of
             Inl e \<Rightarrow> Some ((Some e, zero_object), w')
           | Inr None \<Rightarrow> Some ((None, zero_object), w')
           | Inr (Some manifest) \<Rightarrow>
               (case SetObject manifest zero_object of
                  (Some e, object) \<Rightarrow> Some ((Some e, object), w')
                | (None, object) \<Rightarrow> map_option (\<lambda>r. (r, w')) (decorate_object ci node object))))"

section \<open>The templates of a ClusterInstance\<close>

fun render_entries :: "template_env \<Rightarrow> ClusterInstance \<Rightarrow> NodeSpec option \<Rightarrow> smap \<Rightarrow> RenderedObject list \<Rightarrow> world
    \<Rightarrow> ((err option \<times> RenderedObject list) \<times> world) option" where
  "render_entries env ci node [] objects w = Some ((None, objects), w)"
| "render_entries env ci node ((templateKey, templateText) # entries) objects w =
     (case renderManifestFromTemplate env ci node templateKey templateText w of
        None \<Rightarrow> None
      | Some ((Some e, object), w') \<Rightarrow> Some ((Some e, objects), w')
      | Some ((None, object), w') \<Rightarrow> render_entries env ci node entries (objects @ [object]) w')"

fun render_refs :: "template_env \<Rightarrow> ClusterInstance \<Rightarrow> NodeSpec option \<Rightarrow> Reference list \<Rightarrow> RenderedObject list \<Rightarrow> world
    \<Rightarrow> ((err option \<times> RenderedObject list) \<times> world) option" where
  "render_refs env ci node [] objects w = Some ((None, objects), w)"
| "render_refs env ci node (templateRef # refs) objects w =
     (case Get (ObjKey ''v1'' ''ConfigMap'' (ref_Namespace templateRef) (ref_Name templateRef)) w of
        (Inl e, w') \<Rightarrow> Some ((Some (ErrWrap (''failed to get ConfigMap '' @ ref_Namespace templateRef @ ''/''
            @ ref_Name templateRef @ '': '') e), objects), w')
      | (Inr templatesConfigMap, w') \<Rightarrow>
          (case render_entries env ci node (o_Data templatesConfigMap) objects w' of
             None \<Rightarrow> None
           | Some ((Some e, objects'), w'') \<Rightarrow> Some ((Some e, objects'), w'')
           | Some ((None, objects'), w'') \<Rightarrow> render_refs env ci node refs objects' w''))"

definition renderTemplates :: "template_env \<Rightarrow> ClusterInstance \<Rightarrow> NodeSpec option \<Rightarrow> world
    \<Rightarrow> ((err option \<times> RenderedObject list) \<times> world) option" where
  "renderTemplates env ci node w =
     render_refs env ci node (case node of None \<Rightarrow> s_TemplateRefs (ci_Spec ci) | Some n \<Rightarrow> n_TemplateRefs n) [] w"

definition empty_collection :: RenderedObjectCollection where
  "empty_collection = \<lparr>col_prune = [], col_suppress = [], col_render = []\<rparr>"

text \<open>One level: render and collect; then the levels in turn, the cluster first.\<close>

fun process_levels :: "template_env \<Rightarrow> ClusterInstance \<Rightarrow> NodeSpec option list \<Rightarrow> RenderedObjectCollection \<Rightarrow> world
    \<Rightarrow> ((err option \<times> RenderedObjectCollection) \<times> world) option" where
  "process_levels env ci [] col w = Some ((None, col), w)"
| "process_levels env ci (node # nodes) col w =
     (case renderTemplates env ci node w of
        None \<Rightarrow> None
      | Some ((Some e, objects), w') \<Rightarrow> Some ((Some e, col), w')
      | Some ((None, objects), w') \<Rightarrow>
          (case collection_AddObjects objects col of
             (Some e, col') \<Rightarrow> Some ((Some e, col'), w')
           | (None, col') \<Rightarrow> process_levels env ci nodes col' w'))"

definition ProcessTemplates :: "template_env \<Rightarrow> ClusterInstance \<Rightarrow> world
    \<Rightarrow> ((err option \<times> RenderedObjectCollection) \<times> world) option" where
  "ProcessTemplates env ci w = process_levels env ci (None # map Some (s_Nodes (ci_Spec ci))) empty_collection w"

section \<open>Lemmas: what rendering adds to a manifest\<close>

definition items :: "smap option \<Rightarrow> smap" where
  "items extra = (case extra of None \<Rightarrow> [] | Some m \<Rightarrow> m)"

definition extra_annotations :: "ClusterInstance \<Rightarrow> NodeSpec option \<Rightarrow> string \<Rightarrow> smap" where
  "extra_annotations ci node kind = items (case node of
     None \<Rightarrow> cluster_ExtraAnnotationSearch (ci_Spec ci) kind | Some n \<Rightarrow> node_ExtraAnnotationSearch n kind (ci_Spec ci))"

definition extra_labels :: "ClusterInstance \<Rightarrow> NodeSpec option \<Rightarrow> string \<Rightarrow> smap" where
  "extra_labels ci node kind = items (case node of
     None \<Rightarrow> cluster_ExtraLabelSearch (ci_Spec ci) kind | Some n \<Rightarrow> node_ExtraLabelSearch n kind (ci_Spec ci))"

lemma append_opt_adds:
  "append_opt appendManifestLabels extra m = Some m' \<Longrightarrow> has_metadata m \<Longrightarrow> only_adds LabelsKey (items extra) m m'"
  "append_opt appendManifestAnnotations extra m = Some m' \<Longrightarrow> has_metadata m \<Longrightarrow> only_adds AnnotationsKey (items extra) m m'"
  by (cases extra; simp add: append_opt_def items_def appendManifestLabels_def appendManifestAnnotations_def
      append_only_adds [of "[]"] append_only_adds appendToManifestMetadata_def)+

lemma appendAnnotationsAndLabels_adds:
  assumes "appendAnnotationsAndLabels ci node m kind = Some m2" "has_metadata m"
  obtains m1 where "only_adds AnnotationsKey (extra_annotations ci node kind) m m1"
    "only_adds LabelsKey (extra_labels ci node kind) m1 m2"
proof -
  obtain m1 where "append_opt appendManifestAnnotations (case node of
       None \<Rightarrow> cluster_ExtraAnnotationSearch (ci_Spec ci) kind | Some n \<Rightarrow> node_ExtraAnnotationSearch n kind (ci_Spec ci)) m = Some m1"
    and l: "append_opt appendManifestLabels (case node of
       None \<Rightarrow> cluster_ExtraLabelSearch (ci_Spec ci) kind | Some n \<Rightarrow> node_ExtraLabelSearch n kind (ci_Spec ci)) m1 = Some m2"
    using assms(1) by (cases node) (auto simp: appendAnnotationsAndLabels_def bind_eq_Some_conv)
  then have "only_adds AnnotationsKey (extra_annotations ci node kind) m m1"
    unfolding extra_annotations_def using append_opt_adds(2) assms(2) by blast
  moreover from this have "has_metadata m1" by (simp add: only_adds_def)
  with l have "only_adds LabelsKey (extra_labels ci node kind) m1 m2"
    unfolding extra_labels_def using append_opt_adds(1) by blast
  ultimately show thesis by (rule that)
qed

text \<open>The three additions to a rendered manifest together.\<close>

lemma meta_field_cong:
  assumes "nestedField (JObj m') [''metadata'', f] = nestedField (JObj m) [''metadata'', f]"
  shows "settable m' f = settable m f" "meta_item m' f key = meta_item m f key"
  using assms nestedField_append [of _ "[''metadata'', f]" "[key]"] by (simp_all add: settable_def meta_item_def)

text \<open>The manifest a template gives before labels and annotations are added.\<close>

definition keeps :: "string \<Rightarrow> document \<Rightarrow> document \<Rightarrow> bool" where
  "keeps field m m' \<longleftrightarrow> (\<forall>key v. meta_item m field key = Some v \<longrightarrow> meta_item m' field key = Some v)"

lemma meta_item_settable: "meta_item m field key = Some v \<Longrightarrow> settable m field"
  using nestedField_append [of "JObj m" "[''metadata'', field]" "[key]"]
  by (auto simp: meta_item_def settable_def split: option.split json.split)

lemma only_adds_keeps: "only_adds field its m m' \<Longrightarrow> keeps field m m'"
  using meta_item_settable by (fastforce simp: only_adds_def keeps_def)

lemma only_adds_other:
  assumes "only_adds field its m m'" "f \<noteq> field"
  shows "settable m' f = settable m f" "meta_item m' f key = meta_item m f key" "keeps f m m'"
  using meta_field_cong [of m' f m] assms by (auto simp: only_adds_def keeps_def)

lemma only_adds_item:
  "only_adds field its m m' \<Longrightarrow> settable m field \<Longrightarrow>
   settable m' field \<and> meta_item m' field key = (case meta_item m field key of Some v \<Rightarrow> Some v | None \<Rightarrow> map_option JStr (map_of its key))"
  by (simp add: only_adds_def)

lemma only_adds_strings:
  assumes "only_adds field its m m'" "field \<noteq> ''name''" "field \<noteq> ''namespace''"
  shows "object_identity \<lparr>ro_object = Some m', ro_action = a\<rparr> = object_identity \<lparr>ro_object = Some m, ro_action = b\<rparr>"
  using assms by (simp add: only_adds_def object_identity_def GetAPIVersion_def GetKind_def GetName_def GetNamespace_def getNestedString_def)

lemma SetObject_ok:
  "SetObject m r = (None, r') \<Longrightarrow> ro_object r' = Some m \<and> ro_action r' = ro_action r"
  by (auto simp: SetObject_def Let_def)

lemma validated_has_metadata: "validateRenderedTemplate m key = None \<Longrightarrow> has_metadata m"
  by (auto simp: validateRenderedTemplate_def has_metadata_def split: if_splits option.splits json.splits)

lemma render_has_metadata: "render env key t data = Inr (Some m) \<Longrightarrow> has_metadata m"
  by (auto simp: render_def split: option.splits sum.splits if_splits dest: validated_has_metadata)

definition owner_value :: "ClusterInstance \<Rightarrow> string" where
  "owner_value ci = GenerateOwnedByLabelValue (om_Namespace (ci_Meta ci)) (om_Name (ci_Meta ci))"

lemma decorated:
  assumes "decorate_object ci node obj = Some (None, object)" "ro_action object = actionRender"
    "ro_object obj = Some m" "has_metadata m"
  obtains m1 m2 d where "ro_object object = Some d"
    "only_adds AnnotationsKey (extra_annotations ci node (GetKind obj)) m m1"
    "only_adds LabelsKey (extra_labels ci node (GetKind obj)) m1 m2"
    "only_adds LabelsKey [(OwnedByLabel, owner_value ci)] m2 d"
proof -
  obtain m2 d where m: "appendAnnotationsAndLabels ci node m (GetKind obj) = Some m2"
    "appendManifestLabels [(OwnedByLabel, owner_value ci)] m2 = Some d" "ro_object object = Some d"
    using assms(1-3) by (auto simp: decorate_object_def Let_def owner_value_def bind_eq_Some_conv
        split: if_splits option.splits dest: SetObject_ok)
  obtain m1 where a: "only_adds AnnotationsKey (extra_annotations ci node (GetKind obj)) m m1"
    "only_adds LabelsKey (extra_labels ci node (GetKind obj)) m1 m2"
    using appendAnnotationsAndLabels_adds [OF m(1) assms(4)] .
  have "has_metadata m2" using a(2) by (simp add: only_adds_def)
  then have "only_adds LabelsKey [(OwnedByLabel, owner_value ci)] m2 d"
    using append_only_adds m(2) by (simp add: appendManifestLabels_def)
  then show thesis using that m(3) a by blast
qed

lemma keys_distinct [simp]: "LabelsKey \<noteq> AnnotationsKey" "AnnotationsKey \<noteq> LabelsKey"
  "LabelsKey \<noteq> ''name''" "LabelsKey \<noteq> ''namespace''" "AnnotationsKey \<noteq> ''name''" "AnnotationsKey \<noteq> ''namespace''"
  by (simp_all add: LabelsKey_def AnnotationsKey_def)

lemma keeps_trans: "keeps f a b \<Longrightarrow> keeps f b c \<Longrightarrow> keeps f a c"
  by (simp add: keeps_def)

lemma decorated_manifest:
  assumes "only_adds AnnotationsKey as m m1" "only_adds LabelsKey ls m1 m2" "only_adds LabelsKey [(OwnedByLabel, v)] m2 d"
  shows "keeps LabelsKey m d" "keeps AnnotationsKey m d"
    "object_identity \<lparr>ro_object = Some d, ro_action = a\<rparr> = object_identity \<lparr>ro_object = Some m, ro_action = b\<rparr>"
    "settable m LabelsKey \<Longrightarrow> meta_item m LabelsKey OwnedByLabel = None \<Longrightarrow> \<not> ghas ls OwnedByLabel \<Longrightarrow>
       meta_item d LabelsKey OwnedByLabel = Some (JStr v)"
proof -
  show "keeps LabelsKey m d" "keeps AnnotationsKey m d"
    using only_adds_keeps [OF assms(1)] only_adds_keeps [OF assms(2)] only_adds_keeps [OF assms(3)]
      only_adds_other(3) [OF assms(1), of LabelsKey] only_adds_other(3) [OF assms(2), of AnnotationsKey]
      only_adds_other(3) [OF assms(3), of AnnotationsKey] keeps_trans keys_distinct(1,2) by metis+
  show "object_identity \<lparr>ro_object = Some d, ro_action = a\<rparr> = object_identity \<lparr>ro_object = Some m, ro_action = b\<rparr>"
    using only_adds_strings [OF assms(1), of a b] only_adds_strings [OF assms(2), of a a] only_adds_strings [OF assms(3), of a a]
    by simp
  assume s: "settable m LabelsKey" "meta_item m LabelsKey OwnedByLabel = None" "\<not> ghas ls OwnedByLabel"
  have "settable m1 LabelsKey" "meta_item m1 LabelsKey OwnedByLabel = None"
    using only_adds_other(1,2) [OF assms(1)] s(1,2) by simp_all
  then have "settable m2 LabelsKey" "meta_item m2 LabelsKey OwnedByLabel = None"
    using only_adds_item [OF assms(2)] s(3) by (simp_all add: ghas_def)
  then show "meta_item d LabelsKey OwnedByLabel = Some (JStr v)"
    using only_adds_item [OF assms(3), of OwnedByLabel] by simp
qed

text \<open>C18: Rendering a template keeps the identity of the manifest and every label and annotation the
  template sets, and marks the object as owned: unless the template or the extra labels of its kind set
  that label themselves, or the template gives labels that are no map, the rendered object carries the
  owned-by label of the ClusterInstance.\<close>

theorem rendered_object_owned:
  assumes "renderManifestFromTemplate env ci node key t w = Some ((None, object), w')"
    "ro_action object = actionRender"
  shows "\<exists>data m d. render env key t data = Inr (Some m) \<and> ro_object object = Some d
    \<and> object_identity object = object_identity \<lparr>ro_object = Some m, ro_action = actionNone\<rparr>
    \<and> keeps LabelsKey m d \<and> keeps AnnotationsKey m d
    \<and> (settable m LabelsKey \<and> meta_item m LabelsKey OwnedByLabel = None
        \<and> \<not> ghas (extra_labels ci node (GetKind \<lparr>ro_object = Some m, ro_action = actionNone\<rparr>)) OwnedByLabel
       \<longrightarrow> meta_item d LabelsKey OwnedByLabel = Some (JStr (owner_value ci)))"
proof -
  obtain data m obj where r: "render env key t data = Inr (Some m)" "SetObject m zero_object = (None, obj)"
    "decorate_object ci node obj = Some (None, object)"
    using assms by (auto simp: renderManifestFromTemplate_def zero_object_def split: option.splits prod.splits sum.splits)
  have obj: "obj = \<lparr>ro_object = Some m, ro_action = actionNone\<rparr>"
    using r(2) by (auto simp: SetObject_def zero_object_def Let_def)
  then have o: "ro_object obj = Some m" by simp
  obtain m1 m2 d where d: "ro_object object = Some d"
    "only_adds AnnotationsKey (extra_annotations ci node (GetKind obj)) m m1"
    "only_adds LabelsKey (extra_labels ci node (GetKind obj)) m1 m2"
    "only_adds LabelsKey [(OwnedByLabel, owner_value ci)] m2 d"
    by (rule decorated [OF r(3) assms(2) o render_has_metadata [OF r(1)]])
  have "object = \<lparr>ro_object = Some d, ro_action = actionRender\<rparr>" using d(1) assms(2) by simp
  then show ?thesis
    using r(1) d(1) decorated_manifest [OF d(2-4)] unfolding obj by (intro exI conjI impI) auto
qed

text \<open>A template whose text renders to one ConfigMap manifest.\<close>

definition sample_manifest :: document where
  "sample_manifest = [(''apiVersion'', JStr ''v1''), (''kind'', JStr ''ConfigMap''),
     (''metadata'', JObj [(''name'', JStr ''m''), (''namespace'', JStr ''ns'')])]"

definition sample_json :: json_text where
  "sample_json = \<lparr>jt_Unmarshal = (\<lambda>t. if t = ''null'' then Inr None else Inl (ErrNew ''text'')), jt_Marshal = (\<lambda>d. Inl (ErrNew ''map''))\<rparr>"

definition sample_tenv :: template_env where
  "sample_tenv = \<lparr>tv_json = sample_json, tv_Parse = (\<lambda>key t. None), tv_Execute = (\<lambda>key t data. Inr t),
     tv_UnmarshalYAML = (\<lambda>t. Inr sample_manifest)\<rparr>"

definition render_world :: world where
  "render_world = \<lparr>w_now = 9, w_faults = [],
     w_objs = [(imageSetKey ''im'', new_object ''hive.openshift.io/v1'' ''ClusterImageSet'' [] ''im'')], w_cis = []\<rparr>"

definition render_run :: "(err option \<times> RenderedObject) \<times> world" where
  "render_run = the (renderManifestFromTemplate sample_tenv sample_ci None ''k'' ''text'' render_world)"

lemma render_run_ok:
  "renderManifestFromTemplate sample_tenv sample_ci None ''k'' ''text'' render_world = Some ((None, snd (fst render_run)), snd render_run)"
  "ro_action (snd (fst render_run)) = actionRender"
  by code_simp+

lemma sample_manifest_unowned:
  "settable sample_manifest LabelsKey" "meta_item sample_manifest LabelsKey OwnedByLabel = None"
  "\<not> ghas (extra_labels sample_ci None (GetKind \<lparr>ro_object = Some sample_manifest, ro_action = actionNone\<rparr>)) OwnedByLabel"
  by code_simp+

lemma sample_render: "render sample_tenv key ''text'' data = Inr (Some m) \<Longrightarrow> m = sample_manifest"
  by (auto simp: render_def sample_tenv_def split: option.splits if_splits)

theorem rendered_object_owned_witness:
  "\<exists>d. ro_object (snd (fst render_run)) = Some d \<and> meta_item d LabelsKey OwnedByLabel = Some (JStr (owner_value sample_ci))"
  using rendered_object_owned [OF render_run_ok] sample_manifest_unowned sample_render by blast

text \<open>C40: Install-config overrides that are the JSON value \<open>null\<close> pass the validation of the ClusterInstance, but
  with workload partitioning on all nodes rendering any template then panics: decoding \<open>null\<close> leaves a
  nil map, into which the partitioning mode is written.\<close>

theorem null_overrides_panic:
  assumes "jt_Unmarshal (tv_json env) ''null'' = Inr None" "s_InstallConfigOverrides (ci_Spec ci) = ''null''"
    "s_CPUPartitioning (ci_Spec ci) = CPUPartitioningAllNodes"
  shows "isValidJSON (s_InstallConfigOverrides (ci_Spec ci)) \<and> renderManifestFromTemplate env ci node key t w = None"
proof -
  have "isValidJSON ''null''" by code_simp
  then show ?thesis using assms
    by (simp add: renderManifestFromTemplate_def buildClusterData_def getInstallConfigOverrides_def
        getWorkloadPinningInstallConfigOverrides_def)
qed

definition null_ci :: ClusterInstance where
  "null_ci = sample_ci\<lparr>ci_Spec := sample_spec\<lparr>s_InstallConfigOverrides := ''null'', s_CPUPartitioning := ''AllNodes''\<rparr>\<rparr>"

theorem null_overrides_panic_witness:
  "ValidateClusterInstance null_ci = None \<and> renderManifestFromTemplate sample_tenv null_ci None ''k'' ''text'' render_world = None"
proof -
  have "ValidateClusterInstance null_ci = None" by code_simp
  then show ?thesis using null_overrides_panic [of sample_tenv null_ci None "''k''" "''text''" render_world]
    by (simp add: sample_tenv_def sample_json_def null_ci_def CPUPartitioningAllNodes_def)
qed

end
