(* ===== verification/Resource_Validator.thy ===== *)
theory Resource_Validator
  imports API_Server Validation
begin

text \<open>
  \<open>internal/controller/clusterinstance/validator.go\<close>: the checks of the controller before it renders:
  the image set, the secrets, the extra manifests and the template ConfigMaps exist, and the
  ClusterInstance passes the validation of the API package.
\<close>

definition exists_or :: "string \<Rightarrow> objkey \<Rightarrow> world \<Rightarrow> err option \<times> world" where
  "exists_or msg k w = (case Get k w of (Inl e, w') \<Rightarrow> (Some (ErrWrap msg e), w') | (Inr obj, w') \<Rightarrow> (None, w'))"

text \<open>The loops that stop at the first missing object.\<close>

fun check_all :: "('a \<Rightarrow> world \<Rightarrow> err option \<times> world) \<Rightarrow> 'a list \<Rightarrow> world \<Rightarrow> err option \<times> world" where
  "check_all check [] w = (None, w)"
| "check_all check (x # xs) w =
     (case check x w of (Some e, w') \<Rightarrow> (Some e, w') | (None, w') \<Rightarrow> check_all check xs w')"

definition check_seq :: "(world \<Rightarrow> err option \<times> world) list \<Rightarrow> world \<Rightarrow> err option \<times> world" where
  "check_seq checks = check_all (\<lambda>c. c) checks"

definition check_extra_manifest :: "ClusterInstance \<Rightarrow> string \<Rightarrow> world \<Rightarrow> err option \<times> world" where
  "check_extra_manifest ci name =
     exists_or (''failed to retrieve ExtraManifest: '' @ name @ '' in namespace '' @ om_Namespace (ci_Meta ci) @ '', err: '')
       (ObjKey ''v1'' ''ConfigMap'' (om_Namespace (ci_Meta ci)) name)"

definition bmcCredentialNS :: "ClusterInstance \<Rightarrow> NodeSpec \<Rightarrow> string" where
  "bmcCredentialNS ci node =
     (case n_HostRef node of None \<Rightarrow> om_Namespace (ci_Meta ci) | Some hostRef \<Rightarrow> ref_Namespace hostRef)"

definition check_bmc_secret :: "ClusterInstance \<Rightarrow> NodeSpec \<Rightarrow> world \<Rightarrow> err option \<times> world" where
  "check_bmc_secret ci node =
     exists_or (''failed to validate BMC credentials: '' @ n_BmcCredentialsName node @ '' in namespace ''
         @ bmcCredentialNS ci node @ '' [Node: Hostname='' @ n_HostName node @ ''], err: '')
       (ObjKey ''v1'' ''Secret'' (bmcCredentialNS ci node) (n_BmcCredentialsName node))"

definition validateResources :: "ClusterInstance \<Rightarrow> world \<Rightarrow> err option \<times> world" where
  "validateResources ci w =
     (let imageSet = s_ClusterImageSetNameRef (ci_Spec ci); ns = om_Namespace (ci_Meta ci);
          pullSecret = s_PullSecretRef (ci_Spec ci)
      in if imageSet = [] then (Some (ErrNew ''clusterImageSetNameRef cannot be empty''), w)
         else check_seq
           [exists_or (''encountered error validating ClusterImageSetNameRef: '' @ imageSet @ '', err: '')
              (ObjKey ''hive.openshift.io/v1'' ''ClusterImageSet'' [] imageSet),
            exists_or (''failed to validate Pull Secret: ['' @ pullSecret @ '' in namespace '' @ ns @ ''], err: '')
              (ObjKey ''v1'' ''Secret'' ns pullSecret),
            check_all (check_extra_manifest ci) (s_ExtraManifestsRefs (ci_Spec ci)),
            check_all (check_bmc_secret ci) (s_Nodes (ci_Spec ci))] w)"

definition check_cluster_template :: "Reference \<Rightarrow> world \<Rightarrow> err option \<times> world" where
  "check_cluster_template templateRef =
     exists_or (''failed to validate cluster-level TemplateRef: ['' @ ref_Name templateRef @ '' in namespace ''
         @ ref_Namespace templateRef @ ''], err: '')
       (ObjKey ''v1'' ''ConfigMap'' (ref_Namespace templateRef) (ref_Name templateRef))"

definition check_node_templates :: "NodeSpec \<Rightarrow> world \<Rightarrow> err option \<times> world" where
  "check_node_templates node w =
     (if n_TemplateRefs node = []
      then (Some (ErrNew (''missing node-level template refs [Node: Hostname='' @ n_HostName node @ '']'')), w)
      else check_all (\<lambda>templateRef.
          exists_or (''failed to validate node-level TemplateRef: '' @ ref_Name templateRef @ '' in namespace ''
              @ ref_Namespace templateRef @ '' [Node: Hostname='' @ n_HostName node @ ''], err: '')
            (ObjKey ''v1'' ''ConfigMap'' (ref_Namespace templateRef) (ref_Name templateRef)))
        (n_TemplateRefs node) w)"

definition validateTemplateRefs :: "ClusterInstance \<Rightarrow> world \<Rightarrow> err option \<times> world" where
  "validateTemplateRefs ci w =
     (if s_TemplateRefs (ci_Spec ci) = [] then (Some (ErrNew ''missing cluster-level TemplateRefs''), w)
      else check_seq
        [check_all check_cluster_template (s_TemplateRefs (ci_Spec ci)),
         check_all check_node_templates (s_Nodes (ci_Spec ci))] w)"

definition Validate :: "ClusterInstance \<Rightarrow> world \<Rightarrow> err option \<times> world" where
  "Validate ci w =
     (if s_ClusterName (ci_Spec ci) = [] then (Some (ErrNew ''missing cluster name''), w)
      else case validateResources ci w of
        (Some e, w') \<Rightarrow> (Some (ErrWrap ''resource validation failed: '' e), w')
      | (None, w') \<Rightarrow>
          (case validateTemplateRefs ci w' of
             (Some e, w'') \<Rightarrow> (Some (ErrWrap ''template reference(s) validation failed: '' e), w'')
           | (None, w'') \<Rightarrow>
               (map_option (ErrWrap ''clusterInstance validation failed: '') (ValidateClusterInstance ci), w'')))"

end
