(* ===== verification/Rendering.thy ===== *)
theory Rendering
  imports Pause Server_Apply Template_Engine Resource_Validator
begin

text \<open>
  The provisioning half of \<open>internal/controller/clusterinstance_controller.go\<close>: validation, rendering,
  pruning, suppression, the dry run and the application of the rendered manifests, each with its
  condition and status patch. A handler returns its results, the ClusterInstance in memory and the
  state; \<open>None\<close> is a panic (a write to a nil map, or an object without a readable sync wave).
\<close>

definition set_condition :: "time \<Rightarrow> string \<Rightarrow> string \<Rightarrow> string \<Rightarrow> string \<Rightarrow> ClusterInstance \<Rightarrow> ClusterInstance" where
  "set_condition now conditionType conditionReason conditionStatus message ci =
     ci\<lparr>ci_Status := (ci_Status ci)\<lparr>st_Conditions :=
       SetStatusCondition now (st_Conditions (ci_Status ci)) conditionType conditionReason conditionStatus message\<rparr>\<rparr>"

text \<open>The status patch at the end of a handler: its failure becomes the error when there was none.\<close>

definition patch_status :: "ClusterInstance \<Rightarrow> ClusterInstance \<Rightarrow> err option \<Rightarrow> world
    \<Rightarrow> err option \<times> ClusterInstance \<times> world" where
  "patch_status orig ci err w =
     (case PatchCIStatus orig ci w of
        (updateErr, ci', w') \<Rightarrow> (if err = None then updateErr else err, ci', w'))"

section \<open>Validation and rendering\<close>

definition handleValidate :: "ClusterInstance \<Rightarrow> world \<Rightarrow> err option \<times> ClusterInstance \<times> world" where
  "handleValidate ci w =
     (case Validate ci w of
        (err, w') \<Rightarrow>
          patch_status ci
            (case err of
               Some e \<Rightarrow> set_condition (w_now w') ClusterInstanceValidated Failed ConditionFalse (''Validation failed: '' @ Error e) ci
             | None \<Rightarrow> set_condition (w_now w') ClusterInstanceValidated Completed ConditionTrue ''Validation succeeded'' ci)
            err w')"

definition renderManifests :: "template_env \<Rightarrow> ClusterInstance \<Rightarrow> world
    \<Rightarrow> (RenderedObjectCollection \<times> err option \<times> ClusterInstance \<times> world) option" where
  "renderManifests env ci w =
     (case ProcessTemplates env ci w of
        None \<Rightarrow> None
      | Some ((err, renderedObjects), w') \<Rightarrow>
          Some (renderedObjects,
            patch_status ci
              (case err of
                 Some e \<Rightarrow> set_condition (w_now w') RenderedTemplates Failed ConditionFalse
                   (''Failed to render templates, err= '' @ Error e) ci
               | None \<Rightarrow> set_condition (w_now w') RenderedTemplates Completed ConditionTrue
                   ''Rendered templates successfully'' ci)
              err w'))"

section \<open>Applying objects\<close>

definition object_doc :: "RenderedObject \<Rightarrow> document" where
  "object_doc r = (case ro_object r of None \<Rightarrow> [] | Some d \<Rightarrow> d)"

definition applyObject :: "ssa \<Rightarrow> bool \<Rightarrow> RenderedObject \<Rightarrow> world \<Rightarrow> err option \<times> world" where
  "applyObject ssa dryRun renderedObj w =
     (case Apply ssa dryRun (object_doc renderedObj) w of
        (Inl e, w') \<Rightarrow> (Some (ErrWrap ''failed to apply object using Server-Side Apply: '' e), w')
      | (Inr obj, w') \<Rightarrow> (None, w'))"

text \<open>The entry of an object in the list of manifests, added or updated.\<close>

definition record_manifest :: "time \<Rightarrow> ManifestReference \<Rightarrow> ManifestReference list \<Rightarrow> ManifestReference list" where
  "record_manifest now ref ms =
     (case IndexOfManifestByIdentity ref ms of
        Inl e \<Rightarrow> ms @ [ref]
      | Inr index \<Rightarrow> ms[index := UpdateStatus now (m_Status ref) (m_Message ref) (ms ! index)])"

fun execute_objects :: "ssa \<Rightarrow> bool \<Rightarrow> string \<Rightarrow> RenderedObject list \<Rightarrow> ManifestReference list \<Rightarrow> err list \<Rightarrow> world
    \<Rightarrow> (ManifestReference list \<times> err list \<times> world) option" where
  "execute_objects ssa dryRun manifestStatus [] ms errs w = Some (ms, errs, w)"
| "execute_objects ssa dryRun manifestStatus (object # objects) ms errs w =
     (case ManifestReferenceOf (w_now w) object of
        None \<Rightarrow> None
      | Some manifestRef \<Rightarrow>
          (case applyObject ssa dryRun object w of
             (Some e, w') \<Rightarrow>
               execute_objects ssa dryRun manifestStatus objects
                 (record_manifest (w_now w') (UpdateStatus (w_now w') ManifestRenderedFailure (Error e) manifestRef) ms)
                 (errs @ [e]) w'
           | (None, w') \<Rightarrow>
               execute_objects ssa dryRun manifestStatus objects
                 (record_manifest (w_now w') (UpdateStatus (w_now w') manifestStatus [] manifestRef) ms) errs w'))"

definition executeRenderedManifests :: "ssa \<Rightarrow> bool \<Rightarrow> ClusterInstance \<Rightarrow> RenderedObject list \<Rightarrow> string \<Rightarrow> world
    \<Rightarrow> (ManifestReference list \<times> bool \<times> err option \<times> world) option" where
  "executeRenderedManifests ssa dryRun ci objects manifestStatus w =
     (case execute_objects ssa dryRun manifestStatus objects (st_ManifestsRendered (ci_Status ci)) [] w of
        None \<Rightarrow> None
      | Some (manifestsRendered, errs, w') \<Rightarrow> Some (manifestsRendered, errs = [], NewAggregate errs, w'))"

definition validateRenderedManifests :: "ssa \<Rightarrow> ClusterInstance \<Rightarrow> RenderedObject list \<Rightarrow> world
    \<Rightarrow> (bool \<times> err option \<times> ClusterInstance \<times> world) option" where
  "validateRenderedManifests ssa ci objects w =
     (case executeRenderedManifests ssa True ci objects ManifestRenderedValidated w of
        None \<Rightarrow> None
      | Some (manifestsRendered, rendered, err, w') \<Rightarrow>
          Some (rendered,
            patch_status ci
              (let ci1 = with_manifests manifestsRendered ci in
               if err \<noteq> None \<or> \<not> rendered
               then set_condition (w_now w') RenderedTemplatesValidated Failed ConditionFalse
                 (''Rendered manifests failed dry-run validation''
                  @ (case err of None \<Rightarrow> [] | Some e \<Rightarrow> '', err: '' @ Error e)) ci1
               else set_condition (w_now w') RenderedTemplatesValidated Completed ConditionTrue
                 ''Rendered templates validation succeeded'' ci1)
              err w'))"

definition applyRenderedManifests :: "ssa \<Rightarrow> ClusterInstance \<Rightarrow> RenderedObject list \<Rightarrow> world
    \<Rightarrow> (bool \<times> err option \<times> ClusterInstance \<times> world) option" where
  "applyRenderedManifests ssa ci objects w =
     (case executeRenderedManifests ssa False ci objects ManifestRenderedSuccess w of
        None \<Rightarrow> None
      | Some (manifestsRendered, rendered, err, w') \<Rightarrow>
          Some (rendered,
            patch_status ci
              (let ci1 = with_manifests manifestsRendered ci in
               if err \<noteq> None \<or> \<not> rendered
               then set_condition (w_now w') RenderedTemplatesApplied Failed ConditionFalse
                 ''Failed to apply site config manifests'' ci1
               else set_condition (w_now w') RenderedTemplatesApplied Completed ConditionTrue
                 ''Applied site config manifests'' ci1)
              err w'))"

section \<open>Pruning and suppression\<close>

definition pause_after_timeout :: "err \<Rightarrow> ClusterInstance \<Rightarrow> world \<Rightarrow> err option \<times> ClusterInstance \<times> world" where
  "pause_after_timeout e ci w =
     (case ApplyPause ci (Error e) w of
        (Some e1, ci', w') \<Rightarrow> (Some (ErrWrap ''encountered an error pausing ClusterInstance, error: '' e1), ci', w')
      | (None, ci', w') \<Rightarrow> (Some e, ci', w'))"

definition pruneManifests :: "ClusterInstance \<Rightarrow> RenderedObject list \<Rightarrow> world
    \<Rightarrow> bool \<times> err option \<times> ClusterInstance \<times> world" where
  "pruneManifests ci objects w =
     (if objects = [] then (True, None, ci, w)
      else case DeleteObjects ci objects [] (Some DefaultDeletionTimeout) w of
        (deletionCompleted, Some e, ci', w') \<Rightarrow>
          if IsDeletionTimeoutError (Some e) then (False, pause_after_timeout e ci' w')
          else (False, Some (ErrWrap ''pruning operation encountered an error: '' e), ci', w')
      | (deletionCompleted, None, ci', w') \<Rightarrow> (deletionCompleted, None, ci', w'))"

fun suppress_objects :: "time \<Rightarrow> RenderedObject list \<Rightarrow> ManifestReference list \<Rightarrow> ManifestReference list option" where
  "suppress_objects now [] ms = Some ms"
| "suppress_objects now (object # objects) ms =
     (case ManifestReferenceOf now object of
        None \<Rightarrow> None
      | Some manifestRef \<Rightarrow>
          suppress_objects now objects
            (record_manifest now (manifestRef\<lparr>m_Status := ManifestSuppressed, m_Message := []\<rparr>) ms))"

definition updateSuppressedManifestsStatus :: "ClusterInstance \<Rightarrow> RenderedObject list \<Rightarrow> world
    \<Rightarrow> (err option \<times> ClusterInstance \<times> world) option" where
  "updateSuppressedManifestsStatus ci objects w =
     (case suppress_objects (w_now w) objects (st_ManifestsRendered (ci_Status ci)) of
        None \<Rightarrow> None
      | Some manifestsRendered \<Rightarrow> Some
          (if st_ManifestsRendered (ci_Status ci) \<noteq> manifestsRendered then
             (case PatchCIStatus ci (with_manifests manifestsRendered ci) w of
                (Some e, ci', w') \<Rightarrow> (Some (ErrWrap (''failed to update ClusterInstance.Status.ManifestsRendered for ClusterInstance ''
                    @ om_Namespace (ci_Meta ci') @ ''/'' @ om_Name (ci_Meta ci') @ '': '') e), ci', w')
              | (None, ci', w') \<Rightarrow> (None, ci', w'))
           else (None, ci, w)))"

section \<open>The whole handler\<close>

definition apply_collection :: "ssa \<Rightarrow> ClusterInstance \<Rightarrow> RenderedObject list \<Rightarrow> world
    \<Rightarrow> (bool \<times> err option \<times> ClusterInstance \<times> world) option" where
  "apply_collection ssa ci renderList w =
     (case validateRenderedManifests ssa ci renderList w of
        None \<Rightarrow> None
      | Some (ok, err, ci', w') \<Rightarrow>
          if \<not> ok \<or> err \<noteq> None then Some (ok, err, ci', w')
          else applyRenderedManifests ssa ci' renderList w')"

definition handleRenderTemplates :: "template_env \<Rightarrow> ssa \<Rightarrow> ClusterInstance \<Rightarrow> world
    \<Rightarrow> (bool \<times> err option \<times> ClusterInstance \<times> world) option" where
  "handleRenderTemplates env ssa ci w =
     (case renderManifests env ci w of
        None \<Rightarrow> None
      | Some (objects, Some e, ci1, w1) \<Rightarrow> Some (False, Some e, ci1, w1)
      | Some (objects, None, ci1, w1) \<Rightarrow>
          (case pruneManifests ci1 (GetPruneObjects objects) w1 of
             (ok, err, ci2, w2) \<Rightarrow>
               if \<not> ok \<or> err \<noteq> None then Some (ok, err, ci2, w2)
               else case updateSuppressedManifestsStatus ci2 (GetSuppressObjects objects) w2 of
                 None \<Rightarrow> None
               | Some (Some e, ci3, w3) \<Rightarrow> Some (ok, Some e, ci3, w3)
               | Some (None, ci3, w3) \<Rightarrow> apply_collection ssa ci3 (GetRenderObjects objects) w3))"

section \<open>Lemmas: reading requests\<close>

definition reads :: "world \<Rightarrow> world \<Rightarrow> bool" where
  "reads w w' \<longleftrightarrow> same_state w w' \<and> (faults_ok w \<longrightarrow> faults_ok w')"

named_theorems read_rules

lemma reads_refl [simp, intro]: "reads w w"
  by (simp add: reads_def)

lemma reads_trans [trans]: "reads u v \<Longrightarrow> reads v w \<Longrightarrow> reads u w"
  unfolding reads_def using same_state_trans by blast

lemma Get_reads [read_rules]: "Get k w = (r, w') \<Longrightarrow> reads w w'"
  using touches_cis [OF Get_touches, of k w r w'] Get_objs [of k w r w']
  by (simp add: reads_def same_state_def requests_faults_ok(1))

lemma buildClusterData_reads: "buildClusterData jt ci node w = Some (r, w') \<Longrightarrow> reads w w'"
  by (auto simp: buildClusterData_def Let_def split: option.splits prod.splits sum.splits dest: read_rules)

lemma renderManifest_reads: "renderManifestFromTemplate env ci node k t w = Some (r, w') \<Longrightarrow> reads w w'"
  by (auto simp: renderManifestFromTemplate_def split: option.splits prod.splits sum.splits dest: buildClusterData_reads)

lemma render_entries_reads: "render_entries env ci node es objs w = Some (r, w') \<Longrightarrow> reads w w'"
proof (induction env ci node es objs w rule: render_entries.induct)
  case (2 env ci node k t es objs w)
  then show ?case by (auto split: option.splits prod.splits dest!: renderManifest_reads intro: reads_trans)
qed simp

lemma render_refs_reads: "render_refs env ci node refs objs w = Some (r, w') \<Longrightarrow> reads w w'"
proof (induction refs arbitrary: objs w)
  case (Cons ref refs)
  then show ?case
    by (auto split: option.splits prod.splits sum.splits dest!: Get_reads render_entries_reads)
      (meson reads_trans)+
qed simp

lemma process_levels_reads: "process_levels env ci nodes col w = Some (r, w') \<Longrightarrow> reads w w'"
proof (induction nodes arbitrary: col w)
  case (Cons n nodes)
  then show ?case
    by (auto simp: renderTemplates_def split: option.splits prod.splits dest!: render_refs_reads) (meson reads_trans)+
qed simp

lemma ProcessTemplates_reads: "ProcessTemplates env ci w = Some (r, w') \<Longrightarrow> reads w w'"
  by (simp add: ProcessTemplates_def process_levels_reads del: process_levels.simps)

lemma check_all_reads:
  "check_all check xs w = (eo, w') \<Longrightarrow> (\<And>x w eo w'. x \<in> set xs \<Longrightarrow> check x w = (eo, w') \<Longrightarrow> reads w w') \<Longrightarrow> reads w w'"
proof (induction xs arbitrary: w)
  case (Cons x xs)
  obtain e1 w1 where x: "check x w = (e1, w1)" by fastforce
  have "reads w w1" using Cons.prems(2) [OF _ x] by simp
  moreover have "reads w1 w'" if "e1 = None" using Cons.IH [of w1] Cons.prems x that by auto
  ultimately show ?case using Cons.prems(1) x reads_trans by (cases e1) auto
qed simp

lemma exists_or_reads: "exists_or msg k w = (eo, w') \<Longrightarrow> reads w w'"
  by (auto simp: exists_or_def split: prod.splits sum.splits dest: Get_reads)

lemma checks_read:
  "check_extra_manifest ci n w = (eo, w') \<Longrightarrow> reads w w'" "check_bmc_secret ci node w = (eo, w') \<Longrightarrow> reads w w'"
  "check_cluster_template ref w = (eo, w') \<Longrightarrow> reads w w'" "check_node_templates node w = (eo, w') \<Longrightarrow> reads w w'"
  by (auto simp: check_extra_manifest_def check_bmc_secret_def check_cluster_template_def check_node_templates_def
      split: if_splits elim: check_all_reads intro: exists_or_reads)

lemma validateResources_reads: "validateResources ci w = (eo, w') \<Longrightarrow> reads w w'"
  by (auto simp: validateResources_def check_seq_def Let_def simp del: check_all.simps split: if_splits
      elim!: check_all_reads intro: exists_or_reads checks_read)

lemma validateTemplateRefs_reads: "validateTemplateRefs ci w = (eo, w') \<Longrightarrow> reads w w'"
  by (auto simp: validateTemplateRefs_def check_seq_def simp del: check_all.simps split: if_splits
      elim!: check_all_reads intro: checks_read)

lemma Validate_reads: "Validate ci w = (eo, w') \<Longrightarrow> reads w w'"
  by (auto simp: Validate_def split: if_splits prod.splits option.splits dest!: validateResources_reads validateTemplateRefs_reads
      intro: reads_trans)

end
