(* ===== verification/Reimport.thy ===== *)
theory Reimport
  imports Reinstall Server_Apply
begin

text \<open>
  \<open>internal/controller/reinstall/reimport.go\<close>: after a reinstall the ManagedCluster is watched until it is
  healthy, and reimported by applying the klusterlet manifests to the spoke cluster when it is still
  unhealthy after a grace period. The spoke cluster is an API server of its own, a second \<open>world\<close>; what
  creates its client from the kubeconfig, and its server-side apply, are the record \<open>spoke_env\<close>.
  Times are in seconds.
\<close>

record spoke_env =
  sp_RESTConfigFromKubeConfig :: "string \<Rightarrow> err option"
  sp_NewClient :: "string \<Rightarrow> err option"
  sp_ssa :: ssa

definition PostProvisioningGracePeriod :: int where "PostProvisioningGracePeriod = 5 * 60"
definition GracePeriodRecheckInterval :: nat where "GracePeriodRecheckInterval = 60"
definition ReimportRecheckInterval :: nat where "ReimportRecheckInterval = 30"
definition KubeconfigSecretKey :: string where "KubeconfigSecretKey = ''kubeconfig''"

section \<open>The spoke client\<close>

definition validateSpokeConnectivity :: "world \<Rightarrow> err option \<times> world" where
  "validateSpokeConnectivity spoke =
     (case Get (ObjKey ''v1'' ''Namespace'' [] ''default'') spoke of
        (Inl e, spoke') \<Rightarrow> (Some (ErrWrap ''spoke cluster connectivity validation failed: '' e), spoke')
      | (Inr ns, spoke') \<Rightarrow> (None, spoke'))"

definition CreateClient :: "spoke_env \<Rightarrow> string \<Rightarrow> world \<Rightarrow> err option \<times> world" where
  "CreateClient senv kubeconfigData spoke =
     (case sp_RESTConfigFromKubeConfig senv kubeconfigData of
        Some e \<Rightarrow> (Some (ErrWrap ''failed to create REST config from kubeconfig: '' e), spoke)
      | None \<Rightarrow>
          (case sp_NewClient senv kubeconfigData of
             Some e \<Rightarrow> (Some (ErrWrap ''failed to create spoke client: '' e), spoke)
           | None \<Rightarrow> validateSpokeConnectivity spoke))"

definition validateAdminKubeconfigSecret :: "kobject \<Rightarrow> string \<Rightarrow> err option" where
  "validateAdminKubeconfigSecret secret expectedClusterName =
     (let expectedName = expectedClusterName @ ''-admin-kubeconfig'' in
      if o_Type secret \<noteq> ''Opaque''
      then Some (ErrNew (''invalid secret type: expected Opaque, got '' @ o_Type secret))
      else if om_Namespace (o_Meta secret) \<noteq> expectedClusterName
      then Some (ErrNew (''secret namespace mismatch: expected '' @ expectedClusterName @ '', got ''
             @ om_Namespace (o_Meta secret)))
      else if om_Name (o_Meta secret) \<noteq> expectedName
      then Some (ErrNew (''secret name mismatch: expected '' @ expectedName @ '', got '' @ om_Name (o_Meta secret)))
      else None)"

definition extractKubeconfig :: "kobject \<Rightarrow> err + string" where
  "extractKubeconfig secret =
     (case map_of (o_Data secret) KubeconfigSecretKey of
        Some (c # cs) \<Rightarrow> Inr (c # cs)
      | _ \<Rightarrow> Inl (ErrNew (''secret '' @ om_Namespace (o_Meta secret) @ ''/'' @ om_Name (o_Meta secret)
           @ '' missing kubeconfig data (expected key: '' @ KubeconfigSecretKey @ '')'')))"

definition extractKubeconfigFromSecret :: "string \<Rightarrow> world \<Rightarrow> (err + string) \<times> world" where
  "extractKubeconfigFromSecret clusterName w =
     (let secretName = clusterName @ ''-admin-kubeconfig'' in
      case Get (ObjKey ''v1'' ''Secret'' clusterName secretName) w of
        (Inl e, w') \<Rightarrow> (Inl (ErrWrap (''failed to get admin kubeconfig secret '' @ clusterName @ ''/'' @ secretName @ '': '') e), w')
      | (Inr secret, w') \<Rightarrow>
          ((case validateAdminKubeconfigSecret secret clusterName of
              Some e \<Rightarrow> Inl (ErrWrap ''admin kubeconfig secret validation failed: '' e)
            | None \<Rightarrow> extractKubeconfig secret), w'))"

section \<open>Applying the klusterlet manifests\<close>

text \<open>\<open>SetManagedFields(nil)\<close> drops the managed fields of the copy that is sent.\<close>

definition drop_managed_fields :: "document \<Rightarrow> document" where
  "drop_managed_fields d =
     (case map_of d ''metadata'' of
        Some (JObj m) \<Rightarrow> gset ''metadata'' (JObj (gdel ''managedFields'' m)) d
      | _ \<Rightarrow> d)"

definition applyToSpoke :: "spoke_env \<Rightarrow> document \<Rightarrow> world \<Rightarrow> err option \<times> world" where
  "applyToSpoke senv obj spoke =
     (case Apply (sp_ssa senv) False (drop_managed_fields obj) spoke of
        (Inr x, spoke') \<Rightarrow> (None, spoke')
      | (Inl e, spoke') \<Rightarrow>
          (let r = \<lparr>ro_object = Some obj, ro_action = actionNone\<rparr> in
           (Some (ErrWrap (''failed to apply object '' @ GetNamespace r @ ''/'' @ GetName r @ '': '') e), spoke')))"

text \<open>The loop over the manifests: one that is no map is skipped, a failure is only logged.\<close>

fun apply_manifests :: "spoke_env \<Rightarrow> json list \<Rightarrow> world \<Rightarrow> world" where
  "apply_manifests senv [] spoke = spoke"
| "apply_manifests senv (manifest # manifests) spoke =
     (case manifest of
        JObj manifestMap \<Rightarrow> apply_manifests senv manifests (snd (applyToSpoke senv manifestMap spoke))
      | _ \<Rightarrow> apply_manifests senv manifests spoke)"

text \<open>\<open>unstructured.NestedFieldCopy\<close>: the value, nothing, or the error of a path through a value that is no map.\<close>

fun NestedFieldCopy :: "json \<Rightarrow> string list \<Rightarrow> err + json option" where
  "NestedFieldCopy v [] = Inr (Some v)"
| "NestedFieldCopy v (field # path) =
     (case v of
        JNull \<Rightarrow> Inr None
      | JObj m \<Rightarrow> (case map_of m field of None \<Rightarrow> Inr None | Some v' \<Rightarrow> NestedFieldCopy v' path)
      | _ \<Rightarrow> Inl (ErrNew (''accessor error: value of '' @ field @ '' is not a map'')))"

definition applyManifestWorkToSpoke :: "spoke_env \<Rightarrow> string \<Rightarrow> string \<Rightarrow> world \<Rightarrow> world \<Rightarrow> err option \<times> world \<times> world" where
  "applyManifestWorkToSpoke senv namespace manifestWorkName w spoke =
     (case Get (ObjKey ''work.open-cluster-management.io/v1'' ''ManifestWork'' namespace manifestWorkName) w of
        (Inl e, w') \<Rightarrow> (Some (ErrWrap (''failed to get ManifestWork '' @ namespace @ ''/'' @ manifestWorkName @ '': '') e), w', spoke)
      | (Inr manifestWork, w') \<Rightarrow>
          (case NestedFieldCopy (o_Doc manifestWork) [''spec'', ''workload'', ''manifests''] of
             Inl e \<Rightarrow> (Some (ErrWrap ''failed to extract workload.manifests from ManifestWork: '' e), w', spoke)
           | Inr None \<Rightarrow> (Some (ErrNew (''manifestWork '' @ namespace @ ''/'' @ manifestWorkName
                 @ '' does not contain spec.workload.manifests'')), w', spoke)
           | Inr (Some (JArr manifests)) \<Rightarrow> (None, w', apply_manifests senv manifests spoke)
           | Inr (Some _) \<Rightarrow> (Some (ErrNew ''spec.workload.manifests is not a list''), w', spoke)))"

definition performReimport :: "spoke_env \<Rightarrow> kobject \<Rightarrow> world \<Rightarrow> world \<Rightarrow> err option \<times> world \<times> world" where
  "performReimport senv managedCluster w spoke =
     (let clusterName = om_Name (o_Meta managedCluster) in
      case extractKubeconfigFromSecret clusterName w of
        (Inl e, w1) \<Rightarrow> (Some (ErrWrap ''failed to get kubeconfig: '' e), w1, spoke)
      | (Inr kubeconfigData, w1) \<Rightarrow>
          (case CreateClient senv kubeconfigData spoke of
             (Some e, spoke1) \<Rightarrow> (Some (ErrWrap ''failed to create spoke client: '' e), w1, spoke1)
           | (None, spoke1) \<Rightarrow>
               (case applyManifestWorkToSpoke senv clusterName (clusterName @ ''-klusterlet-crds'') w1 spoke1 of
                  (Some e, w2, spoke2) \<Rightarrow> (Some (ErrWrap ''failed to apply klusterlet CRDs: '' e), w2, spoke2)
                | (None, w2, spoke2) \<Rightarrow>
                    (case applyManifestWorkToSpoke senv clusterName (clusterName @ ''-klusterlet'') w2 spoke2 of
                       (Some e, w3, spoke3) \<Rightarrow> (Some (ErrWrap ''failed to apply klusterlet resources: '' e), w3, spoke3)
                     | (None, w3, spoke3) \<Rightarrow> (None, w3, spoke3)))))"

section \<open>The health of the ManagedCluster\<close>

definition getManagedClusterResource :: "ClusterInstance \<Rightarrow> world \<Rightarrow> (err + kobject) \<times> world" where
  "getManagedClusterResource ci w =
     (case getManagedClusterManifest ci of
        None \<Rightarrow> (Inl (ErrWrap ''managedCluster not found in status: '' NewManagedClusterNotInManifestError), w)
      | Some manifest \<Rightarrow>
          (case Get (ObjKey ''cluster.open-cluster-management.io/v1'' ''ManagedCluster'' [] (m_Name manifest)) w of
             (Inl e, w') \<Rightarrow> (Inl (ErrWrap (''failed to get ManagedCluster '' @ m_Name manifest @ '': '') e), w')
           | (Inr mc, w') \<Rightarrow> (Inr mc, w')))"

record clusterHealthStatus =
  isHealthy :: bool
  availableStatus :: string
  availableReason :: string
  availableMessage :: string
  importStatus :: string
  importReason :: string
  importMessage :: string
  joinedStatus :: string

definition ManagedClusterConditionAvailable :: string where
  "ManagedClusterConditionAvailable = ''ManagedClusterConditionAvailable''"
definition ManagedClusterConditionJoined :: string where
  "ManagedClusterConditionJoined = ''ManagedClusterJoined''"
definition ManagedClusterImportSucceeded :: string where
  "ManagedClusterImportSucceeded = ''ManagedClusterImportSucceeded''"

definition cond_field :: "(Condition \<Rightarrow> string) \<Rightarrow> Condition option \<Rightarrow> string" where
  "cond_field f c = (case c of None \<Rightarrow> [] | Some c \<Rightarrow> f c)"

definition cond_true :: "Condition option \<Rightarrow> bool" where
  "cond_true c = (case c of None \<Rightarrow> False | Some c \<Rightarrow> c_Status c = ConditionTrue)"

definition assessClusterHealth :: "kobject \<Rightarrow> clusterHealthStatus" where
  "assessClusterHealth mc =
     (let available = FindStatusCondition (o_Conditions mc) ManagedClusterConditionAvailable;
          imported = FindStatusCondition (o_Conditions mc) ManagedClusterImportSucceeded;
          joined = FindStatusCondition (o_Conditions mc) ManagedClusterConditionJoined
      in \<lparr>isHealthy = cond_true available \<and> cond_true imported \<and> cond_true joined,
          availableStatus = cond_field c_Status available, availableReason = cond_field c_Reason available,
          availableMessage = cond_field c_Message available,
          importStatus = cond_field c_Status imported, importReason = cond_field c_Reason imported,
          importMessage = cond_field c_Message imported, joinedStatus = cond_field c_Status joined\<rparr>)"

definition isWithinGracePeriod :: "time \<Rightarrow> ClusterInstance \<Rightarrow> bool \<times> int" where
  "isWithinGracePeriod now ci =
     (case FindStatusCondition (st_Conditions (ci_Status ci)) ClusterProvisioned of
        None \<Rightarrow> (True, 0)
      | Some cond \<Rightarrow>
          if c_Status cond \<noteq> ConditionTrue then (True, 0)
          else (let timeSinceProvisioning = int now - int (c_LastTransitionTime cond);
                    remaining = PostProvisioningGracePeriod - timeSinceProvisioning
                in (remaining > 0, remaining)))"

definition isImportInProgress :: "kobject \<Rightarrow> bool" where
  "isImportInProgress mc =
     (case FindStatusCondition (o_Conditions mc) ManagedClusterImportSucceeded of
        None \<Rightarrow> False
      | Some cond \<Rightarrow> c_Status cond = ConditionFalse
          \<and> (c_Reason cond = ''ManagedClusterImporting'' \<or> c_Reason cond = ''ManagedClusterWaitForImporting''))"

section \<open>The reimport\<close>

definition reimported_condition :: "string \<Rightarrow> string \<Rightarrow> string \<Rightarrow> Condition" where
  "reimported_condition = conditionSetter ReinstallClusterReimported"

text \<open>The named results at a return of the body, with the condition for the deferred function.\<close>

record reimport_return =
  rr_result :: Result
  rr_needed :: bool
  rr_err :: "err option"
  rr_cond :: "Condition option"
  rr_world :: world
  rr_spoke :: world

definition waiting :: "Result \<Rightarrow> Condition option \<Rightarrow> world \<Rightarrow> world \<Rightarrow> reimport_return" where
  "waiting result cond w spoke = \<lparr>rr_result = result, rr_needed = True, rr_err = None, rr_cond = cond,
     rr_world = w, rr_spoke = spoke\<rparr>"

definition settled :: "err option \<Rightarrow> Condition option \<Rightarrow> world \<Rightarrow> world \<Rightarrow> reimport_return" where
  "settled err cond w spoke = \<lparr>rr_result = zero_result, rr_needed = False, rr_err = err, rr_cond = cond,
     rr_world = w, rr_spoke = spoke\<rparr>"

text \<open>The ManagedCluster is unhealthy and the grace period is over.\<close>

definition reimport_after_grace :: "spoke_env \<Rightarrow> Condition option \<Rightarrow> kobject \<Rightarrow> world \<Rightarrow> world \<Rightarrow> reimport_return" where
  "reimport_after_grace senv existing mc w spoke =
     (let again = \<lparr>rs_Requeue = True, rs_RequeueAfter = ReimportRecheckInterval\<rparr> in
      if isImportInProgress mc then
        waiting again (Some (reimported_condition ConditionFalse InProgress
          (''Import already in progress: '' @ importReason (assessClusterHealth mc)))) w spoke
      else if (case existing of None \<Rightarrow> False
                | Some c \<Rightarrow> c_Status c = ConditionFalse \<and> c_Reason c = ReimportInitiated)
      then waiting again None w spoke
      else case performReimport senv mc w spoke of
        (Some e, w', spoke') \<Rightarrow>
          settled (Some e) (Some (reimported_condition ConditionFalse Failed
            (''Failed to perform reimport: '' @ Error e))) w' spoke'
      | (None, w', spoke') \<Rightarrow>
          waiting again (Some (reimported_condition ConditionFalse ReimportInitiated
            ''Klusterlet manifests applied to spoke cluster, waiting for cluster to become healthy'')) w' spoke')"

definition reimport_body :: "spoke_env \<Rightarrow> ClusterInstance \<Rightarrow> world \<Rightarrow> world \<Rightarrow> reimport_return" where
  "reimport_body senv ci w spoke =
     (let existing = findReinstallStatusCondition ci ReinstallClusterReimported;
          provisioned = FindStatusCondition (st_Conditions (ci_Status ci)) ClusterProvisioned
      in if cond_true existing then settled None None w spoke
         else if \<not> cond_true provisioned then settled None None w spoke
         else
           (let (inGracePeriod, gracePeriodRemaining) = isWithinGracePeriod (w_now w) ci in
            case getManagedClusterResource ci w of
              (Inl e, w') \<Rightarrow>
                if IsNotFound e then
                  waiting zero_result (Some (reimported_condition ConditionFalse InProgress
                    ''Waiting for ManagedCluster resource to be created'')) w' spoke
                else if IsManagedClusterNotInManifestError (Some e) then
                  waiting zero_result (Some (reimported_condition ConditionFalse InProgress
                    ''Waiting for ManagedCluster to be rendered'')) w' spoke
                else settled (Some e) (Some (reimported_condition ConditionFalse Failed (Error e))) w' spoke
            | (Inr managedCluster, w') \<Rightarrow>
                if isHealthy (assessClusterHealth managedCluster) then
                  settled None (Some (reimported_condition ConditionTrue Completed
                    ''ManagedCluster is healthy and fully imported'')) w' spoke
                else if inGracePeriod then
                  waiting \<lparr>rs_Requeue = True, rs_RequeueAfter = GracePeriodRecheckInterval\<rparr>
                    (Some (reimported_condition ConditionFalse InProgress
                      (''Cluster unhealthy, waiting for auto-recovery ('' @ Itoa gracePeriodRemaining @ ''s remaining)''))) w' spoke
                else reimport_after_grace senv existing managedCluster w' spoke))"

text \<open>The deferred function: the condition is set and patched when it changed.\<close>

definition reimport_finish :: "ClusterInstance \<Rightarrow> reimport_return
    \<Rightarrow> Result \<times> bool \<times> err option \<times> ClusterInstance \<times> world \<times> world" where
  "reimport_finish ci rr =
     (let keep = (rr_result rr, rr_needed rr, rr_err rr, ci, rr_world rr, rr_spoke rr) in
      case rr_cond rr of
        None \<Rightarrow> keep
      | Some cond \<Rightarrow>
          (case setReinstallStatusCondition (w_now (rr_world rr)) ci cond of
             (False, ci1) \<Rightarrow> (rr_result rr, rr_needed rr, rr_err rr, ci1, rr_world rr, rr_spoke rr)
           | (True, ci1) \<Rightarrow>
               (case patch_or_wrap ci ci1 (rr_err rr) (update_condition_msg (c_Type cond)) (rr_world rr) of
                  (err, ok, ci2, w') \<Rightarrow> (rr_result rr, rr_needed rr, err, ci2, w', rr_spoke rr))))"

definition EnsureClusterIsReimported :: "reinstall_env \<Rightarrow> spoke_env \<Rightarrow> ClusterInstance \<Rightarrow> world \<Rightarrow> world
    \<Rightarrow> Result \<times> bool \<times> err option \<times> ClusterInstance \<times> world \<times> world" where
  "EnsureClusterIsReimported env senv ci w spoke =
     (let nothing = (zero_result, False, None, ci, w, spoke) in
      case st_Reinstall (ci_Status ci) of
        None \<Rightarrow> nothing
      | Some reinstallStatus \<Rightarrow>
          if r_ObservedGeneration reinstallStatus = [] then nothing
          else if \<not> e_AllowReinstalls env then nothing
          else if \<not> cond_true (findReinstallStatusCondition ci ReinstallRequestProcessed) then nothing
          else reimport_finish ci (reimport_body senv ci w spoke))"

end
