(* ===== verification/Controller.thy ===== *)
theory Controller
  imports Rendering Reimport
begin

text \<open>
  \<open>internal/controller/clusterinstance_controller.go\<close>: the reconciler of ClusterInstances, with its
  finalizer, the disaster-recovery steps, the reinstall and reimport handlers and the rendering. The
  state is the hub and the spoke API server; \<open>controller_env\<close> collects the parameters of the handlers,
  the JSON text of a spec and the namespace of the operator. The value of the configuration store is
  read once, as \<open>e_AllowReinstalls\<close> of the reinstall handler. \<open>None\<close> is a panic.
\<close>

record controller_env =
  ce_template :: template_env
  ce_reinstall :: reinstall_env
  ce_spoke :: spoke_env
  ce_ssa :: ssa
  ce_MarshalSpec :: "ClusterInstanceSpec \<Rightarrow> err + string"
  ce_PodNamespace :: string

definition clusterInstanceFinalizer :: string where
  "clusterInstanceFinalizer = ''clusterinstance.'' @ Group @ ''/finalizer''"
definition acmBackupLabel :: string where
  "acmBackupLabel = ''cluster.open-cluster-management.io/backup''"
definition acmBackupLabelValue :: string where "acmBackupLabelValue = []"
definition veleroRestoreNameLabel :: string where "veleroRestoreNameLabel = ''velero.io/restore-name''"
definition veleroRestoreStatusAnnotation :: string where
  "veleroRestoreStatusAnnotation = ''velero.io/restore-status''"
definition veleroRestoreHandledAnnotation :: string where
  "veleroRestoreHandledAnnotation = ''clusterinstance.'' @ Group @ ''/velero-restore-handled''"

definition DefaultDeletionRequeueDelay :: nat where "DefaultDeletionRequeueDelay = 60"
definition DefaultValidationErrorDelay :: nat where "DefaultValidationErrorDelay = 30"
definition DefaultTemplateRenderingErrorDelay :: nat where "DefaultTemplateRenderingErrorDelay = 30"
definition DefaultReimportErrorDelay :: nat where "DefaultReimportErrorDelay = 30"

definition doNotRequeue :: Result where
  "doNotRequeue = \<lparr>rs_Requeue = False, rs_RequeueAfter = 0\<rparr>"
definition requeueWithDelay :: "nat \<Rightarrow> Result" where
  "requeueWithDelay delay = \<lparr>rs_Requeue = True, rs_RequeueAfter = delay\<rparr>"
definition requeueWithError :: "err \<Rightarrow> Result \<times> err option" where
  "requeueWithError e = (zero_result, Some e)"
definition requeueWithErrorAfterDelay :: "err \<Rightarrow> nat \<Rightarrow> Result \<times> err option" where
  "requeueWithErrorAfterDelay e delay = (requeueWithDelay delay, Some e)"
definition requeueForDeletion :: Result where
  "requeueForDeletion = requeueWithDelay DefaultDeletionRequeueDelay"

section \<open>The finalizer\<close>

definition ContainsFinalizer :: "ClusterInstance \<Rightarrow> string \<Rightarrow> bool" where
  "ContainsFinalizer ci f \<longleftrightarrow> f \<in> set (om_Finalizers (ci_Meta ci))"

definition with_finalizers :: "(string list \<Rightarrow> string list) \<Rightarrow> ClusterInstance \<Rightarrow> ClusterInstance" where
  "with_finalizers f ci = ci\<lparr>ci_Meta := (ci_Meta ci)\<lparr>om_Finalizers := f (om_Finalizers (ci_Meta ci))\<rparr>\<rparr>"

definition ci_name :: "ClusterInstance \<Rightarrow> string" where
  "ci_name ci = om_Namespace (ci_Meta ci) @ ''/'' @ om_Name (ci_Meta ci)"

definition ensureFinalizer :: "ClusterInstance \<Rightarrow> world \<Rightarrow> task_result" where
  "ensureFinalizer ci w =
     (if ContainsFinalizer ci clusterInstanceFinalizer then (zero_result, None, ci, w)
      else
        (let ci1 = with_finalizers (\<lambda>fs. fs @ [clusterInstanceFinalizer]) ci in
         case PatchCI ci ci1 w of
           (Inl e, w') \<Rightarrow> (zero_result, Some (ErrWrap (''failed to add finalizer to ClusterInstance '' @ ci_name ci @ '': '') e), ci1, w')
         | (Inr ci2, w') \<Rightarrow> (requeue, None, ci2, w')))"

definition handleFinalizer :: "ClusterInstance \<Rightarrow> world \<Rightarrow> task_result option" where
  "handleFinalizer ci w =
     (if IsZero (om_DeletionTimestamp (ci_Meta ci)) then Some (ensureFinalizer ci w)
      else if \<not> ContainsFinalizer ci clusterInstanceFinalizer then Some (zero_result, None, ci, w)
      else case DeleteRenderedObjects ci [] (Some DefaultDeletionTimeout) w of
        None \<Rightarrow> None
      | Some (deletionCompleted, Some e, ci1, w1) \<Rightarrow>
          if IsDeletionTimeoutError (Some e) then
            (case pause_after_timeout e ci1 w1 of (err, ci2, w2) \<Rightarrow> Some (zero_result, err, ci2, w2))
          else Some (zero_result, Some (ErrWrap ''finalization encountered an error: '' e), ci1, w1)
      | Some (False, None, ci1, w1) \<Rightarrow> Some (requeueForDeletion, None, ci1, w1)
      | Some (True, None, ci1, w1) \<Rightarrow>
          (let ci2 = with_finalizers (removeAll clusterInstanceFinalizer) ci1 in
           case PatchCI ci1 ci2 w1 of
             (Inl e, w2) \<Rightarrow> Some (zero_result, Some (ErrWrap (''failed to remove finalizer for ClusterInstance ''
                 @ ci_name ci2 @ '': '') e), ci2, w2)
           | (Inr ci3, w2) \<Rightarrow> Some (zero_result, None, ci3, w2)))"

section \<open>Disaster recovery\<close>

definition isBeingRestored :: "ClusterInstance \<Rightarrow> bool" where
  "isBeingRestored ci =
     (case map_of (om_Labels (ci_Meta ci)) veleroRestoreNameLabel of
        None \<Rightarrow> False
      | Some restoreName \<Rightarrow> gindex (om_Annotations (ci_Meta ci)) veleroRestoreHandledAnnotation \<noteq> restoreName)"

definition ensureVeleroRestoreStatusAnnotation :: "ClusterInstance \<Rightarrow> world \<Rightarrow> task_result" where
  "ensureVeleroRestoreStatusAnnotation ci w =
     (if gindex (om_Annotations (ci_Meta ci)) veleroRestoreStatusAnnotation = ''true'' then (zero_result, None, ci, w)
      else
        (let ci1 = SetMetaDataAnnotation veleroRestoreStatusAnnotation ''true'' ci in
         case PatchCI ci ci1 w of
           (Inl e, w') \<Rightarrow> (zero_result, Some (ErrWrap (''failed to add Velero restore-status annotation to ClusterInstance ''
               @ ci_name ci1 @ '': '') e), ci1, w')
         | (Inr ci2, w') \<Rightarrow> (requeue, None, ci2, w')))"

definition with_observed :: "ClusterInstance \<Rightarrow> ClusterInstance" where
  "with_observed ci = ci\<lparr>ci_Status := (ci_Status ci)\<lparr>st_ObservedGeneration := om_Generation (ci_Meta ci)\<rparr>\<rparr>"

definition handle_restored :: "ClusterInstance \<Rightarrow> world \<Rightarrow> Result \<times> err option \<times> world" where
  "handle_restored ci w =
     (let restoreName = gindex (om_Labels (ci_Meta ci)) veleroRestoreNameLabel in
      case PatchCIStatus ci (with_observed ci) w of
        (Some e, ci1, w1) \<Rightarrow>
          (zero_result, Some (ErrWrap ''failed to update ObservedGeneration for Velero-restored ClusterInstance: '' e), w1)
      | (None, ci1, w1) \<Rightarrow>
          (case PatchCI ci1 (SetMetaDataAnnotation veleroRestoreHandledAnnotation restoreName ci1) w1 of
             (Inl e, w2) \<Rightarrow>
               (zero_result, Some (ErrWrap ''failed to set velero-restore-handled annotation on ClusterInstance: '' e), w2)
           | (Inr ci2, w2) \<Rightarrow> (doNotRequeue, None, w2)))"

definition defaultInstallTemplates :: "string list" where
  "defaultInstallTemplates = [''ai-cluster-templates-v1'', ''ai-node-templates-v1'', ''hcp-cluster-templates-v1'',
     ''hcp-node-templates-v1'', ''ibi-cluster-templates-v1'', ''ibi-node-templates-v1'']"

text \<open>
  A ConfigMap without labels has a nil label map; in one with labels a missing backup label reads as the
  empty string, which is the value of the label.
\<close>

definition applyDRLabelFn :: "string \<Rightarrow> Reference \<Rightarrow> world \<Rightarrow> err option \<times> world" where
  "applyDRLabelFn siteConfigNS ref w =
     (if ref_Namespace ref = siteConfigNS \<and> list_ex (\<lambda>t. ref_Name ref = t) defaultInstallTemplates then (None, w)
      else
        (let name = ref_Namespace ref @ ''/'' @ ref_Name ref in
         case Get (ObjKey ''v1'' ''ConfigMap'' (ref_Namespace ref) (ref_Name ref)) w of
           (Inl e, w') \<Rightarrow> (Some (ErrWrap (''failed to get ConfigMap '' @ name @ '': '') e), w')
         | (Inr cm, w') \<Rightarrow>
             (let labels = om_Labels (o_Meta cm) in
              if labels \<noteq> [] \<and> gindex labels acmBackupLabel = acmBackupLabelValue then (None, w')
              else case PatchObj cm (cm\<lparr>o_Meta := (o_Meta cm)\<lparr>om_Labels := gset acmBackupLabel acmBackupLabelValue labels\<rparr>\<rparr>) w' of
                (Inl e, w'') \<Rightarrow> (Some (ErrWrap (''failed to patch ConfigMap '' @ name @ '': '') e), w'')
              | (Inr x, w'') \<Rightarrow> (None, w''))))"

definition applyACMBackupLabelToInstallTemplates :: "string \<Rightarrow> ClusterInstance \<Rightarrow> world \<Rightarrow> err option \<times> world" where
  "applyACMBackupLabelToInstallTemplates siteConfigNS ci =
     check_all (applyDRLabelFn siteConfigNS)
       (s_TemplateRefs (ci_Spec ci) @ concat (map n_TemplateRefs (s_Nodes (ci_Spec ci))))"

section \<open>The observed status\<close>

text \<open>
  The last observed spec is decoded into a pointer, and the comparison of a struct with a pointer is never
  true: the annotation is written every time.
\<close>

definition updateObservedStatus :: "controller_env \<Rightarrow> ClusterInstance \<Rightarrow> world \<Rightarrow> err option \<times> ClusterInstance \<times> world" where
  "updateObservedStatus env ci w =
     (case (case map_of (om_Annotations (ci_Meta ci)) LastClusterInstanceSpecAnnotation of
              None \<Rightarrow> None
            | Some lastSpecJSON \<Rightarrow> (case e_UnmarshalSpec (ce_reinstall env) lastSpecJSON of Inl e \<Rightarrow> Some e | Inr s \<Rightarrow> None)) of
        Some e \<Rightarrow> (Some (ErrWrap ''failed to unmarshal last-applied Spec: '' e), ci, w)
      | None \<Rightarrow>
          (case ce_MarshalSpec env (ci_Spec ci) of
             Inl e \<Rightarrow> (Some (ErrWrap ''failed to marshal current ClusterInstance spec: '' e), ci, w)
           | Inr currentSpecJSON \<Rightarrow>
               (let ci1 = SetMetaDataAnnotation LastClusterInstanceSpecAnnotation currentSpecJSON ci in
                case PatchCI ci ci1 w of
                  (Inl e, w1) \<Rightarrow> (Some (ErrWrap (''failed to update '' @ LastClusterInstanceSpecAnnotation @ '' annotation: '') e), ci1, w1)
                | (Inr ci2, w1) \<Rightarrow>
                    (case GetCI (ci_key ci2) w1 of
                       (Inl e, w2) \<Rightarrow> (Some (ErrWrap ''failed to re-fetch ClusterInstance: '' e), ci2, w2)
                     | (Inr ci3, w2) \<Rightarrow>
                         (case PatchCIStatus ci3 (with_observed ci3) w2 of
                            (Some e, ci4, w3) \<Rightarrow> (Some (ErrWrap (''failed to patch ClusterInstance status for ObservedGeneration update to ''
                                @ Itoa (om_Generation (ci_Meta ci4)) @ '': '') e), ci4, w3)
                          | (None, ci4, w3) \<Rightarrow> (None, ci4, w3))))))"

section \<open>Reconcile\<close>

type_synonym reconcile_result = "Result \<times> err option \<times> world \<times> world"

text \<open>From the validation to the observed status.\<close>

definition provision :: "controller_env \<Rightarrow> ClusterInstance \<Rightarrow> world \<Rightarrow> (Result \<times> err option \<times> world) option" where
  "provision env ci w =
     (case handleValidate ci w of
        (Some e, ci1, w1) \<Rightarrow> Some (requeueWithDelay DefaultValidationErrorDelay, Some e, w1)
      | (None, ci1, w1) \<Rightarrow>
          (case handleRenderTemplates (ce_template env) (ce_ssa env) ci1 w1 of
             None \<Rightarrow> None
           | Some (ok, Some e, ci2, w2) \<Rightarrow> Some (requeueWithDelay DefaultTemplateRenderingErrorDelay, Some e, w2)
           | Some (False, None, ci2, w2) \<Rightarrow> Some (requeueForDeletion, None, w2)
           | Some (True, None, ci2, w2) \<Rightarrow>
               if st_ObservedGeneration (ci_Status ci2) \<noteq> om_Generation (ci_Meta ci2) then
                 (case updateObservedStatus env ci2 w2 of
                    (Some e, ci3, w3) \<Rightarrow>
                      Some (zero_result, Some (ErrWrap ''encountered an error updating observed ClusterInstance status: '' e), w3)
                  | (None, ci3, w3) \<Rightarrow> Some (doNotRequeue, None, w3))
               else Some (doNotRequeue, None, w2)))"

text \<open>From the comparison of the generations on: backup labels, reinstall request, provisioning.\<close>

definition reinstall_pending :: "ClusterInstance \<Rightarrow> bool" where
  "reinstall_pending ci =
     (case s_Reinstall (ci_Spec ci) of
        None \<Rightarrow> False
      | Some reinstallSpec \<Rightarrow>
          (case st_Reinstall (ci_Status ci) of
             None \<Rightarrow> True
           | Some reinstallStatus \<Rightarrow> r_ObservedGeneration reinstallStatus \<noteq> rs_Generation reinstallSpec))"

definition reconcile_changes :: "controller_env \<Rightarrow> ClusterInstance \<Rightarrow> world \<Rightarrow> (Result \<times> err option \<times> world) option" where
  "reconcile_changes env ci w =
     (if st_ObservedGeneration (ci_Status ci) = om_Generation (ci_Meta ci) then Some (doNotRequeue, None, w)
      else case applyACMBackupLabelToInstallTemplates (ce_PodNamespace env) ci w of
        (Some e, w1) \<Rightarrow> Some (zero_result, Some e, w1)
      | (None, w1) \<Rightarrow>
          if reinstall_pending ci then
            (case ProcessRequest (ce_reinstall env) ci w1 of
               None \<Rightarrow> None
             | Some (res, Some e, ci2, w2) \<Rightarrow>
                 Some (res, Some (ErrWrap ''encountered an error while processing reinstall request, err: '' e), w2)
             | Some (res, None, ci2, w2) \<Rightarrow>
                 if \<not> result_IsZero res then Some (res, None, w2) else provision env ci2 w2)
          else provision env ci w1)"

text \<open>From the check for a Velero restore on.\<close>

definition reconcile_active :: "controller_env \<Rightarrow> ClusterInstance \<Rightarrow> world \<Rightarrow> world \<Rightarrow> reconcile_result option" where
  "reconcile_active env ci w spoke =
     (if isBeingRestored ci then
        (case handle_restored ci w of (res, err, w') \<Rightarrow> Some (res, err, w', spoke))
      else
        (case (if st_Reinstall (ci_Status ci) \<noteq> None
               then EnsureClusterIsReimported (ce_reinstall env) (ce_spoke env) ci w spoke
               else (zero_result, False, None, ci, w, spoke)) of
           (result, reimportNeeded, Some e, ci1, w1, spoke1) \<Rightarrow>
             Some (requeueWithDelay DefaultReimportErrorDelay, Some e, w1, spoke1)
         | (result, True, None, ci1, w1, spoke1) \<Rightarrow> Some (result, None, w1, spoke1)
         | (result, False, None, ci1, w1, spoke1) \<Rightarrow>
             (case reconcile_changes env ci1 w1 of
                None \<Rightarrow> None
              | Some (res, err, w2) \<Rightarrow> Some (res, err, w2, spoke1))))"

definition Reconcile :: "controller_env \<Rightarrow> string \<times> string \<Rightarrow> world \<Rightarrow> world \<Rightarrow> reconcile_result option" where
  "Reconcile env key w spoke =
     (case GetCI key w of
        (Inl e, w1) \<Rightarrow> if IsNotFound e then Some (doNotRequeue, None, w1, spoke) else Some (zero_result, Some e, w1, spoke)
      | (Inr ci, w1) \<Rightarrow>
          if IsPaused ci then Some (zero_result, None, w1, spoke)
          else if st_Paused (ci_Status ci) \<noteq> None then
            (case StatusPatchCI ci (with_paused None ci) w1 of
               (Inl e, w2) \<Rightarrow> Some (zero_result, Some (ErrWrap ''failed to clear Paused status, error: '' e), w2, spoke)
             | (Inr x, w2) \<Rightarrow> Some (requeue, None, w2, spoke))
          else
            (case handleFinalizer ci w1 of
               None \<Rightarrow> None
             | Some (res, err, ci1, w2) \<Rightarrow>
                 if \<not> result_IsZero res \<or> err \<noteq> None then Some (res, err, w2, spoke)
                 else
                   (case ensureVeleroRestoreStatusAnnotation ci1 w2 of
                      (res', err', ci2, w3) \<Rightarrow>
                        if \<not> result_IsZero res' \<or> err' \<noteq> None then Some (res', err', w3, spoke)
                        else reconcile_active env ci2 w3 spoke)))"

section \<open>Event filters (SetupWithManager)\<close>

definition holdAnnotationPredicate :: "ClusterInstance \<Rightarrow> ClusterInstance \<Rightarrow> bool" where
  "holdAnnotationPredicate old new \<longleftrightarrow>
     ghas (om_Annotations (ci_Meta old)) PausedAnnotation \<noteq> ghas (om_Annotations (ci_Meta new)) PausedAnnotation"

definition provisionedChangedPredicate :: "ClusterInstance \<Rightarrow> ClusterInstance \<Rightarrow> bool" where
  "provisionedChangedPredicate oldCI newCI =
     (if s_Reinstall (ci_Spec newCI) = None \<or> st_Reinstall (ci_Status newCI) = None then False
      else case (FindStatusCondition (st_Conditions (ci_Status oldCI)) ClusterProvisioned,
                 FindStatusCondition (st_Conditions (ci_Status newCI)) ClusterProvisioned) of
        (None, Some n) \<Rightarrow> True
      | (Some old, Some n) \<Rightarrow> c_Status old \<noteq> c_Status n \<or> c_Reason old \<noteq> c_Reason n
      | _ \<Rightarrow> False)"

section \<open>The backup label\<close>

text \<open>Which install templates end up with the disaster-recovery label: when no request fails, labelling a
  ConfigMap other than the operator's own ones succeeds, and the stored ConfigMap carries the label afterwards
  exactly when it had no labels at all or carried the label before. A template with any other label is skipped,
  because the value that is looked for is the empty string that a missing key also has.\<close>

theorem dr_label_only_on_unlabelled:
  assumes "w_faults w = []" "map_of (w_objs w) (ObjKey ''v1'' ''ConfigMap'' (ref_Namespace ref) (ref_Name ref)) = Some cm"
    "okey cm = ObjKey ''v1'' ''ConfigMap'' (ref_Namespace ref) (ref_Name ref)"
    "\<not> (ref_Namespace ref = siteConfigNS \<and> ref_Name ref \<in> set defaultInstallTemplates)"
    "gmap_ok (om_Labels (o_Meta cm))"
  shows "\<exists>w' cm'. applyDRLabelFn siteConfigNS ref w = (None, w')
    \<and> map_of (w_objs w') (okey cm) = Some cm'
    \<and> (ghas (om_Labels (o_Meta cm')) acmBackupLabel \<longleftrightarrow>
         om_Labels (o_Meta cm) = [] \<or> ghas (om_Labels (o_Meta cm)) acmBackupLabel)"
proof -
  let ?labels = "om_Labels (o_Meta cm)"
  have new: "\<not> (ref_Namespace ref = siteConfigNS \<and> list_ex (\<lambda>t. ref_Name ref = t) defaultInstallTemplates)"
    using assms(4) by (auto simp: list_ex_iff)
  have get: "Get (ObjKey ''v1'' ''ConfigMap'' (ref_Namespace ref) (ref_Name ref)) w = (Inr cm, w)"
    using assms(1,2) by (simp add: Get_def)
  show ?thesis
  proof (cases "?labels \<noteq> [] \<and> gindex ?labels acmBackupLabel = acmBackupLabelValue")
    case True
    then have "applyDRLabelFn siteConfigNS ref w = (None, w)"
      using get unfolding applyDRLabelFn_def if_not_P [OF new] by simp
    then show ?thesis using True assms(2,3) by auto
  next
    case False
    let ?cm = "cm\<lparr>o_Meta := (o_Meta cm)\<lparr>om_Labels := gset acmBackupLabel acmBackupLabelValue ?labels\<rparr>\<rparr>"
    have k: "okey ?cm = okey cm" by (simp add: okey_def)
    define cm' where "cm' = cm\<lparr>o_Meta := merge_meta (o_Meta cm) (o_Meta ?cm) (o_Meta cm)\<rparr>"
    have "PatchObj cm ?cm w = (Inr cm', w\<lparr>w_objs := gset (okey cm) cm' (w_objs w)\<rparr>)"
      using assms(1,2) k unfolding PatchObj_def cm'_def by (simp add: assms(3) [symmetric] Let_def)
    then have run: "applyDRLabelFn siteConfigNS ref w = (None, w\<lparr>w_objs := gset (okey cm) cm' (w_objs w)\<rparr>)"
      using get False unfolding applyDRLabelFn_def if_not_P [OF new] by (auto simp: Let_def)
    have "ghas (om_Labels (o_Meta cm')) acmBackupLabel"
      using assms(5) by (simp add: cm'_def merge_meta_def ghas_def merge_smap_lookup merge_def)
    moreover have "?labels = [] \<or> ghas ?labels acmBackupLabel"
      using False gindex_nonempty_ghas [of ?labels acmBackupLabel] by (auto simp: acmBackupLabelValue_def)
    ultimately show ?thesis using run by auto
  qed
qed

definition labelled_cm :: kobject where
  "labelled_cm = (new_object ''v1'' ''ConfigMap'' ''ns'' ''t'')
     \<lparr>o_Meta := empty_meta\<lparr>om_Name := ''t'', om_Namespace := ''ns'', om_Labels := [(''env'', ''prod'')]\<rparr>\<rparr>"

definition labelled_world :: world where
  "labelled_world = \<lparr>w_now = 9, w_faults = [], w_objs = [(okey labelled_cm, labelled_cm)], w_cis = []\<rparr>"

theorem dr_label_only_on_unlabelled_witness:
  "\<exists>w' cm'. applyDRLabelFn ''op'' \<lparr>ref_Name = ''t'', ref_Namespace = ''ns''\<rparr> labelled_world = (None, w')
    \<and> map_of (w_objs w') (okey labelled_cm) = Some cm' \<and> \<not> ghas (om_Labels (o_Meta cm')) acmBackupLabel"
proof -
  let ?ref = "\<lparr>ref_Name = ''t'', ref_Namespace = ''ns''\<rparr>"
  have "w_faults labelled_world = []"
    "map_of (w_objs labelled_world) (ObjKey ''v1'' ''ConfigMap'' (ref_Namespace ?ref) (ref_Name ?ref)) = Some labelled_cm"
    "okey labelled_cm = ObjKey ''v1'' ''ConfigMap'' (ref_Namespace ?ref) (ref_Name ?ref)"
    "\<not> (ref_Namespace ?ref = ''op'' \<and> ref_Name ?ref \<in> set defaultInstallTemplates)"
    "gmap_ok (om_Labels (o_Meta labelled_cm))" by code_simp+
  from dr_label_only_on_unlabelled [OF this]
  have "\<exists>w' cm'. applyDRLabelFn ''op'' ?ref labelled_world = (None, w') \<and> map_of (w_objs w') (okey labelled_cm) = Some cm'
    \<and> (ghas (om_Labels (o_Meta cm')) acmBackupLabel \<longleftrightarrow>
         om_Labels (o_Meta labelled_cm) = [] \<or> ghas (om_Labels (o_Meta labelled_cm)) acmBackupLabel)" .
  moreover have "\<not> (om_Labels (o_Meta labelled_cm) = [] \<or> ghas (om_Labels (o_Meta labelled_cm)) acmBackupLabel)" by code_simp
  ultimately show ?thesis by auto
qed

end
