(* ===== verification/Cluster_Deployment.thy ===== *)
theory Cluster_Deployment
  imports Controller Samples
begin

text \<open>
  \<open>internal/controller/clusterdeployment_reconciler.go\<close>: the reconciler that copies the provisioning state
  of a ClusterDeployment into the status of the ClusterInstance that owns it.
\<close>

definition ClusterInstallRequirementsMet :: string where "ClusterInstallRequirementsMet = ''ClusterInstallRequirementsMet''"
definition ClusterInstallCompleted :: string where "ClusterInstallCompleted = ''ClusterInstallCompleted''"
definition ClusterInstallFailed :: string where "ClusterInstallFailed = ''ClusterInstallFailed''"
definition ClusterInstallStopped :: string where "ClusterInstallStopped = ''ClusterInstallStopped''"

definition clusterInstallConditionTypes :: "string list" where
  "clusterInstallConditionTypes =
     [ClusterInstallRequirementsMet, ClusterInstallCompleted, ClusterInstallFailed, ClusterInstallStopped]"

section \<open>The provisioned condition\<close>

definition updateCIProvisionedStatus :: "time \<Rightarrow> kobject \<Rightarrow> ClusterInstance \<Rightarrow> ClusterInstance" where
  "updateCIProvisionedStatus now cd ci =
     (let installStopped = FindCDConditionType (o_CDConditions cd) ClusterInstallStopped;
          installCompleted = FindCDConditionType (o_CDConditions cd) ClusterInstallCompleted;
          installFailed = FindCDConditionType (o_CDConditions cd) ClusterInstallFailed
      in if o_Installed cd then
           (case (installStopped, installCompleted) of
              (Some s, Some c) \<Rightarrow>
                if cd_Status s = ConditionTrue \<and> cd_Status c = ConditionTrue
                then set_condition now ClusterProvisioned Completed ConditionTrue ''Provisioning completed'' ci
                else set_condition now ClusterProvisioned Completed ConditionTrue
                  ''Cluster is installed (detected from ClusterDeployment Spec.Installed=true)'' ci
            | _ \<Rightarrow> set_condition now ClusterProvisioned Completed ConditionTrue
                ''Cluster is installed (detected from ClusterDeployment Spec.Installed=true)'' ci)
         else case (installStopped, installCompleted, installFailed) of
           (Some s, Some c, Some f) \<Rightarrow>
             if cd_Status s = ConditionTrue \<and> cd_Status f = ConditionTrue
             then set_condition now ClusterProvisioned Failed ConditionFalse ''Provisioning failed'' ci
             else if cd_Status s = ConditionFalse
             then set_condition now ClusterProvisioned InProgress ConditionFalse ''Provisioning cluster'' ci
             else ci
         | _ \<Rightarrow> ci)"

section \<open>The deployment conditions\<close>

definition unknown_condition :: "string \<Rightarrow> CDCondition" where
  "unknown_condition t = \<lparr>cd_Type = t, cd_Status = ConditionUnknown, cd_LastProbeTime = 0, cd_LastTransitionTime = 0,
     cd_Reason = ''Unknown'', cd_Message = ''Unknown''\<rparr>"

definition refresh_condition :: "time \<Rightarrow> CDCondition \<Rightarrow> CDCondition \<Rightarrow> CDCondition" where
  "refresh_condition now installCond ciCond =
     (if cd_Status ciCond \<noteq> cd_Status installCond \<or> cd_Reason ciCond \<noteq> cd_Reason installCond
         \<or> cd_Message ciCond \<noteq> cd_Message installCond
      then ciCond\<lparr>cd_Status := cd_Status installCond, cd_LastProbeTime := now,
        cd_LastTransitionTime := (if cd_Status ciCond \<noteq> cd_Status installCond then now else cd_LastTransitionTime ciCond),
        cd_Reason := cd_Reason installCond, cd_Message := cd_Message installCond\<rparr>
      else ciCond)"

definition sync_condition :: "time \<Rightarrow> CDCondition list \<Rightarrow> CDCondition list \<Rightarrow> string \<Rightarrow> CDCondition list" where
  "sync_condition now cdConds ciConds cond =
     (let installCond = (case FindCDConditionType cdConds cond of None \<Rightarrow> unknown_condition cond | Some c \<Rightarrow> c) in
      case FindCDConditionType ciConds (cd_Type installCond) of
        None \<Rightarrow> ciConds @ [installCond\<lparr>cd_LastTransitionTime := now, cd_LastProbeTime := now\<rparr>]
      | Some ciCond \<Rightarrow> upd_first (\<lambda>c. cd_Type c = cd_Type installCond) (refresh_condition now installCond) ciConds)"

definition with_deployment_conditions :: "CDCondition list \<Rightarrow> ClusterInstance \<Rightarrow> ClusterInstance" where
  "with_deployment_conditions cs ci = ci\<lparr>ci_Status := (ci_Status ci)\<lparr>st_DeploymentConditions := cs\<rparr>\<rparr>"

definition updateCIDeploymentConditions :: "time \<Rightarrow> kobject \<Rightarrow> ClusterInstance \<Rightarrow> ClusterInstance" where
  "updateCIDeploymentConditions now cd ci =
     with_deployment_conditions
       (foldl (sync_condition now (o_CDConditions cd)) (st_DeploymentConditions (ci_Status ci)) clusterInstallConditionTypes) ci"

section \<open>The owner of a ClusterDeployment\<close>

definition getClusterInstanceOwner :: "smap \<Rightarrow> string" where
  "getClusterInstanceOwner labels = gindex labels OwnedByLabel"

definition isOwnedByClusterInstance :: "smap \<Rightarrow> bool" where
  "isOwnedByClusterInstance labels \<longleftrightarrow> getClusterInstanceOwner labels \<noteq> []"

text \<open>The ClusterInstance (\<open>None\<close> for the nil pointer) and the error, as the code returns both.\<close>

definition getClusterInstance :: "kobject \<Rightarrow> world \<Rightarrow> (ClusterInstance option \<times> err option) \<times> world" where
  "getClusterInstance cd w =
     (let ownedBy = getClusterInstanceOwner (om_Labels (o_Meta cd)); ns = om_Namespace (o_Meta cd) in
      if ownedBy = [] then ((None, None), w)
      else case GetNamespacedNameFromOwnedByLabel ownedBy of
        Inl e \<Rightarrow> ((None, Some (ErrWrap (''failed to get namespaced name from OwnedBy label ('' @ ownedBy @ ''): '') e)), w)
      | Inr (namespace, name) \<Rightarrow>
          if namespace \<noteq> ns
          then ((None, Some (ErrNew (''clusterDeployment namespace ['' @ ns @ ''] does not match ClusterInstance namespace [''
                  @ namespace @ '']''))), w)
          else case GetCI (namespace, name) w of
            (Inl e, w') \<Rightarrow>
              if IsNotFound e then ((None, None), w')
              else ((None, Some (ErrWrap (''failed to get ClusterInstance '' @ namespace @ ''/'' @ name @ '': '') e)), w')
          | (Inr ci, w') \<Rightarrow> ((Some ci, None), w'))"

definition mapClusterInstanceToCD :: "string \<times> string \<Rightarrow> world \<Rightarrow> (string \<times> string) list" where
  "mapClusterInstanceToCD key w =
     (case fst (GetCI key w) of
        Inl e \<Rightarrow> []
      | Inr ci \<Rightarrow>
          (case st_ClusterDeploymentRef (ci_Status ci) of
             None \<Rightarrow> []
           | Some name \<Rightarrow> if name \<noteq> [] then [(fst key, name)] else []))"

section \<open>Reconcile\<close>

definition with_deployment_ref :: "string \<Rightarrow> ClusterInstance \<Rightarrow> ClusterInstance" where
  "with_deployment_ref name ci =
     (case st_ClusterDeploymentRef (ci_Status ci) of
        Some (c # cs) \<Rightarrow> ci
      | _ \<Rightarrow> ci\<lparr>ci_Status := (ci_Status ci)\<lparr>st_ClusterDeploymentRef := Some name\<rparr>\<rparr>)"

definition init_provisioned :: "time \<Rightarrow> ClusterInstance \<Rightarrow> ClusterInstance" where
  "init_provisioned now ci =
     (case FindStatusCondition (st_Conditions (ci_Status ci)) ClusterProvisioned of
        None \<Rightarrow> set_condition now ClusterProvisioned Unknown ConditionUnknown ''Waiting for provisioning to start'' ci
      | Some c \<Rightarrow> ci)"

definition sync_status :: "time \<Rightarrow> kobject \<Rightarrow> ClusterInstance \<Rightarrow> ClusterInstance" where
  "sync_status now cd ci =
     updateCIDeploymentConditions now cd
       (updateCIProvisionedStatus now cd (init_provisioned now (with_deployment_ref (om_Name (o_Meta cd)) ci)))"

definition cd_Reconcile :: "string \<times> string \<Rightarrow> world \<Rightarrow> Result \<times> err option \<times> world" where
  "cd_Reconcile key w =
     (case Get (ObjKey ''hive.openshift.io/v1'' ''ClusterDeployment'' (fst key) (snd key)) w of
        (Inl e, w1) \<Rightarrow> if IsNotFound e then (doNotRequeue, None, w1) else (zero_result, Some e, w1)
      | (Inr cd, w1) \<Rightarrow>
          (case getClusterInstance cd w1 of
             ((None, err), w2) \<Rightarrow> (doNotRequeue, None, w2)
           | ((Some ci, Some e), w2) \<Rightarrow> (zero_result, Some e, w2)
           | ((Some ci, None), w2) \<Rightarrow>
               (let ci1 = sync_status (w_now w2) cd ci in
                if ci_Status ci \<noteq> ci_Status ci1 then
                  (case PatchCIStatus ci ci1 w2 of
                     (Some e, ci2, w3) \<Rightarrow> (zero_result, Some e, w3)
                   | (None, ci2, w3) \<Rightarrow> (doNotRequeue, None, w3))
                else (doNotRequeue, None, w2))))"

section \<open>Lemmas: writing the same condition again\<close>

lemma Set_find_exact:
  "\<exists>d. FindStatusCondition (SetStatusCondition now cs t r s m) t = Some d \<and> c_Status d = s \<and> c_Reason d = r
     \<and> c_Message d = m \<and> c_ObservedGeneration d = 0"
proof -
  have "\<exists>d. FindStatusCondition (fst (meta_SetStatusCondition now cs' (new_condition now t s r m))) t = Some d \<and> c_Status d = s
      \<and> c_Reason d = r \<and> c_Message d = m \<and> c_ObservedGeneration d = 0" for cs'
  proof (cases "FindStatusCondition cs' t")
    case None
    then show ?thesis
      by (auto simp: meta_SetStatusCondition_def FindStatusCondition_def find_append new_condition_def split: option.splits)
  next
    case (Some old)
    then have "find (\<lambda>c. c_Type c = t) (upd_first (\<lambda>c. c_Type c = t) (update_condition now (new_condition now t s r m)) cs') =
        Some (update_condition now (new_condition now t s r m) old)"
      using Find_type [of cs' t old] by (intro find_upd_first_same) (auto simp: FindStatusCondition_def)
    then show ?thesis using Some by (simp add: meta_SetStatusCondition_def FindStatusCondition_def update_condition_def new_condition_def)
  qed
  then show ?thesis by (simp add: SetStatusCondition_def Let_def)
qed

lemma Set_again:
  assumes "FindStatusCondition cs t = Some d" "c_Status d = s" "c_Reason d = r" "c_Message d = m" "c_ObservedGeneration d = 0"
  shows "SetStatusCondition now cs t r s m = cs"
proof -
  have "update_condition now (new_condition now t s r m) d = d"
    using assms(2-5) by (intro Condition.equality) (simp_all add: update_condition_def new_condition_def)
  then have "upd_first (\<lambda>c. c_Type c = t) (update_condition now (new_condition now t s r m)) cs = cs"
    using upd_first_id assms(1) by (simp add: FindStatusCondition_def)
  then show ?thesis using assms(1,2) by (simp add: SetStatusCondition_def meta_SetStatusCondition_def new_condition_def)
qed

text \<open>What one write of the provisioned condition leaves behind is a fixed point of the same write.\<close>

lemma set_condition_again:
  assumes "st_Conditions (ci_Status ci) = st_Conditions (ci_Status (set_condition now t r s m ci0))"
  shows "set_condition now' t r s m ci = ci"
proof -
  obtain d where "FindStatusCondition (SetStatusCondition now (st_Conditions (ci_Status ci0)) t r s m) t = Some d"
    "c_Status d = s" "c_Reason d = r" "c_Message d = m" "c_ObservedGeneration d = 0" using Set_find_exact by blast
  then show ?thesis using assms Set_again by (simp add: set_condition_def)
qed

section \<open>Lemmas: the deployment conditions\<close>

definition reported :: "CDCondition list \<Rightarrow> string \<Rightarrow> CDCondition" where
  "reported cdConds t = (case FindCDConditionType cdConds t of None \<Rightarrow> unknown_condition t | Some c \<Rightarrow> c)"

definition agrees :: "CDCondition \<Rightarrow> CDCondition \<Rightarrow> bool" where
  "agrees a b \<longleftrightarrow> cd_Status a = cd_Status b \<and> cd_Reason a = cd_Reason b \<and> cd_Message a = cd_Message b"

definition mirrors :: "CDCondition list \<Rightarrow> CDCondition list \<Rightarrow> string \<Rightarrow> bool" where
  "mirrors cdConds ciConds t \<longleftrightarrow> (\<exists>c. FindCDConditionType ciConds t = Some c \<and> agrees c (reported cdConds t))"

lemma reported_type [simp]: "cd_Type (reported cdConds t) = t"
  by (auto simp: reported_def unknown_condition_def FindCDConditionType_def split: option.splits dest: find_SomeD)

lemma refresh_frame [simp]: "cd_Type (refresh_condition now a c) = cd_Type c"
  by (simp add: refresh_condition_def)

lemma sync_condition_alt:
  "sync_condition now cdConds ciConds t =
     (case FindCDConditionType ciConds t of
        None \<Rightarrow> ciConds @ [(reported cdConds t)\<lparr>cd_LastTransitionTime := now, cd_LastProbeTime := now\<rparr>]
      | Some c \<Rightarrow> upd_first (\<lambda>c. cd_Type c = t) (refresh_condition now (reported cdConds t)) ciConds)"
  using reported_type [of cdConds t] by (simp add: sync_condition_def reported_def [symmetric] Let_def split: option.split)

lemma sync_mirrors: "mirrors cdConds (sync_condition now cdConds ciConds t) t"
proof (cases "FindCDConditionType ciConds t")
  case None
  then show ?thesis by (simp add: sync_condition_alt mirrors_def FindCDConditionType_def find_append agrees_def)
next
  case (Some c)
  then have "find (\<lambda>c. cd_Type c = t) (upd_first (\<lambda>c. cd_Type c = t) (refresh_condition now (reported cdConds t)) ciConds) =
      Some (refresh_condition now (reported cdConds t) c)"
    by (intro find_upd_first_same) (auto simp: FindCDConditionType_def dest: find_SomeD)
  then show ?thesis using Some
    by (simp add: sync_condition_alt mirrors_def FindCDConditionType_def agrees_def refresh_condition_def)
qed

lemma sync_other: "t' \<noteq> t \<Longrightarrow> FindCDConditionType (sync_condition now cdConds ciConds t) t' = FindCDConditionType ciConds t'"
  by (auto simp: sync_condition_alt FindCDConditionType_def find_append find_upd_first_other split: option.split)

lemma sync_fixed: "mirrors cdConds ciConds t \<Longrightarrow> sync_condition now cdConds ciConds t = ciConds"
  by (auto simp: sync_condition_alt mirrors_def agrees_def refresh_condition_def FindCDConditionType_def intro!: upd_first_id)

lemma foldl_sync:
  assumes "distinct ts"
  shows "t \<in> set ts \<Longrightarrow> mirrors cdConds (foldl (sync_condition now cdConds) ciConds ts) t"
    "t \<notin> set ts \<Longrightarrow> FindCDConditionType (foldl (sync_condition now cdConds) ciConds ts) t = FindCDConditionType ciConds t"
proof -
  have other: "t \<notin> set ts \<Longrightarrow> FindCDConditionType (foldl (sync_condition now cdConds) ciConds ts) t = FindCDConditionType ciConds t"
    for t ts ciConds by (induction ts arbitrary: ciConds) (auto simp: sync_other)
  then show "t \<notin> set ts \<Longrightarrow> FindCDConditionType (foldl (sync_condition now cdConds) ciConds ts) t = FindCDConditionType ciConds t" .
  show "t \<in> set ts \<Longrightarrow> mirrors cdConds (foldl (sync_condition now cdConds) ciConds ts) t"
    using assms
  proof (induction ts arbitrary: ciConds)
    case (Cons x ts)
    then show ?case using other [of t ts "sync_condition now cdConds ciConds t"] sync_mirrors [of cdConds now ciConds t]
      by (auto simp: mirrors_def)
  qed simp
qed

lemma foldl_sync_fixed:
  "(\<And>t. t \<in> set ts \<Longrightarrow> mirrors cdConds ciConds t) \<Longrightarrow> foldl (sync_condition now cdConds) ciConds ts = ciConds"
  by (induction ts) (simp_all add: sync_fixed)

lemma install_types_distinct: "distinct clusterInstallConditionTypes"
  by (simp add: clusterInstallConditionTypes_def ClusterInstallRequirementsMet_def ClusterInstallCompleted_def
      ClusterInstallFailed_def ClusterInstallStopped_def)

section \<open>Lemmas: the status is written once\<close>

lemma with_deployment_conditions_frame [simp]:
  "st_Conditions (ci_Status (with_deployment_conditions cs ci)) = st_Conditions (ci_Status ci)"
  "st_ClusterDeploymentRef (ci_Status (with_deployment_conditions cs ci)) = st_ClusterDeploymentRef (ci_Status ci)"
  "st_DeploymentConditions (ci_Status (with_deployment_conditions cs ci)) = cs"
  by (simp_all add: with_deployment_conditions_def)

lemma provisioned_frame:
  "st_ClusterDeploymentRef (ci_Status (updateCIProvisionedStatus now cd ci)) = st_ClusterDeploymentRef (ci_Status ci)"
  "st_DeploymentConditions (ci_Status (updateCIProvisionedStatus now cd ci)) = st_DeploymentConditions (ci_Status ci)"
  by (simp_all add: updateCIProvisionedStatus_def set_condition_def Let_def split: option.split)

text \<open>
  The verdict on the installation as a table: the reason, status and message the provisioned condition
  must get, or \<open>None\<close> where the ClusterDeployment says nothing that the condition has to follow.
\<close>

definition says :: "kobject \<Rightarrow> string \<Rightarrow> string \<Rightarrow> bool" where
  "says cd t s \<longleftrightarrow> (case FindCDConditionType (o_CDConditions cd) t of None \<Rightarrow> False | Some c \<Rightarrow> cd_Status c = s)"

definition has_verdict :: "kobject \<Rightarrow> bool" where
  "has_verdict cd \<longleftrightarrow> (\<forall>t \<in> {ClusterInstallStopped, ClusterInstallCompleted, ClusterInstallFailed}.
     FindCDConditionType (o_CDConditions cd) t \<noteq> None)"

definition provisioned_verdict :: "kobject \<Rightarrow> (string \<times> string \<times> string) option" where
  "provisioned_verdict cd =
     (if o_Installed cd then
        Some (Completed, ConditionTrue,
          if says cd ClusterInstallStopped ConditionTrue \<and> says cd ClusterInstallCompleted ConditionTrue
          then ''Provisioning completed''
          else ''Cluster is installed (detected from ClusterDeployment Spec.Installed=true)'')
      else if \<not> has_verdict cd then None
      else if says cd ClusterInstallStopped ConditionTrue \<and> says cd ClusterInstallFailed ConditionTrue
      then Some (Failed, ConditionFalse, ''Provisioning failed'')
      else if says cd ClusterInstallStopped ConditionFalse
      then Some (InProgress, ConditionFalse, ''Provisioning cluster'')
      else None)"

lemma provisioned_write:
  "updateCIProvisionedStatus now cd ci =
     (case provisioned_verdict cd of None \<Rightarrow> ci | Some (r, s, m) \<Rightarrow> set_condition now ClusterProvisioned r s m ci)"
  by (cases "FindCDConditionType (o_CDConditions cd) ClusterInstallStopped";
      cases "FindCDConditionType (o_CDConditions cd) ClusterInstallCompleted";
      cases "FindCDConditionType (o_CDConditions cd) ClusterInstallFailed")
    (simp_all add: updateCIProvisionedStatus_def provisioned_verdict_def has_verdict_def says_def)

lemma has_provisioned:
  "FindStatusCondition (st_Conditions (ci_Status (updateCIProvisionedStatus now cd (init_provisioned now ci)))) ClusterProvisioned \<noteq> None"
proof (cases "provisioned_verdict cd")
  case None
  then show ?thesis
    using Set_find_exact [of now "st_Conditions (ci_Status ci)" ClusterProvisioned Unknown ConditionUnknown "''Waiting for provisioning to start''"]
    by (auto simp: provisioned_write init_provisioned_def set_condition_def split: option.split)
next
  case (Some v)
  then show ?thesis
    using Set_find_exact [of now "st_Conditions (ci_Status (init_provisioned now ci))" ClusterProvisioned "fst v" "fst (snd v)" "snd (snd v)"]
    by (auto simp: provisioned_write set_condition_def split: prod.split)
qed

lemma init_provisioned_id:
  "FindStatusCondition (st_Conditions (ci_Status ci)) ClusterProvisioned \<noteq> None \<Longrightarrow> init_provisioned now ci = ci"
  by (auto simp: init_provisioned_def)

lemma provisioned_again:
  assumes "st_Conditions (ci_Status ci) = st_Conditions (ci_Status (updateCIProvisionedStatus now cd ci0))"
  shows "updateCIProvisionedStatus now' cd ci = ci"
  using assms set_condition_again by (auto simp: provisioned_write split: option.splits prod.splits)

text \<open>
  The stages of one synchronisation: which part of the status each of them leaves to the next.
\<close>

lemma sync_status_parts:
  "st_ClusterDeploymentRef (ci_Status (sync_status now cd ci)) =
     st_ClusterDeploymentRef (ci_Status (with_deployment_ref (om_Name (o_Meta cd)) ci))"
  "st_Conditions (ci_Status (sync_status now cd ci)) =
     st_Conditions (ci_Status (updateCIProvisionedStatus now cd (init_provisioned now (with_deployment_ref (om_Name (o_Meta cd)) ci))))"
  "t \<in> set clusterInstallConditionTypes
     \<Longrightarrow> mirrors (o_CDConditions cd) (st_DeploymentConditions (ci_Status (sync_status now cd ci))) t"
  using foldl_sync(1) [OF install_types_distinct]
  by (simp_all add: sync_status_def updateCIDeploymentConditions_def provisioned_frame init_provisioned_def set_condition_def
      split: option.split)

lemma sync_status_fixed: "sync_status now' cd (sync_status now cd ci) = sync_status now cd ci"
proof -
  define c where "c = sync_status now cd ci"
  note parts = sync_status_parts [where now = now and cd = cd and ci = ci, folded c_def]
  have ref: "with_deployment_ref (om_Name (o_Meta cd)) c = c"
  proof -
    have "om_Name (o_Meta cd) = [] \<Longrightarrow> c\<lparr>ci_Status := (ci_Status c)\<lparr>st_ClusterDeploymentRef := Some []\<rparr>\<rparr> = c"
      if "st_ClusterDeploymentRef (ci_Status c) = Some []" using that by simp
    then show ?thesis using parts(1) by (auto simp: with_deployment_ref_def split: option.splits list.splits)
  qed
  have init: "init_provisioned now' c = c"
    using has_provisioned parts(2) by (simp add: init_provisioned_id)
  have prov: "updateCIProvisionedStatus now' cd c = c" using provisioned_again parts(2) by metis
  have "updateCIDeploymentConditions now' cd c = c"
    using foldl_sync_fixed parts(3) by (simp add: updateCIDeploymentConditions_def with_deployment_conditions_def)
  then have "sync_status now' cd c = c" using ref init prov by (simp add: sync_status_def)
  then show ?thesis unfolding c_def .
qed

section \<open>Lemmas: one reconciliation without failures\<close>

lemma provisioned_frame_spec [simp]:
  "ci_Spec (set_condition now t r st m ci) = ci_Spec ci" "ci_Meta (set_condition now t r st m ci) = ci_Meta ci"
  by (simp_all add: set_condition_def)

lemma sync_status_frame: "ci_Spec (sync_status now cd ci) = ci_Spec ci" "ci_Meta (sync_status now cd ci) = ci_Meta ci"
  by (simp_all add: sync_status_def updateCIDeploymentConditions_def with_deployment_conditions_def provisioned_write
      init_provisioned_def with_deployment_ref_def split: option.split prod.split list.split)

text \<open>The ClusterDeployment of a request and the stored ClusterInstance that its owned-by label names.\<close>

definition cd_objkey :: "string \<times> string \<Rightarrow> objkey" where
  "cd_objkey key = ObjKey ''hive.openshift.io/v1'' ''ClusterDeployment'' (fst key) (snd key)"

definition owned_instance :: "string \<times> string \<Rightarrow> world \<Rightarrow> (kobject \<times> ClusterInstance) option" where
  "owned_instance key w =
     (case map_of (w_objs w) (cd_objkey key) of
        None \<Rightarrow> None
      | Some cd \<Rightarrow>
          (case GetNamespacedNameFromOwnedByLabel (gindex (om_Labels (o_Meta cd)) OwnedByLabel) of
             Inl e \<Rightarrow> None
           | Inr k \<Rightarrow> if fst k = om_Namespace (o_Meta cd) then map_option (Pair cd) (map_of (w_cis w) k) else None))"

lemma owned_instance_same: "w_objs w = w_objs v \<Longrightarrow> w_cis w = w_cis v \<Longrightarrow> owned_instance key w = owned_instance key v"
  by (simp only: owned_instance_def)

lemma at_another_time [simp]: "owned_instance key (w\<lparr>w_now := t\<rparr>) = owned_instance key w" "cis_ok (w\<lparr>w_now := t\<rparr>) = cis_ok w"
  by (rule owned_instance_same) (simp_all add: cis_ok_def)

lemma GetNamespacedName_Nil [simp]: "GetNamespacedNameFromOwnedByLabel [] \<noteq> Inr k"
  by (simp add: GetNamespacedNameFromOwnedByLabel_def)

lemma owned_instanceE:
  assumes "owned_instance key w = Some (cd, ci)"
  obtains k where "map_of (w_objs w) (cd_objkey key) = Some cd" "map_of (w_cis w) k = Some ci"
    "GetNamespacedNameFromOwnedByLabel (gindex (om_Labels (o_Meta cd)) OwnedByLabel) = Inr k"
    "fst k = om_Namespace (o_Meta cd)" "gindex (om_Labels (o_Meta cd)) OwnedByLabel \<noteq> []"
proof -
  from assms obtain k where k: "map_of (w_objs w) (cd_objkey key) = Some cd" "map_of (w_cis w) k = Some ci"
    "GetNamespacedNameFromOwnedByLabel (gindex (om_Labels (o_Meta cd)) OwnedByLabel) = Inr k"
    "fst k = om_Namespace (o_Meta cd)"
    by (auto simp: owned_instance_def split: option.splits sum.splits if_splits)
  then show thesis using that GetNamespacedName_Nil by (metis (full_types))
qed

lemma owned_instanceI:
  "map_of (w_objs w) (cd_objkey key) = Some cd \<Longrightarrow> map_of (w_cis w) k = Some ci \<Longrightarrow>
   GetNamespacedNameFromOwnedByLabel (gindex (om_Labels (o_Meta cd)) OwnedByLabel) = Inr k \<Longrightarrow>
   fst k = om_Namespace (o_Meta cd) \<Longrightarrow> owned_instance key w = Some (cd, ci)"
  by (simp add: owned_instance_def)

lemma getClusterInstance_no_fault:
  assumes "w_faults w = []" "map_of (w_objs w) (cd_objkey key) = Some cd"
  shows "\<exists>err. getClusterInstance cd w = ((map_option snd (owned_instance key w), err), w)
      \<and> (owned_instance key w \<noteq> None \<longrightarrow> err = None)"
  using assms
  by (auto simp: getClusterInstance_def getClusterInstanceOwner_def owned_instance_def GetCI_def not_found_def Let_def
      split: option.splits sum.splits)

lemma sync_status_eq: "ci_Status (sync_status now cd ci) = ci_Status ci \<longleftrightarrow> sync_status now cd ci = ci"
  by (metis ClusterInstance.equality old.unit.exhaust sync_status_frame)

lemma cd_Reconcile_no_fault:
  assumes "w_faults w = []" "cis_ok w"
  shows "cd_Reconcile key w =
    (doNotRequeue, None,
     case owned_instance key w of
       None \<Rightarrow> w
     | Some (cd, ci) \<Rightarrow>
         if sync_status (w_now w) cd ci = ci then w
         else w\<lparr>w_cis := gset (ci_key ci) (sync_status (w_now w) cd ci) (w_cis w)\<rparr>)"
proof (cases "map_of (w_objs w) (cd_objkey key)")
  case None
  then show ?thesis using assms by (simp add: cd_Reconcile_def cd_objkey_def Get_def not_found_def owned_instance_def)
next
  case (Some cd)
  then have get: "Get (ObjKey ''hive.openshift.io/v1'' ''ClusterDeployment'' (fst key) (snd key)) w = (Inr cd, w)"
    using assms by (simp add: Get_def cd_objkey_def)
  obtain err where ci: "getClusterInstance cd w = ((map_option snd (owned_instance key w), err), w)"
    "owned_instance key w \<noteq> None \<longrightarrow> err = None" using getClusterInstance_no_fault assms(1) Some by blast
  show ?thesis
  proof (cases "owned_instance key w")
    case None
    then show ?thesis using get ci by (simp add: cd_Reconcile_def)
  next
    case own: (Some p)
    then obtain ci where p: "p = (cd, ci)" "map_of (w_cis w) (ci_key ci) = Some ci"
      using Some assms(2) cis_ok_lookup by (cases p) (auto elim!: owned_instanceE)
    have "ci_key (sync_status (w_now w) cd ci) = ci_key ci" by (simp add: ci_key_def sync_status_frame)
    moreover have "ci\<lparr>ci_Status := ci_Status (sync_status (w_now w) cd ci)\<rparr> = sync_status (w_now w) cd ci"
      by (intro ClusterInstance.equality) (simp_all add: sync_status_frame)
    ultimately have patch: "PatchCIStatus ci (sync_status (w_now w) cd ci) w =
        (None, sync_status (w_now w) cd ci, w\<lparr>w_cis := gset (ci_key ci) (sync_status (w_now w) cd ci) (w_cis w)\<rparr>)"
      using p(2) PatchCIStatus_no_fault [OF assms(1), of "sync_status (w_now w) cd ci" ci ci] by simp
    have ci': "getClusterInstance cd w = ((Some ci, None), w)" using ci own p(1) by simp
    show ?thesis
    proof (cases "sync_status (w_now w) cd ci = ci")
      case True
      then show ?thesis unfolding cd_Reconcile_def get own p(1) using ci' by simp
    next
      case False
      then have "ci_Status ci \<noteq> ci_Status (sync_status (w_now w) cd ci)" using sync_status_eq by metis
      then show ?thesis unfolding cd_Reconcile_def get own p(1) using False ci' patch by simp
    qed
  qed
qed

lemma sync_status_other_condition:
  "t \<noteq> ClusterProvisioned \<Longrightarrow>
   FindStatusCondition (st_Conditions (ci_Status (sync_status now cd ci))) t = FindStatusCondition (st_Conditions (ci_Status ci)) t"
  by (simp add: sync_status_parts(2) provisioned_write init_provisioned_def with_deployment_ref_def set_condition_def Set_find_other
      split: option.split prod.split list.split)

text \<open>What the provisioned condition is after the synchronisation, by the table of verdicts.\<close>

definition follows_verdict :: "kobject \<Rightarrow> ClusterInstance \<Rightarrow> ClusterInstance \<Rightarrow> bool" where
  "follows_verdict cd ci ci' \<longleftrightarrow>
     (\<exists>c. FindStatusCondition (st_Conditions (ci_Status ci')) ClusterProvisioned = Some c
        \<and> (case provisioned_verdict cd of
             Some (r, s, m) \<Rightarrow> c_Reason c = r \<and> c_Status c = s \<and> c_Message c = m
           | None \<Rightarrow>
               (case FindStatusCondition (st_Conditions (ci_Status ci)) ClusterProvisioned of
                  Some c0 \<Rightarrow> c = c0
                | None \<Rightarrow> c_Status c = ConditionUnknown \<and> c_Reason c = Unknown)))"

lemma with_deployment_ref_conditions [simp]:
  "st_Conditions (ci_Status (with_deployment_ref n ci)) = st_Conditions (ci_Status ci)"
  by (simp add: with_deployment_ref_def split: option.split list.split)

lemma sync_follows_verdict: "follows_verdict cd ci (sync_status now cd ci)"
proof (cases "provisioned_verdict cd")
  case (Some v)
  then show ?thesis
    using Set_find_exact [of now "st_Conditions (ci_Status (init_provisioned now (with_deployment_ref (om_Name (o_Meta cd)) ci)))"
        ClusterProvisioned "fst v" "fst (snd v)" "snd (snd v)"]
    by (auto simp: follows_verdict_def sync_status_parts(2) provisioned_write set_condition_def split: prod.splits)
next
  case None
  then show ?thesis
    using Set_find_exact [of now "st_Conditions (ci_Status ci)" ClusterProvisioned Unknown ConditionUnknown
        "''Waiting for provisioning to start''"]
    by (auto simp: follows_verdict_def sync_status_parts(2) provisioned_write init_provisioned_def set_condition_def split: option.splits)
qed

section \<open>Sample ClusterDeployment\<close>

text \<open>A ClusterDeployment whose installation has stopped with a failure, and the world that holds it.\<close>

definition cd_reports :: "string \<Rightarrow> string \<Rightarrow> CDCondition" where
  "cd_reports t s = (unknown_condition t)\<lparr>cd_Status := s, cd_Reason := ''Hive''\<rparr>"

definition sample_cd :: kobject where
  "sample_cd = (new_object ''hive.openshift.io/v1'' ''ClusterDeployment'' ''ns'' ''c'')
     \<lparr>o_Meta := empty_meta\<lparr>om_Name := ''c'', om_Namespace := ''ns'', om_Labels := [(OwnedByLabel, ''ns_c'')]\<rparr>,
      o_CDConditions := [cd_reports ClusterInstallStopped ConditionTrue, cd_reports ClusterInstallCompleted ConditionFalse,
        cd_reports ClusterInstallFailed ConditionTrue]\<rparr>"

definition cd_world :: "err option list \<Rightarrow> world" where
  "cd_world faults = \<lparr>w_now = 100, w_faults = faults, w_objs = [(okey sample_cd, sample_cd)], w_cis = [(ci_key sample_ci, sample_ci)]\<rparr>"

lemma cd_world_ok:
  "w_faults (cd_world []) = []" "cis_ok (cd_world [])" "owned_instance (''ns'', ''c'') (cd_world []) = Some (sample_cd, sample_ci)"
  by code_simp+

section \<open>The properties\<close>



text \<open>C15: Reconciling a ClusterDeployment settles after one run: when no request fails, a second run, at whatever
  time, on the state that the first one left does nothing and writes nothing, so the watch on the ClusterInstance
  status that the first write triggers does not start a loop.\<close>

theorem cd_reconcile_settles:
  assumes "w_faults w = []" "cis_ok w" "cd_Reconcile key w = (res, err, w')"
  shows "cd_Reconcile key (w'\<lparr>w_now := t\<rparr>) = (doNotRequeue, None, w'\<lparr>w_now := t\<rparr>)"
proof -
  note run = cd_Reconcile_no_fault [OF assms(1,2), of key, unfolded assms(3)]
  show ?thesis
  proof (cases "owned_instance key w")
    case None
    then have "w' = w" using run by simp
    then show ?thesis using assms(1,2) None cd_Reconcile_no_fault [of "w\<lparr>w_now := t\<rparr>" key]
      by simp
  next
    case (Some p)
    then obtain cd ci where p: "owned_instance key w = Some (cd, ci)" by (cases p) auto
    define ci' where "ci' = sync_status (w_now w) cd ci"
    have w': "w' = (if ci' = ci then w else w\<lparr>w_cis := gset (ci_key ci) ci' (w_cis w)\<rparr>)"
      using run p by (simp add: ci'_def)
    have k: "ci_key ci' = ci_key ci" by (simp add: ci'_def ci_key_def sync_status_frame)
    have "cis_ok w'" using assms(2) k set_gset_subset by (fastforce simp: w' cis_ok_def list_all_iff)
    moreover have "owned_instance key w' = Some (cd, ci')"
    proof -
      obtain k where k: "map_of (w_objs w) (cd_objkey key) = Some cd" "map_of (w_cis w) k = Some ci"
        "GetNamespacedNameFromOwnedByLabel (gindex (om_Labels (o_Meta cd)) OwnedByLabel) = Inr k"
        "fst k = om_Namespace (o_Meta cd)" using p by (rule owned_instanceE)
      have "k = ci_key ci" using assms(2) k(2) cis_ok_lookup by blast
      then show ?thesis using k by (intro owned_instanceI [of _ _ _ k]) (simp_all add: w')
    qed
    moreover have "sync_status t cd ci' = ci'" unfolding ci'_def by (rule sync_status_fixed)
    moreover have "w_faults w' = []" using assms(1) by (simp add: w')
    ultimately show ?thesis using cd_Reconcile_no_fault [of "w'\<lparr>w_now := t\<rparr>" key] by simp
  qed
qed

theorem cd_reconcile_settles_witness:
  "\<exists>w'. cd_Reconcile (''ns'', ''c'') (cd_world []) = (doNotRequeue, None, w') \<and> w_cis w' \<noteq> w_cis (cd_world [])
    \<and> cd_Reconcile (''ns'', ''c'') (w'\<lparr>w_now := 7\<rparr>) = (doNotRequeue, None, w'\<lparr>w_now := 7\<rparr>)"
proof -
  obtain res err w' where run: "cd_Reconcile (''ns'', ''c'') (cd_world []) = (res, err, w')" by (metis prod.exhaust)
  have "w_cis (snd (snd (cd_Reconcile (''ns'', ''c'') (cd_world [])))) \<noteq> w_cis (cd_world [])"
    "fst (cd_Reconcile (''ns'', ''c'') (cd_world [])) = doNotRequeue"
    "fst (snd (cd_Reconcile (''ns'', ''c'') (cd_world []))) = None" by code_simp+
  then show ?thesis using cd_reconcile_settles [OF cd_world_ok(1,2) run, of 7] run by simp
qed

text \<open>A failed look-up of the ClusterInstance is swallowed: when the request for it fails with anything but
  NotFound, as in an outage of the API server, the reconciler reports success and does not ask to be called again,
  although it has copied nothing.\<close>

theorem cd_lookup_error_swallowed:
  assumes "map_of (w_objs w) (cd_objkey key) = Some cd" "w_faults w = [None, Some e]" "\<not> IsNotFound e"
    "GetNamespacedNameFromOwnedByLabel (gindex (om_Labels (o_Meta cd)) OwnedByLabel) = Inr k" "fst k = om_Namespace (o_Meta cd)"
  shows "\<exists>e' w1 w2. Get (cd_objkey key) w = (Inr cd, w1) \<and> getClusterInstance cd w1 = ((None, Some e'), w2)
    \<and> cd_Reconcile key w = (doNotRequeue, None, w2) \<and> w_cis w2 = w_cis w"
proof -
  let ?w1 = "w\<lparr>w_faults := [Some e]\<rparr>" and ?w2 = "w\<lparr>w_faults := []\<rparr>"
  have get: "Get (cd_objkey key) w = (Inr cd, ?w1)" using assms(1,2) by (simp add: Get_def next_fault_def)
  have "gindex (om_Labels (o_Meta cd)) OwnedByLabel \<noteq> []" using assms(4) GetNamespacedName_Nil by metis
  then obtain e' where ci: "getClusterInstance cd ?w1 = ((None, Some e'), ?w2)"
    using assms(3-5) by (cases k) (auto simp: getClusterInstance_def getClusterInstanceOwner_def GetCI_def next_fault_def)
  then have "cd_Reconcile key w = (doNotRequeue, None, ?w2)"
    using get by (simp add: cd_Reconcile_def cd_objkey_def [symmetric])
  then show ?thesis using get ci by auto
qed

theorem cd_lookup_error_swallowed_witness:
  "\<exists>e' w1 w2. getClusterInstance sample_cd w1 = ((None, Some e'), w2)
    \<and> cd_Reconcile (''ns'', ''c'') (cd_world [None, Some (ErrAPI ServiceUnavailable [])]) = (doNotRequeue, None, w2)"
proof -
  have "map_of (w_objs (cd_world [None, Some (ErrAPI ServiceUnavailable [])])) (cd_objkey (''ns'', ''c'')) = Some sample_cd"
    "w_faults (cd_world [None, Some (ErrAPI ServiceUnavailable [])]) = [None, Some (ErrAPI ServiceUnavailable [])]"
    "\<not> IsNotFound (ErrAPI ServiceUnavailable [])"
    "GetNamespacedNameFromOwnedByLabel (gindex (om_Labels (o_Meta sample_cd)) OwnedByLabel) = Inr (''ns'', ''c'')"
    "fst (''ns'', ''c'') = om_Namespace (o_Meta sample_cd)" by code_simp+
  from cd_lookup_error_swallowed [OF this] show ?thesis by blast
qed

end
