(* ===== verification/Configuration.thy ===== *)
theory Configuration
  imports API_Server
begin

text \<open>
  \<open>internal/controller/configuration\<close> and \<open>configuration_monitor.go\<close>: the runtime configuration, its
  store, and the reconciler that copies the operator's ConfigMap into the store. A Go map is iterated
  in the order of the association list. The operations of the store are atomic (its mutex).
\<close>

section \<open>configuration.go\<close>

definition DefaultAllowReinstalls :: bool where "DefaultAllowReinstalls = False"
definition DefaultMaxConcurrentReconciles :: int where "DefaultMaxConcurrentReconciles = 1"

record configuration =
  allowReinstalls :: bool
  maxConcurrentReconciles :: int

definition NewDefaultConfiguration :: configuration where
  "NewDefaultConfiguration =
     \<lparr>allowReinstalls = DefaultAllowReinstalls, maxConcurrentReconciles = DefaultMaxConcurrentReconciles\<rparr>"

definition ToMap :: "configuration \<Rightarrow> smap" where
  "ToMap c = [(''allowReinstalls'', FormatBool (allowReinstalls c)),
     (''maxConcurrentReconciles'', Itoa (maxConcurrentReconciles c))]"

definition invalid_value :: "string \<Rightarrow> string \<Rightarrow> string \<Rightarrow> err" where
  "invalid_value key fn value = ErrWrap (''invalid value for '' @ dquote @ key @ dquote @ '': '')
     (ErrNew (''strconv.'' @ fn @ '': parsing '' @ dquote @ value @ dquote @ '': invalid syntax''))"

definition unsupported_key :: "string \<Rightarrow> err" where
  "unsupported_key key = ErrNew (''unsupported key in input map: '' @ dquote @ key @ dquote)"

fun FromMap :: "smap \<Rightarrow> configuration \<Rightarrow> err option \<times> configuration" where
  "FromMap [] c = (None, c)"
| "FromMap ((key, value) # input) c =
     (if key = ''allowReinstalls'' then
        (case ParseBool value of
           None \<Rightarrow> (Some (invalid_value key ''ParseBool'' value), c)
         | Some boolValue \<Rightarrow> FromMap input (c\<lparr>allowReinstalls := boolValue\<rparr>))
      else if key = ''maxConcurrentReconciles'' then
        (case Atoi value of
           None \<Rightarrow> (Some (invalid_value key ''Atoi'' value), c)
         | Some intValue \<Rightarrow> FromMap input (c\<lparr>maxConcurrentReconciles := intValue\<rparr>))
      else (Some (unsupported_key key), c))"

section \<open>configuration\_store.go\<close>

record ConfigurationStore =
  cs_configuration :: configuration

definition NewConfigurationStore :: "configuration option \<Rightarrow> err + ConfigurationStore" where
  "NewConfigurationStore initialConfig =
     (case initialConfig of
        None \<Rightarrow> Inl (ErrNew ''configuration cannot be nil'')
      | Some c \<Rightarrow> Inr \<lparr>cs_configuration = c\<rparr>)"

definition SetAllowReinstalls :: "bool \<Rightarrow> ConfigurationStore \<Rightarrow> ConfigurationStore" where
  "SetAllowReinstalls b s = s\<lparr>cs_configuration := (cs_configuration s)\<lparr>allowReinstalls := b\<rparr>\<rparr>"

definition GetAllowReinstalls :: "ConfigurationStore \<Rightarrow> bool" where
  "GetAllowReinstalls s = allowReinstalls (cs_configuration s)"

definition SetMaxConcurrentReconciles :: "int \<Rightarrow> ConfigurationStore \<Rightarrow> ConfigurationStore" where
  "SetMaxConcurrentReconciles n s = s\<lparr>cs_configuration := (cs_configuration s)\<lparr>maxConcurrentReconciles := n\<rparr>\<rparr>"

definition GetMaxConcurrentReconciles :: "ConfigurationStore \<Rightarrow> int" where
  "GetMaxConcurrentReconciles s = maxConcurrentReconciles (cs_configuration s)"

fun UpdateConfiguration :: "smap \<Rightarrow> ConfigurationStore \<Rightarrow> err option \<times> ConfigurationStore" where
  "UpdateConfiguration [] s = (None, s)"
| "UpdateConfiguration ((key, value) # data) s =
     (if key = ''allowReinstalls'' then
        (case ParseBool value of
           None \<Rightarrow> (Some (invalid_value key ''ParseBool'' value), s)
         | Some allow \<Rightarrow>
             UpdateConfiguration data (if GetAllowReinstalls s \<noteq> allow then SetAllowReinstalls allow s else s))
      else if key = ''maxConcurrentReconciles'' then
        (case Atoi value of
           None \<Rightarrow> (Some (invalid_value key ''Atoi'' value), s)
         | Some n \<Rightarrow>
             UpdateConfiguration data
               (if GetMaxConcurrentReconciles s \<noteq> n then SetMaxConcurrentReconciles n s else s))
      else (Some (unsupported_key key), s))"

section \<open>configuration\_monitor.go\<close>

definition SiteConfigOperatorConfigMap :: string where
  "SiteConfigOperatorConfigMap = ''siteconfig-operator-configuration''"

definition RequeueDelay :: nat where "RequeueDelay = 30"

definition config_key :: "string \<Rightarrow> objkey" where
  "config_key namespace = ObjKey ''v1'' ''ConfigMap'' namespace SiteConfigOperatorConfigMap"

definition CreateDefaultConfigurationConfigMap :: "string \<Rightarrow> world \<Rightarrow> err option \<times> world" where
  "CreateDefaultConfigurationConfigMap namespace w =
     (case Create ((new_object ''v1'' ''ConfigMap'' namespace SiteConfigOperatorConfigMap)
         \<lparr>o_Data := ToMap NewDefaultConfiguration\<rparr>) w of
        (Inl e, w') \<Rightarrow> (Some (ErrWrap ''failed to create default ConfigMap: '' e), w')
      | (Inr cm, w') \<Rightarrow> (None, w'))"

definition GetConfigurationData :: "string \<Rightarrow> world \<Rightarrow> (err + smap) \<times> world" where
  "GetConfigurationData namespace w =
     (case Get (config_key namespace) w of
        (Inl e, w') \<Rightarrow> (Inl (ErrWrap (''failed to fetch ConfigMap '' @ namespace @ ''/''
            @ SiteConfigOperatorConfigMap @ '': '') e), w')
      | (Inr cm, w') \<Rightarrow> (Inr (o_Data cm), w'))"

definition monitor_Reconcile :: "string \<Rightarrow> string \<Rightarrow> ConfigurationStore \<Rightarrow> world
    \<Rightarrow> Result \<times> err option \<times> ConfigurationStore \<times> world" where
  "monitor_Reconcile name namespace store w =
     (if name \<noteq> SiteConfigOperatorConfigMap then (zero_result, None, store, w)
      else case GetConfigurationData namespace w of
        (Inl e, w') \<Rightarrow>
          if IsNotFound e then
            (case CreateDefaultConfigurationConfigMap namespace w' of
               (Some e', w'') \<Rightarrow> (zero_result\<lparr>rs_RequeueAfter := RequeueDelay\<rparr>, Some e', store, w'')
             | (None, w'') \<Rightarrow> (zero_result, None, store, w''))
          else (zero_result\<lparr>rs_RequeueAfter := RequeueDelay\<rparr>, Some e, store, w')
      | (Inr data, w') \<Rightarrow>
          (case UpdateConfiguration data store of
             (Some e, store') \<Rightarrow>
               (zero_result, Some (ErrWrap ''failed to update runtime configuration store: '' e), store', w')
           | (None, store') \<Rightarrow> (zero_result, None, store', w')))"

text \<open>The event filter of \<open>SetupWithManager\<close> (for created, updated and deleted ConfigMaps).\<close>

definition isTargetConfigMap :: "string \<Rightarrow> string \<Rightarrow> string \<Rightarrow> bool" where
  "isTargetConfigMap monitored name namespace =
     (if name \<noteq> SiteConfigOperatorConfigMap \<or> namespace \<noteq> monitored then False else True)"

section \<open>Lemmas\<close>

lemma set_if_changed [simp]:
  "(if GetAllowReinstalls s \<noteq> b then SetAllowReinstalls b s else s) = SetAllowReinstalls b s"
  "(if GetMaxConcurrentReconciles s \<noteq> n then SetMaxConcurrentReconciles n s else s) = SetMaxConcurrentReconciles n s"
  by (auto simp: GetAllowReinstalls_def SetAllowReinstalls_def GetMaxConcurrentReconciles_def SetMaxConcurrentReconciles_def)

text \<open>Writing a value only when it differs is writing it.\<close>

lemma UpdateConfiguration_Cons:
  "UpdateConfiguration ((key, value) # data) s =
     (if key = ''allowReinstalls'' then
        (case ParseBool value of
           None \<Rightarrow> (Some (invalid_value key ''ParseBool'' value), s)
         | Some allow \<Rightarrow> UpdateConfiguration data (SetAllowReinstalls allow s))
      else if key = ''maxConcurrentReconciles'' then
        (case Atoi value of
           None \<Rightarrow> (Some (invalid_value key ''Atoi'' value), s)
         | Some n \<Rightarrow> UpdateConfiguration data (SetMaxConcurrentReconciles n s))
      else (Some (unsupported_key key), s))"
  by (simp only: UpdateConfiguration.simps set_if_changed)

lemma update_follows_FromMap:
  "UpdateConfiguration data s =
     map_prod id (\<lambda>c. s\<lparr>cs_configuration := c\<rparr>) (FromMap data (cs_configuration s))"
proof (induction data arbitrary: s)
  case (Cons p data)
  obtain k v where p: "p = (k, v)" by fastforce
  show ?case unfolding p UpdateConfiguration_Cons
    by (simp add: Cons SetAllowReinstalls_def SetMaxConcurrentReconciles_def split: option.split)
qed simp

lemma FromMap_ToMap: "in_int64 (maxConcurrentReconciles c) \<Longrightarrow> FromMap (ToMap c) d = (None, c)"
  by (simp add: ToMap_def Atoi_Itoa)

section \<open>The properties\<close>

text \<open>C34: The two readers of the configuration agree: updating the store from the data of the ConfigMap, which
  writes only the values that changed, gives the error and the configuration that parsing the same data over the
  stored configuration gives, on every input and on every error, whatever the order of the keys.\<close>

theorem configuration_update_equivalent:
  "UpdateConfiguration data s = map_prod id (\<lambda>c. s\<lparr>cs_configuration := c\<rparr>) (FromMap data (cs_configuration s))"
  by (rule update_follows_FromMap)

end
