(* ===== verification/Watches.thy ===== *)
theory Watches
  imports Controller Cluster_Deployment Configuration
begin

text \<open>
  How the controllers are woken: the events of the API server, the predicates of controller-runtime that
  filter them, the requests they turn into, and what the work queue does with the result of a
  reconciliation. \<open>SetupWithManager\<close> of the three controllers is the record of their event filters, request
  mappings and numbers of workers. The predicates and the queue are those of the vendored
  \<open>sigs.k8s.io/controller-runtime\<close>, as far as the controllers use them; objects of events are never nil.
\<close>

section \<open>Events and predicates (controller-runtime)\<close>

datatype 'o watch_event = CreateEvent 'o | UpdateEvent 'o 'o | DeleteEvent 'o | GenericEvent 'o

text \<open>\<open>predicate.Funcs\<close>: a function that is not set lets every event of its kind pass.\<close>

record 'o Funcs =
  CreateFunc :: "('o \<Rightarrow> bool) option"
  UpdateFunc :: "('o \<Rightarrow> 'o \<Rightarrow> bool) option"
  DeleteFunc :: "('o \<Rightarrow> bool) option"
  GenericFunc :: "('o \<Rightarrow> bool) option"

definition no_funcs :: "'o Funcs" where
  "no_funcs = \<lparr>CreateFunc = None, UpdateFunc = None, DeleteFunc = None, GenericFunc = None\<rparr>"

fun passes :: "'o Funcs \<Rightarrow> 'o watch_event \<Rightarrow> bool" where
  "passes p (CreateEvent x) = (case CreateFunc p of None \<Rightarrow> True | Some f \<Rightarrow> f x)"
| "passes p (UpdateEvent x y) = (case UpdateFunc p of None \<Rightarrow> True | Some f \<Rightarrow> f x y)"
| "passes p (DeleteEvent x) = (case DeleteFunc p of None \<Rightarrow> True | Some f \<Rightarrow> f x)"
| "passes p (GenericEvent x) = (case GenericFunc p of None \<Rightarrow> True | Some f \<Rightarrow> f x)"

text \<open>\<open>maps.Equal\<close> of the Go library.\<close>

definition maps_Equal :: "smap \<Rightarrow> smap \<Rightarrow> bool" where
  "maps_Equal m1 m2 \<longleftrightarrow> length m1 = length m2 \<and> list_all (\<lambda>(k, v). map_of m2 k = Some v) m1"

definition GenerationChangedPredicate :: "('o \<Rightarrow> ObjectMeta) \<Rightarrow> 'o Funcs" where
  "GenerationChangedPredicate meta =
     no_funcs\<lparr>UpdateFunc := Some (\<lambda>old new. om_Generation (meta new) \<noteq> om_Generation (meta old))\<rparr>"

definition LabelChangedPredicate :: "('o \<Rightarrow> ObjectMeta) \<Rightarrow> 'o Funcs" where
  "LabelChangedPredicate meta =
     no_funcs\<lparr>UpdateFunc := Some (\<lambda>old new. \<not> maps_Equal (om_Labels (meta new)) (om_Labels (meta old)))\<rparr>"

fun Or :: "'o Funcs list \<Rightarrow> 'o watch_event \<Rightarrow> bool" where
  "Or [] e = False"
| "Or (p # ps) e = (if passes p e then True else Or ps e)"

text \<open>The objects of an event, and the handler that enqueues the one it is about.\<close>

fun event_objects :: "'o watch_event \<Rightarrow> 'o list" where
  "event_objects (CreateEvent x) = [x]"
| "event_objects (UpdateEvent x y) = [x, y]"
| "event_objects (DeleteEvent x) = [x]"
| "event_objects (GenericEvent x) = [x]"

type_synonym request = "string \<times> string"

definition EnqueueRequestForObject :: "('o \<Rightarrow> ObjectMeta) \<Rightarrow> 'o watch_event \<Rightarrow> request list" where
  "EnqueueRequestForObject meta e =
     (let m = meta (last (event_objects e)) in [(om_Namespace m, om_Name m)])"

text \<open>The handler with a mapping function: each request once.\<close>

definition EnqueueRequestsFromMapFunc :: "('o \<Rightarrow> request list) \<Rightarrow> 'o watch_event \<Rightarrow> request list" where
  "EnqueueRequestsFromMapFunc toRequests e = remdups (concat (map toRequests (event_objects e)))"

section \<open>The work queue (controller-runtime)\<close>

text \<open>
  \<open>reconcileHandler\<close>: an error puts the request back with the rate limit, whatever the result says; no
  error of this program is a terminal one.
\<close>

datatype queue_action = AddRateLimited | AddAfter nat | Forget

definition reconcileHandler :: "Result \<Rightarrow> err option \<Rightarrow> queue_action" where
  "reconcileHandler result err =
     (if err \<noteq> None then AddRateLimited
      else if rs_RequeueAfter result > 0 then AddAfter (rs_RequeueAfter result)
      else if rs_Requeue result then AddRateLimited
      else Forget)"

text \<open>A number of workers that is not positive is replaced by one.\<close>

definition controller_workers :: "int \<Rightarrow> int" where
  "controller_workers n = (if n \<le> 0 then 1 else n)"

section \<open>SetupWithManager\<close>

text \<open>
  What a controller is registered with; \<open>Complete\<close> is the last call of the builder, which hands the controller
  over to the manager under its name and may refuse it.
\<close>

type_synonym registrar = "string \<Rightarrow> err option"

definition registered :: "registrar \<Rightarrow> string \<Rightarrow> 'c \<Rightarrow> err + 'c" where
  "registered Complete name c = (case Complete name of Some e \<Rightarrow> Inl e | None \<Rightarrow> Inr c)"

text \<open>The ClusterInstance controller, with the name that the builder gives it.\<close>

definition ci_filter :: "ClusterInstance watch_event \<Rightarrow> bool" where
  "ci_filter = Or [GenerationChangedPredicate ci_Meta, LabelChangedPredicate ci_Meta,
     no_funcs\<lparr>UpdateFunc := Some holdAnnotationPredicate\<rparr>,
     no_funcs\<lparr>UpdateFunc := Some provisionedChangedPredicate\<rparr>]"

record ci_controller =
  cc_requests :: "ClusterInstance watch_event \<Rightarrow> request list"
  cc_workers :: int

definition ci_controller_of :: "ConfigurationStore \<Rightarrow> ci_controller" where
  "ci_controller_of store =
     \<lparr>cc_requests = (\<lambda>e. if ci_filter e then EnqueueRequestForObject ci_Meta e else []),
      cc_workers = controller_workers (GetMaxConcurrentReconciles store)\<rparr>"

definition ci_SetupWithManager :: "registrar \<Rightarrow> ConfigurationStore \<Rightarrow> err + ci_controller" where
  "ci_SetupWithManager Complete store = registered Complete ''clusterinstance'' (ci_controller_of store)"

text \<open>
  The ClusterDeployment reconciler: its filter is for events of ClusterDeployments only; events of
  ClusterInstances are mapped unfiltered, with a look-up of what is stored.
\<close>

definition cd_filter :: "kobject Funcs" where
  "cd_filter =
     \<lparr>CreateFunc = Some (\<lambda>x. isOwnedByClusterInstance (om_Labels (o_Meta x))),
      UpdateFunc = Some (\<lambda>old new. isOwnedByClusterInstance (om_Labels (o_Meta new))),
      DeleteFunc = Some (\<lambda>x. False),
      GenericFunc = Some (\<lambda>x. False)\<rparr>"

record cd_controller =
  dc_deployment_requests :: "kobject watch_event \<Rightarrow> request list"
  dc_instance_requests :: "world \<Rightarrow> ClusterInstance watch_event \<Rightarrow> request list"

definition cd_SetupWithManager :: "registrar \<Rightarrow> err + cd_controller" where
  "cd_SetupWithManager Complete = registered Complete ''clusterDeploymentReconciler''
     \<lparr>dc_deployment_requests = (\<lambda>e. if passes cd_filter e then EnqueueRequestForObject o_Meta e else []),
      dc_instance_requests = (\<lambda>w. EnqueueRequestsFromMapFunc (\<lambda>ci. mapClusterInstanceToCD (ci_key ci) w))\<rparr>"

text \<open>The configuration monitor, which needs a namespace.\<close>

definition siteConfigCMPredicate :: "string \<Rightarrow> kobject Funcs" where
  "siteConfigCMPredicate namespace =
     (let target = (\<lambda>x. isTargetConfigMap namespace (om_Name (o_Meta x)) (om_Namespace (o_Meta x)))
      in \<lparr>CreateFunc = Some target, UpdateFunc = Some (\<lambda>old new. target new), DeleteFunc = Some target,
          GenericFunc = Some (\<lambda>x. False)\<rparr>)"

record monitor_controller =
  mc_requests :: "kobject watch_event \<Rightarrow> request list"
  mc_workers :: int

definition monitor_SetupWithManager :: "registrar \<Rightarrow> string \<Rightarrow> err + monitor_controller" where
  "monitor_SetupWithManager Complete namespace =
     (if namespace = [] then Inl (ErrNew ''namespace not defined'')
      else registered Complete ''ConfigurationMonitor''
        \<lparr>mc_requests = (\<lambda>e. if passes (siteConfigCMPredicate namespace) e then EnqueueRequestForObject o_Meta e else []),
         mc_workers = controller_workers 1\<rparr>)"

section \<open>Lemmas: the queue\<close>

text \<open>A delay that is returned together with an error is never waited for.\<close>

lemma error_delay_ignored:
  "requeueWithErrorAfterDelay e delay = (res, err) \<Longrightarrow> reconcileHandler res err = AddRateLimited"
  "0 < delay \<Longrightarrow> reconcileHandler (requeueWithDelay delay) None = AddAfter delay"
  by (auto simp: requeueWithErrorAfterDelay_def requeueWithDelay_def reconcileHandler_def)

section \<open>Lemmas: the filters of the other two controllers\<close>

text \<open>The monitor sees exactly the changes of its ConfigMap.\<close>

lemma monitor_requests:
  assumes "monitor_SetupWithManager Complete namespace = Inr c"
  shows "mc_requests c e = (case e of
      GenericEvent x \<Rightarrow> []
    | _ \<Rightarrow> (let m = o_Meta (last (event_objects e)) in
        if om_Name m = SiteConfigOperatorConfigMap \<and> om_Namespace m = namespace
        then [(namespace, SiteConfigOperatorConfigMap)] else []))"
  using assms
  by (cases e) (auto simp: monitor_SetupWithManager_def registered_def siteConfigCMPredicate_def isTargetConfigMap_def
      EnqueueRequestForObject_def Let_def split: if_splits option.splits)

text \<open>
  A ClusterDeployment that carries an owner is reconciled when it is created or changed, and a ClusterInstance
  leads to the ClusterDeployment that its stored status refers to.
\<close>

lemma deployment_requests:
  assumes "cd_SetupWithManager Complete = Inr c"
  shows "dc_deployment_requests c e = (case e of
      CreateEvent x \<Rightarrow> if isOwnedByClusterInstance (om_Labels (o_Meta x)) then [(om_Namespace (o_Meta x), om_Name (o_Meta x))] else []
    | UpdateEvent x y \<Rightarrow> if isOwnedByClusterInstance (om_Labels (o_Meta y)) then [(om_Namespace (o_Meta y), om_Name (o_Meta y))] else []
    | _ \<Rightarrow> [])"
  using assms
  by (cases e) (auto simp: cd_SetupWithManager_def registered_def cd_filter_def EnqueueRequestForObject_def Let_def split: option.splits)

lemma instance_requests:
  assumes "cd_SetupWithManager Complete = Inr c" "w_faults w = []" "map_of (w_cis w) (ci_key ci) = Some s" "ci_key old = ci_key ci"
  shows "set (dc_instance_requests c w (UpdateEvent old ci)) =
    (case st_ClusterDeploymentRef (ci_Status s) of Some (a # as) \<Rightarrow> {(fst (ci_key ci), a # as)} | _ \<Rightarrow> {})"
  using assms
  by (auto simp: cd_SetupWithManager_def registered_def EnqueueRequestsFromMapFunc_def mapClusterInstanceToCD_def GetCI_def
      split: option.splits list.splits)

end
