(* ===== verification/Apply_Safety.thy ===== *)
theory Apply_Safety
  imports Rendering
begin

text \<open>
  What rendering and applying the manifests may change: only objects listed for pruning, and objects of the
  render list after the server has accepted every one of them in a dry run.
\<close>

section \<open>Lemmas: status patches leave the objects alone\<close>

lemma OnError_faults_ok:
  assumes "OnError n retriable fn w = (r, w')" "faults_ok w" "\<And>w r w'. fn w = (r, w') \<Longrightarrow> faults_ok w \<Longrightarrow> faults_ok w'"
  shows "faults_ok w'"
  using assms(1,2)
proof (induction n arbitrary: w rule: less_induct)
  case (less n)
  show ?case
  proof (cases "n \<le> 1")
    case True
    then have "n = 0 \<or> n = Suc 0" by auto
    then show ?thesis using less.prems assms(3) by auto
  next
    case False
    then obtain j where "n = Suc (Suc j)" by (metis One_nat_def not_less_eq_eq not0_implies_Suc le0)
    then show ?thesis using less assms(3) [of w] by (auto split: prod.splits sum.splits if_splits)
  qed
qed

lemma StatusPatchCI_faults_ok: "StatusPatchCI orig ci w = (r, w') \<Longrightarrow> faults_ok w \<Longrightarrow> faults_ok w'"
  by (auto simp: StatusPatchCI_def Let_def split: prod.splits option.splits dest: next_fault_ok)

lemma PatchCIStatus_faults_ok: "PatchCIStatus orig ci w = (eo, ci', w') \<Longrightarrow> faults_ok w \<Longrightarrow> faults_ok w'"
  by (auto simp: PatchCIStatus_def RetryOnRetriable_def split: prod.splits sum.splits
      dest!: OnError_faults_ok intro: StatusPatchCI_faults_ok)

text \<open>Steps that write only ClusterInstances.\<close>

definition writes_ci :: "world \<Rightarrow> world \<Rightarrow> bool" where
  "writes_ci w w' \<longleftrightarrow> w_objs w' = w_objs w \<and> w_now w' = w_now w \<and> (faults_ok w \<longrightarrow> faults_ok w')"

lemma writes_ci_refl [simp, intro]: "writes_ci w w"
  by (simp add: writes_ci_def)

lemma writes_ci_trans [trans]: "writes_ci u v \<Longrightarrow> writes_ci v w \<Longrightarrow> writes_ci u w"
  by (simp add: writes_ci_def)

lemma reads_writes: "reads w w' \<Longrightarrow> writes_ci w w'"
  by (simp add: reads_def same_state_def writes_ci_def)

lemma PatchCIStatus_writes: "PatchCIStatus orig ci w = (eo, ci', w') \<Longrightarrow> writes_ci w w'"
  using ci_status.patch_frame PatchCIStatus_faults_ok by (simp add: writes_ci_def)

lemma patch_status_writes: "patch_status orig ci err w = (eo, ci', w') \<Longrightarrow> writes_ci w w'"
  by (auto simp: patch_status_def split: prod.splits dest: PatchCIStatus_writes)

lemma renderManifests_writes:
  assumes "renderManifests env ci w = Some (col, err, ci', w')"
  shows "writes_ci w w'" "err = None \<Longrightarrow> \<exists>w1. ProcessTemplates env ci w = Some ((None, col), w1)"
proof -
  obtain e w1 c where p: "ProcessTemplates env ci w = Some ((e, col), w1)" "patch_status ci c e w1 = (err, ci', w')"
    using assms by (auto simp: renderManifests_def split: option.splits prod.splits)
  show "writes_ci w w'"
    using reads_writes [OF ProcessTemplates_reads [OF p(1)]] patch_status_writes [OF p(2)] writes_ci_trans by blast
  show "\<exists>w1. ProcessTemplates env ci w = Some ((None, col), w1)" if "err = None"
    using p that by (auto simp: patch_status_def split: prod.splits if_splits)
qed

lemma suppressed_writes: "updateSuppressedManifestsStatus ci objs w = Some (err, ci', w') \<Longrightarrow> writes_ci w w'"
  by (auto simp: updateSuppressedManifestsStatus_def split: option.splits if_splits prod.splits dest: PatchCIStatus_writes)

lemma metadata_patch_writes: "PatchCI orig ci w = (r, w') \<Longrightarrow> writes_ci w w'" "GetCI k w = (g, w') \<Longrightarrow> writes_ci w w'"
  "StatusPatchCI orig ci w = (r, w') \<Longrightarrow> writes_ci w w'"
  by (auto simp: PatchCI_def GetCI_def StatusPatchCI_def writes_ci_def Let_def split: prod.splits option.splits if_splits
      dest: next_fault_ok)

lemma ApplyPause_writes: "ApplyPause ci reason w = (eo, ci', w') \<Longrightarrow> writes_ci w w'"
  by (auto simp: ApplyPause_def Let_def split: if_splits prod.splits sum.splits dest!: metadata_patch_writes)
    (meson writes_ci_trans)+

lemma pause_after_timeout_writes: "pause_after_timeout e ci w = (eo, ci', w') \<Longrightarrow> writes_ci w w'"
  by (auto simp: pause_after_timeout_def split: prod.splits option.splits dest: ApplyPause_writes)

section \<open>Lemmas: pruning\<close>

lemma DeleteObjects_changes:
  assumes "DeleteObjects ci objects ex tmo w = (c, eo, ci', w')" "faults_ok w" "k \<notin> objectKey ` set objects"
  shows "map_of (w_objs w') k = map_of (w_objs w) k"
  using DeleteObjects_spec [OF assms(1,2)] assms(3) by (metis image_eqI)

lemma DeleteObjects_faults_ok:
  assumes "DeleteObjects ci objects ex tmo w = (c, eo, ci', w')" "faults_ok w"
  shows "faults_ok w'"
proof -
  obtain ds where ds: "step_ok (owner_label ci)
      \<lparr>ds_manifests = st_ManifestsRendered (ci_Status ci), ds_deleted = [], ds_errs = [], ds_world = w\<rparr> ds"
    "delete_finish ci ds = (eo, ci', w')"
    using DeleteObjects_spec [OF assms] by metis
  have "faults_ok (ds_world ds)" using ds(1) assms(2) by (simp add: step_ok_def)
  then show ?thesis
    using ds(2) by (auto simp: delete_finish_def Let_def split: if_splits prod.splits dest: PatchCIStatus_faults_ok)
qed

lemma pruneManifests_changes:
  assumes "pruneManifests ci objects w = (ok, err, ci', w')" "faults_ok w"
  shows "faults_ok w'" "k \<notin> objectKey ` set objects \<Longrightarrow> map_of (w_objs w') k = map_of (w_objs w) k"
proof -
  obtain c e ci1 w1 where d: "objects \<noteq> [] \<Longrightarrow> DeleteObjects ci objects [] (Some DefaultDeletionTimeout) w = (c, e, ci1, w1)"
    by (metis prod_cases4)
  have "faults_ok w' \<and> (k \<notin> objectKey ` set objects \<longrightarrow> map_of (w_objs w') k = map_of (w_objs w) k)"
  proof (cases "objects = []")
    case True
    with assms show ?thesis by (simp add: pruneManifests_def)
  next
    case False
    with assms(1) d have "writes_ci w1 w'"
      by (auto simp: pruneManifests_def split: option.splits if_splits dest: pause_after_timeout_writes)
    then show ?thesis using DeleteObjects_changes [OF d [OF False] assms(2)] DeleteObjects_faults_ok [OF d [OF False] assms(2)]
      by (simp add: writes_ci_def)
  qed
  then show "faults_ok w'" "k \<notin> objectKey ` set objects \<Longrightarrow> map_of (w_objs w') k = map_of (w_objs w) k" by blast+
qed

section \<open>Lemmas: the dry run\<close>

definition accepted :: "ssa \<Rightarrow> world \<Rightarrow> RenderedObject \<Rightarrow> bool" where
  "accepted ssa w r \<longleftrightarrow> (case ssa (map_of (w_objs w) (document_key (object_doc r))) (object_doc r) of Inl e \<Rightarrow> False | Inr x \<Rightarrow> True)"

lemma applyObject_dry_run:
  assumes "applyObject ssa True r w = (eo, w')"
  shows "same_state w w'" "eo = None \<Longrightarrow> accepted ssa w r"
  using assms Apply_dry_run [of ssa "object_doc r" w]
  by (auto simp: applyObject_def accepted_def split: prod.splits sum.splits)
    (auto simp: Apply_def Let_def split: prod.splits option.splits sum.splits)

lemma accepted_cong: "w_objs w' = w_objs w \<Longrightarrow> accepted ssa w' = accepted ssa w"
  by (simp add: accepted_def fun_eq_iff)

lemma execute_dry_run:
  assumes "execute_objects ssa True st objs ms errs w = Some (ms', errs', w')"
  shows "same_state w w' \<and> (errs' = [] \<longrightarrow> errs = [] \<and> list_all (accepted ssa w) objs)"
  using assms
proof (induction objs arbitrary: ms errs w)
  case (Cons r objs)
  obtain ref eo w1 where r: "ManifestReferenceOf (w_now w) r = Some ref" "applyObject ssa True r w = (eo, w1)"
    using Cons.prems by (auto split: option.splits prod.splits)
  note a = applyObject_dry_run [OF r(2)]
  have "same_state w1 w' \<and> (errs' = [] \<longrightarrow> eo = None \<and> errs = [] \<and> list_all (accepted ssa w1) objs)"
    using Cons.prems Cons.IH r by (cases eo) auto
  with a accepted_cong [of w1 w ssa] same_state_trans show ?case by (auto simp: same_state_def)
qed simp

lemma validateRenderedManifests_gate:
  assumes "validateRenderedManifests ssa ci objs w = Some (ok, err, ci', w')"
  shows "w_objs w' = w_objs w" "ok \<Longrightarrow> list_all (accepted ssa w) objs"
proof -
  obtain ms errs w1 c e where x: "execute_objects ssa True ManifestRenderedValidated objs (st_ManifestsRendered (ci_Status ci)) [] w = Some (ms, errs, w1)"
    "ok = (errs = [])" "patch_status ci c e w1 = (err, ci', w')"
    using assms by (auto simp: validateRenderedManifests_def executeRenderedManifests_def split: option.splits)
  show "w_objs w' = w_objs w" using patch_status_writes [OF x(3)] execute_dry_run [OF x(1)] by (simp add: writes_ci_def same_state_def)
  show "ok \<Longrightarrow> list_all (accepted ssa w) objs" using execute_dry_run [OF x(1)] x(2) by simp
qed

lemma applyObject_touches: "applyObject ssa dry r w = (eo, w') \<Longrightarrow> touches {document_key (object_doc r)} w w'"
  by (auto simp: applyObject_def split: prod.splits sum.splits dest: Apply_touches)

lemma execute_touches:
  assumes "execute_objects ssa dry st objs ms errs w = Some (ms', errs', w')"
  shows "touches ((\<lambda>r. document_key (object_doc r)) ` set objs) w w'"
  using assms
proof (induction objs arbitrary: ms errs w)
  case (Cons r objs)
  obtain ref eo w1 where r: "ManifestReferenceOf (w_now w) r = Some ref" "applyObject ssa dry r w = (eo, w1)"
    using Cons.prems by (auto split: option.splits prod.splits)
  have "touches ((\<lambda>r. document_key (object_doc r)) ` set objs) w1 w'"
    using Cons.prems Cons.IH r by (cases eo) auto
  then show ?case using touches_mono applyObject_touches [OF r(2)] touches_trans
    by (smt (verit) image_insert insertI1 insert_subset empty_subsetI list.set(2) subset_insertI)
qed simp

lemma apply_collection_gate:
  assumes "apply_collection ssa ci objs w = Some (ok, err, ci', w')" "map_of (w_objs w') k \<noteq> map_of (w_objs w) k"
  shows "list_all (accepted ssa w) objs" "k \<in> (\<lambda>r. document_key (object_doc r)) ` set objs"
proof -
  obtain ok1 err1 ci1 w1 where v: "validateRenderedManifests ssa ci objs w = Some (ok1, err1, ci1, w1)"
    using assms(1) by (auto simp: apply_collection_def split: option.splits)
  note g = validateRenderedManifests_gate [OF v]
  then have ok: "ok1" "applyRenderedManifests ssa ci1 objs w1 = Some (ok, err, ci', w')"
    using assms v by (auto simp: apply_collection_def split: if_splits)
  show "list_all (accepted ssa w) objs" using g(2) ok(1) .
  obtain ms errs w2 c e where x: "execute_objects ssa False ManifestRenderedSuccess objs (st_ManifestsRendered (ci_Status ci1)) [] w1 = Some (ms, errs, w2)"
    "patch_status ci1 c e w2 = (err, ci', w')"
    using ok(2) by (auto simp: applyRenderedManifests_def executeRenderedManifests_def split: option.splits)
  show "k \<in> (\<lambda>r. document_key (object_doc r)) ` set objs"
    using assms(2) touches_obj [OF execute_touches [OF x(1)]] patch_status_writes [OF x(2)] g(1)
    by (metis writes_ci_def)
qed

section \<open>The property\<close>

text \<open>C6: Rendering and applying the templates of a ClusterInstance changes an object of the cluster only if the
  object is listed for pruning, or is one of the objects to render; and in the second case the server has
  accepted a dry run of every object to render, in the state after the pruning: a manifest that is
  rejected keeps all of them from being applied.\<close>

theorem apply_gated_by_dry_run:
  assumes "handleRenderTemplates env ssa ci w = Some (ok, err, ci', w')" "faults_ok w"
    "map_of (w_objs w') k \<noteq> map_of (w_objs w) k"
  shows "\<exists>col w1 v. ProcessTemplates env ci w = Some ((None, col), w1)
    \<and> (\<forall>j. j \<notin> objectKey ` set (GetPruneObjects col) \<longrightarrow> map_of (w_objs v) j = map_of (w_objs w) j)
    \<and> (k \<in> objectKey ` set (GetPruneObjects col)
       \<or> k \<in> (\<lambda>r. document_key (object_doc r)) ` set (GetRenderObjects col) \<and> list_all (accepted ssa v) (GetRenderObjects col))"
proof -
  obtain col err1 ci1 w1 where r: "renderManifests env ci w = Some (col, err1, ci1, w1)"
    using assms(1) by (auto simp: handleRenderTemplates_def split: option.splits)
  note rw = renderManifests_writes [OF r]
  then have "err1 = None" using assms(1,3) r by (auto simp: handleRenderTemplates_def writes_ci_def split: option.splits)
  obtain ok2 err2 ci2 w2 where p: "pruneManifests ci1 (GetPruneObjects col) w1 = (ok2, err2, ci2, w2)" by (metis prod_cases4)
  have f: "faults_ok w1" using rw(1) assms(2) by (simp add: writes_ci_def)
  have prune: "map_of (w_objs w2) j = map_of (w_objs w) j" if "j \<notin> objectKey ` set (GetPruneObjects col)" for j
    using pruneManifests_changes(2) [OF p f that] rw(1) by (simp add: writes_ci_def)
  have render: "k \<in> (\<lambda>r. document_key (object_doc r)) ` set (GetRenderObjects col) \<and> list_all (accepted ssa w2) (GetRenderObjects col)"
    if "k \<notin> objectKey ` set (GetPruneObjects col)"
  proof -
    have "map_of (w_objs w') k \<noteq> map_of (w_objs w2) k" using prune [OF that] assms(3) by simp
    moreover have "w' = w2" if "\<not> ok2 \<or> err2 \<noteq> None"
      using that assms(1) r p \<open>err1 = None\<close> by (simp add: handleRenderTemplates_def)
    ultimately obtain err3 ci3 w3 where s: "updateSuppressedManifestsStatus ci2 (GetSuppressObjects col) w2 = Some (err3, ci3, w3)"
      "err3 = None \<longrightarrow> apply_collection ssa ci3 (GetRenderObjects col) w3 = Some (ok, err, ci', w')"
      "err3 \<noteq> None \<longrightarrow> w' = w3"
      using assms(1) r p \<open>err1 = None\<close> by (auto simp: handleRenderTemplates_def split: option.splits if_splits)
    have o: "w_objs w3 = w_objs w2" using suppressed_writes [OF s(1)] by (simp add: writes_ci_def)
    then have "err3 = None" using s(3) \<open>map_of (w_objs w') k \<noteq> map_of (w_objs w2) k\<close> by auto
    then show ?thesis
      using apply_collection_gate [of ssa ci3 "GetRenderObjects col" w3 ok err ci' w' k] s(2) o \<open>map_of (w_objs w') k \<noteq> map_of (w_objs w2) k\<close>
      by (simp add: accepted_cong [OF o])
  qed
  show ?thesis using rw(2) [OF \<open>err1 = None\<close>] prune render by blast
qed

text \<open>A hub on which the sample ClusterInstance is rendered into one ConfigMap.\<close>

definition sample_ssa :: ssa where
  "sample_ssa old d = Inr (case old of Some obj \<Rightarrow> obj | None \<Rightarrow> new_object [] [] [] [])"

definition template_cm :: kobject where
  "template_cm = (new_object ''v1'' ''ConfigMap'' ''ns'' ''t'')\<lparr>o_Data := [(''k'', ''text'')]\<rparr>"

definition install_world :: world where
  "install_world = render_world\<lparr>w_objs := (ObjKey ''v1'' ''ConfigMap'' ''ns'' ''t'', template_cm) # w_objs render_world,
     w_cis := [(ci_key sample_ci, sample_ci)]\<rparr>"

definition install_run :: "bool \<times> err option \<times> ClusterInstance \<times> world" where
  "install_run = the (handleRenderTemplates sample_tenv sample_ssa sample_ci install_world)"

lemma install_run_ok:
  "handleRenderTemplates sample_tenv sample_ssa sample_ci install_world =
     Some (fst install_run, fst (snd install_run), fst (snd (snd install_run)), snd (snd (snd install_run)))"
  "faults_ok install_world"
  "map_of (w_objs (snd (snd (snd install_run)))) (ObjKey ''v1'' ''ConfigMap'' ''ns'' ''m'') \<noteq>
   map_of (w_objs install_world) (ObjKey ''v1'' ''ConfigMap'' ''ns'' ''m'')"
  by code_simp+

theorem apply_gated_by_dry_run_witness:
  "\<exists>col w1. ProcessTemplates sample_tenv sample_ci install_world = Some ((None, col), w1)"
  using apply_gated_by_dry_run [OF install_run_ok] by blast

end
