(* ===== verification/Provisioning.thy ===== *)
theory Provisioning
  imports Controller Apply_Safety Reinstall_Request
begin

text \<open>
  What the handlers of the provisioning path guarantee for the status: the contract of a handler (locale
  \<open>status_handler\<close>), its interpretation by the six handlers, and the meaning of the observed generation.
\<close>

section \<open>The contract of a handler\<close>

definition in_sync :: "ClusterInstance \<Rightarrow> world \<Rightarrow> bool" where
  "in_sync ci w \<longleftrightarrow> map_of (w_cis w) (ci_key ci) = Some ci"

definition condition_of :: "ClusterInstance \<Rightarrow> string \<Rightarrow> Condition option" where
  "condition_of ci t = FindStatusCondition (st_Conditions (ci_Status ci)) t"

text \<open>The handler has set its own conditions to True, and left the other conditions, the metadata, the spec and the
  observed generation alone.\<close>

definition carries :: "string set \<Rightarrow> ClusterInstance \<Rightarrow> ClusterInstance \<Rightarrow> bool" where
  "carries own ci ci' \<longleftrightarrow> ci_Meta ci' = ci_Meta ci \<and> ci_Spec ci' = ci_Spec ci
     \<and> st_ObservedGeneration (ci_Status ci') = st_ObservedGeneration (ci_Status ci)
     \<and> (\<forall>t. t \<notin> own \<longrightarrow> condition_of ci' t = condition_of ci t) \<and> (\<forall>t\<in>own. cond_true (condition_of ci' t))"

text \<open>What is stored under a key has kept its observed generation and its generation.\<close>

definition gen_kept :: "string \<times> string \<Rightarrow> world \<Rightarrow> world \<Rightarrow> bool" where
  "gen_kept k w w' \<longleftrightarrow> (\<forall>s'. map_of (w_cis w') k = Some s' \<longrightarrow>
     (\<exists>s. map_of (w_cis w) k = Some s \<and> st_ObservedGeneration (ci_Status s') = st_ObservedGeneration (ci_Status s)
        \<and> om_Generation (ci_Meta s') = om_Generation (ci_Meta s)))"

lemma gen_kept_refl [simp, intro]: "gen_kept k w w"
  by (simp add: gen_kept_def)

lemma gen_kept_trans: "gen_kept k u v \<Longrightarrow> gen_kept k v w \<Longrightarrow> gen_kept k u w"
  unfolding gen_kept_def by metis

lemma gen_kept_same: "w_cis w' = w_cis w \<Longrightarrow> gen_kept k w w'"
  by (simp add: gen_kept_def)

lemma carries_refl [simp]: "carries {} ci ci"
  by (simp add: carries_def)

lemma carries_trans: "carries A a b \<Longrightarrow> carries B b c \<Longrightarrow> A \<inter> B = {} \<Longrightarrow> carries (A \<union> B) a c"
  unfolding carries_def by (metis Un_iff disjoint_iff)

lemma carries_key: "carries A ci ci' \<Longrightarrow> ci_key ci' = ci_key ci"
  by (simp add: carries_def ci_key_def)

locale status_handler =
  fixes handle :: "ClusterInstance \<Rightarrow> world \<Rightarrow> (err option \<times> ClusterInstance \<times> world) option" and own :: "string set"
  assumes success: "in_sync ci w \<Longrightarrow> handle ci w = Some (None, ci', w') \<Longrightarrow> in_sync ci' w' \<and> carries own ci ci'"
    and keeps_gen: "handle ci w = Some (err, ci', w') \<Longrightarrow> gen_kept k w w'"
begin

lemma key_kept: "in_sync ci w \<Longrightarrow> handle ci w = Some (None, ci', w') \<Longrightarrow> ci_key ci' = ci_key ci"
  using success carries_key by blast

text \<open>A handler that runs after others adds its conditions to theirs.\<close>

lemma after:
  assumes "carries A ci0 ci" "in_sync ci w" "gen_kept k w0 w" "handle ci w = Some (err, ci', w')" "A \<inter> own = {}"
  shows "gen_kept k w0 w'" "err = None \<Longrightarrow> in_sync ci' w' \<and> carries (A \<union> own) ci0 ci'"
  using assms gen_kept_trans keeps_gen success carries_trans by blast+

end

section \<open>Lemmas: patches\<close>

lemma PatchCIStatus_gen_kept:
  assumes "PatchCIStatus orig new w = (eo, ci', w')"
    "st_ObservedGeneration (ci_Status new) = st_ObservedGeneration (ci_Status orig)"
  shows "gen_kept k w w'"
proof (cases eo)
  case None
  then show ?thesis using ci_status.patch_ok [of orig new w ci' w'] assms
    by (auto simp: gen_kept_def merge_status_def split: if_splits)
next
  case (Some e)
  then show ?thesis using ci_status.patch_fail [of orig new w e ci' w'] assms(1) gen_kept_same by blast
qed

lemma PatchCI_gen_kept: "PatchCI orig ci w = (r, w') \<Longrightarrow> gen_kept k w w'"
  by (auto simp: PatchCI_def gen_kept_def merge_meta_def Let_def split: prod.splits option.splits if_splits)

lemma GetCI_gen_kept: "GetCI j w = (r, w') \<Longrightarrow> gen_kept k w w'"
  by (auto simp: GetCI_def gen_kept_def split: prod.splits option.splits)

lemma StatusPatchCI_gen_kept:
  "StatusPatchCI orig new w = (r, w') \<Longrightarrow>
   st_ObservedGeneration (ci_Status new) = st_ObservedGeneration (ci_Status orig) \<Longrightarrow> gen_kept k w w'"
  by (auto simp: StatusPatchCI_def gen_kept_def merge_status_def Let_def split: prod.splits option.splits if_splits)

lemma ApplyPause_gen_kept: "ApplyPause ci reason w = (eo, ci', w') \<Longrightarrow> gen_kept k w w'"
  by (auto simp: ApplyPause_def Let_def with_paused_def split: if_splits prod.splits sum.splits
      dest!: PatchCI_gen_kept [where k = k] GetCI_gen_kept [where k = k] StatusPatchCI_gen_kept [where k = k])
    (meson gen_kept_trans)+

lemma pause_after_timeout_gen_kept:
  "pause_after_timeout e ci w = (eo, ci', w') \<Longrightarrow> gen_kept k w w' \<and> eo \<noteq> None"
  by (auto simp: pause_after_timeout_def split: prod.splits option.splits dest: ApplyPause_gen_kept)

text \<open>A status patch from memory that the server holds stores what is in memory.\<close>

lemma patch_in_sync:
  assumes "PatchCIStatus ci new w = (None, ci', w')" "in_sync ci w" "ci_Meta new = ci_Meta ci" "ci_Spec new = ci_Spec ci"
  shows "ci' = new" "in_sync ci' w'"
proof -
  have "ci_key new = ci_key ci" using assms(3) by (simp add: ci_key_def)
  then show "ci' = new" "in_sync ci' w'"
    using ci_status.patch_synced [OF assms(1) _ assms(3,4)] assms(2) by (auto simp: in_sync_def)
qed

lemma set_condition_frame [simp]:
  "ci_Meta (set_condition now t r s m ci) = ci_Meta ci" "ci_Spec (set_condition now t r s m ci) = ci_Spec ci"
  "st_ObservedGeneration (ci_Status (set_condition now t r s m ci)) = st_ObservedGeneration (ci_Status ci)"
  by (simp_all add: set_condition_def)

lemma with_manifests_frame [simp]:
  "ci_Meta (with_manifests ms ci) = ci_Meta ci" "ci_Spec (with_manifests ms ci) = ci_Spec ci"
  "st_ObservedGeneration (ci_Status (with_manifests ms ci)) = st_ObservedGeneration (ci_Status ci)"
  "condition_of (with_manifests ms ci) t = condition_of ci t"
  by (simp_all add: with_manifests_def condition_of_def)

lemma set_condition_carries: "carries {t} ci (set_condition now t r ConditionTrue m ci)"
  using Set_find_same [of now "st_Conditions (ci_Status ci)" t r ConditionTrue m]
  by (auto simp: carries_def condition_of_def set_condition_def Set_find_other cond_true_def)

lemma with_manifests_carries: "carries {} ci (with_manifests ms ci)"
  by (simp add: carries_def)

lemma in_sync_same: "w_cis w' = w_cis w \<Longrightarrow> in_sync ci w' = in_sync ci w"
  by (simp add: in_sync_def)

definition handled :: "string set \<Rightarrow> ClusterInstance \<Rightarrow> world \<Rightarrow> err option \<times> ClusterInstance \<times> world \<Rightarrow> bool" where
  "handled own ci w r \<longleftrightarrow> (case r of (err, ci', w') \<Rightarrow>
     (\<forall>k. gen_kept k w w') \<and> (in_sync ci w \<and> err = None \<longrightarrow> in_sync ci' w' \<and> carries own ci ci'))"

lemma status_handlerI: "(\<And>ci w r. h ci w = Some r \<Longrightarrow> handled own ci w r) \<Longrightarrow> status_handler h own"
  by unfold_locales (fastforce simp: handled_def)+

definition writes_status :: "string set \<Rightarrow> err option \<Rightarrow> ClusterInstance \<Rightarrow> ClusterInstance \<Rightarrow> bool" where
  "writes_status own e ci new \<longleftrightarrow> ci_Meta new = ci_Meta ci \<and> ci_Spec new = ci_Spec ci
     \<and> st_ObservedGeneration (ci_Status new) = st_ObservedGeneration (ci_Status ci) \<and> (e = None \<longrightarrow> carries own ci new)"

lemma patch_status_handled:
  assumes "w_cis v = w_cis w" "writes_status own e ci new"
  shows "handled own ci w (patch_status ci new e v)"
proof -
  obtain eo ci' w' where p: "PatchCIStatus ci new v = (eo, ci', w')" by (metis prod_cases3)
  have "gen_kept k w w'" for k
    using PatchCIStatus_gen_kept [OF p] assms(2) gen_kept_trans [OF gen_kept_same [OF assms(1)]] by (simp add: writes_status_def)
  moreover have "in_sync ci' w' \<and> carries own ci ci'" if "in_sync ci w" "e = None" "eo = None"
    using patch_in_sync [of ci new v ci' w'] p that assms(2) in_sync_same [OF assms(1)] by (simp add: writes_status_def)
  ultimately show ?thesis by (auto simp: handled_def patch_status_def p)
qed

text \<open>The two ways a handler ends: with its condition True, or with an error.\<close>

lemma writes_condition:
  "writes_status {t} None ci (set_condition now t r ConditionTrue m ci)"
  "writes_status {t} (Some e) ci (set_condition now t r s m ci)"
  "writes_status {t} None ci (set_condition now t r ConditionTrue m (with_manifests ms ci))"
  "writes_status {t} (Some e) ci (set_condition now t r s m (with_manifests ms ci))"
  using carries_trans [OF with_manifests_carries set_condition_carries]
  by (simp_all add: writes_status_def set_condition_carries)

section \<open>The handlers\<close>

lemma handleValidate_handled: "handled {ClusterInstanceValidated} ci w (handleValidate ci w)"
proof -
  obtain e v where v: "Validate ci w = (e, v)" by fastforce
  then have "w_cis v = w_cis w" using Validate_reads by (simp add: reads_def same_state_def)
  then show ?thesis unfolding handleValidate_def v prod.case
    by (intro patch_status_handled) (cases e; simp only: option.case writes_condition)+
qed

interpretation validate_handler: status_handler "\<lambda>ci w. Some (handleValidate ci w)" "{ClusterInstanceValidated}"
  by (rule status_handlerI) (use handleValidate_handled in blast)

lemma renderManifests_handled:
  assumes "renderManifests env ci w = Some (col, r)"
  shows "handled {RenderedTemplates} ci w r"
proof -
  obtain e v where v: "ProcessTemplates env ci w = Some ((e, col), v)"
    "r = patch_status ci (case e of
       Some e \<Rightarrow> set_condition (w_now v) RenderedTemplates Failed ConditionFalse (''Failed to render templates, err= '' @ Error e) ci
     | None \<Rightarrow> set_condition (w_now v) RenderedTemplates Completed ConditionTrue ''Rendered templates successfully'' ci) e v"
    using assms by (auto simp: renderManifests_def split: option.splits prod.splits)
  have "w_cis v = w_cis w" using ProcessTemplates_reads [OF v(1)] by (simp add: reads_def same_state_def)
  then show ?thesis unfolding v(2) by (intro patch_status_handled) (cases e; simp only: option.case writes_condition)+
qed

interpretation render_handler: status_handler "\<lambda>ci w. map_option snd (renderManifests env ci w)" "{RenderedTemplates}" for env
  by (rule status_handlerI) (use renderManifests_handled in auto)

lemma execute_cis:
  assumes "execute_objects ssa dry st objs ms errs w = Some (ms', errs', w')"
  shows "w_cis w' = w_cis w"
  using touches_cis(1) [OF execute_touches [OF assms]] .

lemma NewAggregate_empty [simp]: "NewAggregate errs = None \<longleftrightarrow> errs = []" "NewAggregate [] = None"
  by (simp_all add: NewAggregate_def)

lemma validateRenderedManifests_handled:
  assumes "validateRenderedManifests ssa ci objs w = Some (ok, r)"
  shows "handled {RenderedTemplatesValidated} ci w r"
proof -
  obtain ms errs v where x: "execute_objects ssa True ManifestRenderedValidated objs (st_ManifestsRendered (ci_Status ci)) [] w = Some (ms, errs, v)"
    using assms by (auto simp: validateRenderedManifests_def executeRenderedManifests_def split: option.splits)
  show ?thesis
    using assms x patch_status_handled [OF execute_cis [OF x] writes_condition(3)] patch_status_handled [OF execute_cis [OF x] writes_condition(4)]
    by (cases "NewAggregate errs") (auto simp: validateRenderedManifests_def executeRenderedManifests_def Let_def split: option.splits if_splits)
qed

lemma applyRenderedManifests_handled:
  assumes "applyRenderedManifests ssa ci objs w = Some (ok, r)"
  shows "handled {RenderedTemplatesApplied} ci w r"
proof -
  obtain ms errs v where x: "execute_objects ssa False ManifestRenderedSuccess objs (st_ManifestsRendered (ci_Status ci)) [] w = Some (ms, errs, v)"
    using assms by (auto simp: applyRenderedManifests_def executeRenderedManifests_def split: option.splits)
  show ?thesis
    using assms x patch_status_handled [OF execute_cis [OF x] writes_condition(3)] patch_status_handled [OF execute_cis [OF x] writes_condition(4)]
    by (cases "NewAggregate errs") (auto simp: applyRenderedManifests_def executeRenderedManifests_def Let_def split: option.splits if_splits)
qed

interpretation dry_run_handler: status_handler "\<lambda>ci w. map_option snd (validateRenderedManifests ssa ci objs w)"
    "{RenderedTemplatesValidated}" for ssa objs
  by (rule status_handlerI) (use validateRenderedManifests_handled in auto)

interpretation apply_handler: status_handler "\<lambda>ci w. map_option snd (applyRenderedManifests ssa ci objs w)"
    "{RenderedTemplatesApplied}" for ssa objs
  by (rule status_handlerI) (use applyRenderedManifests_handled in auto)

lemma DeleteObjects_handled:
  assumes "DeleteObjects ci objs ex tmo w = (c, eo, ci', w')"
  shows "handled {} ci w (eo, ci', w')"
  using assms
proof (cases rule: DeleteObjects_outcome)
  case unpatched
  then show ?thesis by (auto simp: handled_def in_sync_def intro: gen_kept_same)
next
  case (patched ms v po)
  have "gen_kept k w w'" for k
    using PatchCIStatus_gen_kept [OF patched(1)] gen_kept_trans [OF gen_kept_same [OF patched(2)]] by simp
  moreover have "in_sync ci' w' \<and> carries {} ci ci'" if "in_sync ci w" "po = None"
    using patch_in_sync [of ci "with_manifests ms ci" v ci' w'] patched(1) that in_sync_same [OF patched(2)] with_manifests_carries
    by simp
  ultimately show ?thesis using patched(4) by (simp add: handled_def)
qed

lemma handled_error: "handled own ci w (eo, ci', w') \<Longrightarrow> handled own ci w (Some e, ci', w')"
  by (simp add: handled_def)

lemma handled_gen: "handled own ci w (eo, ci', w') \<Longrightarrow> gen_kept k w w'"
  by (cases k) (simp add: handled_def)

lemma pruneManifests_handled: "handled {} ci w (snd (pruneManifests ci objs w))"
proof (cases "objs = []")
  case True
  then show ?thesis by (simp add: pruneManifests_def handled_def)
next
  case False
  obtain c eo ci' w' where d: "DeleteObjects ci objs [] (Some DefaultDeletionTimeout) w = (c, eo, ci', w')" by (metis prod_cases4)
  note h = DeleteObjects_handled [OF d]
  show ?thesis
  proof (cases eo)
    case None
    with False d h show ?thesis by (simp add: pruneManifests_def)
  next
    case (Some e)
    obtain eo2 ci2 w2 where p: "pause_after_timeout e ci' w' = (eo2, ci2, w2)" by (metis prod_cases3)
    have "gen_kept k w w2" for k
      by (rule gen_kept_trans [OF handled_gen [OF h] conjunct1 [OF pause_after_timeout_gen_kept [OF p]]])
    then have "handled {} ci w (eo2, ci2, w2)" using pause_after_timeout_gen_kept [OF p] by (auto simp: handled_def)
    with False d h Some p show ?thesis by (simp add: pruneManifests_def handled_error)
  qed
qed

interpretation prune_handler: status_handler "\<lambda>ci w. Some (snd (pruneManifests ci objs w))" "{}" for objs
  by (rule status_handlerI) (use pruneManifests_handled in auto)

lemma updateSuppressed_handled:
  assumes "updateSuppressedManifestsStatus ci objs w = Some r"
  shows "handled {} ci w r"
proof -
  obtain ms where "suppress_objects (w_now w) objs (st_ManifestsRendered (ci_Status ci)) = Some ms"
    using assms by (auto simp: updateSuppressedManifestsStatus_def split: option.splits)
  moreover obtain eo ci' w' where p: "PatchCIStatus ci (with_manifests ms ci) w = (eo, ci', w')" by (metis prod_cases3)
  moreover have "handled {} ci w (eo, ci', w')"
    using PatchCIStatus_gen_kept [OF p] patch_in_sync [of ci "with_manifests ms ci" w ci' w'] p with_manifests_carries
    by (auto simp: handled_def)
  ultimately show ?thesis using assms
    by (cases eo) (auto simp: updateSuppressedManifestsStatus_def handled_def split: if_splits)
qed

interpretation suppress_handler: status_handler "\<lambda>ci w. updateSuppressedManifestsStatus ci objs w" "{}" for objs
  by (rule status_handlerI) (rule updateSuppressed_handled)

section \<open>The rendering of the templates\<close>

definition rendering_conditions :: "string set" where
  "rendering_conditions = {RenderedTemplates, RenderedTemplatesValidated, RenderedTemplatesApplied}"

lemma condition_types_distinct [simp]:
  "RenderedTemplates \<noteq> RenderedTemplatesValidated" "RenderedTemplates \<noteq> RenderedTemplatesApplied"
  "RenderedTemplatesValidated \<noteq> RenderedTemplatesApplied" "ClusterInstanceValidated \<notin> rendering_conditions"
  by (simp_all add: rendering_conditions_def RenderedTemplates_def RenderedTemplatesValidated_def RenderedTemplatesApplied_def
      ClusterInstanceValidated_def)

lemma handled_then:
  assumes "handled A ci0 w0 (None, ci, w)" "handled B ci w (err, ci', w')" "A \<inter> B = {}" "in_sync ci0 w0"
  shows "handled (A \<union> B) ci0 w0 (err, ci', w')"
  using assms gen_kept_trans carries_trans by (auto simp: handled_def) blast+

text \<open>Every object the handler has applied is on the server.\<close>

lemma applyObject_stored:
  "applyObject ssa False r w = (None, w') \<Longrightarrow> map_of (w_objs w') (document_key (object_doc r)) \<noteq> None"
  by (auto simp: applyObject_def split: prod.splits sum.splits dest: Apply_stored(1))

lemma applyObject_keeps:
  "applyObject ssa False r w = (eo, w') \<Longrightarrow> map_of (w_objs w) k \<noteq> None \<Longrightarrow> map_of (w_objs w') k \<noteq> None"
  by (auto simp: applyObject_def Apply_def Let_def split: prod.splits sum.splits option.splits if_splits)

lemma execute_stored:
  assumes "execute_objects ssa False st objs ms errs w = Some (ms', [], w')"
  shows "(\<forall>k. map_of (w_objs w) k \<noteq> None \<longrightarrow> map_of (w_objs w') k \<noteq> None)
    \<and> (\<forall>r\<in>set objs. map_of (w_objs w') (document_key (object_doc r)) \<noteq> None)"
  using assms
proof (induction objs arbitrary: ms errs w)
  case (Cons r objs)
  obtain ref eo w1 where r: "ManifestReferenceOf (w_now w) r = Some ref" "applyObject ssa False r w = (eo, w1)"
    using Cons.prems by (auto split: option.splits prod.splits)
  have no_err: "execute_objects ssa False st objs ms errs v = Some (ms', [], w') \<Longrightarrow> errs = []" for objs ms errs v
    by (induction objs arbitrary: ms errs v) (auto split: option.splits prod.splits)
  then have "eo = None" using Cons.prems r by (cases eo) (auto dest: no_err)
  then show ?case using Cons r applyObject_stored [of ssa r w w1] applyObject_keeps [OF r(2)] by auto
qed simp

lemma applyRenderedManifests_stored:
  assumes "applyRenderedManifests ssa ci objs w = Some (ok, None, ci', w')" "r \<in> set objs"
  shows "ok \<and> map_of (w_objs w') (document_key (object_doc r)) \<noteq> None"
proof -
  obtain ms errs v new where x: "execute_objects ssa False ManifestRenderedSuccess objs (st_ManifestsRendered (ci_Status ci)) [] w = Some (ms, errs, v)"
    "ok = (errs = [])" "patch_status ci new (NewAggregate errs) v = (None, ci', w')"
    using assms(1) by (auto simp: applyRenderedManifests_def executeRenderedManifests_def split: option.splits)
  have "errs = []" using x(3) by (auto simp: patch_status_def split: prod.splits if_splits)
  then show ?thesis using execute_stored x(1,2) assms(2) patch_status_writes [OF x(3)] by (simp add: writes_ci_def)
qed

text \<open>The dry run and the application together.\<close>

lemma apply_collection_handled:
  assumes "apply_collection ssa ci objs w = Some (ok, err, ci', w')" "in_sync ci w"
  shows "gen_kept k w w'"
    "ok \<Longrightarrow> err = None \<Longrightarrow> handled {RenderedTemplatesValidated, RenderedTemplatesApplied} ci w (None, ci', w')
       \<and> (\<forall>r\<in>set objs. map_of (w_objs w') (document_key (object_doc r)) \<noteq> None)"
proof -
  obtain ok1 e1 ci1 w1 where v: "validateRenderedManifests ssa ci objs w = Some (ok1, e1, ci1, w1)"
    using assms(1) by (auto simp: apply_collection_def split: option.splits)
  note h1 = validateRenderedManifests_handled [OF v]
  have "gen_kept k w w' \<and> (ok \<and> err = None \<longrightarrow> handled {RenderedTemplatesValidated, RenderedTemplatesApplied} ci w (None, ci', w')
       \<and> (\<forall>r\<in>set objs. map_of (w_objs w') (document_key (object_doc r)) \<noteq> None))"
  proof (cases "ok1 \<and> e1 = None")
    case False
    then show ?thesis using assms(1) v handled_gen [OF h1] by (auto simp: apply_collection_def)
  next
    case True
    then have b: "applyRenderedManifests ssa ci1 objs w1 = Some (ok, err, ci', w')"
      using assms(1) v by (simp add: apply_collection_def)
    have h2: "handled {RenderedTemplatesValidated, RenderedTemplatesApplied} ci w (err, ci', w')"
      using handled_then [OF _ applyRenderedManifests_handled [OF b] _ assms(2), of "{RenderedTemplatesValidated}"] h1 True
      by (simp add: insert_commute)
    then show ?thesis using handled_gen [OF h2] applyRenderedManifests_stored [of ssa ci1 objs w1 ok ci' w'] b by auto
  qed
  then show "gen_kept k w w'"
    "ok \<Longrightarrow> err = None \<Longrightarrow> handled {RenderedTemplatesValidated, RenderedTemplatesApplied} ci w (None, ci', w')
       \<and> (\<forall>r\<in>set objs. map_of (w_objs w') (document_key (object_doc r)) \<noteq> None)" by blast+
qed

lemma handleRenderTemplates_handled:
  assumes "handleRenderTemplates env ssa ci w = Some (ok, err, ci', w')" "in_sync ci w"
  shows "gen_kept k w w'"
    "ok \<Longrightarrow> err = None \<Longrightarrow> in_sync ci' w' \<and> carries rendering_conditions ci ci'
       \<and> (\<exists>col v. ProcessTemplates env ci w = Some ((None, col), v)
            \<and> (\<forall>r\<in>set (GetRenderObjects col). map_of (w_objs w') (document_key (object_doc r)) \<noteq> None))"
proof -
  obtain col e1 ci1 w1 where r: "renderManifests env ci w = Some (col, e1, ci1, w1)"
    using assms(1) by (auto simp: handleRenderTemplates_def split: option.splits)
  obtain ok2 e2 ci2 w2 where p: "pruneManifests ci1 (GetPruneObjects col) w1 = (ok2, e2, ci2, w2)" by (metis prod_cases4)
  note h1 = renderManifests_handled [OF r]
  have h2: "handled {} ci1 w1 (e2, ci2, w2)" using pruneManifests_handled [of ci1 w1 "GetPruneObjects col"] p by simp
  let ?good = "in_sync ci' w' \<and> carries rendering_conditions ci ci'
     \<and> (\<exists>col v. ProcessTemplates env ci w = Some ((None, col), v)
          \<and> (\<forall>r\<in>set (GetRenderObjects col). map_of (w_objs w') (document_key (object_doc r)) \<noteq> None))"
  have "gen_kept k w w' \<and> (ok \<and> err = None \<longrightarrow> ?good)"
  proof (cases "e1 = None \<and> ok2 \<and> e2 = None")
    case False
    then show ?thesis using assms(1) r p handled_gen [OF h1, of k] gen_kept_trans [OF handled_gen [OF h1, of k] handled_gen [OF h2]]
      by (cases e1) (auto simp: handleRenderTemplates_def)
  next
    case True
    then obtain e3 ci3 w3 where s: "updateSuppressedManifestsStatus ci2 (GetSuppressObjects col) w2 = Some (e3, ci3, w3)"
      using assms(1) r p by (auto simp: handleRenderTemplates_def split: option.splits)
    have h12: "handled {RenderedTemplates} ci w (None, ci2, w2)"
      using handled_then [of "{RenderedTemplates}" ci w ci1 w1 "{}"] h1 h2 True assms(2) by simp
    have h3: "handled {RenderedTemplates} ci w (e3, ci3, w3)"
      using handled_then [OF h12 updateSuppressed_handled [OF s] _ assms(2)] by simp
    show ?thesis
    proof (cases e3)
      case (Some e)
      then show ?thesis using assms(1) r p s True handled_gen [OF h3] by (auto simp: handleRenderTemplates_def)
    next
      case None
      then have a: "apply_collection ssa ci3 (GetRenderObjects col) w3 = Some (ok, err, ci', w')"
        using assms(1) r p s True by (auto simp: handleRenderTemplates_def)
      have s3: "in_sync ci3 w3" using h3 None assms(2) by (simp add: handled_def)
      note ac = apply_collection_handled [OF a s3]
      have h4: "handled rendering_conditions ci w (None, ci', w')" if "ok" "err = None"
        using handled_then [OF h3 [unfolded None] _ _ assms(2)] ac(2) [OF that] by (simp add: rendering_conditions_def insert_commute)
      show ?thesis
        using h4 ac(2) assms(2) gen_kept_trans [OF handled_gen [OF h3] ac(1), of k] renderManifests_writes(2) [OF r] True
        by (auto simp: handled_def)
    qed
  qed
  then show "gen_kept k w w'" "ok \<Longrightarrow> err = None \<Longrightarrow> ?good" by blast+
qed

section \<open>The observed generation\<close>

lemma with_observed_frame [simp]:
  "ci_Meta (with_observed ci) = ci_Meta ci" "ci_Spec (with_observed ci) = ci_Spec ci"
  "condition_of (with_observed ci) t = condition_of ci t" "ci_key (with_observed ci) = ci_key ci"
  by (simp_all add: with_observed_def condition_of_def ci_key_def)

lemma updateObservedStatus_cases:
  assumes "updateObservedStatus env ci w = (err, ci', w')" "in_sync ci w"
  shows "err \<noteq> None \<Longrightarrow> gen_kept k w w'"
    "err = None \<Longrightarrow> map_of (w_cis w') (ci_key ci) = Some s' \<Longrightarrow> condition_of s' t = condition_of ci t"
proof -
  let ?lost = "err \<noteq> None \<longrightarrow> gen_kept k w w'"
  have "?lost \<and> (err = None \<and> map_of (w_cis w') (ci_key ci) = Some s' \<longrightarrow> condition_of s' t = condition_of ci t)"
  proof (cases "\<exists>text. ce_MarshalSpec env (ci_Spec ci) = Inr text \<and> (\<exists>ci2 w1.
      PatchCI ci (SetMetaDataAnnotation LastClusterInstanceSpecAnnotation text ci) w = (Inr ci2, w1)) \<and> w' \<noteq> w")
    case False
    then show ?thesis using assms(1) assms(2) [unfolded in_sync_def] PatchCI_gen_kept [where k = k]
      by (auto simp: updateObservedStatus_def Let_def split: option.splits sum.splits prod.splits if_splits)
  next
    case True
    then obtain tx ci2 w1 where m: "ce_MarshalSpec env (ci_Spec ci) = Inr tx"
      "PatchCI ci (SetMetaDataAnnotation LastClusterInstanceSpecAnnotation tx ci) w = (Inr ci2, w1)" "w' \<noteq> w" by blast
    obtain s where s: "map_of (w_cis w) (ci_key ci) = Some s" "ci_key ci2 = ci_key s" "ci_Status ci2 = ci_Status s"
      "map_of (w_cis w1) (ci_key ci) = None \<or> map_of (w_cis w1) (ci_key ci) = Some ci2"
      using PatchCI_ok [OF m(2)] by auto
    then have ci2: "ci_key ci2 = ci_key ci" "ci_Status ci2 = ci_Status ci" using assms(2) by (auto simp: in_sync_def)
    obtain g w2 where g: "GetCI (ci_key ci2) w1 = (g, w2)" by fastforce
    have k2: "gen_kept k w w2" by (rule gen_kept_trans [OF PatchCI_gen_kept [OF m(2)] GetCI_gen_kept [OF g]])
    show ?thesis
    proof (cases g)
      case (Inl e)
      then show ?thesis using assms(1) m g k2
        by (auto simp: updateObservedStatus_def Let_def split: option.splits sum.splits prod.splits)
    next
      case (Inr ci3)
      then have ci3: "ci3 = ci2" "in_sync ci3 w2" using GetCI_ok [of "ci_key ci2" w1 ci3 w2] g s(4) ci2(1)
        by (auto simp: same_state_def in_sync_def)
      obtain po ci4 w3 where p: "PatchCIStatus ci3 (with_observed ci3) w2 = (po, ci4, w3)" by (metis prod_cases3)
      have w3: "w' = w3" "(err = None) = (po = None)" using assms(1) m g Inr p
        by (auto simp: updateObservedStatus_def Let_def split: option.splits sum.splits prod.splits)
      have ?lost using w3 p ci_status.patch_fail gen_kept_trans [OF k2 gen_kept_same] by (cases po) auto
      moreover have "condition_of s' t = condition_of ci t" if "err = None" "map_of (w_cis w') (ci_key ci) = Some s'"
        using patch_in_sync [of ci3 "with_observed ci3" w2 ci4 w3] p w3 that ci3 ci2
        by (auto simp: in_sync_def condition_of_def with_observed_def)
      ultimately show ?thesis by blast
    qed
  qed
  then show "err \<noteq> None \<Longrightarrow> gen_kept k w w'"
    "err = None \<Longrightarrow> map_of (w_cis w') (ci_key ci) = Some s' \<Longrightarrow> condition_of s' t = condition_of ci t" by blast+
qed

lemma updateObservedStatus_writes: "updateObservedStatus env ci w = (err, ci', w') \<Longrightarrow> w_objs w' = w_objs w"
  by (auto simp: updateObservedStatus_def Let_def split: option.splits sum.splits prod.splits
      dest!: metadata_patch_writes PatchCIStatus_writes simp: writes_ci_def)


text \<open>The sample ClusterInstance on a hub that has everything it refers to.\<close>

definition sample_cenv :: controller_env where
  "sample_cenv = \<lparr>ce_template = sample_tenv,
     ce_reinstall = \<lparr>e_codec = sample_codec, e_UnmarshalSpec = (\<lambda>t. Inr sample_spec), e_MarshalValue = (\<lambda>v. []),
       e_MarshalPatch = (\<lambda>p. []), e_AllowReinstalls = True\<rparr>,
     ce_spoke = \<lparr>sp_RESTConfigFromKubeConfig = (\<lambda>k. None), sp_NewClient = (\<lambda>k. None), sp_ssa = sample_ssa\<rparr>,
     ce_ssa = sample_ssa, ce_MarshalSpec = (\<lambda>s. Inr ''spec''), ce_PodNamespace = ''op''\<rparr>"

definition stocked :: "world \<Rightarrow> world" where
  "stocked w = w\<lparr>w_objs := [(ObjKey ''v1'' ''Secret'' ''ns'' n, new_object ''v1'' ''Secret'' ''ns'' n). n \<leftarrow> [''ps'', ''bs'']] @ w_objs w\<rparr>"

definition provision_run :: "Result \<times> err option \<times> world" where
  "provision_run = the (provision sample_cenv sample_ci (stocked install_world))"

definition provisioned_ci :: ClusterInstance where
  "provisioned_ci = the (map_of (w_cis (snd (snd provision_run))) (ci_key sample_ci))"

lemma provision_run_ok:
  "provision sample_cenv sample_ci (stocked install_world) =
     Some (fst provision_run, fst (snd provision_run), snd (snd provision_run))"
  "map_of (w_cis (stocked install_world)) (ci_key sample_ci) = Some sample_ci"
  "map_of (w_cis (snd (snd provision_run))) (ci_key sample_ci) = Some provisioned_ci"
  "st_ObservedGeneration (ci_Status sample_ci) \<noteq> om_Generation (ci_Meta sample_ci)"
  "st_ObservedGeneration (ci_Status provisioned_ci) = om_Generation (ci_Meta provisioned_ci)"
  by code_simp+


end
