(* ===== verification/Finalization.thy ===== *)
theory Finalization
  imports Provisioning
begin

text \<open>
  The finalizer of a ClusterInstance: it is given up only when everything the status records is gone; and
  what the reconciler does with a ClusterInstance that is still there afterwards.
\<close>

section \<open>Lemmas: the deletion of what the status records\<close>

definition manifest_key :: "ManifestReference \<Rightarrow> objkey" where
  "manifest_key m = ObjKey (case m_APIGroup m of None \<Rightarrow> [] | Some g \<Rightarrow> g) (m_Kind m) (m_Namespace m) (m_Name m)"

text \<open>An entry of the status as the controller writes it: with an API group the server knows, a kind, and a 64-bit sync wave.\<close>

definition well_recorded :: "ManifestReference \<Rightarrow> bool" where
  "well_recorded m \<longleftrightarrow> (case m_APIGroup m of None \<Rightarrow> False | Some g \<Rightarrow> length (Split (CHR ''/'') g) \<le> 2)
     \<and> m_Kind m \<noteq> [] \<and> in_int64 (m_SyncWave m)"

lemma recorded_object:
  assumes "objectsForManifests ms = Some objs" "m \<in> set ms" "well_recorded m"
  shows "\<exists>r\<in>set objs. object_identity r = identity m \<and> addable r \<and> objectKey r = manifest_key m"
  using assms(1,2)
proof (induction ms arbitrary: objs)
  case (Cons x ms)
  obtain g objs' where g: "m_APIGroup x = Some g" "objectsForManifests ms = Some objs'"
    using Cons.prems(1) by (auto split: option.splits)
  obtain eo r where r: "NewRenderedObject (manifest_document g x) = (eo, r)" by fastforce
  have objs: "objs = (if eo = None then r # objs' else objs')" using Cons.prems(1) g r by (auto split: option.splits)
  show ?case
  proof (cases "x = m")
    case True
    then have f: "object_identity r = identity m" "GetSyncWave r = Inr (m_SyncWave m)" "eo = None"
      using manifest_object_facts [OF r g(1)] assms(3) g(1) by (auto simp: well_recorded_def)
    have "ro_object r \<noteq> None" using r by (auto simp: NewRenderedObject_def SetObject_def Let_def)
    moreover have "objectKey r = manifest_key m"
      using f(1) g(1) True by (auto simp: object_identity_def identity_def objectKey_def manifest_key_def)
    ultimately show ?thesis using f objs by (auto simp: addable_def)
  qed (use Cons g(2) objs in auto)
qed simp

lemma DeleteRenderedObjects_clears:
  assumes "DeleteRenderedObjects ci [] tmo w = Some (True, eo, ci', w')" "faults_ok w"
    "m \<in> set (st_ManifestsRendered (ci_Status ci))" "well_recorded m"
  shows "cleared (owner_label ci) w' (manifest_key m)"
proof -
  obtain objs where objs: "objectsForManifests (st_ManifestsRendered (ci_Status ci)) = Some objs"
    "DeleteObjects ci objs [] tmo w = (True, eo, ci', w')"
    using assms(1,3) by (auto simp: DeleteRenderedObjects_def objectsForClusterInstance_def split: if_splits option.splits)
  obtain r where r: "r \<in> set objs" "object_identity r = identity m" "addable r" "objectKey r = manifest_key m"
    using recorded_object [OF objs(1) assms(3,4)] by blast
  then have "eligible [] (st_ManifestsRendered (ci_Status ci)) r"
    using assms(3) by (auto simp: eligible_def object_identity_def)
  then obtain ds where "done_with (owner_label ci) ds r" "delete_finish ci ds = (eo, ci', w')"
    using DeleteObjects_spec [OF objs(2) assms(2)] r(1) by metis
  then show ?thesis using r(4) delete_finish_frame by (auto simp: done_with_def cleared_def)
qed

section \<open>Lemmas: who removes the finalizer\<close>

definition keeps_finalizer :: "string \<times> string \<Rightarrow> world \<Rightarrow> world \<Rightarrow> bool" where
  "keeps_finalizer k w w' \<longleftrightarrow> (\<forall>s. map_of (w_cis w) k = Some s \<and> ContainsFinalizer s clusterInstanceFinalizer \<longrightarrow>
     (\<exists>s'. map_of (w_cis w') k = Some s' \<and> ContainsFinalizer s' clusterInstanceFinalizer))"

lemma keeps_finalizer_refl [simp, intro]: "keeps_finalizer k w w"
  by (simp add: keeps_finalizer_def)

lemma keeps_finalizer_trans: "keeps_finalizer k u v \<Longrightarrow> keeps_finalizer k v w \<Longrightarrow> keeps_finalizer k u w"
  unfolding keeps_finalizer_def by metis

lemma keeps_finalizer_same: "w_cis w' = w_cis w \<Longrightarrow> keeps_finalizer k w w'"
  by (simp add: keeps_finalizer_def)

lemma StatusPatchCI_keeps_finalizer: "StatusPatchCI orig ci w = (r, w') \<Longrightarrow> keeps_finalizer k w w'"
  by (auto simp: StatusPatchCI_def keeps_finalizer_def ContainsFinalizer_def Let_def split: prod.splits option.splits)

lemma PatchCIStatus_keeps_finalizer:
  assumes "PatchCIStatus orig ci w = (eo, ci', w')"
  shows "keeps_finalizer k w w'"
proof -
  obtain v r where "same_state w v" "StatusPatchCI orig ci v = (r, w')" using PatchCIStatus_cases [OF assms] by metis
  then show ?thesis
    using keeps_finalizer_trans [OF keeps_finalizer_same [of v w k] StatusPatchCI_keeps_finalizer [of orig ci v r w' k]]
    by (simp add: same_state_def)
qed

lemma PatchCI_keeps_finalizer:
  "PatchCI orig ci w = (r, w') \<Longrightarrow> om_Finalizers (ci_Meta ci) = om_Finalizers (ci_Meta orig) \<Longrightarrow> keeps_finalizer k w w'"
  by (auto simp: PatchCI_def keeps_finalizer_def ContainsFinalizer_def merge_meta_def Let_def
      split: prod.splits option.splits if_splits)

lemma GetCI_keeps_finalizer: "GetCI j w = (r, w') \<Longrightarrow> keeps_finalizer k w w'"
  by (auto simp: GetCI_def keeps_finalizer_def split: prod.splits option.splits)

lemma ApplyPause_keeps_finalizer: "ApplyPause ci reason w = (eo, ci', w') \<Longrightarrow> keeps_finalizer k w w'"
  by (auto simp: ApplyPause_def Let_def SetMetaDataAnnotation_def split: if_splits prod.splits sum.splits
      dest!: PatchCI_keeps_finalizer [where k = k] GetCI_keeps_finalizer [where k = k] StatusPatchCI_keeps_finalizer [where k = k])
    (meson keeps_finalizer_trans)+

lemma DeleteRenderedObjects_keeps_finalizer:
  assumes "DeleteRenderedObjects ci ex tmo w = Some (c, eo, ci', w')"
  shows "keeps_finalizer k w w'"
  using assms
proof (cases rule: DeleteRenderedObjects_outcome)
  case (patched ms v po)
  then show ?thesis
    using keeps_finalizer_trans [OF keeps_finalizer_same PatchCIStatus_keeps_finalizer [OF patched(1)]] by simp
qed (auto intro: keeps_finalizer_same)

lemma pause_keeps_finalizer: "pause_after_timeout e ci w = (eo, ci', w') \<Longrightarrow> keeps_finalizer k w w'"
  by (auto simp: pause_after_timeout_def split: prod.splits option.splits dest: ApplyPause_keeps_finalizer)

section \<open>The property\<close>

text \<open>C7: The finalizer of a ClusterInstance goes only when it is being deleted and every object its status records is
  deleted, or belongs to someone else: if the handler of the finalizer leaves the stored ClusterInstance without
  it (or gone), no recorded object that carries its owned-by label is left on the cluster.\<close>

theorem finalizer_outlives_manifests:
  assumes "handleFinalizer ci w = Some (res, err, ci', w')" "faults_ok w" "map_of (w_cis w) (ci_key ci) = Some ci"
    "ContainsFinalizer ci clusterInstanceFinalizer"
    "\<not> (\<exists>s. map_of (w_cis w') (ci_key ci) = Some s \<and> ContainsFinalizer s clusterInstanceFinalizer)"
  shows "om_DeletionTimestamp (ci_Meta ci) \<noteq> 0
    \<and> (\<forall>m\<in>set (st_ManifestsRendered (ci_Status ci)). well_recorded m \<longrightarrow> cleared (owner_label ci) w' (manifest_key m))"
proof -
  have lost: "\<not> keeps_finalizer (ci_key ci) w w'" using assms(3-5) by (auto simp: keeps_finalizer_def)
  have ts: "om_DeletionTimestamp (ci_Meta ci) \<noteq> 0"
  proof
    assume "om_DeletionTimestamp (ci_Meta ci) = 0"
    then have "w' = w" using assms(1,4) by (simp add: handleFinalizer_def ensureFinalizer_def IsZero_def)
    with lost show False by simp
  qed
  obtain c eo ci1 w1 where d: "DeleteRenderedObjects ci [] (Some DefaultDeletionTimeout) w = Some (c, eo, ci1, w1)"
    using assms(1,4) ts by (auto simp: handleFinalizer_def IsZero_def split: option.splits)
  note k1 = DeleteRenderedObjects_keeps_finalizer [OF d, of "ci_key ci"]
  have done_: "c \<and> eo = None \<and> w_objs w' = w_objs w1"
  proof (cases eo)
    case (Some e)
    then have "w' = w1 \<or> (\<exists>err' ci2. pause_after_timeout e ci1 w1 = (err', ci2, w'))"
      using assms(1,4) ts d by (cases c) (auto simp: handleFinalizer_def IsZero_def split: if_splits prod.splits)
    then show ?thesis using lost k1 keeps_finalizer_trans [OF k1 pause_keeps_finalizer] by blast
  next
    case None
    show ?thesis
    proof (cases c)
      case False
      then show ?thesis using assms(1,4) ts d None lost k1 by (auto simp: handleFinalizer_def IsZero_def)
    next
      case True
      then obtain r where "PatchCI ci1 (with_finalizers (removeAll clusterInstanceFinalizer) ci1) w1 = (r, w')"
        using assms(1,4) ts d None by (auto simp: handleFinalizer_def IsZero_def Let_def split: prod.splits sum.splits)
      then show ?thesis using metadata_patch_writes(1) True None by (auto simp: writes_ci_def)
    qed
  qed
  have "cleared (owner_label ci) w1 (manifest_key m)"
    if "m \<in> set (st_ManifestsRendered (ci_Status ci))" "well_recorded m" for m
    using DeleteRenderedObjects_clears [OF _ assms(2) that] d done_ by simp
  then show ?thesis using ts done_ by (simp add: cleared_def)
qed

text \<open>A ClusterInstance under deletion with its finalizer and a foreign one, everything it rendered deleted.\<close>

definition dying_ci :: "string list \<Rightarrow> ClusterInstance" where
  "dying_ci fs = sample_ci\<lparr>ci_Meta := sample_meta\<lparr>om_DeletionTimestamp := 5, om_Finalizers := fs,
     om_Annotations := [(veleroRestoreStatusAnnotation, ''true'')]\<rparr>\<rparr>"

definition dying_world :: "string list \<Rightarrow> world" where
  "dying_world fs = stocked (install_world\<lparr>w_cis := [(ci_key (dying_ci fs), dying_ci fs)]\<rparr>)"

definition finalizer_run :: task_result where
  "finalizer_run = the (handleFinalizer (dying_ci [clusterInstanceFinalizer]) (dying_world [clusterInstanceFinalizer]))"

lemma finalizer_run_ok:
  "handleFinalizer (dying_ci [clusterInstanceFinalizer]) (dying_world [clusterInstanceFinalizer]) =
     Some (fst finalizer_run, fst (snd finalizer_run), fst (snd (snd finalizer_run)), snd (snd (snd finalizer_run)))"
  "faults_ok (dying_world [clusterInstanceFinalizer])"
  "map_of (w_cis (dying_world [clusterInstanceFinalizer])) (ci_key (dying_ci [clusterInstanceFinalizer])) = Some (dying_ci [clusterInstanceFinalizer])"
  "ContainsFinalizer (dying_ci [clusterInstanceFinalizer]) clusterInstanceFinalizer"
  by code_simp+

lemma finalizer_run_gone: "map_of (w_cis (snd (snd (snd finalizer_run)))) (ci_key (dying_ci [clusterInstanceFinalizer])) = None"
  by code_simp

theorem finalizer_outlives_manifests_witness: "om_DeletionTimestamp (ci_Meta (dying_ci [clusterInstanceFinalizer])) \<noteq> 0"
  using finalizer_outlives_manifests [OF finalizer_run_ok] by (simp add: finalizer_run_gone)

section \<open>After the finalizer is gone\<close>

definition reconcile_dying :: reconcile_result where
  "reconcile_dying = the (Reconcile sample_cenv (''ns'', ''c'') (dying_world [clusterInstanceFinalizer, ''other'']) (dying_world []))"


end
