(* ===== verification/Reimport_Safety.thy ===== *)
theory Reimport_Safety
  imports Provisioning
begin

text \<open>
  When the spoke cluster is touched: only by a reimport that is due, and once per reinstall.
\<close>

definition reimport_initiated :: "ClusterInstance \<Rightarrow> bool" where
  "reimport_initiated ci \<longleftrightarrow>
     (case findReinstallStatusCondition ci ReinstallClusterReimported of
        None \<Rightarrow> False | Some c \<Rightarrow> c_Status c = ConditionFalse \<and> c_Reason c = ReimportInitiated)"

text \<open>The ManagedCluster that the status records, as the hub has it.\<close>

definition managed_cluster_of :: "ClusterInstance \<Rightarrow> world \<Rightarrow> kobject option" where
  "managed_cluster_of ci w = Option.bind (getManagedClusterManifest ci)
     (\<lambda>m. map_of (w_objs w) (ObjKey ''cluster.open-cluster-management.io/v1'' ''ManagedCluster'' [] (m_Name m)))"

section \<open>Lemmas: the body\<close>

lemma getManagedClusterResource_found:
  "getManagedClusterResource ci w = (Inr mc, w') \<Longrightarrow> managed_cluster_of ci w = Some mc"
  by (auto simp: getManagedClusterResource_def managed_cluster_of_def split: option.splits prod.splits sum.splits
      dest: Get_found)

lemma getManagedClusterResource_frame: "getManagedClusterResource ci w = (r, w') \<Longrightarrow> w_cis w' = w_cis w"
  by (auto simp: getManagedClusterResource_def split: option.splits prod.splits sum.splits dest: touches_cis(1) [OF Get_touches])

lemma extractKubeconfig_frame: "extractKubeconfigFromSecret n w = (r, w') \<Longrightarrow> w_cis w' = w_cis w"
  by (auto simp: extractKubeconfigFromSecret_def Let_def split: prod.splits sum.splits dest: touches_cis(1) [OF Get_touches])

lemma applyManifestWork_frame: "applyManifestWorkToSpoke senv ns n w spoke = (err, w', spoke') \<Longrightarrow> w_cis w' = w_cis w"
proof -
  assume a: "applyManifestWorkToSpoke senv ns n w spoke = (err, w', spoke')"
  obtain g w1 where g: "Get (ObjKey ''work.open-cluster-management.io/v1'' ''ManifestWork'' ns n) w = (g, w1)" by fastforce
  have "w' = w1" using a by (auto simp: applyManifestWorkToSpoke_def g split: sum.splits option.splits json.splits)
  then show ?thesis using touches_cis(1) [OF Get_touches [OF g]] by simp
qed

lemma performReimport_frame: "performReimport senv mc w spoke = (err, w', spoke') \<Longrightarrow> w_cis w' = w_cis w"
  by (auto simp: performReimport_def Let_def split: prod.splits sum.splits option.splits
      dest!: extractKubeconfig_frame applyManifestWork_frame)

text \<open>The spoke objects change only through a reimport that the body has found to be due.\<close>

definition due :: "ClusterInstance \<Rightarrow> world \<Rightarrow> bool" where
  "due ci w \<longleftrightarrow> \<not> cond_true (findReinstallStatusCondition ci ReinstallClusterReimported) \<and> \<not> reimport_initiated ci
     \<and> (\<exists>c. FindStatusCondition (st_Conditions (ci_Status ci)) ClusterProvisioned = Some c \<and> c_Status c = ConditionTrue
          \<and> int (w_now w) \<ge> int (c_LastTransitionTime c) + PostProvisioningGracePeriod)
     \<and> (\<exists>mc. managed_cluster_of ci w = Some mc \<and> \<not> isHealthy (assessClusterHealth mc) \<and> \<not> isImportInProgress mc)"

lemma reimport_after_grace_spoke:
  assumes "w_objs (rr_spoke (reimport_after_grace senv (findReinstallStatusCondition ci ReinstallClusterReimported) mc w spoke)) \<noteq> w_objs spoke"
  shows "\<not> isImportInProgress mc" "\<not> reimport_initiated ci"
    "rr_err (reimport_after_grace senv (findReinstallStatusCondition ci ReinstallClusterReimported) mc w spoke) = None \<Longrightarrow>
     rr_cond (reimport_after_grace senv (findReinstallStatusCondition ci ReinstallClusterReimported) mc w spoke) =
       Some (reimported_condition ConditionFalse ReimportInitiated
         ''Klusterlet manifests applied to spoke cluster, waiting for cluster to become healthy'')"
  using assms
  by (auto simp: reimport_after_grace_def waiting_def settled_def reimport_initiated_def Let_def
      split: if_splits option.splits prod.splits)

lemma reimport_after_grace_frame: "w_cis (rr_world (reimport_after_grace senv existing mc w spoke)) = w_cis w"
  by (auto simp: reimport_after_grace_def waiting_def settled_def Let_def split: option.splits prod.splits dest: performReimport_frame)

lemma reimport_body_spoke:
  assumes "w_objs (rr_spoke (reimport_body senv ci w spoke)) \<noteq> w_objs spoke"
  obtains mc w1 where "due ci w" "w_cis w1 = w_cis w"
    "reimport_body senv ci w spoke =
       reimport_after_grace senv (findReinstallStatusCondition ci ReinstallClusterReimported) mc w1 spoke"
proof -
  obtain g w1 where g: "getManagedClusterResource ci w = (g, w1)" by fastforce
  from assms g obtain mc where body: "g = Inr mc" "\<not> isHealthy (assessClusterHealth mc)" "\<not> fst (isWithinGracePeriod (w_now w) ci)"
    "reimport_body senv ci w spoke =
       reimport_after_grace senv (findReinstallStatusCondition ci ReinstallClusterReimported) mc w1 spoke"
    "\<not> cond_true (findReinstallStatusCondition ci ReinstallClusterReimported)"
    "cond_true (FindStatusCondition (st_Conditions (ci_Status ci)) ClusterProvisioned)"
    by (auto simp: reimport_body_def Let_def waiting_def settled_def split: if_splits sum.splits prod.splits)
  have "\<not> isImportInProgress mc" "\<not> reimport_initiated ci"
    using reimport_after_grace_spoke assms unfolding body(4) by blast+
  moreover have "managed_cluster_of ci w = Some mc" using getManagedClusterResource_found g body(1) by blast
  ultimately have "due ci w" using body(2,3,5,6)
    by (auto simp: due_def cond_true_def isWithinGracePeriod_def Let_def split: option.splits)
  then show thesis using that getManagedClusterResource_frame [OF g] body(4) by blast
qed

section \<open>The property\<close>


text \<open>
  A reinstalled cluster, provisioned at time 5, whose ManagedCluster has no conditions after ten minutes; its two
  ManifestWorks hold one klusterlet manifest each, and the spoke cluster answers.
\<close>

definition lost_ci :: ClusterInstance where
  "lost_ci = sample_ci\<lparr>ci_Status := sample_status\<lparr>
     st_ManifestsRendered := [\<lparr>m_APIGroup = Some ''cluster.open-cluster-management.io/v1'', m_Kind = ''ManagedCluster'',
       m_Name = ''c'', m_Namespace = [], m_SyncWave = 2, m_Status = ManifestRenderedSuccess, m_LastAppliedTime = 5, m_Message = []\<rparr>],
     st_Reinstall := Some \<lparr>r_Conditions = [sample_condition ReinstallRequestProcessed ConditionTrue Completed],
       r_InProgressGeneration = [], r_ObservedGeneration = ''g1'', r_RequestStartTime = 2, r_RequestEndTime = 3, r_History = []\<rparr>\<rparr>\<rparr>"

definition klusterlet_work :: "string \<Rightarrow> kobject" where
  "klusterlet_work name = (new_object ''work.open-cluster-management.io/v1'' ''ManifestWork'' ''c'' name)
     \<lparr>o_Doc := JObj [(''spec'', JObj [(''workload'', JObj [(''manifests'', JArr [JObj sample_manifest])])])]\<rparr>"

definition hub_world :: world where
  "hub_world = \<lparr>w_now = 605, w_faults = [],
     w_objs = map (\<lambda>obj. (okey obj, obj))
       [new_object ''cluster.open-cluster-management.io/v1'' ''ManagedCluster'' [] ''c'',
        (new_object ''v1'' ''Secret'' ''c'' ''c-admin-kubeconfig'')\<lparr>o_Type := ''Opaque'', o_Data := [(KubeconfigSecretKey, ''k'')]\<rparr>,
        klusterlet_work ''c-klusterlet-crds'', klusterlet_work ''c-klusterlet''],
     w_cis = [(ci_key lost_ci, lost_ci)]\<rparr>"

definition spoke_world :: world where
  "spoke_world = \<lparr>w_now = 605, w_faults = [], w_objs = [(ObjKey ''v1'' ''Namespace'' [] ''default'', new_object ''v1'' ''Namespace'' [] ''default'')],
     w_cis = []\<rparr>"

definition reimport_run :: "Result \<times> bool \<times> err option \<times> ClusterInstance \<times> world \<times> world" where
  "reimport_run = EnsureClusterIsReimported (ce_reinstall sample_cenv) (ce_spoke sample_cenv) lost_ci hub_world spoke_world"


end
