(* ===== verification/Controller_Frame.thy ===== *)
theory Controller_Frame
  imports Provisioning Finalization Reimport_Safety Reinstall_Ledger
begin

text \<open>
  What a whole reconciliation may do to the stored ClusterInstances. The locale \<open>ci_relation\<close> states what a
  relation between two states of the server needs so that every reconciliation satisfies it: it has to hold
  when no ClusterInstance changes, to compose, and to hold across the two kinds of patch the controller
  sends. The handlers are walked through once, in the locale; the frame of a reconciliation and the
  consistency of the store are its interpretations.
\<close>

named_theorems ci_rules

section \<open>Relations kept by every handler\<close>

text \<open>Reads, and the steps that only touch objects.\<close>

lemma applyDRLabelFn_same: "applyDRLabelFn ns ref w = (eo, w') \<Longrightarrow> w_cis w' = w_cis w"
  by (auto simp: applyDRLabelFn_def Let_def split: if_splits prod.splits sum.splits
      dest!: touches_cis(1) [OF Get_touches] touches_cis(1) [OF PatchObj_touches])

lemma backup_labels_same: "applyACMBackupLabelToInstallTemplates ns ci w = (eo, w') \<Longrightarrow> w_cis w' = w_cis w"
proof -
  have "check_all (applyDRLabelFn ns) refs w = (eo, w') \<Longrightarrow> w_cis w' = w_cis w" for refs
    by (induction refs arbitrary: w) (auto split: prod.splits option.splits dest!: applyDRLabelFn_same)
  then show "applyACMBackupLabelToInstallTemplates ns ci w = (eo, w') \<Longrightarrow> w_cis w' = w_cis w"
    by (simp add: applyACMBackupLabelToInstallTemplates_def)
qed

lemma reimport_body_same: "w_cis (rr_world (reimport_body senv ci w spoke)) = w_cis w"
  by (auto simp: reimport_body_def Let_def waiting_def settled_def reimport_after_grace_frame
      split: sum.splits prod.splits dest: getManagedClusterResource_frame)

locale ci_relation =
  fixes R :: "world \<Rightarrow> world \<Rightarrow> bool"
  assumes same: "w_cis w' = w_cis w \<Longrightarrow> R w w'"
    and comp: "R u v \<Longrightarrow> R v w \<Longrightarrow> R u w"
    and status_patch [ci_rules]: "StatusPatchCI orig new w = (r, w') \<Longrightarrow> R w w'"
    and metadata_patch [ci_rules]: "PatchCI orig new w = (r, w') \<Longrightarrow> R w w'"
begin

lemma unchanged [simp, intro]: "R w w"
  by (rule same) simp

lemma after_same: "w_cis v = w_cis w \<Longrightarrow> R v w' \<Longrightarrow> R w w'"
  using same comp by blast

lemma touching [ci_rules]: "touches K w w' \<Longrightarrow> R w w'"
  using same touches_cis by blast

lemma reading [ci_rules]: "reads w w' \<Longrightarrow> R w w'" "same_state w w' \<Longrightarrow> R w w'"
  using same by (simp_all add: reads_def same_state_def)

lemma get_ci [ci_rules]: "GetCI k w = (r, w') \<Longrightarrow> R w w'"
  by (rule same) (auto simp: GetCI_def split: prod.splits option.splits)

lemma PatchCIStatus_R [ci_rules]: "PatchCIStatus orig new w = (eo, ci', w') \<Longrightarrow> R w w'"
  by (erule PatchCIStatus_cases) (use comp reading(2) status_patch in blast)

lemma patches_R [ci_rules]:
  "patch_or_wrap orig new e m w = (eo, ok, ci', w') \<Longrightarrow> R w w'"
  "patch_status orig new err w = (eo, ci', w') \<Longrightarrow> R w w'"
  by (auto simp: patch_or_wrap_def patch_status_def split: prod.splits option.splits dest: PatchCIStatus_R)

lemma ApplyPause_R [ci_rules]: "ApplyPause ci reason w = (eo, ci', w') \<Longrightarrow> R w w'"
  by (auto simp: ApplyPause_def Let_def split: if_splits prod.splits sum.splits dest!: ci_rules) (meson comp)+

lemma pause_after_timeout_R [ci_rules]: "pause_after_timeout e ci w = (eo, ci', w') \<Longrightarrow> R w w'"
  by (auto simp: pause_after_timeout_def split: prod.splits option.splits dest: ApplyPause_R)

lemma DeleteObjects_R [ci_rules]: "DeleteObjects ci objs ex tmo w = (c, eo, ci', w') \<Longrightarrow> R w w'"
  by (erule DeleteObjects_outcome) (auto intro: same after_same dest: PatchCIStatus_R)

lemma DeleteRenderedObjects_R [ci_rules]: "DeleteRenderedObjects ci ex tmo w = Some (c, eo, ci', w') \<Longrightarrow> R w w'"
  by (auto simp: DeleteRenderedObjects_def split: if_splits option.splits dest: DeleteObjects_R)

subsection \<open>The reinstall handler\<close>

lemma validate_task_R: "ensureValidReinstallRequest env ci w = (res, eo, ci', w') \<Longrightarrow> R w w'"
  by (auto simp: ensureValidReinstallRequest_def Let_def split: if_splits prod.splits dest: patches_R)

lemma start_time_task_R: "ensureStartTimeIsSet env ci w = (res, eo, ci', w') \<Longrightarrow> R w w'"
  by (auto simp: ensureStartTimeIsSet_def split: if_splits prod.splits dest: patches_R)

lemma label_task_R: "applyPreservedLabelToClusterInstanceSecrets env ci w = (res, eo, ci', w') \<Longrightarrow> R w w'"
  by (auto simp: applyPreservedLabelToClusterInstanceSecrets_def simp del: label_secrets.simps split: prod.splits
      dest: label_secrets_frame touching)

lemma preserve_data_R [ci_rules]: "preserve_data env ci w = (b, d, err, w') \<Longrightarrow> R w w'"
  by (auto simp: preserve_data_def split: if_splits prod.splits option.splits dest!: frame_rules touching) (meson comp)+

lemma restore_data_R [ci_rules]: "restore_data env ci w = (c, err, w') \<Longrightarrow> R w w'"
  by (rule touching [OF restore_data_frame])

lemma preserve_task_R: "ensureDataIsPreserved env ci w = (res, eo, ci', w') \<Longrightarrow> R w w'"
  by (auto simp: ensureDataIsPreserved_def Let_def split: if_splits prod.splits dest!: preserve_data_R patches_R intro: comp)

lemma restore_task_R: "ensurePreservedDataIsRestored env ci w = (res, eo, ci', w') \<Longrightarrow> R w w'"
  by (auto simp: ensurePreservedDataIsRestored_def split: bool.splits prod.splits dest!: restore_data_R patches_R intro: comp)

lemma finish_deletion_R: "finish_deletion orig cond result err ci w = (res, eo, ci', w') \<Longrightarrow> R w w'"
  by (auto simp: finish_deletion_def split: bool.splits prod.splits dest: patches_R)

lemma deletion_task_R: "ensureRenderedManifestsAreDeleted env ci w = Some (res, eo, ci', w') \<Longrightarrow> R w w'"
  by (auto simp: ensureRenderedManifestsAreDeleted_def Let_def
      split: option.splits sum.splits if_splits prod.splits bool.splits
      dest!: finish_deletion_R DeleteRenderedObjects_R intro: comp)

lemma tasks_R: "t \<in> set tasks \<Longrightarrow> t_Run t env ci w = Some (res, eo, ci', w') \<Longrightarrow> R w w'"
  by (auto simp: tasks_def total_def dest: validate_task_R start_time_task_R label_task_R preserve_task_R deletion_task_R restore_task_R)

lemma finalizeReinstallRequest_R [ci_rules]: "finalizeReinstallRequest env ci w = (eo, ci', w') \<Longrightarrow> R w w'"
  by (auto simp: finalizeReinstallRequest_def Let_def split: prod.splits option.splits sum.splits if_splits
      dest!: Cleanup_frame touching patches_R intro: comp)

lemma run_tasks_R: "set ts \<subseteq> set tasks \<Longrightarrow> run_tasks env ts ci w = Some ls \<Longrightarrow> R w (l_world ls)"
proof (induction ts arbitrary: ci w)
  case Nil
  then show ?case by (auto simp: finish_request_def split: prod.splits option.splits dest: finalizeReinstallRequest_R)
next
  case (Cons t ts)
  obtain res eo ci1 w1 where t: "t_Run t env ci w = Some (res, eo, ci1, w1)" using Cons.prems(2) by (auto split: option.splits)
  have "R w w1" using tasks_R [OF _ t] Cons.prems(1) by simp
  moreover have "l_world ls = w1 \<or> run_tasks env ts ci1 w1 = Some ls"
    using Cons.prems(2) t by (auto simp: Let_def split: if_splits option.splits)
  ultimately show ?case using Cons.IH [of ci1 w1] Cons.prems(1) comp by auto
qed

lemma conclude_R: "conclude ls = (res, eo, ci', w') \<Longrightarrow> R (l_world ls) w'"
  by (auto simp: conclude_def Let_def split: prod.splits if_splits option.splits dest!: patches_R ApplyPause_R intro: comp)

lemma initialize_R [ci_rules]: "initializeReinstallStatus ci w = (eo, ci', w') \<Longrightarrow> R w w'"
  by (auto simp: initializeReinstallStatus_def Let_def split: prod.splits if_splits option.splits dest: PatchCIStatus_R)

lemma ProcessRequest_R:
  assumes "ProcessRequest env ci w = Some (res, eo, ci', w')"
  shows "R w w'"
  using assms
proof (cases rule: ProcessRequest_cases)
  case (tasks ls cond)
  then show ?thesis using run_tasks_R [of tasks env ci w ls] conclude_R [of ls res eo ci' w'] comp by blast
qed (auto dest: initialize_R PatchCIStatus_R)

subsection \<open>The reimport\<close>

lemma reimport_R: "EnsureClusterIsReimported env senv ci w spoke = (res, needed, eo, ci', w', spoke') \<Longrightarrow> R w w'"
  by (auto simp: EnsureClusterIsReimported_def reimport_finish_def Let_def
      split: option.splits if_splits prod.splits bool.splits
      dest!: patches_R intro: same reimport_body_same after_same [OF reimport_body_same])

subsection \<open>Provisioning\<close>

lemma backup_labels_R: "applyACMBackupLabelToInstallTemplates ns ci w = (eo, w') \<Longrightarrow> R w w'"
  by (rule same) (rule backup_labels_same)

lemma handleValidate_R [ci_rules]: "handleValidate ci w = (eo, ci', w') \<Longrightarrow> R w w'"
  by (auto simp: handleValidate_def split: prod.splits dest!: patches_R(2) intro: comp reading(1) [OF Validate_reads])

lemma renderManifests_R: "renderManifests env ci w = Some (col, eo, ci', w') \<Longrightarrow> R w w'"
  by (auto simp: renderManifests_def split: option.splits prod.splits
      dest!: reading(1) [OF ProcessTemplates_reads] patches_R(2) intro: comp)

lemma execute_R: "execute_objects ssa dry st objs ms errs w = Some (ms', errs', w') \<Longrightarrow> R w w'"
  by (rule same) (rule execute_cis)

lemma applied_R:
  "validateRenderedManifests ssa ci objs w = Some (ok, eo, ci', w') \<Longrightarrow> R w w'"
  "applyRenderedManifests ssa ci objs w = Some (ok, eo, ci', w') \<Longrightarrow> R w w'"
  by (auto simp: validateRenderedManifests_def applyRenderedManifests_def executeRenderedManifests_def
      split: option.splits prod.splits dest!: execute_R patches_R(2) intro: comp)

lemma pruneManifests_R: "pruneManifests ci objs w = (ok, eo, ci', w') \<Longrightarrow> R w w'"
  by (auto simp: pruneManifests_def split: if_splits prod.splits option.splits
      dest!: DeleteObjects_R pause_after_timeout_R intro: comp)

lemma suppress_R: "updateSuppressedManifestsStatus ci objs w = Some (eo, ci', w') \<Longrightarrow> R w w'"
  by (auto simp: updateSuppressedManifestsStatus_def split: if_splits prod.splits option.splits dest: PatchCIStatus_R)

lemma apply_collection_R: "apply_collection ssa ci objs w = Some (ok, eo, ci', w') \<Longrightarrow> R w w'"
  by (auto simp: apply_collection_def split: if_splits prod.splits option.splits dest!: applied_R intro: comp)

lemma handleRenderTemplates_R: "handleRenderTemplates env ssa ci w = Some (ok, eo, ci', w') \<Longrightarrow> R w w'"
  by (auto simp: handleRenderTemplates_def split: if_splits prod.splits option.splits
      dest!: renderManifests_R pruneManifests_R suppress_R apply_collection_R) (meson comp)+

lemma updateObservedStatus_R: "updateObservedStatus env ci w = (eo, ci', w') \<Longrightarrow> R w w'"
  by (auto simp: updateObservedStatus_def Let_def split: prod.splits option.splits sum.splits
      dest!: metadata_patch get_ci PatchCIStatus_R) (meson comp)+

lemma provision_R: "provision env ci w = Some (res, eo, w') \<Longrightarrow> R w w'"
  by (auto simp: provision_def split: if_splits prod.splits option.splits bool.splits
      dest!: handleValidate_R handleRenderTemplates_R updateObservedStatus_R) (meson comp)+

lemma reconcile_changes_R: "reconcile_changes env ci w = Some (res, eo, w') \<Longrightarrow> R w w'"
  by (auto simp: reconcile_changes_def split: if_splits prod.splits option.splits
      dest!: backup_labels_R ProcessRequest_R provision_R) (meson comp)+

subsection \<open>The reconciliation\<close>

lemma handle_restored_R: "handle_restored ci w = (res, eo, w') \<Longrightarrow> R w w'"
  by (auto simp: handle_restored_def Let_def split: prod.splits option.splits sum.splits
      dest!: PatchCIStatus_R metadata_patch intro: comp)

lemma reconcile_active_R: "reconcile_active env ci w spoke = Some (res, eo, w', spoke') \<Longrightarrow> R w w'"
  by (auto simp: reconcile_active_def split: if_splits prod.splits option.splits bool.splits
      dest!: handle_restored_R reimport_R reconcile_changes_R intro: comp)

lemma handleFinalizer_R: "handleFinalizer ci w = Some (res, eo, ci', w') \<Longrightarrow> R w w'"
  by (auto simp: handleFinalizer_def ensureFinalizer_def Let_def
      split: if_splits prod.splits option.splits bool.splits sum.splits
      dest!: DeleteRenderedObjects_R metadata_patch pause_after_timeout_R intro: comp)

lemma velero_R: "ensureVeleroRestoreStatusAnnotation ci w = (res, eo, ci', w') \<Longrightarrow> R w w'"
  by (auto simp: ensureVeleroRestoreStatusAnnotation_def Let_def split: if_splits prod.splits sum.splits dest: metadata_patch)

lemma Reconcile_R: "Reconcile env key w spoke = Some (res, eo, w', spoke') \<Longrightarrow> R w w'"
  by (auto simp: Reconcile_def split: if_splits prod.splits option.splits sum.splits
      dest!: get_ci status_patch handleFinalizer_R velero_R reconcile_active_R) (meson comp)+

end

section \<open>The frame\<close>

text \<open>What stays of a stored ClusterInstance: its identity, generation, deletion time and spec; and none appears.\<close>

definition ci_frame :: "string \<times> string \<Rightarrow> world \<Rightarrow> world \<Rightarrow> bool" where
  "ci_frame k w w' \<longleftrightarrow> (\<forall>s'. map_of (w_cis w') k = Some s' \<longrightarrow>
     (\<exists>s. map_of (w_cis w) k = Some s \<and> ci_Spec s' = ci_Spec s \<and> ci_key s' = ci_key s
        \<and> om_Generation (ci_Meta s') = om_Generation (ci_Meta s)
        \<and> om_DeletionTimestamp (ci_Meta s') = om_DeletionTimestamp (ci_Meta s)))"

lemma ci_frame_D:
  assumes "ci_frame k w w'" "map_of (w_cis w') k = Some s'"
  obtains s where "map_of (w_cis w) k = Some s" "ci_Spec s' = ci_Spec s" "ci_key s' = ci_key s"
    "om_Generation (ci_Meta s') = om_Generation (ci_Meta s)"
    "om_DeletionTimestamp (ci_Meta s') = om_DeletionTimestamp (ci_Meta s)"
  using assms unfolding ci_frame_def by blast

interpretation frame: ci_relation "ci_frame k" for k
proof
  show "ci_frame k w w'" if "w_cis w' = w_cis w" for w w' using that by (simp add: ci_frame_def)
  show "ci_frame k u w" if "ci_frame k u v" "ci_frame k v w" for u v w using that unfolding ci_frame_def by metis
  show "ci_frame k w w'" if "StatusPatchCI orig new w = (r, w')" for orig new w r w'
    using that by (auto simp: StatusPatchCI_def ci_frame_def Let_def split: prod.splits option.splits if_splits)
  show "ci_frame k w w'" if "PatchCI orig new w = (r, w')" for orig new w r w'
    using that by (auto simp: PatchCI_def ci_frame_def merge_meta_def ci_key_def Let_def split: prod.splits option.splits if_splits)
qed

lemma cis_ok_writes:
  "cis_ok w \<Longrightarrow> w_cis w' = w_cis w \<Longrightarrow> cis_ok w'"
  "cis_ok w \<Longrightarrow> w_cis w' = gset (ci_key ci) ci (w_cis w) \<Longrightarrow> cis_ok w'"
  "cis_ok w \<Longrightarrow> w_cis w' = gdel k (w_cis w) \<Longrightarrow> cis_ok w'"
  by (auto simp: cis_ok_def list_all_iff gdel_def AList.delete_eq dest!: set_gset_subset)

lemma StatusPatchCI_ok_key:
  assumes "StatusPatchCI orig new w = (r, w')" "cis_ok w"
  shows "cis_ok w'"
proof (cases r)
  case (Inl e)
  then show ?thesis using StatusPatchCI_fail assms cis_ok_writes(1) by (metis same_state_def)
next
  case (Inr ci')
  then obtain s where s: "map_of (w_cis w) (ci_key new) = Some s" "ci_key ci' = ci_key s" "w_cis w' = gset (ci_key new) ci' (w_cis w)"
    using StatusPatchCI_ok [of orig new w ci' w'] assms(1) by auto
  then show ?thesis using cis_ok_lookup [OF assms(2) s(1)] cis_ok_writes(2) [OF assms(2)] by metis
qed

lemma PatchCI_ok_key:
  assumes "PatchCI orig new w = (r, w')" "cis_ok w"
  shows "cis_ok w'"
proof -
  have "w_cis w' = w_cis w \<or> w_cis w' = gdel (ci_key new) (w_cis w)
    \<or> (\<exists>s. map_of (w_cis w) (ci_key new) = Some s
        \<and> w_cis w' = gset (ci_key new) (s\<lparr>ci_Meta := merge_meta (ci_Meta orig) (ci_Meta new) (ci_Meta s)\<rparr>) (w_cis w))"
    using assms(1) by (auto simp: PatchCI_def Let_def split: prod.splits option.splits if_splits)
  then show ?thesis
  proof (elim disjE exE conjE)
    fix s assume s: "map_of (w_cis w) (ci_key new) = Some s"
      "w_cis w' = gset (ci_key new) (s\<lparr>ci_Meta := merge_meta (ci_Meta orig) (ci_Meta new) (ci_Meta s)\<rparr>) (w_cis w)"
    have "ci_key new = ci_key (s\<lparr>ci_Meta := merge_meta (ci_Meta orig) (ci_Meta new) (ci_Meta s)\<rparr>)"
      using cis_ok_lookup [OF assms(2) s(1)] by simp
    then show ?thesis using cis_ok_writes(2) [OF assms(2)] s(2) by metis
  qed (use cis_ok_writes assms(2) in blast)+
qed

interpretation store: ci_relation "\<lambda>w w'. cis_ok w \<longrightarrow> cis_ok w'"
  by unfold_locales (use cis_ok_writes(1) StatusPatchCI_ok_key PatchCI_ok_key in blast)+

section \<open>The property\<close>



end
