(* ===== verification/Work_Queue.thy ===== *)
theory Work_Queue
  imports Watches Controller_Frame
begin

text \<open>
  The work queue and the controller together: a request that the queue forgets belongs to a ClusterInstance
  that needs nothing more, which of the writes to a ClusterInstance wake the controller again, and the system
  of controller, ClusterDeployment reconciler, users and queue, in which unfinished work stays queued.
\<close>

section \<open>Lemmas: what the steps of a reconciliation leave in memory\<close>

lemma forget_iff: "reconcileHandler res err = Forget \<longleftrightarrow> err = None \<and> result_IsZero res"
  by (auto simp: reconcileHandler_def result_IsZero_def)

text \<open>Memory and server agree after the step, on an object of the same name.\<close>

definition in_step :: "ClusterInstance \<Rightarrow> ClusterInstance \<Rightarrow> world \<Rightarrow> bool" where
  "in_step ci ci' w' \<longleftrightarrow> in_sync ci' w' \<and> ci_key ci' = ci_key ci"

lemma in_step_refl: "in_sync ci w \<Longrightarrow> w_cis w' = w_cis w \<Longrightarrow> in_step ci ci w'"
  by (simp add: in_step_def in_sync_def)

lemma in_step_trans: "in_step a b v \<Longrightarrow> in_step b c w \<Longrightarrow> in_step a c w"
  by (simp add: in_step_def)

lemma patch_in_step:
  assumes "PatchCIStatus ci new v = (None, ci', w')" "in_sync ci w" "w_cis v = w_cis w" "ci_Meta new = ci_Meta ci" "ci_Spec new = ci_Spec ci"
  shows "in_step ci ci' w'" "ci' = new"
proof -
  have "in_sync ci v" using assms(2,3) by (simp add: in_sync_def)
  from patch_in_sync [OF assms(1) this assms(4,5)] show "ci' = new" "in_step ci ci' w'"
    using assms(4) by (simp_all add: in_step_def ci_key_def)
qed

text \<open>A reinstall condition is set and, when that was a change, patched.\<close>

lemma set_patch_in_step:
  assumes "in_sync ci w" "w_cis v = w_cis w" "setReinstallStatusCondition now ci c = (changed, ci1)"
    "(if changed then PatchCIStatus ci ci1 v = (None, ci', w') else ci' = ci1 \<and> w' = v)"
  shows "in_step ci ci' w'" "ci' = ci1"
proof -
  obtain f where f: "ci1 = upd_reinstall f ci" using set_reinstall_frame [OF assms(3)] by blast
  have "in_step ci ci' w' \<and> ci' = ci1"
  proof (cases changed)
    case True
    then show ?thesis using patch_in_step [of ci ci1 v ci' w' w] assms(1,2,4) unfolding f by simp
  next
    case False
    then show ?thesis using assms set_reinstall_unchanged [of now ci c ci1] in_step_refl [OF assms(1,2)] by simp
  qed
  then show "in_step ci ci' w'" "ci' = ci1" by auto
qed

subsection \<open>The reinstall handler\<close>

lemma conclude_quiet: "conclude ls = (res, None, ci', w') \<Longrightarrow> res = l_result ls \<and> l_err ls = None"
  by (auto simp: conclude_def patch_or_wrap_def Let_def split: prod.splits if_splits option.splits)

lemma finalize_in_step:
  assumes "finalizeReinstallRequest env ci w = (None, ci', w')" "in_sync ci w"
  shows "in_step ci ci' w'"
proof -
  obtain c eo v where c: "Cleanup ci w = ((c, eo), v)" by (metis prod.exhaust)
  have v: "w_cis v = w_cis w" using touches_cis(1) [OF Cleanup_frame [OF c]] .
  obtain d r u where d: "computeClusterInstanceSpecDiff env ci = Inr d" "eo = None"
    "finalized_status (w_now v) (rs_Generation (reinstall_spec ci)) d (reinstall_status ci) = (r, u)"
    using assms(1) c by (auto simp: finalizeReinstallRequest_def Let_def split: option.splits sum.splits prod.splits)
  show ?thesis
  proof (cases u)
    case True
    then have "PatchCIStatus ci (upd_reinstall (\<lambda>x. r) ci) v = (None, ci', w')"
      using assms(1) c d by (auto simp: finalizeReinstallRequest_def patch_or_wrap_def split: prod.splits option.splits)
    then show ?thesis using patch_in_step(1) [OF _ assms(2) v] by simp
  next
    case False
    then have "ci' = upd_reinstall (\<lambda>x. r) ci" "w' = v" "r = reinstall_status ci"
      using assms(1) c d by (auto simp: finalizeReinstallRequest_def finalized_status_def Let_def split: if_splits)
    moreover have "upd_reinstall (\<lambda>x. reinstall_status ci) ci = ci"
      by (cases "st_Reinstall (ci_Status ci)") (auto simp: upd_reinstall_def reinstall_status_def)
    ultimately show ?thesis using in_step_refl [OF assms(2) v] by simp
  qed
qed

lemma ProcessRequest_in_step:
  assumes "ProcessRequest env ci w = Some (res, None, ci', w')" "result_IsZero res" "in_sync ci w"
  shows "in_step ci ci' w'"
  using assms(1)
proof (cases rule: ProcessRequest_cases)
  case nothing
  then show ?thesis using in_step_refl [OF assms(3)] by simp
next
  case (initialize ie)
  then show ?thesis using assms(2) by (simp add: result_IsZero_def requeue_def)
next
  case (enter ci1 po cond)
  then show ?thesis using assms(2) by (simp add: result_IsZero_def requeue_def)
next
  case (tasks ls cond)
  have quiet: "l_result ls = res" "l_err ls = None" using conclude_quiet [OF tasks(4)] by auto
  have sync: "synced ci w" using assms(3) tasks(2)
    by (auto simp: synced_def in_sync_def isNewRequest_def split: option.splits)
  from tasks(3) sync tasks_contract show ?thesis
  proof (cases rule: run_tasks_cases)
    case (stopped t v)
    then show ?thesis using quiet assms(2) by (simp add: stopped_at_def)
  next
    case (finished v)
    obtain eo ci1 w1 where f: "finalizeReinstallRequest env ci v = (eo, ci1, w1)" by (metis prod_cases3)
    have fin: "eo = None" "l_ci ls = ci1" "l_world ls = w1" "\<not> l_setEndtime ls" "\<not> l_applyPause ls"
      using finished(3) f quiet(2) by (auto simp: finish_request_def split: option.splits)
    have "in_sync ci v" using assms(3) finished(1) by (simp add: in_sync_def)
    then have s1: "in_step ci ci1 w1" using finalize_in_step f fin(1) by blast
    obtain changed ci2 where s: "setReinstallStatusCondition (w_now w1) ci1 (l_cond ls) = (changed, ci2)" by fastforce
    have "if changed then PatchCIStatus ci1 ci2 w1 = (None, ci', w') else ci' = ci2 \<and> w' = w1"
      using tasks(4) quiet fin s by (auto simp: conclude_def patch_or_wrap_def split: prod.splits option.splits if_splits)
    from set_patch_in_step(1) [OF _ _ s this, of w1] s1 show ?thesis using in_step_trans by (auto simp: in_step_def)
  qed
qed

subsection \<open>The reimport\<close>

text \<open>After a reinstall, once the cluster is provisioned again, the controller waits for the ManagedCluster to be healthy.\<close>

definition awaits_reimport :: "ClusterInstance \<Rightarrow> bool" where
  "awaits_reimport ci \<longleftrightarrow> st_Reinstall (ci_Status ci) \<noteq> None \<and> cond_true (condition_of ci ClusterProvisioned)
     \<and> \<not> cond_true (findReinstallStatusCondition ci ReinstallClusterReimported)"

lemma upd_reinstall_conditions [simp]: "condition_of (upd_reinstall f ci) t = condition_of ci t"
  by (simp add: upd_reinstall_def condition_of_def)

lemma reimport_body_needed:
  assumes "rr_needed (reimport_body senv ci w spoke)"
  shows "cond_true (condition_of ci ClusterProvisioned)" "\<not> cond_true (findReinstallStatusCondition ci ReinstallClusterReimported)"
    "rr_cond (reimport_body senv ci w spoke) = Some c \<Longrightarrow> c_Type c = ReinstallClusterReimported \<and> c_Status c = ConditionFalse"
  using assms
  by (auto simp: reimport_body_def reimport_after_grace_def settled_def waiting_def condition_of_def reimported_condition_def
      conditionSetter_def Let_def split: if_splits sum.splits prod.splits option.splits)

lemma set_unhealthy:
  assumes "setReinstallStatusCondition now ci c = (changed, ci1)" "c_Type c = ReinstallClusterReimported" "c_Status c = ConditionFalse"
  shows "\<not> cond_true (findReinstallStatusCondition ci1 ReinstallClusterReimported)"
proof (cases "st_Reinstall (ci_Status ci)")
  case None
  then show ?thesis using assms(1)
    by (auto simp: setReinstallStatusCondition_def findReinstallStatusCondition_def cond_true_def)
next
  case (Some r)
  have "\<not> cond_true (FindStatusCondition (fst (meta_SetStatusCondition now (r_Conditions r) c)) (c_Type c))"
    using meta_Set_find_same [of now "r_Conditions r" c] assms(3) by (auto simp: cond_true_def ConditionTrue_def ConditionFalse_def)
  then show ?thesis using assms(1,2) Some
    by (auto simp: setReinstallStatusCondition_def findReinstallStatusCondition_def upd_reinstall_def split: prod.splits)
qed

lemma reimport_in_step:
  assumes "EnsureClusterIsReimported env senv ci w spoke = (res, needed, None, ci', w', spoke')" "in_sync ci w"
  shows "in_step ci ci' w' \<and> (needed \<longrightarrow> awaits_reimport ci')"
proof (cases "st_Reinstall (ci_Status ci) \<noteq> None
    \<and> reimport_finish ci (reimport_body senv ci w spoke) = (res, needed, None, ci', w', spoke')")
  case False
  then show ?thesis using assms(1) in_step_refl [OF assms(2)]
    by (auto simp: EnsureClusterIsReimported_def Let_def split: option.splits if_splits)
next
  case True
  define rr where "rr = reimport_body senv ci w spoke"
  have v: "w_cis (rr_world rr) = w_cis w" by (simp add: rr_def reimport_body_same)
  note fin = True [THEN conjunct2, folded rr_def, unfolded reimport_finish_def Let_def]
  have n: "needed = rr_needed rr" using fin by (auto split: option.splits prod.splits bool.splits)
  note body = reimport_body_needed [of senv ci w spoke, folded rr_def]
  show ?thesis
  proof (cases "rr_cond rr")
    case None
    then show ?thesis using fin in_step_refl [OF assms(2) v] True n body by (auto simp: awaits_reimport_def)
  next
    case (Some c)
    obtain changed ci1 where s: "setReinstallStatusCondition (w_now (rr_world rr)) ci c = (changed, ci1)" by fastforce
    have "if changed then PatchCIStatus ci ci1 (rr_world rr) = (None, ci', w') else ci' = ci1 \<and> w' = rr_world rr"
      using fin Some s by (auto simp: patch_or_wrap_def split: prod.splits option.splits if_splits bool.splits)
    note p = set_patch_in_step [OF assms(2) v s this]
    obtain f where f: "ci1 = upd_reinstall f ci" using set_reinstall_frame [OF s] by blast
    have "awaits_reimport ci1" if needed
      using that n body Some set_unhealthy [OF s] True f by (auto simp: awaits_reimport_def)
    then show ?thesis using p by auto
  qed
qed

subsection \<open>Provisioning\<close>

definition up_to_date :: "ClusterInstance \<Rightarrow> bool" where
  "up_to_date ci \<longleftrightarrow> st_ObservedGeneration (ci_Status ci) = om_Generation (ci_Meta ci)"

lemma up_to_date_with_observed [simp]: "up_to_date (with_observed ci)"
  by (simp add: up_to_date_def with_observed_def)

lemma updateObservedStatus_done:
  assumes "updateObservedStatus env ci w = (None, ci', w')" "in_sync ci w"
  shows "\<exists>s. map_of (w_cis w') (ci_key ci) = Some s \<and> up_to_date s"
proof -
  obtain tx ci2 w1 ci3 w2 where u: "PatchCI ci (SetMetaDataAnnotation LastClusterInstanceSpecAnnotation tx ci) w = (Inr ci2, w1)"
    "GetCI (ci_key ci2) w1 = (Inr ci3, w2)" "PatchCIStatus ci3 (with_observed ci3) w2 = (None, ci', w')"
    using assms(1) by (auto simp: updateObservedStatus_def Let_def split: prod.splits option.splits sum.splits)
  obtain s where s: "map_of (w_cis w) (ci_key ci) = Some s" "ci_key ci2 = ci_key s"
    "map_of (w_cis w1) (ci_key ci) = None \<or> map_of (w_cis w1) (ci_key ci) = Some ci2"
    using PatchCI_ok [OF u(1)] by auto
  then have k: "ci_key ci2 = ci_key ci" using assms(2) by (simp add: in_sync_def)
  have g: "ci3 = ci2" "in_sync ci3 w2" using GetCI_ok [OF u(2)] s(3) k by (auto simp: in_sync_def same_state_def)
  from patch_in_step [OF u(3) g(2)] have "in_step ci3 ci' w'" "ci' = with_observed ci3" by simp_all
  then show ?thesis using g(1) k by (auto simp: in_step_def in_sync_def)
qed

lemma provision_done:
  assumes "provision env ci w = Some (res, None, w')" "result_IsZero res" "in_sync ci w"
  shows "\<exists>s. map_of (w_cis w') (ci_key ci) = Some s \<and> up_to_date s"
proof -
  obtain ci1 w1 where v: "handleValidate ci w = (None, ci1, w1)"
    using assms(1) by (auto simp: provision_def split: prod.splits option.splits)
  have s1: "in_sync ci1 w1" "ci_key ci1 = ci_key ci"
    using handleValidate_handled [of ci w] v assms(3) carries_key by (auto simp: handled_def)
  obtain ci2 w2 where r: "handleRenderTemplates (ce_template env) (ce_ssa env) ci1 w1 = Some (True, None, ci2, w2)"
    using assms(1,2) v
    by (auto simp: provision_def requeueForDeletion_def requeueWithDelay_def result_IsZero_def split: prod.splits option.splits bool.splits)
  have s2: "in_sync ci2 w2" "ci_key ci2 = ci_key ci"
    using handleRenderTemplates_handled(2) [OF r s1(1)] carries_key s1(2) by auto
  show ?thesis
  proof (cases "up_to_date ci2")
    case True
    then show ?thesis using assms(1) v r s2 by (auto simp: provision_def up_to_date_def in_sync_def)
  next
    case False
    then obtain ci3 where "updateObservedStatus env ci2 w2 = (None, ci3, w')"
      using assms(1) v r by (auto simp: provision_def up_to_date_def split: prod.splits option.splits)
    then show ?thesis using updateObservedStatus_done s2 by fastforce
  qed
qed

lemma reconcile_changes_done:
  assumes "reconcile_changes env ci w = Some (res, None, w')" "result_IsZero res" "in_sync ci w"
  shows "\<exists>s. map_of (w_cis w') (ci_key ci) = Some s \<and> up_to_date s"
proof (cases "up_to_date ci")
  case True
  then show ?thesis using assms(1,3) by (auto simp: reconcile_changes_def up_to_date_def in_sync_def)
next
  case False
  obtain w1 where l: "applyACMBackupLabelToInstallTemplates (ce_PodNamespace env) ci w = (None, w1)"
    using assms(1) False by (auto simp: reconcile_changes_def up_to_date_def split: prod.splits option.splits)
  have s1: "in_sync ci w1" using backup_labels_same [OF l] assms(3) by (simp add: in_sync_def)
  obtain ci2 w2 where p: "in_step ci ci2 w2" "provision env ci2 w2 = Some (res, None, w')"
  proof (cases "reinstall_pending ci")
    case True
    then obtain r2 ci2 w2 where r: "ProcessRequest (ce_reinstall env) ci w1 = Some (r2, None, ci2, w2)"
      "if result_IsZero r2 then provision env ci2 w2 = Some (res, None, w') else r2 = res"
      using assms(1) False l by (auto simp: reconcile_changes_def up_to_date_def split: prod.splits option.splits if_splits)
    then show thesis using that assms(2) ProcessRequest_in_step [OF r(1) _ s1] by (auto split: if_splits)
  next
    case no: False
    then show thesis using that [of ci w1] s1 assms(1) False l in_step_refl [OF s1]
      by (auto simp: reconcile_changes_def up_to_date_def)
  qed
  then show ?thesis using provision_done [OF p(2) assms(2)] by (auto simp: in_step_def)
qed

subsection \<open>The reconciliation\<close>

lemma restored_done:
  assumes "handle_restored ci w = (res, None, w')" "in_sync ci w" "map_of (w_cis w') (ci_key ci) = Some s'"
  shows "up_to_date s'"
proof -
  obtain ci1 w1 r where h: "PatchCIStatus ci (with_observed ci) w = (None, ci1, w1)"
    "PatchCI ci1 (SetMetaDataAnnotation veleroRestoreHandledAnnotation (gindex (om_Labels (ci_Meta ci)) veleroRestoreNameLabel) ci1) w1 = (r, w')"
    using assms(1) by (auto simp: handle_restored_def Let_def split: prod.splits option.splits sum.splits)
  from patch_in_step [OF h(1) assms(2)] have "in_step ci ci1 w1" "up_to_date ci1" by simp_all
  then show ?thesis using PatchCI_gen_kept [OF h(2), of "ci_key ci"] assms(3)
    by (auto simp: gen_kept_def up_to_date_def in_step_def in_sync_def)
qed

lemma reconcile_active_done:
  assumes "reconcile_active env ci w spoke = Some (res, None, w', spoke')" "result_IsZero res" "in_sync ci w"
    "map_of (w_cis w') (ci_key ci) = Some s'"
  shows "up_to_date s' \<or> awaits_reimport s'"
proof (cases "isBeingRestored ci")
  case True
  then show ?thesis using assms restored_done by (auto simp: reconcile_active_def split: prod.splits)
next
  case False
  obtain result needed ci1 w1 spoke1 where r: "(if st_Reinstall (ci_Status ci) \<noteq> None
      then EnsureClusterIsReimported (ce_reinstall env) (ce_spoke env) ci w spoke
      else (zero_result, False, None, ci, w, spoke)) = (result, needed, None, ci1, w1, spoke1)"
    "if needed then result = res \<and> w1 = w' else reconcile_changes env ci1 w1 = Some (res, None, w')"
    using assms(1) False by (auto simp: reconcile_active_def split: prod.splits option.splits bool.splits if_splits)
  have s: "in_step ci ci1 w1 \<and> (needed \<longrightarrow> awaits_reimport ci1)"
    using r(1) reimport_in_step [of _ _ ci w spoke result needed ci1 w1 spoke1] assms(3) in_step_refl [OF assms(3)]
    by (auto split: if_splits)
  show ?thesis
  proof (cases needed)
    case True
    then show ?thesis using r(2) s assms(4) by (auto simp: in_step_def in_sync_def)
  next
    case False
    then show ?thesis using reconcile_changes_done [OF _ assms(2), of env ci1 w1 w'] r(2) s assms(4) by (auto simp: in_step_def)
  qed
qed

text \<open>After the finalizer was handled the ClusterInstance is in memory as it is stored, or it is gone.\<close>

lemma handleFinalizer_in_step:
  assumes "handleFinalizer ci w = Some (res, None, ci', w')" "result_IsZero res" "in_sync ci w"
  shows "in_step ci ci' w' \<or> map_of (w_cis w') (ci_key ci) = None"
proof (cases "ci' = ci \<and> w' = w")
  case True
  then show ?thesis using in_step_refl [OF assms(3)] by simp
next
  case False
  then obtain c ci1 w1 where d: "DeleteRenderedObjects ci [] (Some DefaultDeletionTimeout) w = Some (c, None, ci1, w1)"
    "PatchCI ci1 (with_finalizers (removeAll clusterInstanceFinalizer) ci1) w1 = (Inr ci', w')"
    using assms(1,2)
    by (auto simp: handleFinalizer_def ensureFinalizer_def requeue_def requeueForDeletion_def requeueWithDelay_def result_IsZero_def
        pause_after_timeout_def Let_def split: if_splits prod.splits option.splits sum.splits bool.splits)
  have s1: "in_step ci ci1 w1"
  proof (cases "st_ManifestsRendered (ci_Status ci) = []")
    case True
    then show ?thesis using d(1) in_step_refl [OF assms(3)] by (simp add: DeleteRenderedObjects_def)
  next
    case False
    then obtain objs where o: "DeleteObjects ci objs [] (Some DefaultDeletionTimeout) w = (c, None, ci1, w1)"
      using d(1) by (auto simp: DeleteRenderedObjects_def split: option.splits)
    show ?thesis using DeleteObjects_handled [OF o] assms(3) carries_key by (auto simp: handled_def in_step_def)
  qed
  have "ci_key (with_finalizers f ci1) = ci_key ci" for f using s1 by (simp add: with_finalizers_def ci_key_def in_step_def)
  then show ?thesis using PatchCI_ok [OF d(2)] s1 by (auto simp: in_step_def in_sync_def)
qed

text \<open>The queue forgets a request only when the ClusterInstance is gone, paused or observed, or waits for its ManagedCluster.\<close>

lemma Reconcile_forgotten:
  assumes "Reconcile env k w spoke = Some (res, err, w', spoke')" "reconcileHandler res err = Forget"
    "cis_ok w" "faults_ok w" "map_of (w_cis w') k = Some s'"
  shows "IsPaused s' \<or> up_to_date s' \<or> awaits_reimport s'"
proof -
  have idle: "err = None" "result_IsZero res" using assms(2) by (simp_all add: forget_iff)
  obtain s where s: "map_of (w_cis w) k = Some s" using ci_frame_D [OF frame.Reconcile_R [OF assms(1)] assms(5)] .
  obtain g w1 where g: "GetCI k w = (g, w1)" by fastforce
  have g': "g = Inr s" "w_cis w1 = w_cis w"
    using assms(1,4) g s idle(1) next_fault_ok [of w]
    by (auto simp: Reconcile_def GetCI_def IsNotFound_def split: prod.splits option.splits if_splits)
  have sync: "in_sync s w1" "ci_key s = k" using s g'(2) cis_ok_lookup [OF assms(3) s] by (simp_all add: in_sync_def)
  show ?thesis
  proof (cases "IsPaused s")
    case True
    then show ?thesis using assms(1,5) g g' s by (auto simp: Reconcile_def)
  next
    case False
    obtain ci1 w2 r1 where f: "handleFinalizer s w1 = Some (r1, None, ci1, w2)" "result_IsZero r1"
      "reconcile_active env ci1 w2 spoke = Some (res, None, w', spoke')"
      using assms(1) False g g'(1) idle
      by (auto simp: Reconcile_def ensureVeleroRestoreStatusAnnotation_def requeue_def result_IsZero_def Let_def
          split: prod.splits option.splits sum.splits if_splits)
    have "map_of (w_cis w2) k \<noteq> None" using ci_frame_D [OF frame.reconcile_active_R [OF f(3)] assms(5)] by auto
    then have "in_step s ci1 w2" using handleFinalizer_in_step [OF f(1,2) sync(1)] sync(2) by auto
    then show ?thesis using reconcile_active_done [OF f(3) idle(2)] assms(5) sync(2) by (auto simp: in_step_def)
  qed
qed

section \<open>Lemmas: the events that pass\<close>

lemma ci_filter_update:
  "ci_filter (UpdateEvent old new) \<longleftrightarrow> om_Generation (ci_Meta new) \<noteq> om_Generation (ci_Meta old)
     \<or> \<not> maps_Equal (om_Labels (ci_Meta new)) (om_Labels (ci_Meta old))
     \<or> IsPaused old \<noteq> IsPaused new \<or> provisionedChangedPredicate old new"
  by (auto simp: ci_filter_def GenerationChangedPredicate_def LabelChangedPredicate_def no_funcs_def holdAnnotationPredicate_def IsPaused_def)

lemma ci_filter_other [simp]: "ci_filter (CreateEvent x)" "ci_filter (DeleteEvent x)"
  by (simp_all add: ci_filter_def GenerationChangedPredicate_def no_funcs_def)

lemma maps_Equal_refl: "gmap_ok m \<Longrightarrow> maps_Equal m m"
  by (auto simp: maps_Equal_def gmap_ok_def list_all_iff)

lemma ci_requests:
  "cc_requests (ci_controller_of store) (UpdateEvent old new) = (if ci_filter (UpdateEvent old new) then [ci_key new] else [])"
  "cc_requests (ci_controller_of store) (CreateEvent x) = [ci_key x]"
  "cc_requests (ci_controller_of store) (DeleteEvent x) = [ci_key x]"
  by (simp_all add: ci_controller_of_def EnqueueRequestForObject_def ci_key_def Let_def)

text \<open>A status write passes only with the provisioned condition of an active reinstall.\<close>

lemma status_write_passes:
  assumes "ci_Meta new = ci_Meta old" "gmap_ok (om_Labels (ci_Meta old))"
  shows "ci_filter (UpdateEvent old new) \<longleftrightarrow> provisionedChangedPredicate old new"
  using assms by (simp add: ci_filter_update maps_Equal_refl IsPaused_def)

lemma provisionedChanged_iff:
  "provisionedChangedPredicate old new \<longleftrightarrow> s_Reinstall (ci_Spec new) \<noteq> None \<and> st_Reinstall (ci_Status new) \<noteq> None
     \<and> (case condition_of new ClusterProvisioned of
          None \<Rightarrow> False
        | Some n \<Rightarrow> (case condition_of old ClusterProvisioned of
            None \<Rightarrow> True | Some c \<Rightarrow> c_Status c \<noteq> c_Status n \<or> c_Reason c \<noteq> c_Reason n))"
  by (auto simp: provisionedChangedPredicate_def condition_of_def split: option.splits)

section \<open>The system\<close>

text \<open>
  The ClusterInstance with key \<open>k\<close>, the two controllers, users and everything else, with a flag that says
  whether the request for \<open>k\<close> is queued. A change of the stored ClusterInstance is delivered as one event.
  Users change the spec and the metadata but not the status; a change of the spec raises the generation
  (API server). After a restart of the operator every ClusterInstance is delivered as created.
\<close>

definition notified :: "ConfigurationStore \<Rightarrow> request \<Rightarrow> world \<Rightarrow> world \<Rightarrow> bool" where
  "notified store k w w' =
     (case (map_of (w_cis w) k, map_of (w_cis w') k) of
        (None, None) \<Rightarrow> False
      | (None, Some new) \<Rightarrow> k \<in> set (cc_requests (ci_controller_of store) (CreateEvent new))
      | (Some old, Some new) \<Rightarrow> k \<in> set (cc_requests (ci_controller_of store) (UpdateEvent old new))
      | (Some old, None) \<Rightarrow> k \<in> set (cc_requests (ci_controller_of store) (DeleteEvent old)))"

type_synonym operator_state = "world \<times> world \<times> bool"

inductive operator_step :: "controller_env \<Rightarrow> ConfigurationStore \<Rightarrow> request \<Rightarrow> operator_state \<Rightarrow> operator_state \<Rightarrow> bool"
  for env store k where
  reconcile: "faults_ok w \<Longrightarrow> Reconcile env k w spoke = Some (res, err, w', spoke') \<Longrightarrow>
    operator_step env store k (w, spoke, True) (w', spoke', reconcileHandler res err \<noteq> Forget \<or> notified store k w w')"
| deployment: "cd_Reconcile key w = (res, err, w') \<Longrightarrow>
    operator_step env store k (w, spoke, q) (w', spoke, q \<or> notified store k w w')"
| edit: "map_of (w_cis w) k = Some old \<Longrightarrow> map_of (w_cis w') k = Some new \<Longrightarrow> ci_Status new = ci_Status old \<Longrightarrow>
    (ci_Spec new \<noteq> ci_Spec old \<longrightarrow> om_Generation (ci_Meta new) \<noteq> om_Generation (ci_Meta old)) \<Longrightarrow> cis_ok w' \<Longrightarrow>
    operator_step env store k (w, spoke, q) (w', spoke, q \<or> notified store k w w')"
| create: "map_of (w_cis w) k = None \<Longrightarrow> cis_ok w' \<Longrightarrow>
    operator_step env store k (w, spoke, q) (w', spoke, q \<or> notified store k w w')"
| remove: "map_of (w_cis w') k = None \<Longrightarrow> cis_ok w' \<Longrightarrow>
    operator_step env store k (w, spoke, q) (w', spoke, q \<or> notified store k w w')"
| environment: "map_of (w_cis w') k = map_of (w_cis w) k \<Longrightarrow> cis_ok w' \<Longrightarrow>
    operator_step env store k (w, spoke, q) (w', spoke', q)"
| restart: "operator_step env store k (w, spoke, q) (w, spoke, True)"

text \<open>
  What has to be done for a ClusterInstance: it is not paused, its spec has not been observed, the controller
  is not waiting for the ManagedCluster, and the reinstall of its status is still the one of its spec.
\<close>

definition needs_work :: "ClusterInstance \<Rightarrow> bool" where
  "needs_work ci \<longleftrightarrow> \<not> IsPaused ci \<and> \<not> up_to_date ci \<and> \<not> awaits_reimport ci
     \<and> (st_Reinstall (ci_Status ci) = None \<or> s_Reinstall (ci_Spec ci) \<noteq> None)"

definition work_queued :: "request \<Rightarrow> operator_state \<Rightarrow> bool" where
  "work_queued k st = (case st of (w, spoke, q) \<Rightarrow>
     cis_ok w \<and> (\<forall>ci. map_of (w_cis w) k = Some ci \<and> needs_work ci \<longrightarrow> q))"

subsection \<open>The steps\<close>

lemma getClusterInstance_reads:
  assumes "getClusterInstance cd w = ((r, err), w')"
  shows "w_cis w' = w_cis w" "r = Some ci \<Longrightarrow> \<exists>k. map_of (w_cis w) k = Some ci"
  using assms
  by (auto simp: getClusterInstance_def Let_def same_state_def GetCI_def split: if_splits sum.splits prod.splits option.splits)

lemma cd_Reconcile_cases:
  assumes "cd_Reconcile key w = (res, err, w')"
  obtains (read) "w_cis w' = w_cis w"
  | (written) k ci cd v po ci' where "map_of (w_cis w) k = Some ci" "w_cis v = w_cis w"
      "PatchCIStatus ci (sync_status (w_now v) cd ci) v = (po, ci', w')"
proof -
  obtain g w1 where g: "Get (ObjKey ''hive.openshift.io/v1'' ''ClusterDeployment'' (fst key) (snd key)) w = (g, w1)" by fastforce
  have w1: "w_cis w1 = w_cis w" using touches_cis(1) [OF Get_touches [OF g]] .
  show thesis
  proof (cases g)
    case (Inl e)
    then show thesis using assms g w1 read by (simp add: cd_Reconcile_def split: if_splits)
  next
    case (Inr cd)
    obtain ci err' w2 where r: "getClusterInstance cd w1 = ((ci, err'), w2)" by (metis prod.exhaust)
    note rd = getClusterInstance_reads [OF r]
    show thesis
    proof (cases "\<exists>x. ci = Some x \<and> err' = None \<and> ci_Status x \<noteq> ci_Status (sync_status (w_now w2) cd x)")
      case True
      then obtain x k where x: "ci = Some x" "err' = None" "ci_Status x \<noteq> ci_Status (sync_status (w_now w2) cd x)"
        "map_of (w_cis w) k = Some x" using rd(2) w1 by metis
      obtain po ci' w3 where p: "PatchCIStatus x (sync_status (w_now w2) cd x) w2 = (po, ci', w3)" by (metis prod_cases3)
      have "w3 = w'" using assms g Inr r x p by (simp add: cd_Reconcile_def Let_def split: option.splits)
      then show thesis using written [OF x(4) _ p [unfolded \<open>w3 = w'\<close>]] rd(1) w1 by simp
    next
      case False
      then have "w' = w2" using assms g Inr r by (auto simp: cd_Reconcile_def Let_def split: option.splits)
      then show thesis using read rd(1) w1 by simp
    qed
  qed
qed

text \<open>Whatever fails, a reconciliation of a ClusterDeployment writes at most one ClusterInstance, as it synchronised it.\<close>

lemma cd_Reconcile_writes:
  assumes "cd_Reconcile key w = (res, err, w')" "cis_ok w"
  shows "w_cis w' = w_cis w
    \<or> (\<exists>now cd ci. map_of (w_cis w) (ci_key ci) = Some ci \<and> w_cis w' = gset (ci_key ci) (sync_status now cd ci) (w_cis w))"
  using assms(1)
proof (cases rule: cd_Reconcile_cases)
  case (written k ci cd v po ci')
  have ci: "map_of (w_cis w) (ci_key ci) = Some ci" using written(1) cis_ok_lookup [OF assms(2) written(1)] by simp
  show ?thesis
  proof (cases po)
    case None
    have "ci' = sync_status (w_now v) cd ci"
      using patch_in_step(2) [OF written(3) [unfolded None] _ written(2)] ci sync_status_frame by (simp add: in_sync_def)
    moreover have "w_cis w' = gset (ci_key ci) ci' (w_cis w)"
      using ci_status.patch_ok [OF written(3) [unfolded None]] written(2) sync_status_frame(2) by (auto simp: ci_key_def)
    ultimately show ?thesis using ci by blast
  next
    case (Some e)
    then show ?thesis using ci_status.patch_fail [of ci _ v e ci' w'] written(2,3) by auto
  qed
qed simp

lemma sync_status_fields:
  "st_ObservedGeneration (ci_Status (sync_status now cd ci)) = st_ObservedGeneration (ci_Status ci)"
  "st_Reinstall (ci_Status (sync_status now cd ci)) = st_Reinstall (ci_Status ci)"
  by (simp_all add: sync_status_def updateCIDeploymentConditions_def with_deployment_conditions_def provisioned_write set_condition_def
      init_provisioned_def with_deployment_ref_def split: option.split prod.split list.split)

lemma sync_status_provisioned: "condition_of (sync_status now cd ci) ClusterProvisioned \<noteq> None"
  using sync_follows_verdict [of cd ci now] by (auto simp: follows_verdict_def condition_of_def)

text \<open>The synchronised ClusterInstance either needed work before, or its change passes the filter.\<close>

lemma sync_wakes:
  assumes "needs_work (sync_status now cd ci)"
  shows "needs_work ci \<or> ci_filter (UpdateEvent ci (sync_status now cd ci))"
proof (cases "awaits_reimport ci")
  case False
  then show ?thesis using assms
    by (simp add: needs_work_def up_to_date_def IsPaused_def sync_status_frame sync_status_fields)
next
  case True
  have "findReinstallStatusCondition (sync_status now cd ci) t = findReinstallStatusCondition ci t" for t
    by (simp add: findReinstallStatusCondition_def sync_status_fields)
  then have "provisionedChangedPredicate ci (sync_status now cd ci)"
    using assms True sync_status_provisioned [of now cd ci]
    by (auto simp: provisionedChanged_iff needs_work_def awaits_reimport_def cond_true_def sync_status_fields sync_status_frame
        split: option.splits)
  then show ?thesis by (simp add: ci_filter_update)
qed

lemma edit_wakes:
  assumes "needs_work new" "ci_Status new = ci_Status old"
    "ci_Spec new \<noteq> ci_Spec old \<longrightarrow> om_Generation (ci_Meta new) \<noteq> om_Generation (ci_Meta old)"
  shows "needs_work old \<or> ci_filter (UpdateEvent old new)"
  using assms
  by (auto simp: ci_filter_update needs_work_def up_to_date_def awaits_reimport_def condition_of_def findReinstallStatusCondition_def)

lemma cis_ok_sync:
  assumes "cd_Reconcile key w = (res, err, w')" "cis_ok w"
  shows "cis_ok w'"
  using cd_Reconcile_writes [OF assms] cis_ok_writes [OF assms(2)] sync_status_frame(2)
  by (metis ci_key_def)

lemma operator_step_queued:
  assumes "operator_step env store k st st'" "work_queued k st"
  shows "work_queued k st'"
  using assms
proof (induction rule: operator_step.induct)
  case (reconcile w spoke res err w' spoke')
  then have ok: "cis_ok w" "cis_ok w'" using store.Reconcile_R by (auto simp: work_queued_def)
  moreover have "reconcileHandler res err \<noteq> Forget" if "map_of (w_cis w') k = Some ci" "needs_work ci" for ci
    using Reconcile_forgotten [OF reconcile(2) _ ok(1) reconcile(1) that(1)] that(2) by (auto simp: needs_work_def)
  ultimately show ?case by (auto simp: work_queued_def)
next
  case (deployment key w res err w' spoke q)
  then have ok: "cis_ok w" "cis_ok w'" using cis_ok_sync by (auto simp: work_queued_def)
  show ?case
  proof (cases "w_cis w' = w_cis w")
    case True
    then show ?thesis using deployment ok by (auto simp: work_queued_def)
  next
    case False
    then obtain now cd ci where c: "map_of (w_cis w) (ci_key ci) = Some ci" "w_cis w' = gset (ci_key ci) (sync_status now cd ci) (w_cis w)"
      using cd_Reconcile_writes [OF deployment(1) ok(1)] by blast
    have "ci_key (sync_status now cd ci) = ci_key ci" by (simp add: ci_key_def sync_status_frame)
    then show ?thesis using deployment(2) ok(2) c sync_wakes [of now cd ci]
      by (cases "k = ci_key ci") (auto simp: work_queued_def notified_def ci_requests)
  qed
next
  case (edit w old w' new spoke q)
  then have "ci_key new = k" using cis_ok_lookup by blast
  then show ?case using edit edit_wakes by (auto simp: work_queued_def notified_def ci_requests)
next
  case (create w w' spoke q)
  then show ?case using cis_ok_lookup [OF create(2), of k] by (auto simp: work_queued_def notified_def ci_requests)
qed (auto simp: work_queued_def)

section \<open>Properties\<close>

text \<open>C5: Unfinished work stays queued. From a start of the operator on, through any interleaving of reconciliations of
  the ClusterInstance with whatever requests failing, reconciliations of ClusterDeployments, edits, creations and
  removals of the ClusterInstance by users, changes of everything else and restarts: a stored ClusterInstance that
  is not paused and whose spec has not been observed has its request in the work queue, unless the controller waits
  for its ManagedCluster after a reinstall, or the reinstall request that its status is about has been removed from
  its spec. So neither a result of \<open>Reconcile\<close> nor the event filter loses a change of the spec or the end of a
  pause.\<close>

theorem unfinished_work_stays_queued:
  assumes "(operator_step env store k)\<^sup>*\<^sup>* (w0, spoke0, True) (w, spoke, q)" "cis_ok w0"
    "map_of (w_cis w) k = Some ci" "needs_work ci"
  shows q
proof -
  have "work_queued k (w, spoke, q)" using assms(1)
  proof (induction rule: rtranclp_induct)
    case base
    then show ?case using assms(2) by (simp add: work_queued_def)
  next
    case (step st st')
    then show ?case using operator_step_queued by blast
  qed
  then show q using assms(3,4) by (simp add: work_queued_def)
qed

text \<open>The sample ClusterInstance with its finalizer: it is provisioned, and its spec is changed.\<close>

definition live_ci :: ClusterInstance where
  "live_ci = sample_ci\<lparr>ci_Meta := sample_meta\<lparr>om_Finalizers := [clusterInstanceFinalizer],
     om_Annotations := [(veleroRestoreStatusAnnotation, ''true'')]\<rparr>\<rparr>"

definition live_world :: world where
  "live_world = stocked (install_world\<lparr>w_cis := [((''ns'', ''c''), live_ci)]\<rparr>)"

definition raise_generation :: "ClusterInstance \<Rightarrow> ClusterInstance" where
  "raise_generation ci = ci\<lparr>ci_Meta := (ci_Meta ci)\<lparr>om_Generation := 7\<rparr>\<rparr>"

definition default_store :: ConfigurationStore where
  "default_store = \<lparr>cs_configuration = NewDefaultConfiguration\<rparr>"

lemma live_run:
  "case Reconcile sample_cenv (''ns'', ''c'') live_world install_world of
     None \<Rightarrow> False
   | Some (res, err, w', spoke') \<Rightarrow> reconcileHandler res err = Forget
       \<and> (case map_of (w_cis w') (''ns'', ''c'') of
            None \<Rightarrow> False | Some ci \<Rightarrow> om_Generation (ci_Meta ci) \<noteq> 7 \<and> needs_work (raise_generation ci))"
  by code_simp

lemma live_world_ok: "faults_ok live_world" "cis_ok live_world"
  by code_simp+

theorem unfinished_work_stays_queued_witness:
  "\<exists>w1 spoke1 w2 q res err. Reconcile sample_cenv (''ns'', ''c'') live_world install_world = Some (res, err, w1, spoke1)
     \<and> reconcileHandler res err = Forget
     \<and> (operator_step sample_cenv default_store (''ns'', ''c''))\<^sup>*\<^sup>* (live_world, install_world, True) (w2, spoke1, q) \<and> q"
proof -
  let ?step = "operator_step sample_cenv default_store (''ns'', ''c'')"
  obtain res err w1 spoke1 ci where run: "Reconcile sample_cenv (''ns'', ''c'') live_world install_world = Some (res, err, w1, spoke1)"
    "reconcileHandler res err = Forget" "map_of (w_cis w1) (''ns'', ''c'') = Some ci"
    "om_Generation (ci_Meta ci) \<noteq> 7" "needs_work (raise_generation ci)"
    using live_run by (auto split: option.splits prod.splits)
  define w2 where "w2 = w1\<lparr>w_cis := gset (''ns'', ''c'') (raise_generation ci) (w_cis w1)\<rparr>"
  have ok1: "cis_ok w1" using store.Reconcile_R [OF run(1)] live_world_ok(2) by simp
  have "ci_key (raise_generation ci) = (''ns'', ''c'')"
    using cis_ok_lookup [OF ok1 run(3)] by (simp add: raise_generation_def ci_key_def)
  then have ok2: "cis_ok w2" "map_of (w_cis w2) (''ns'', ''c'') = Some (raise_generation ci)"
    using cis_ok_writes(2) [OF ok1, of w2 "raise_generation ci"] by (simp_all add: w2_def)
  obtain q1 where r: "?step (live_world, install_world, True) (w1, spoke1, q1)"
    using operator_step.reconcile [OF live_world_ok(1) run(1)] by blast
  have "ci_Status (raise_generation ci) = ci_Status ci" "om_Generation (ci_Meta (raise_generation ci)) \<noteq> om_Generation (ci_Meta ci)"
    using run(4) by (simp_all add: raise_generation_def)
  then obtain q2 where "?step (w1, spoke1, q1) (w2, spoke1, q2)"
    using operator_step.edit [OF run(3) ok2(2) _ _ ok2(1)] by blast
  then have "?step\<^sup>*\<^sup>* (live_world, install_world, True) (w2, spoke1, q2)"
    using r by (meson rtranclp.rtrancl_into_rtrancl rtranclp.rtrancl_refl)
  moreover from unfinished_work_stays_queued [OF this live_world_ok(2) ok2(2) run(5)] have q2 .
  ultimately show ?thesis using run(1,2) by blast
qed

text \<open>C16: Progress of an installation wakes the controller exactly when a reinstall needs it. When a ClusterDeployment
  owned by a ClusterInstance is reconciled and no request fails, the write to the status is turned into a request
  for the ClusterInstance if and only if the spec and the status both have a reinstall, and the provisioned
  condition appears, or the verdict on the installation changes its status or reason. All other progress reports
  leave the controller alone.\<close>

theorem deployment_progress_wakes:
  assumes "w_faults w = []" "cis_ok w" "owned_instance key w = Some (cd, ci)" "gmap_ok (om_Labels (ci_Meta ci))"
  shows "\<exists>w'. cd_Reconcile key w = (doNotRequeue, None, w')
    \<and> (notified store (ci_key ci) w w' \<longleftrightarrow>
         s_Reinstall (ci_Spec ci) \<noteq> None \<and> st_Reinstall (ci_Status ci) \<noteq> None
         \<and> (case FindStatusCondition (st_Conditions (ci_Status ci)) ClusterProvisioned of
              None \<Rightarrow> True
            | Some c \<Rightarrow> (case provisioned_verdict cd of
                None \<Rightarrow> False | Some (reason, status, msg) \<Rightarrow> c_Status c \<noteq> status \<or> c_Reason c \<noteq> reason)))"
proof -
  define ci' where "ci' = sync_status (w_now w) cd ci"
  define w' where "w' = (if ci' = ci then w else w\<lparr>w_cis := gset (ci_key ci) ci' (w_cis w)\<rparr>)"
  have run: "cd_Reconcile key w = (doNotRequeue, None, w')"
    using cd_Reconcile_no_fault [OF assms(1,2), of key] assms(3) by (simp add: w'_def ci'_def)
  have ci: "map_of (w_cis w) (ci_key ci) = Some ci" using assms(2,3) cis_ok_lookup by (auto elim!: owned_instanceE)
  have frame: "ci_Meta ci' = ci_Meta ci" "ci_Spec ci' = ci_Spec ci" "st_Reinstall (ci_Status ci') = st_Reinstall (ci_Status ci)"
    "ci_key ci' = ci_key ci"
    by (simp_all add: ci'_def sync_status_frame sync_status_fields ci_key_def)
  have "map_of (w_cis w') (ci_key ci) = Some ci'" using ci by (simp add: w'_def)
  then have "notified store (ci_key ci) w w' \<longleftrightarrow> provisionedChangedPredicate ci ci'"
    using ci frame(4) status_write_passes [OF frame(1) assms(4)] by (simp add: notified_def ci_requests)
  also have "\<dots> \<longleftrightarrow> s_Reinstall (ci_Spec ci) \<noteq> None \<and> st_Reinstall (ci_Status ci) \<noteq> None
         \<and> (case FindStatusCondition (st_Conditions (ci_Status ci)) ClusterProvisioned of
              None \<Rightarrow> True
            | Some c \<Rightarrow> (case provisioned_verdict cd of
                None \<Rightarrow> False | Some (reason, status, msg) \<Rightarrow> c_Status c \<noteq> status \<or> c_Reason c \<noteq> reason))"
    using sync_follows_verdict [of cd ci "w_now w", folded ci'_def] frame
    by (auto simp: provisionedChanged_iff follows_verdict_def condition_of_def split: option.splits prod.splits)
  finally show ?thesis using run by blast
qed

text \<open>The ClusterInstance and ClusterDeployment of the samples in the middle of a reinstall.\<close>

definition reinstalling_ci :: ClusterInstance where
  "reinstalling_ci = lost_ci\<lparr>ci_Spec := sample_spec\<lparr>s_Reinstall := Some \<lparr>rs_Generation = ''g1'', rs_PreservationMode = PreservationModeNone\<rparr>\<rparr>\<rparr>"

definition progress_world :: world where
  "progress_world = (cd_world [])\<lparr>w_cis := [(ci_key reinstalling_ci, reinstalling_ci)]\<rparr>"

theorem deployment_progress_wakes_witness:
  "\<exists>w'. cd_Reconcile (''ns'', ''c'') progress_world = (doNotRequeue, None, w') \<and> notified default_store (ci_key reinstalling_ci) progress_world w'"
proof -
  have "w_faults progress_world = []" "cis_ok progress_world"
    "owned_instance (''ns'', ''c'') progress_world = Some (sample_cd, reinstalling_ci)"
    "gmap_ok (om_Labels (ci_Meta reinstalling_ci))" by code_simp+
  note run = deployment_progress_wakes [OF this, of default_store]
  have "s_Reinstall (ci_Spec reinstalling_ci) \<noteq> None \<and> st_Reinstall (ci_Status reinstalling_ci) \<noteq> None
    \<and> (case FindStatusCondition (st_Conditions (ci_Status reinstalling_ci)) ClusterProvisioned of
         None \<Rightarrow> True
       | Some c \<Rightarrow> (case provisioned_verdict sample_cd of
           None \<Rightarrow> False | Some (reason, status, msg) \<Rightarrow> c_Status c \<noteq> status \<or> c_Reason c \<noteq> reason))" by code_simp
  with run show ?thesis by blast
qed

section \<open>Waiting for a ManagedCluster that is not there\<close>

lemma missing_managed_cluster:
  assumes "w_faults w = []" "managed_cluster_of ci w = None"
  obtains e where "getManagedClusterResource ci w = (Inl e, w)" "IsNotFound e \<or> IsManagedClusterNotInManifestError (Some e)"
proof (cases "getManagedClusterManifest ci")
  case None
  then show thesis using that by (simp add: getManagedClusterResource_def NewManagedClusterNotInManifestError_def IsManagedClusterNotInManifestError_def)
next
  case (Some m)
  then show thesis using that assms
    by (simp add: getManagedClusterResource_def managed_cluster_of_def Get_def not_found_def IsNotFound_def)
qed

lemma reimport_body_missing:
  assumes "w_faults w = []" "awaits_reimport ci" "managed_cluster_of ci w = None"
  shows "\<exists>c. reimport_body senv ci w spoke = waiting zero_result (Some c) w spoke"
proof -
  obtain e where "getManagedClusterResource ci w = (Inl e, w)" "IsNotFound e \<or> IsManagedClusterNotInManifestError (Some e)"
    by (rule missing_managed_cluster [OF assms(1,3)])
  then show ?thesis using assms(2) by (auto simp: reimport_body_def awaits_reimport_def condition_of_def Let_def split: prod.splits)
qed

text \<open>
  A reinstalled and provisioned ClusterInstance with nothing else in the way, whose ManagedCluster is not there
  (yet).
\<close>

definition lacks_managed_cluster :: "controller_env \<Rightarrow> ClusterInstance \<Rightarrow> world \<Rightarrow> bool" where
  "lacks_managed_cluster env ci w \<longleftrightarrow> \<not> IsPaused ci \<and> st_Paused (ci_Status ci) = None
     \<and> om_DeletionTimestamp (ci_Meta ci) = 0 \<and> ContainsFinalizer ci clusterInstanceFinalizer
     \<and> gindex (om_Annotations (ci_Meta ci)) veleroRestoreStatusAnnotation = ''true'' \<and> \<not> isBeingRestored ci
     \<and> e_AllowReinstalls (ce_reinstall env) \<and> r_ObservedGeneration (reinstall_status ci) \<noteq> []
     \<and> cond_true (findReinstallStatusCondition ci ReinstallRequestProcessed)
     \<and> awaits_reimport ci \<and> managed_cluster_of ci w = None"

lemma reimport_missing:
  assumes "w_faults w = []" "in_sync ci w" "lacks_managed_cluster env ci w"
  shows "\<exists>ci' w' f. EnsureClusterIsReimported (ce_reinstall env) (ce_spoke env) ci w spoke = (zero_result, True, None, ci', w', spoke)
    \<and> in_step ci ci' w' \<and> awaits_reimport ci' \<and> (ci' = ci \<or> ci' = upd_reinstall f ci)"
proof -
  obtain c where body: "reimport_body (ce_spoke env) ci w spoke = waiting zero_result (Some c) w spoke"
    using reimport_body_missing assms(1,3) by (metis lacks_managed_cluster_def)
  obtain changed ci1 where s: "setReinstallStatusCondition (w_now w) ci c = (changed, ci1)" by fastforce
  obtain f where f: "ci1 = upd_reinstall f ci" using set_reinstall_frame [OF s] by blast
  have "\<exists>w'. (if changed then PatchCIStatus ci ci1 w = (None, ci1, w') else w' = w)"
    using PatchCIStatus_no_fault [OF assms(1), of ci1 ci ci] assms(2) f by (auto simp: in_sync_def upd_reinstall_def)
  then obtain w' where p: "if changed then PatchCIStatus ci ci1 w = (None, ci1, w') else w' = w" by blast
  have run: "EnsureClusterIsReimported (ce_reinstall env) (ce_spoke env) ci w spoke = (zero_result, True, None, ci1, w', spoke)"
    using assms(3) body s p
    by (auto simp: EnsureClusterIsReimported_def lacks_managed_cluster_def awaits_reimport_def reimport_finish_def waiting_def
        reinstall_status_def patch_or_wrap_def Let_def split: option.splits prod.splits bool.splits)
  from reimport_in_step [OF this assms(2)] show ?thesis using run f by blast
qed

text \<open>C38: A ClusterInstance that waits for its ManagedCluster after a reinstall is forgotten: when the ManagedCluster does
  not exist or is not recorded yet, \<open>Reconcile\<close> reports that the reimport is still needed, but with a zero result,
  so the queue forgets the request; and its own status write is not an event that passes the filter. Nothing
  watches ManagedClusters, so the reimport is not taken up again when the ManagedCluster appears.\<close>

theorem reimport_wait_forgotten:
  assumes "w_faults w = []" "cis_ok w" "map_of (w_cis w) k = Some ci" "lacks_managed_cluster env ci w"
    "gmap_ok (om_Labels (ci_Meta ci))"
  shows "\<exists>res err w' ci'. Reconcile env k w spoke = Some (res, err, w', spoke) \<and> reconcileHandler res err = Forget
    \<and> \<not> notified store k w w' \<and> map_of (w_cis w') k = Some ci' \<and> awaits_reimport ci'"
proof -
  have k: "ci_key ci = k" and sync: "in_sync ci w" using cis_ok_lookup assms(2,3) by (auto simp: in_sync_def)
  obtain ci' w' f where r: "EnsureClusterIsReimported (ce_reinstall env) (ce_spoke env) ci w spoke = (zero_result, True, None, ci', w', spoke)"
    "in_step ci ci' w'" "awaits_reimport ci'" "ci' = ci \<or> ci' = upd_reinstall f ci"
    using reimport_missing [OF assms(1) sync assms(4)] by metis
  have "GetCI k w = (Inr ci, w)" using assms(1,3) by (simp add: GetCI_def)
  then have run: "Reconcile env k w spoke = Some (zero_result, None, w', spoke)"
    using assms(4) r(1)
    by (auto simp: Reconcile_def lacks_managed_cluster_def awaits_reimport_def handleFinalizer_def ensureFinalizer_def IsZero_def
        ensureVeleroRestoreStatusAnnotation_def reconcile_active_def result_IsZero_def zero_result_def)
  have stored: "map_of (w_cis w') k = Some ci'" using r(2) k by (auto simp: in_step_def in_sync_def)
  have "\<not> provisionedChangedPredicate ci ci'" using r(4) by (auto simp: provisionedChanged_iff split: option.splits)
  then have "\<not> notified store k w w'"
    using stored assms(3) r(4) status_write_passes [of ci' ci] assms(5) by (auto simp: notified_def ci_requests)
  moreover have "reconcileHandler zero_result None = Forget" by (simp add: reconcileHandler_def zero_result_def)
  ultimately show ?thesis using run stored r(3) by blast
qed

definition waiting_ci :: ClusterInstance where
  "waiting_ci = lost_ci\<lparr>ci_Meta := sample_meta\<lparr>om_Finalizers := [clusterInstanceFinalizer],
     om_Annotations := [(veleroRestoreStatusAnnotation, ''true'')]\<rparr>\<rparr>"

definition waiting_world :: world where
  "waiting_world = install_world\<lparr>w_cis := [((''ns'', ''c''), waiting_ci)]\<rparr>"

theorem reimport_wait_forgotten_witness:
  "\<exists>res err w'. Reconcile sample_cenv (''ns'', ''c'') waiting_world install_world = Some (res, err, w', install_world)
     \<and> reconcileHandler res err = Forget \<and> \<not> notified default_store (''ns'', ''c'') waiting_world w'"
proof -
  have "w_faults waiting_world = []" "cis_ok waiting_world" "map_of (w_cis waiting_world) (''ns'', ''c'') = Some waiting_ci"
    "lacks_managed_cluster sample_cenv waiting_ci waiting_world" "gmap_ok (om_Labels (ci_Meta waiting_ci))" by code_simp+
  from reimport_wait_forgotten [OF this] show ?thesis by blast
qed

end
