(* ===== verification/Template_Language.thy ===== *)
theory Template_Language
  imports SC_Errors JSON_Diff
begin

text \<open>
  The part of Go's \<open>text/template\<close> that the installation templates use: the splitting of a text into
  literal parts and actions, pipelines with fields, variables, literals and function calls, assignments, conditionals
  with \<open>else if\<close> and loops. A text outside this part has no parse (\<open>None\<close>). The functions of the sprig
  library and the YAML encoder are the record \<open>tfuncs\<close>. A static check of a template against the type of its data is
  proved sound: a template that passes it executes without an error on all data of that type.
\<close>

section \<open>Syntax\<close>

datatype texpr = EField "string list" | EVar string | ENum int | EStr string | EApp string "texpr list"

datatype tnode = TText string | TAction texpr | TSet bool string texpr | TIf texpr "tnode list" "tnode list"
  | TRange "string list" texpr "tnode list"

section \<open>Parsing\<close>

datatype segment = SText string | SAction string

text \<open>A text is cut after each line, which does not change what is written.\<close>

definition newline :: char where "newline = CHR 0x0A"

definition text_end :: "string \<Rightarrow> segment list" where
  "text_end acc = (if acc = [] then [] else [SText (rev acc)])"

fun segments :: "bool \<Rightarrow> string \<Rightarrow> string \<Rightarrow> segment list option" where
  "segments act acc [] = (if act then None else Some (text_end acc))"
| "segments act acc [c] = (if act then None else Some (text_end (c # acc)))"
| "segments act acc (c # d # cs) =
     (if act then
        (if c = CHR ''}'' \<and> d = CHR ''}'' then map_option ((#) (SAction (rev acc))) (segments False [] cs)
         else segments True (c # acc) (d # cs))
      else if c = CHR ''{'' \<and> d = CHR ''{'' then map_option ((@) (text_end acc)) (segments True [] cs)
      else if c = newline then map_option ((@) (text_end (c # acc))) (segments False [] (d # cs))
      else segments False (c # acc) (d # cs))"

datatype token = KWord string | KStr string | KOpen | KClose | KPipe | KComma

definition flush :: "string \<Rightarrow> token list \<Rightarrow> token list" where
  "flush acc ts = (if acc = [] then ts else KWord (rev acc) # ts)"

fun tokens :: "bool \<Rightarrow> string \<Rightarrow> string \<Rightarrow> token list option" where
  "tokens quoted acc [] = (if quoted then None else Some (flush acc []))"
| "tokens quoted acc (c # cs) =
     (if quoted then
        (if c = CHR 0x22 then map_option ((#) (KStr (rev acc))) (tokens False [] cs)
         else if c = CHR 0x5C \<or> c = CHR 0x0A then None
         else tokens True (c # acc) cs)
      else if c \<in> {CHR '' '', CHR 0x09, CHR 0x0A, CHR 0x0D} then map_option (flush acc) (tokens False [] cs)
      else if c = CHR ''('' then map_option (\<lambda>ts. flush acc (KOpen # ts)) (tokens False [] cs)
      else if c = CHR '')'' then map_option (\<lambda>ts. flush acc (KClose # ts)) (tokens False [] cs)
      else if c = CHR ''|'' then map_option (\<lambda>ts. flush acc (KPipe # ts)) (tokens False [] cs)
      else if c = CHR '','' then map_option (\<lambda>ts. flush acc (KComma # ts)) (tokens False [] cs)
      else if c = CHR 0x22 then (if acc = [] then tokens True [] cs else None)
      else tokens False (c # acc) cs)"

definition is_letter :: "char \<Rightarrow> bool" where
  "is_letter c \<longleftrightarrow> (CHR ''a'' \<le> c \<and> c \<le> CHR ''z'') \<or> (CHR ''A'' \<le> c \<and> c \<le> CHR ''Z'')"

definition is_digit :: "char \<Rightarrow> bool" where
  "is_digit c \<longleftrightarrow> CHR ''0'' \<le> c \<and> c \<le> CHR ''9''"

definition alphanumeric :: "string \<Rightarrow> bool" where
  "alphanumeric w \<longleftrightarrow> w \<noteq> [] \<and> list_all (\<lambda>c. is_letter c \<or> is_digit c) w"

text \<open>An operand is the name of a function or an expression.\<close>

definition operand :: "string \<Rightarrow> (string + texpr) option" where
  "operand w =
     (case w of
        [] \<Rightarrow> None
      | c # cs \<Rightarrow>
          if c = CHR ''.'' then
            (if cs = [] then Some (Inr (EField []))
             else if list_all alphanumeric (Split (CHR ''.'') cs) then Some (Inr (EField (Split (CHR ''.'') cs))) else None)
          else if c = CHR ''$'' then (if alphanumeric cs then Some (Inr (EVar w)) else None)
          else if is_digit c then map_option (\<lambda>n. Inr (ENum n)) (Atoi w)
          else if alphanumeric w then Some (Inl w) else None)"

text \<open>A frame is the value piped into the current command and the operands of the command, the last one first.\<close>

type_synonym tframe = "texpr option \<times> (string + texpr) list"

definition finish_command :: "tframe \<Rightarrow> texpr option" where
  "finish_command fr =
     (case rev (snd fr) of
        [] \<Rightarrow> None
      | Inl f # args \<Rightarrow>
          Some (EApp f (map (\<lambda>a. case a of Inl g \<Rightarrow> EApp g [] | Inr e \<Rightarrow> e) args @ (case fst fr of None \<Rightarrow> [] | Some e \<Rightarrow> [e])))
      | Inr e # args \<Rightarrow> if args = [] \<and> fst fr = None then Some e else None)"

fun parse_expr :: "token list \<Rightarrow> tframe list \<Rightarrow> texpr option" where
  "parse_expr [] [fr] = finish_command fr"
| "parse_expr (t # ts) ((piped, ops) # fs) =
     (case t of
        KWord w \<Rightarrow> (case operand w of None \<Rightarrow> None | Some x \<Rightarrow> parse_expr ts ((piped, x # ops) # fs))
      | KStr s \<Rightarrow> parse_expr ts ((piped, Inr (EStr s) # ops) # fs)
      | KOpen \<Rightarrow> parse_expr ts ((None, []) # (piped, ops) # fs)
      | KClose \<Rightarrow>
          (case (finish_command (piped, ops), fs) of
             (Some e, (piped', ops') # fs') \<Rightarrow> parse_expr ts ((piped', Inr e # ops') # fs')
           | _ \<Rightarrow> None)
      | KPipe \<Rightarrow> (case finish_command (piped, ops) of None \<Rightarrow> None | Some e \<Rightarrow> parse_expr ts ((Some e, []) # fs))
      | KComma \<Rightarrow> None)"
| "parse_expr ts fs = None"

definition pipeline :: "token list \<Rightarrow> texpr option" where
  "pipeline ts = parse_expr ts [(None, [])]"

datatype template_action = AExpr texpr | ASet bool string texpr | AIf texpr | AElse | AElseIf texpr | AEnd | ARange "string list" texpr

text \<open>The variables and the assignment sign in front of a pipeline.\<close>

definition is_variable :: "string \<Rightarrow> bool" where
  "is_variable w \<longleftrightarrow> w \<noteq> [] \<and> hd w = CHR ''$'' \<and> alphanumeric (tl w)"

definition declared :: "token list \<Rightarrow> (string list \<times> string) option \<times> token list" where
  "declared ts =
     (case ts of
        KWord x # KWord s # ts' \<Rightarrow>
          if is_variable x \<and> (s = '':='' \<or> s = ''='') then (Some ([x], s), ts') else (None, ts)
      | KWord x # KComma # KWord y # KWord s # ts' \<Rightarrow>
          if is_variable x \<and> is_variable y \<and> s = '':='' then (Some ([x, y], s), ts') else (None, ts)
      | _ \<Rightarrow> (None, ts))"

definition other_keywords :: "string list" where
  "other_keywords = [''with'', ''define'', ''block'', ''template'', ''break'', ''continue'', ''nil'', ''true'', ''false'']"

definition parse_action :: "string \<Rightarrow> template_action option" where
  "parse_action s =
     (case tokens False [] s of
        Some (KWord w # ts) \<Rightarrow>
          if w = ''end'' then (if ts = [] then Some AEnd else None)
          else if w = ''else'' then
            (case ts of
               [] \<Rightarrow> Some AElse
             | KWord v # ts' \<Rightarrow> if v = ''if'' then map_option AElseIf (pipeline ts') else None
             | _ \<Rightarrow> None)
          else if w = ''if'' then map_option AIf (pipeline ts)
          else if w = ''range'' then
            (case declared ts of
               (None, ts') \<Rightarrow> map_option (ARange []) (pipeline ts')
             | (Some (xs, sign), ts') \<Rightarrow> if sign = '':='' then map_option (ARange xs) (pipeline ts') else None)
          else if w \<in> set other_keywords then None
          else (case declared (KWord w # ts) of
               (None, ts') \<Rightarrow> map_option AExpr (pipeline ts')
             | (Some ([x], sign), ts') \<Rightarrow> map_option (ASet (sign = '':='') x) (pipeline ts')
             | _ \<Rightarrow> None)
      | Some ts \<Rightarrow> map_option AExpr (pipeline ts)
      | None \<Rightarrow> None)"

text \<open>
  The open blocks, innermost first: what kind of block it is, whether it is an \<open>else if\<close> that ends together
  with the block around it, and the nodes in front of it, the last one first.
\<close>

datatype block = BIf texpr | BElse texpr "tnode list" | BRange "string list" texpr

type_synonym open_block = "block \<times> bool \<times> tnode list"

fun block_node :: "block \<Rightarrow> tnode list \<Rightarrow> tnode" where
  "block_node (BIf e) ns = TIf e ns []"
| "block_node (BElse e ns0) ns = TIf e ns0 ns"
| "block_node (BRange xs e) ns = TRange xs e ns"

fun close_block :: "open_block list \<Rightarrow> tnode list \<Rightarrow> (open_block list \<times> tnode list) option" where
  "close_block [] acc = None"
| "close_block ((b, chained, outer) # st) acc =
     (let acc' = block_node b (rev acc) # outer in if chained then close_block st acc' else Some (st, acc'))"

fun parse_nodes :: "segment list \<Rightarrow> open_block list \<Rightarrow> tnode list \<Rightarrow> tnode list option" where
  "parse_nodes [] st acc = (if st = [] then Some (rev acc) else None)"
| "parse_nodes (SText s # segs) st acc = parse_nodes segs st (TText s # acc)"
| "parse_nodes (SAction s # segs) st acc =
     (case parse_action s of
        None \<Rightarrow> None
      | Some (AExpr e) \<Rightarrow> parse_nodes segs st (TAction e # acc)
      | Some (ASet decl x e) \<Rightarrow> parse_nodes segs st (TSet decl x e # acc)
      | Some (AIf e) \<Rightarrow> parse_nodes segs ((BIf e, False, acc) # st) []
      | Some (ARange xs e) \<Rightarrow> parse_nodes segs ((BRange xs e, False, acc) # st) []
      | Some AElse \<Rightarrow>
          (case st of (BIf e, chained, outer) # st' \<Rightarrow> parse_nodes segs ((BElse e (rev acc), chained, outer) # st') [] | _ \<Rightarrow> None)
      | Some (AElseIf e') \<Rightarrow>
          (case st of
             (BIf e, chained, outer) # st' \<Rightarrow>
               parse_nodes segs ((BIf e', True, []) # (BElse e (rev acc), chained, outer) # st') []
           | _ \<Rightarrow> None)
      | Some AEnd \<Rightarrow> (case close_block st acc of None \<Rightarrow> None | Some (st', acc') \<Rightarrow> parse_nodes segs st' acc'))"

definition parse_template :: "string \<Rightarrow> tnode list option" where
  "parse_template s = Option.bind (segments False [] s) (\<lambda>segs. parse_nodes segs [] [])"

section \<open>Values and execution\<close>

text \<open>
  \<open>GInvalid\<close> is the value of a missing map entry; \<open>GOpaque\<close> is a struct of a package outside the repository,
  given by its JSON document.
\<close>

datatype gval = GStr string | GBool bool | GInt int | GStruct "(string \<times> gval) list" | GNil | GPtr gval
  | GSlice "gval list" | GMap "(string \<times> gval) list" | GInvalid | GOpaque json

record tfuncs =
  tf_Marshal :: "gval \<Rightarrow> err + string"
  tf_call :: "string \<Rightarrow> gval list \<Rightarrow> err + gval"
  tf_format :: "gval \<Rightarrow> string"

type_synonym tvars = "(string \<times> gval) list"

fun truth :: "gval \<Rightarrow> bool" where
  "truth (GStr s) = (s \<noteq> [])"
| "truth (GBool b) = b"
| "truth (GInt i) = (i \<noteq> 0)"
| "truth (GStruct fs) = True"
| "truth GNil = False"
| "truth (GPtr v) = True"
| "truth (GSlice xs) = (xs \<noteq> [])"
| "truth (GMap m) = (m \<noteq> [])"
| "truth GInvalid = False"
| "truth (GOpaque j) = True"

fun indirect :: "gval \<Rightarrow> gval" where
  "indirect (GPtr v) = indirect v"
| "indirect v = v"

definition get_field :: "gval \<Rightarrow> string \<Rightarrow> err + gval" where
  "get_field v f =
     (case indirect v of
        GStruct fs \<Rightarrow> (case map_of fs f of None \<Rightarrow> Inl (ErrNew (''can't evaluate field '' @ f)) | Some x \<Rightarrow> Inr x)
      | GMap m \<Rightarrow> Inr (case map_of m f of None \<Rightarrow> GInvalid | Some x \<Rightarrow> x)
      | GInvalid \<Rightarrow> Inr GInvalid
      | GNil \<Rightarrow> Inl (ErrNew (''nil pointer evaluating '' @ f))
      | _ \<Rightarrow> Inl (ErrNew (''can't evaluate field '' @ f)))"

fun walk :: "gval \<Rightarrow> string list \<Rightarrow> err + gval" where
  "walk v [] = Inr v"
| "walk v (f # fs) = (case get_field v f of Inl e \<Rightarrow> Inl e | Inr x \<Rightarrow> walk x fs)"

definition wrong_arguments :: "string \<Rightarrow> err" where
  "wrong_arguments f = ErrNew (''error calling '' @ f)"

definition toYaml :: "tfuncs \<Rightarrow> gval \<Rightarrow> string" where
  "toYaml F v =
     (case tf_Marshal F v of
        Inl e \<Rightarrow> []
      | Inr data \<Rightarrow> if data \<noteq> [] \<and> last data = CHR 0x0A then butlast data else data)"

definition call_func :: "tfuncs \<Rightarrow> string \<Rightarrow> gval list \<Rightarrow> err + gval" where
  "call_func F f args =
     (if f = ''toYaml'' then (case args of [v] \<Rightarrow> Inr (GStr (toYaml F v)) | _ \<Rightarrow> Inl (wrong_arguments f))
      else if f = ''len'' then
        (case args of
           [GSlice xs] \<Rightarrow> Inr (GInt (int (length xs)))
         | [GMap m] \<Rightarrow> Inr (GInt (int (length m)))
         | [GStr s] \<Rightarrow> Inr (GInt (int (length s)))
         | _ \<Rightarrow> Inl (wrong_arguments f))
      else if f = ''gt'' then
        (case args of [GInt a, GInt b] \<Rightarrow> Inr (GBool (b < a)) | _ \<Rightarrow> Inl (wrong_arguments f))
      else if f = ''ne'' then
        (case args of [GStr a, GStr b] \<Rightarrow> Inr (GBool (a \<noteq> b)) | _ \<Rightarrow> Inl (wrong_arguments f))
      else tf_call F f args)"

fun eval :: "tfuncs \<Rightarrow> gval \<Rightarrow> tvars \<Rightarrow> texpr \<Rightarrow> err + gval"
  and evals :: "tfuncs \<Rightarrow> gval \<Rightarrow> tvars \<Rightarrow> texpr list \<Rightarrow> err + gval list"
  and eval_and :: "tfuncs \<Rightarrow> gval \<Rightarrow> tvars \<Rightarrow> texpr list \<Rightarrow> err + gval" where
  "eval F d vs (EField p) = walk d p"
| "eval F d vs (EVar x) = (case map_of vs x of None \<Rightarrow> Inl (ErrNew (''undefined variable '' @ x)) | Some v \<Rightarrow> Inr v)"
| "eval F d vs (ENum n) = Inr (GInt n)"
| "eval F d vs (EStr s) = Inr (GStr s)"
| "eval F d vs (EApp f es) =
     (if f = ''and'' then eval_and F d vs es
      else case evals F d vs es of Inl e \<Rightarrow> Inl e | Inr args \<Rightarrow> call_func F f args)"
| "evals F d vs [] = Inr []"
| "evals F d vs (e # es) =
     (case eval F d vs e of
        Inl err \<Rightarrow> Inl err
      | Inr v \<Rightarrow> (case evals F d vs es of Inl err \<Rightarrow> Inl err | Inr args \<Rightarrow> Inr (v # args)))"
| "eval_and F d vs [] = Inl (wrong_arguments ''and'')"
| "eval_and F d vs (e # es) =
     (case eval F d vs e of
        Inl err \<Rightarrow> Inl err
      | Inr v \<Rightarrow> if es = [] \<or> \<not> truth v then Inr v else eval_and F d vs es)"

definition print_value :: "tfuncs \<Rightarrow> gval \<Rightarrow> string" where
  "print_value F v =
     (case v of GStr s \<Rightarrow> s | GBool b \<Rightarrow> FormatBool b | GInt i \<Rightarrow> Itoa i | GInvalid \<Rightarrow> ''<no value>'' | _ \<Rightarrow> tf_format F v)"

text \<open>The variables declared in a block are dropped at its end; what was assigned to outer ones stays.\<close>

definition pop_to :: "tvars \<Rightarrow> tvars \<Rightarrow> tvars" where
  "pop_to mark vs = drop (length vs - length mark) vs"

definition range_items :: "gval \<Rightarrow> err + (gval \<times> gval) list" where
  "range_items v =
     (case indirect v of
        GSlice xs \<Rightarrow> Inr (zip (map (\<lambda>n. GInt (int n)) [0..<length xs]) xs)
      | GMap m \<Rightarrow> Inr (map (map_prod GStr id) (sort_key fst m))
      | GInvalid \<Rightarrow> Inr []
      | _ \<Rightarrow> Inl (ErrNew ''range can't iterate over value''))"

fun range_vars :: "string list \<Rightarrow> 'a \<Rightarrow> 'a \<Rightarrow> (string \<times> 'a) list" where
  "range_vars [] k v = []"
| "range_vars [x] k v = [(x, v)]"
| "range_vars (x # y # xs) k v = [(y, v), (x, k)]"

fun range_loop :: "(gval \<Rightarrow> tvars \<Rightarrow> err + string \<times> tvars) \<Rightarrow> string list \<Rightarrow> (gval \<times> gval) list \<Rightarrow> tvars
    \<Rightarrow> err + string \<times> tvars" where
  "range_loop body xs [] vs = Inr ([], vs)"
| "range_loop body xs ((k, v) # items) vs =
     (case body v (range_vars xs k v @ vs) of
        Inl e \<Rightarrow> Inl e
      | Inr (s, vs') \<Rightarrow>
          (case range_loop body xs items (pop_to vs vs') of Inl e \<Rightarrow> Inl e | Inr (s', vs'') \<Rightarrow> Inr (s @ s', vs'')))"

definition end_block :: "tvars \<Rightarrow> err + string \<times> tvars \<Rightarrow> err + string \<times> tvars" where
  "end_block mark r = (case r of Inl e \<Rightarrow> Inl e | Inr (s, vs) \<Rightarrow> Inr (s, pop_to mark vs))"

fun exec_node :: "tfuncs \<Rightarrow> gval \<Rightarrow> tvars \<Rightarrow> tnode \<Rightarrow> err + string \<times> tvars"
  and exec_nodes :: "tfuncs \<Rightarrow> gval \<Rightarrow> tvars \<Rightarrow> tnode list \<Rightarrow> err + string \<times> tvars" where
  "exec_node F d vs (TText s) = Inr (s, vs)"
| "exec_node F d vs (TAction e) = (case eval F d vs e of Inl err \<Rightarrow> Inl err | Inr v \<Rightarrow> Inr (print_value F v, vs))"
| "exec_node F d vs (TSet decl x e) =
     (case eval F d vs e of
        Inl err \<Rightarrow> Inl err
      | Inr v \<Rightarrow>
          if decl then Inr ([], (x, v) # vs)
          else if ghas vs x then Inr ([], gset x v vs) else Inl (ErrNew (''undefined variable '' @ x)))"
| "exec_node F d vs (TIf e ns ms) =
     (case eval F d vs e of
        Inl err \<Rightarrow> Inl err
      | Inr v \<Rightarrow> if truth v then end_block vs (exec_nodes F d vs ns) else end_block vs (exec_nodes F d vs ms))"
| "exec_node F d vs (TRange xs e ns) =
     (case eval F d vs e of
        Inl err \<Rightarrow> Inl err
      | Inr v \<Rightarrow>
          (case range_items v of
             Inl err \<Rightarrow> Inl err
           | Inr items \<Rightarrow> range_loop (\<lambda>d' vs'. exec_nodes F d' vs' ns) xs items vs))"
| "exec_nodes F d vs [] = Inr ([], vs)"
| "exec_nodes F d vs (n # ns) =
     (case exec_node F d vs n of
        Inl err \<Rightarrow> Inl err
      | Inr (s, vs') \<Rightarrow> (case exec_nodes F d vs' ns of Inl err \<Rightarrow> Inl err | Inr (s', vs'') \<Rightarrow> Inr (s @ s', vs'')))"

definition execute :: "tfuncs \<Rightarrow> gval \<Rightarrow> tnode list \<Rightarrow> err + string" where
  "execute F data ns = (case exec_nodes F data [] ns of Inl e \<Rightarrow> Inl e | Inr (s, vs) \<Rightarrow> Inr s)"

section \<open>Parsing line by line\<close>

definition text_lines :: "string list \<Rightarrow> string" where
  "text_lines ls = Join ls [newline]"

fun line_segments :: "string list \<Rightarrow> segment list option" where
  "line_segments [] = Some []"
| "line_segments [l] = segments False [] l"
| "line_segments (l # m # ls) =
     (case segments False [] (l @ [newline]) of
        None \<Rightarrow> None
      | Some ss \<Rightarrow> (case line_segments (m # ls) of None \<Rightarrow> None | Some ss' \<Rightarrow> Some (ss @ ss')))"

lemma segments_append:
  "segments act acc l = Some ss \<Longrightarrow> l \<noteq> [] \<Longrightarrow> last l = newline \<Longrightarrow>
   segments act acc (l @ r) = map_option ((@) ss) (segments False [] r)"
proof (induction act acc l arbitrary: ss rule: segments.induct)
  case (2 act acc c)
  then show ?case by (cases r) (auto simp: text_end_def newline_def split: if_splits)
next
  case (3 act acc c d cs)
  have "segments False [] r = None \<or> (\<exists>x. segments False [] r = Some x)" by (cases "segments False [] r") auto
  then show ?case using 3
    by (auto simp: option.map_comp comp_def newline_def split: if_splits)
qed simp

lemma line_segments_text: "line_segments ls = Some ss \<Longrightarrow> segments False [] (text_lines ls) = Some ss"
proof (induction ls arbitrary: ss rule: line_segments.induct)
  case (3 l m ls)
  then obtain s1 s2 where s: "segments False [] (l @ [newline]) = Some s1" "line_segments (m # ls) = Some s2" "ss = s1 @ s2"
    by (auto split: option.splits)
  then show ?case using segments_append [OF s(1), of "text_lines (m # ls)"] 3(1) [OF s(1) s(2)]
    by (simp add: text_lines_def)
qed (simp_all add: text_lines_def text_end_def)

section \<open>The static check\<close>

text \<open>\<open>YNat\<close> is the type of the non-negative integers; nothing is known of a value of type \<open>YAny\<close>.\<close>

datatype gty = YStr | YBool | YInt | YNat | YStruct "(string \<times> gty) list" | YPtr gty | YSlice gty | YMap gty | YAny

fun has_ty :: "gty \<Rightarrow> gval \<Rightarrow> bool" where
  "has_ty YAny v = True"
| "has_ty YStr v = (case v of GStr s \<Rightarrow> True | _ \<Rightarrow> False)"
| "has_ty YBool v = (case v of GBool b \<Rightarrow> True | _ \<Rightarrow> False)"
| "has_ty YInt v = (case v of GInt i \<Rightarrow> True | _ \<Rightarrow> False)"
| "has_ty YNat v = (case v of GInt i \<Rightarrow> 0 \<le> i | _ \<Rightarrow> False)"
| "has_ty (YStruct ts) v =
     (case v of
        GStruct fs \<Rightarrow> list_all (\<lambda>p. case map_of fs (fst p) of None \<Rightarrow> False | Some x \<Rightarrow> has_ty (snd p) x) ts
      | _ \<Rightarrow> False)"
| "has_ty (YPtr t) v = (case v of GNil \<Rightarrow> True | GPtr x \<Rightarrow> has_ty t x | _ \<Rightarrow> False)"
| "has_ty (YSlice t) v = (case v of GSlice xs \<Rightarrow> list_all (has_ty t) xs | _ \<Rightarrow> False)"
| "has_ty (YMap t) v = (case v of GMap m \<Rightarrow> list_all (\<lambda>p. has_ty t (snd p)) m | _ \<Rightarrow> False)"

text \<open>The paths in \<open>nn\<close> lead to pointers that are known not to be nil.\<close>

definition field_ty :: "bool \<Rightarrow> gty \<Rightarrow> string \<Rightarrow> gty option" where
  "field_ty known t f =
     (case t of
        YStruct ts \<Rightarrow> map_of ts f
      | YPtr (YStruct ts) \<Rightarrow> if known then map_of ts f else None
      | YMap t' \<Rightarrow> Some YAny
      | _ \<Rightarrow> None)"

fun path_ty :: "string list list \<Rightarrow> string list \<Rightarrow> gty \<Rightarrow> string list \<Rightarrow> gty option" where
  "path_ty nn pre t [] = Some t"
| "path_ty nn pre t (f # fs) =
     (case field_ty (pre \<in> set nn) t f of None \<Rightarrow> None | Some t' \<Rightarrow> path_ty nn (pre @ [f]) t' fs)"

text \<open>The signatures of the functions of the sprig library that the templates use.\<close>

definition sprig_ty :: "string \<Rightarrow> gty list \<Rightarrow> gty option" where
  "sprig_ty f ts =
     (if f = ''indent'' \<and> ts = [YNat, YStr] then Some YStr
      else if f = ''quote'' \<and> ts = [YStr] then Some YStr
      else if f = ''b64enc'' \<and> ts = [YStr] then Some YStr
      else if f = ''list'' \<and> ts = [] then Some (YSlice YAny)
      else if f = ''append'' \<and> ts = [YSlice YAny, YStr] then Some (YSlice YAny)
      else None)"

definition is_number :: "gty \<Rightarrow> bool" where
  "is_number t \<longleftrightarrow> t = YInt \<or> t = YNat"

definition fun_ty :: "string \<Rightarrow> gty list \<Rightarrow> gty option" where
  "fun_ty f ts =
     (if f = ''toYaml'' then (if length ts = 1 then Some YStr else None)
      else if f = ''len'' then (case ts of [YSlice t] \<Rightarrow> Some YNat | _ \<Rightarrow> None)
      else if f = ''gt'' then (if length ts = 2 \<and> list_all is_number ts then Some YBool else None)
      else if f = ''ne'' then (if ts = [YStr, YStr] then Some YBool else None)
      else sprig_ty f ts)"

fun expr_ty :: "gty \<Rightarrow> string list list \<Rightarrow> (string \<times> gty) list \<Rightarrow> texpr \<Rightarrow> gty option"
  and exprs_ty :: "gty \<Rightarrow> string list list \<Rightarrow> (string \<times> gty) list \<Rightarrow> texpr list \<Rightarrow> gty list option" where
  "expr_ty dt nn vt (EField p) = path_ty nn [] dt p"
| "expr_ty dt nn vt (EVar x) = map_of vt x"
| "expr_ty dt nn vt (ENum n) = Some (if 0 \<le> n then YNat else YInt)"
| "expr_ty dt nn vt (EStr s) = Some YStr"
| "expr_ty dt nn vt (EApp f es) =
     (case exprs_ty dt nn vt es of
        None \<Rightarrow> None
      | Some ts \<Rightarrow> if f = ''and'' then (if ts = [] then None else Some YAny) else fun_ty f ts)"
| "exprs_ty dt nn vt [] = Some []"
| "exprs_ty dt nn vt (e # es) =
     (case expr_ty dt nn vt e of
        None \<Rightarrow> None
      | Some t \<Rightarrow> (case exprs_ty dt nn vt es of None \<Rightarrow> None | Some ts \<Rightarrow> Some (t # ts)))"

text \<open>What a condition that holds says about pointers.\<close>

definition learn :: "texpr \<Rightarrow> gty \<Rightarrow> string list list \<Rightarrow> string list list" where
  "learn e t nn = (case (e, t) of (EField p, YPtr (YStruct ts)) \<Rightarrow> p # nn | _ \<Rightarrow> nn)"

definition printable :: "gty \<Rightarrow> bool" where
  "printable t \<longleftrightarrow> t \<in> {YStr, YBool, YInt, YNat}"

text \<open>The result is the types of the variables after the node.\<close>

fun node_ty :: "gty \<Rightarrow> string list list \<Rightarrow> (string \<times> gty) list \<Rightarrow> tnode \<Rightarrow> (string \<times> gty) list option"
  and nodes_ty :: "gty \<Rightarrow> string list list \<Rightarrow> (string \<times> gty) list \<Rightarrow> tnode list \<Rightarrow> (string \<times> gty) list option" where
  "node_ty dt nn vt (TText s) = Some vt"
| "node_ty dt nn vt (TAction e) =
     (case expr_ty dt nn vt e of None \<Rightarrow> None | Some t \<Rightarrow> if printable t then Some vt else None)"
| "node_ty dt nn vt (TSet decl x e) =
     (case expr_ty dt nn vt e of
        None \<Rightarrow> None
      | Some t \<Rightarrow> if decl then Some ((x, t) # vt) else if map_of vt x = Some t then Some vt else None)"
| "node_ty dt nn vt (TIf e ns ms) =
     (case expr_ty dt nn vt e of
        None \<Rightarrow> None
      | Some t \<Rightarrow>
          if nodes_ty dt (learn e t nn) vt ns \<noteq> None \<and> nodes_ty dt nn vt ms \<noteq> None then Some vt else None)"
| "node_ty dt nn vt (TRange xs e ns) =
     (case expr_ty dt nn vt e of
        Some (YSlice t) \<Rightarrow> if nodes_ty t [] (range_vars xs YNat t @ vt) ns \<noteq> None then Some vt else None
      | Some (YMap t) \<Rightarrow> if nodes_ty t [] (range_vars xs YStr t @ vt) ns \<noteq> None then Some vt else None
      | _ \<Rightarrow> None)"
| "nodes_ty dt nn vt [] = Some vt"
| "nodes_ty dt nn vt (n # ns) = (case node_ty dt nn vt n of None \<Rightarrow> None | Some vt' \<Rightarrow> nodes_ty dt nn vt' ns)"

section \<open>Lemmas: the check is sound\<close>

text \<open>The documented behaviour of the sprig functions: they succeed on arguments of their signature.\<close>

definition sprig_ok :: "tfuncs \<Rightarrow> bool" where
  "sprig_ok F \<longleftrightarrow> (\<forall>f ts t args. sprig_ty f ts = Some t \<longrightarrow> list_all2 has_ty ts args \<longrightarrow>
     (\<exists>v. tf_call F f args = Inr v \<and> has_ty t v))"

definition non_nil :: "gval \<Rightarrow> string list list \<Rightarrow> bool" where
  "non_nil d nn \<longleftrightarrow> (\<forall>p \<in> set nn. \<forall>v. walk d p = Inr v \<longrightarrow> indirect v \<noteq> GNil)"

definition vars_ok :: "(string \<times> gty) list \<Rightarrow> tvars \<Rightarrow> bool" where
  "vars_ok vt vs \<longleftrightarrow> list_all2 (\<lambda>p q. fst p = fst q \<and> has_ty (snd p) (snd q)) vt vs"

lemma has_ty_simps:
  "has_ty YStr v \<longleftrightarrow> (\<exists>s. v = GStr s)" "has_ty YBool v \<longleftrightarrow> (\<exists>b. v = GBool b)" "has_ty YInt v \<longleftrightarrow> (\<exists>i. v = GInt i)"
  "has_ty YNat v \<longleftrightarrow> (\<exists>i. v = GInt i \<and> 0 \<le> i)"
  "has_ty (YStruct ts) v \<longleftrightarrow> (\<exists>fs. v = GStruct fs \<and> (\<forall>p \<in> set ts. \<exists>x. map_of fs (fst p) = Some x \<and> has_ty (snd p) x))"
  "has_ty (YPtr t) v \<longleftrightarrow> v = GNil \<or> (\<exists>x. v = GPtr x \<and> has_ty t x)"
  "has_ty (YSlice t) v \<longleftrightarrow> (\<exists>xs. v = GSlice xs \<and> (\<forall>x \<in> set xs. has_ty t x))"
  "has_ty (YMap t) v \<longleftrightarrow> (\<exists>m. v = GMap m \<and> (\<forall>p \<in> set m. has_ty t (snd p)))"
  by (auto simp: list_all_iff split: gval.splits option.splits)

declare has_ty.simps [simp del] has_ty.simps(1) [simp]

lemma walk_append: "walk v (p @ q) = (case walk v p of Inl e \<Rightarrow> Inl e | Inr x \<Rightarrow> walk x q)"
  by (induction p arbitrary: v) (auto split: sum.split)

lemma get_field_ok:
  assumes "field_ty known t f = Some t'" "has_ty t v" "known \<Longrightarrow> indirect v \<noteq> GNil"
  shows "\<exists>x. get_field v f = Inr x \<and> has_ty t' x"
proof (cases t)
  case (YStruct ts)
  then obtain fs where fs: "v = GStruct fs" "\<forall>p \<in> set ts. \<exists>x. map_of fs (fst p) = Some x \<and> has_ty (snd p) x"
    using assms(2) by (auto simp: has_ty_simps)
  have "(f, t') \<in> set ts" using assms(1) YStruct by (auto simp: field_ty_def dest: map_of_SomeD)
  then show ?thesis using fs by (force simp: get_field_def)
next
  case (YPtr u)
  then obtain ts where ts: "u = YStruct ts" "known" "map_of ts f = Some t'"
    using assms(1) by (auto simp: field_ty_def split: gty.splits if_splits)
  moreover obtain fs where "v = GPtr (GStruct fs)" "\<forall>p \<in> set ts. \<exists>x. map_of fs (fst p) = Some x \<and> has_ty (snd p) x"
    using assms(2,3) YPtr ts by (auto simp: has_ty_simps)
  moreover have "(f, t') \<in> set ts" using ts(3) by (rule map_of_SomeD)
  ultimately show ?thesis by (force simp: get_field_def)
next
  case (YMap u)
  then show ?thesis using assms(1,2) by (auto simp: field_ty_def get_field_def has_ty_simps)
qed (use assms(1) in \<open>auto simp: field_ty_def\<close>)

lemma path_ok:
  "path_ty nn pre t p = Some t' \<Longrightarrow> has_ty t v \<Longrightarrow> walk d pre = Inr v \<Longrightarrow> non_nil d nn \<Longrightarrow>
   \<exists>x. walk v p = Inr x \<and> has_ty t' x"
proof (induction p arbitrary: pre t v)
  case (Cons f p)
  then obtain u where u: "field_ty (pre \<in> set nn) t f = Some u" "path_ty nn (pre @ [f]) u p = Some t'"
    by (auto split: option.splits)
  moreover have "pre \<in> set nn \<Longrightarrow> indirect v \<noteq> GNil" using Cons.prems(3,4) by (simp add: non_nil_def)
  ultimately obtain x where x: "get_field v f = Inr x" "has_ty u x" using get_field_ok Cons.prems(2) by blast
  then have "walk d (pre @ [f]) = Inr x" using Cons.prems(3) by (simp add: walk_append)
  then show ?case using Cons.IH [OF u(2) x(2)] Cons.prems(4) x(1) by simp
qed simp

lemma vars_lookup: "vars_ok vt vs \<Longrightarrow> map_of vt x = Some t \<Longrightarrow> \<exists>v. map_of vs x = Some v \<and> has_ty t v"
  unfolding vars_ok_def by (induction rule: list_all2_induct) (auto split: if_splits)

lemma vars_set: "vars_ok vt vs \<Longrightarrow> map_of vt x = Some t \<Longrightarrow> has_ty t v \<Longrightarrow> vars_ok vt (gset x v vs)"
  unfolding vars_ok_def gset_def by (induction rule: list_all2_induct) (auto split: if_splits)

lemma call_ok:
  assumes "fun_ty f ts = Some t" "list_all2 has_ty ts args" "sprig_ok F"
  shows "\<exists>v. call_func F f args = Inr v \<and> has_ty t v"
proof (cases "f \<in> {''toYaml'', ''len'', ''gt'', ''ne''}")
  case True
  then show ?thesis using assms(1,2)
    by (auto simp: fun_ty_def call_func_def is_number_def has_ty_simps length_Suc_conv list_all2_Cons1 numeral_2_eq_2
        split: list.splits gty.splits if_splits)
next
  case False
  then show ?thesis using assms unfolding sprig_ok_def fun_ty_def call_func_def by (simp split: if_splits)
qed

lemma evals_ok:
  assumes "\<And>e t. e \<in> set es \<Longrightarrow> expr_ty dt nn vt e = Some t \<Longrightarrow> \<exists>v. eval F d vs e = Inr v \<and> has_ty t v"
    "exprs_ty dt nn vt es = Some ts"
  shows "\<exists>xs. evals F d vs es = Inr xs \<and> list_all2 has_ty ts xs"
    and "es \<noteq> [] \<Longrightarrow> \<exists>v. eval_and F d vs es = Inr v"
proof -
  show "\<exists>xs. evals F d vs es = Inr xs \<and> list_all2 has_ty ts xs"
    using assms by (induction es arbitrary: ts) (fastforce split: option.splits)+
  show "\<exists>v. eval_and F d vs es = Inr v" if "es \<noteq> []"
    using that assms
  proof (induction es arbitrary: ts)
    case (Cons e es)
    then obtain v where v: "eval F d vs e = Inr v" by (fastforce split: option.splits)
    show ?case
    proof (cases "es = []")
      case False
      then have "\<exists>v. eval_and F d vs es = Inr v" using Cons by (auto split: option.splits)
      then show ?thesis using v by auto
    qed (use v in simp)
  qed simp
qed

lemma eval_ok:
  assumes "sprig_ok F" "has_ty dt d" "non_nil d nn" "vars_ok vt vs"
  shows "expr_ty dt nn vt e = Some t \<Longrightarrow> \<exists>v. eval F d vs e = Inr v \<and> has_ty t v"
proof (induction e arbitrary: t)
  case (EField p)
  then show ?case using path_ok [of nn "[]" dt p t d d] assms by simp
next
  case (EVar x)
  then show ?case using vars_lookup [OF assms(4)] by fastforce
next
  case (EApp f es)
  then obtain ts where ts: "exprs_ty dt nn vt es = Some ts" by (auto split: option.splits)
  note ok = evals_ok [OF EApp.IH ts]
  show ?case
  proof (cases "f = ''and''")
    case True
    then have "t = YAny" "ts \<noteq> []" using EApp.prems ts by (auto split: if_splits)
    moreover have "es \<noteq> []" using \<open>ts \<noteq> []\<close> ts by auto
    ultimately show ?thesis using ok(2) True by auto
  next
    case False
    then have "fun_ty f ts = Some t" using EApp.prems ts by simp
    then show ?thesis using ok(1) call_ok assms(1) False by fastforce
  qed
qed (auto simp: has_ty_simps split: if_splits)

text \<open>Blocks: the variables of the block go, and the outer ones keep their types.\<close>

lemma nodes_ty_grow:
  "node_ty dt nn vt n = Some vt' \<Longrightarrow> \<exists>new. vt' = new @ vt"
  "nodes_ty dt nn vt ns = Some vt' \<Longrightarrow> \<exists>new. vt' = new @ vt"
  by (induction dt nn vt n and dt nn vt ns arbitrary: vt' and vt' rule: node_ty_nodes_ty.induct)
    (fastforce split: option.splits if_splits gty.splits)+

lemma vars_pop: "vars_ok (new @ vt) vs' \<Longrightarrow> length vs = length vt \<Longrightarrow> vars_ok vt (pop_to vs vs')"
  by (auto simp: vars_ok_def pop_to_def list_all2_append1 dest: list_all2_lengthD)

lemma vars_length: "vars_ok vt vs \<Longrightarrow> length vs = length vt"
  by (auto simp: vars_ok_def dest: list_all2_lengthD)

lemma range_vars_ok: "has_ty kt k \<Longrightarrow> has_ty t v \<Longrightarrow> vars_ok vt vs \<Longrightarrow> vars_ok (range_vars xs kt t @ vt) (range_vars xs k v @ vs)"
  by (cases xs; cases "tl xs") (auto simp: vars_ok_def)

definition executes :: "(gval \<Rightarrow> tvars \<Rightarrow> err + string \<times> tvars) \<Rightarrow> gty \<Rightarrow> (string \<times> gty) list \<Rightarrow> bool" where
  "executes body t vt \<longleftrightarrow> (\<forall>d vs. has_ty t d \<longrightarrow> vars_ok vt vs \<longrightarrow>
     (\<exists>s vs' new. body d vs = Inr (s, vs') \<and> vars_ok (new @ vt) vs'))"

lemma range_loop_ok:
  assumes "executes body t (range_vars xs kt t @ vt)" "vars_ok vt vs"
    "\<forall>p \<in> set items. has_ty kt (fst p) \<and> has_ty t (snd p)"
  shows "\<exists>s vs'. range_loop body xs items vs = Inr (s, vs') \<and> vars_ok vt vs'"
  using assms(2,3)
proof (induction items arbitrary: vs)
  case (Cons p items)
  obtain k v where p: "p = (k, v)" by fastforce
  obtain s vs' new where b: "body v (range_vars xs k v @ vs) = Inr (s, vs')" "vars_ok (new @ range_vars xs kt t @ vt) vs'"
    using assms(1) range_vars_ok [of kt k t v vt vs xs] Cons.prems p by (fastforce simp: executes_def)
  then have "vars_ok vt (pop_to vs vs')"
    using vars_pop [of "new @ range_vars xs kt t" vt vs' vs] vars_length [OF Cons.prems(1)] by simp
  then obtain s' vs'' where "range_loop body xs items (pop_to vs vs') = Inr (s', vs'')" "vars_ok vt vs''"
    using Cons.IH Cons.prems(2) by fastforce
  then show ?case using b(1) p by simp
qed simp

lemma range_items_ok:
  "has_ty (YSlice t) v \<Longrightarrow> \<exists>items. range_items v = Inr items \<and> (\<forall>p \<in> set items. has_ty YNat (fst p) \<and> has_ty t (snd p))"
  "has_ty (YMap t) v \<Longrightarrow> \<exists>items. range_items v = Inr items \<and> (\<forall>p \<in> set items. has_ty YStr (fst p) \<and> has_ty t (snd p))"
  by (force simp: range_items_def has_ty_simps dest: set_zip_leftD set_zip_rightD)+

lemma learn_ok:
  assumes "has_ty dt d" "non_nil d nn" "expr_ty dt nn vt e = Some t" "eval F d vs e = Inr v" "truth v"
  shows "non_nil d (learn e t nn)"
proof (cases "\<exists>p ts. e = EField p \<and> t = YPtr (YStruct ts)")
  case True
  then obtain p ts where e: "e = EField p" "t = YPtr (YStruct ts)" by blast
  then have "has_ty (YPtr (YStruct ts)) v" using path_ok [of nn "[]" dt p t d d] assms by auto
  then have "indirect v \<noteq> GNil" using assms(5) by (auto simp: has_ty_simps)
  then show ?thesis using assms(2,4) e by (auto simp: learn_def non_nil_def)
next
  case False
  then have "learn e t nn = nn" by (auto simp: learn_def split: texpr.splits gty.splits)
  then show ?thesis using assms(2) by simp
qed

text \<open>One conditional and one loop, given that their bodies execute.\<close>

lemma exec_block:
  assumes "nodes_ty dt nn vt ns = Some vt'" "exec_nodes F d vs ns = Inr (s, w)" "vars_ok vt' w" "vars_ok vt vs"
  shows "\<exists>vs'. end_block vs (exec_nodes F d vs ns) = Inr (s, vs') \<and> vars_ok vt vs'"
  using nodes_ty_grow(2) [OF assms(1)] assms(2,3) vars_pop vars_length [OF assms(4)] by (auto simp: end_block_def)

lemma exec_range:
  assumes "eval F d vs e = Inr v" "has_ty t v" "vars_ok vt vs" "t = YSlice u \<and> kt = YNat \<or> t = YMap u \<and> kt = YStr"
    "nodes_ty u [] (range_vars xs kt u @ vt) ns = Some w"
    "\<And>d vs. has_ty u d \<Longrightarrow> non_nil d [] \<Longrightarrow> vars_ok (range_vars xs kt u @ vt) vs \<Longrightarrow>
       \<exists>s vs'. exec_nodes F d vs ns = Inr (s, vs') \<and> vars_ok w vs'"
  shows "\<exists>s vs'. exec_node F d vs (TRange xs e ns) = Inr (s, vs') \<and> vars_ok vt vs'"
proof -
  have "executes (\<lambda>d' vs'. exec_nodes F d' vs' ns) u (range_vars xs kt u @ vt)"
    unfolding executes_def using assms(6) nodes_ty_grow(2) [OF assms(5)] by (fastforce simp: non_nil_def)
  moreover obtain items where "range_items v = Inr items" "\<forall>p \<in> set items. has_ty kt (fst p) \<and> has_ty u (snd p)"
    using range_items_ok assms(2,4) by blast
  ultimately show ?thesis using range_loop_ok [OF _ assms(3)] assms(1) by fastforce
qed

lemma exec_ok:
  assumes "sprig_ok F"
  shows "node_ty dt nn vt n = Some vt' \<Longrightarrow> has_ty dt d \<Longrightarrow> non_nil d nn \<Longrightarrow> vars_ok vt vs \<Longrightarrow>
      \<exists>s vs'. exec_node F d vs n = Inr (s, vs') \<and> vars_ok vt' vs'"
    and "nodes_ty dt nn vt ns = Some vt' \<Longrightarrow> has_ty dt d \<Longrightarrow> non_nil d nn \<Longrightarrow> vars_ok vt vs \<Longrightarrow>
      \<exists>s vs'. exec_nodes F d vs ns = Inr (s, vs') \<and> vars_ok vt' vs'"
proof (induction dt nn vt n and dt nn vt ns arbitrary: vt' d vs and vt' d vs rule: node_ty_nodes_ty.induct)
  case (2 dt nn vt e)
  then show ?case using eval_ok [OF assms, of dt d nn vt vs e] by (fastforce split: option.splits if_splits)
next
  case (3 dt nn vt decl x e)
  from 3(1) obtain t where t: "expr_ty dt nn vt e = Some t" by (auto split: option.splits)
  obtain v where v: "eval F d vs e = Inr v" "has_ty t v" using eval_ok [OF assms 3(2-4) t] by blast
  show ?case
  proof (cases decl)
    case False
    then have "map_of vt x = Some t" "vt' = vt" using 3 t by (auto split: if_splits)
    then show ?thesis using False v vars_lookup [OF 3(4)] vars_set [OF 3(4)] by (fastforce simp: ghas_def)
  qed (use 3 t v in \<open>auto simp: vars_ok_def\<close>)
next
  case (4 dt nn vt e ns ms)
  from 4(3) obtain t where t: "expr_ty dt nn vt e = Some t" by (auto split: option.splits)
  from 4(3) obtain v1 v2 where br: "nodes_ty dt (learn e t nn) vt ns = Some v1" "nodes_ty dt nn vt ms = Some v2" "vt' = vt"
    using t by (auto split: if_splits)
  obtain v where v: "eval F d vs e = Inr v" using eval_ok [OF assms 4(4-6) t] by blast
  show ?case
  proof (cases "truth v")
    case True
    then show ?thesis
      using 4(1) [OF t br(1) 4(4) learn_ok [OF 4(4,5) t v True] 4(6)] exec_block [OF br(1) _ _ 4(6)] v br(3) by fastforce
  next
    case False
    then show ?thesis using 4(2) [OF t br(2) 4(4-6)] exec_block [OF br(2) _ _ 4(6)] v br(3) by fastforce
  qed
next
  case (5 dt nn vt xs e ns)
  from 5(3) obtain t where t: "expr_ty dt nn vt e = Some t" by (auto split: option.splits)
  obtain v where v: "eval F d vs e = Inr v" "has_ty t v" using eval_ok [OF assms 5(4-6) t] by blast
  show ?case
  proof (cases t)
    case (YSlice u)
    then obtain w where w: "nodes_ty u [] (range_vars xs YNat u @ vt) ns = Some w" "vt' = vt"
      using 5(3) t by (auto split: if_splits)
    then show ?thesis using exec_range [OF v 5(6) _ w(1) 5(1) [OF t YSlice w(1)]] YSlice by blast
  next
    case (YMap u)
    then obtain w where w: "nodes_ty u [] (range_vars xs YStr u @ vt) ns = Some w" "vt' = vt"
      using 5(3) t by (auto split: if_splits)
    then show ?thesis using exec_range [OF v 5(6) _ w(1) 5(2) [OF t YMap w(1)]] YMap by blast
  qed (use 5(3) t in auto)
next
  case (7 dt nn vt n ns)
  then show ?case by (fastforce split: option.splits)
qed auto

section \<open>Templates that render\<close>

text \<open>The data is passed as a pointer to a struct.\<close>

definition renders :: "gty \<Rightarrow> string \<Rightarrow> bool" where
  "renders t s \<longleftrightarrow> (\<exists>ns. parse_template s = Some ns \<and> (\<forall>F d. sprig_ok F \<longrightarrow> has_ty t d \<longrightarrow> (\<exists>out. execute F (GPtr d) ns = Inr out)))"

definition lines_ok :: "gty \<Rightarrow> string list \<Rightarrow> bool" where
  "lines_ok t ls =
     (case line_segments ls of
        None \<Rightarrow> False
      | Some ss \<Rightarrow> (case parse_nodes ss [] [] of None \<Rightarrow> False | Some ns \<Rightarrow> nodes_ty (YPtr t) [[]] [] ns \<noteq> None))"

lemma lines_ok_renders:
  assumes "lines_ok (YStruct ts) ls"
  shows "renders (YStruct ts) (text_lines ls)"
proof -
  obtain ss ns vt where p: "line_segments ls = Some ss" "parse_nodes ss [] [] = Some ns" "nodes_ty (YPtr (YStruct ts)) [[]] [] ns = Some vt"
    using assms by (auto simp: lines_ok_def split: option.splits)
  have "\<exists>out. execute F (GPtr d) ns = Inr out" if "sprig_ok F" "has_ty (YStruct ts) d" for F d
  proof -
    have "has_ty (YPtr (YStruct ts)) (GPtr d)" "non_nil (GPtr d) [[]]" "vars_ok [] []"
      using that(2) by (auto simp: has_ty_simps non_nil_def vars_ok_def)
    then show ?thesis using exec_ok(2) [OF that(1) p(3)] by (fastforce simp: execute_def)
  qed
  moreover have "parse_template (text_lines ls) = Some ns" using line_segments_text [OF p(1)] p(2) by (simp add: parse_template_def)
  ultimately show ?thesis unfolding renders_def by blast
qed

end
