(* ===== verification/Install_Templates.thy ===== *)
theory Install_Templates
  imports Template_Language Template_Engine
begin

text \<open>
  \<open>internal/templates/\<close>: the installation templates the operator ships, as they stand in the three
  packages, with the maps that the operator stores as ConfigMaps; the data a template is executed on, with the names
  of the Go fields; and the proof that every shipped template is well typed, so that it renders on every data.
\<close>

definition squote :: string where "squote = [CHR 0x27]"

section \<open>assisted-installer/template.go\<close>

definition ai_ClusterLevelInstallTemplates :: string where "ai_ClusterLevelInstallTemplates = ''ai-cluster-templates-v1''"
definition ai_NodeLevelInstallTemplates :: string where "ai_NodeLevelInstallTemplates = ''ai-node-templates-v1''"

definition ai_AgentClusterInstall :: string where
  "ai_AgentClusterInstall = text_lines [
     ''apiVersion: extensions.hive.openshift.io/v1beta1'',
     ''kind: AgentClusterInstall'',
     ''metadata:'',
     ''  name: \"{{ .Spec.ClusterName }}\"'',
     ''  namespace: \"{{ .Spec.ClusterName }}\"'',
     ''  annotations:'',
     ''{{ if .SpecialVars.InstallConfigOverrides }}'',
     ''    agent-install.openshift.io/install-config-overrides: '{{ .SpecialVars.InstallConfigOverrides }}'' @ squote,
     ''{{ end }}'',
     ''    siteconfig.open-cluster-management.io/sync-wave: \"1\"'',
     ''spec:'',
     ''  clusterDeploymentRef:'',
     ''    name: \"{{ .Spec.ClusterName }}\"'',
     ''  holdInstallation: {{ .Spec.HoldInstallation }}'',
     ''  imageSetRef:'',
     ''    name: \"{{ .Spec.ClusterImageSetNameRef }}\"'',
     ''{{ if .Spec.ApiVIPs }}'',
     ''  apiVIPs:'',
     ''{{ .Spec.ApiVIPs | toYaml | indent 4 }}'',
     ''{{ end }}'',
     ''{{ if .Spec.IngressVIPs }}'',
     ''  ingressVIPs:'',
     ''{{ .Spec.IngressVIPs | toYaml | indent 4 }}'',
     ''{{ end }}'',
     ''  networking:'',
     ''{{ if .Spec.ClusterNetwork }}'',
     ''    clusterNetwork:'',
     ''{{ .Spec.ClusterNetwork | toYaml | indent 6 }}'',
     ''{{ end }}'',
     ''{{ if .Spec.MachineNetwork }}'',
     ''    machineNetwork:'',
     ''{{ .Spec.MachineNetwork | toYaml | indent 6 }}'',
     ''{{ end }}'',
     ''{{ if .Spec.ServiceNetwork }}'',
     ''    serviceNetwork:'',
     ''{{ $serviceNetworks := list }}'',
     ''{{ range .Spec.ServiceNetwork }}'',
     ''{{ $serviceNetworks = append $serviceNetworks .CIDR }}'',
     ''{{ end }}'',
     ''{{ $serviceNetworks | toYaml | indent 6 }}'',
     ''{{ end }}'',
     ''  provisionRequirements:'',
     ''    controlPlaneAgents: {{ .SpecialVars.ControlPlaneAgents }}'',
     ''    workerAgents: {{ .SpecialVars.WorkerAgents }}'',
     ''    arbiterAgents: {{ .SpecialVars.ArbiterAgents }}'',
     ''{{ if .Spec.Proxy }}'',
     ''  proxy:'',
     ''{{ .Spec.Proxy | toYaml | indent 4 }}'',
     ''{{ end }}'',
     ''{{ if .Spec.PlatformType }}'',
     ''  platformType: \"{{ .Spec.PlatformType }}\"'',
     ''{{ end }}'',
     ''  sshPublicKey: \"{{ .Spec.SSHPublicKey }}\"'',
     ''{{ if gt (len .Spec.ExtraManifestsRefs) 0 }}'',
     ''  manifestsConfigMapRefs:'',
     ''{{ .Spec.ExtraManifestsRefs | toYaml | indent 4 }}'',
     ''{{ end }}'']"

definition ai_ClusterDeployment :: string where
  "ai_ClusterDeployment = text_lines [
     ''apiVersion: hive.openshift.io/v1'',
     ''kind: ClusterDeployment'',
     ''metadata:'',
     ''  name: \"{{ .Spec.ClusterName }}\"'',
     ''  namespace: \"{{ .Spec.ClusterName }}\"'',
     ''  annotations:'',
     ''    siteconfig.open-cluster-management.io/sync-wave: \"1\"'',
     ''spec:'',
     ''  baseDomain: \"{{ .Spec.BaseDomain }}\"'',
     ''  clusterInstallRef:'',
     ''    group: extensions.hive.openshift.io'',
     ''    kind: AgentClusterInstall'',
     ''    name: \"{{ .Spec.ClusterName }}\"'',
     ''    version: v1beta1'',
     ''  clusterName: \"{{ .Spec.ClusterName }}\"'',
     ''  platform:'',
     ''    agentBareMetal:'',
     ''      agentSelector:'',
     ''        matchLabels:'',
     ''          cluster-name: \"{{ .Spec.ClusterName }}\"'',
     ''  pullSecretRef:'',
     ''    name: \"{{ .Spec.PullSecretRef.Name }}\"'']"

definition ai_KlusterletAddonConfig :: string where
  "ai_KlusterletAddonConfig = text_lines [
     ''apiVersion: agent.open-cluster-management.io/v1'',
     ''kind: KlusterletAddonConfig'',
     ''metadata:'',
     ''  annotations:'',
     ''    siteconfig.open-cluster-management.io/sync-wave: \"2\"'',
     ''  name: \"{{ .Spec.ClusterName }}\"'',
     ''  namespace: \"{{ .Spec.ClusterName }}\"'',
     ''spec:'',
     ''  clusterName: \"{{ .Spec.ClusterName }}\"'',
     ''  clusterNamespace: \"{{ .Spec.ClusterName }}\"'',
     ''  applicationManager:'',
     ''    enabled: false'',
     ''  certPolicyController:'',
     ''    enabled: false'',
     ''  iamPolicyController:'',
     ''    enabled: false'',
     ''  policyController:'',
     ''    enabled: true'',
     ''  searchCollector:'',
     ''    enabled: false'']"

definition ai_ManagedCluster :: string where
  "ai_ManagedCluster = text_lines [
     ''apiVersion: cluster.open-cluster-management.io/v1'',
     ''kind: ManagedCluster'',
     ''metadata:'',
     ''  name: \"{{ .Spec.ClusterName }}\"'',
     ''  annotations:'',
     ''    siteconfig.open-cluster-management.io/sync-wave: \"2\"'',
     ''  labels:'',
     ''    cloud: auto-detect'',
     ''    vendor: auto-detect'',
     ''spec:'',
     ''  hubAcceptsClient: true'']"

definition ai_InfraEnv :: string where
  "ai_InfraEnv = text_lines [
     ''apiVersion: agent-install.openshift.io/v1beta1'',
     ''kind: InfraEnv'',
     ''metadata:'',
     ''  annotations:'',
     ''    siteconfig.open-cluster-management.io/sync-wave: \"1\"'',
     ''{{ if .SpecialVars.CurrentNode.HostRef }}'',
     ''  name: \"{{ .SpecialVars.CurrentNode.HostRef.Name }}\"'',
     ''  namespace: \"{{ .SpecialVars.CurrentNode.HostRef.Namespace }}\"'',
     ''{{ else }}'',
     ''  name: \"{{ .SpecialVars.CurrentNode.HostName }}\"'',
     ''  namespace: \"{{ .Spec.ClusterName }}\"'',
     ''{{ end }}'',
     ''spec:'',
     ''  clusterRef:'',
     ''    name: \"{{ .Spec.ClusterName }}\"'',
     ''    namespace: \"{{ .Spec.ClusterName }}\"'',
     ''  sshAuthorizedKey: \"{{ .Spec.SSHPublicKey }}\"'',
     ''{{ if .Spec.Proxy }}'',
     ''  proxy:'',
     ''{{ .Spec.Proxy | toYaml | indent 4 }}'',
     ''{{ end }}'',
     ''{{ if .SpecialVars.CurrentNode.CPUArchitecture }}'',
     ''  cpuArchitecture: \"{{ .SpecialVars.CurrentNode.CPUArchitecture }}\"'',
     ''{{ else if and'' @ [newline] @
       ''    (.Spec.CPUArchitecture)'' @ [newline] @
       ''    (ne .Spec.CPUArchitecture \"multi\")'' @ [newline] @
       ''}}'',
     ''  cpuArchitecture: \"{{ .Spec.CPUArchitecture }}\"'',
     ''{{ end }}'',
     ''  pullSecretRef:'',
     ''    name: \"{{ .Spec.PullSecretRef.Name }}\"'',
     ''  ignitionConfigOverride: '{{ .Spec.IgnitionConfigOverride }}'' @ squote,
     ''  # Wait before mapping host MACs to interfaces when applying static network config on the minimal ISO,'',
     ''  # giving slow-enumerating NICs time to appear before discovery.'',
     ''  networkDiscoveryDelaySeconds: 60'',
     ''  nmStateConfigLabelSelector:'',
     ''    matchLabels:'',
     ''{{ if .SpecialVars.CurrentNode.HostRef }}'',
     ''      nmstate-label: \"{{ .SpecialVars.CurrentNode.HostRef.Name }}\"'',
     ''{{ else }}'',
     ''      nmstate-label: \"{{ .SpecialVars.CurrentNode.HostName }}\"'',
     ''{{ end }}'',
     ''{{ if .Spec.AdditionalNTPSources }}'',
     ''  additionalNTPSources:'',
     ''{{ .Spec.AdditionalNTPSources | toYaml | indent 4 }}'',
     ''{{ end }}'']"

definition ai_NMStateConfig :: string where
  "ai_NMStateConfig = text_lines [
     ''{{ if .SpecialVars.CurrentNode.NodeNetwork }}'',
     ''apiVersion: agent-install.openshift.io/v1beta1'',
     ''kind: NMStateConfig'',
     ''metadata:'',
     ''  annotations:'',
     ''    siteconfig.open-cluster-management.io/sync-wave: \"1\"'',
     ''{{ if .SpecialVars.CurrentNode.HostRef }}'',
     ''  name: \"{{ .SpecialVars.CurrentNode.HostRef.Name }}\"'',
     ''  namespace: \"{{ .SpecialVars.CurrentNode.HostRef.Namespace }}\"'',
     ''{{ else }}'',
     ''  name: \"{{ .SpecialVars.CurrentNode.HostName }}\"'',
     ''  namespace: \"{{ .Spec.ClusterName }}\"'',
     ''{{ end }}'',
     ''  labels:'',
     ''{{ if .SpecialVars.CurrentNode.HostRef }}'',
     ''    nmstate-label: \"{{ .SpecialVars.CurrentNode.HostRef.Name }}\"'',
     ''{{ else }}'',
     ''    nmstate-label: \"{{ .SpecialVars.CurrentNode.HostName }}\"'',
     ''{{ end }}'',
     ''spec:'',
     ''  config:'',
     ''{{ .SpecialVars.CurrentNode.NodeNetwork.NetConfig | toYaml | indent 4}}'',
     ''  interfaces:'',
     ''{{ .SpecialVars.CurrentNode.NodeNetwork.Interfaces | toYaml | indent 4 }}'',
     ''{{ end }}'']"

definition ai_BareMetalHost :: string where
  "ai_BareMetalHost = text_lines [
     ''apiVersion: metal3.io/v1alpha1'',
     ''kind: BareMetalHost'',
     ''metadata:'',
     ''{{ if .SpecialVars.CurrentNode.HostRef }}'',
     ''  name: \"{{ .SpecialVars.CurrentNode.HostRef.Name }}\"'',
     ''  namespace: \"{{ .SpecialVars.CurrentNode.HostRef.Namespace }}\"'',
     ''{{ else }}'',
     ''  name: \"{{ .SpecialVars.CurrentNode.HostName }}\"'',
     ''  namespace: \"{{ .Spec.ClusterName }}\"'',
     ''{{ end }}'',
     ''  annotations:'',
     ''    siteconfig.open-cluster-management.io/sync-wave: \"3\"'',
     ''    inspect.metal3.io: \"{{ .SpecialVars.CurrentNode.IronicInspect }}\"'',
     ''{{ if .SpecialVars.CurrentNode.NodeLabels }}'',
     ''{{ range $key, $value := .SpecialVars.CurrentNode.NodeLabels }}'',
     ''    bmac.agent-install.openshift.io.node-label.{{ $key }}: {{ $value | quote}}'',
     ''{{ end }}'',
     ''{{ end }}'',
     ''    bmac.agent-install.openshift.io/hostname: \"{{ .SpecialVars.CurrentNode.HostName }}\"'',
     ''{{ if .SpecialVars.CurrentNode.InstallerArgs  }}'',
     ''    bmac.agent-install.openshift.io/installer-args: '{{ .SpecialVars.CurrentNode.InstallerArgs  }}'' @ squote,
     ''{{ end }}'',
     ''{{ if .SpecialVars.CurrentNode.IgnitionConfigOverride }}'',
     ''    bmac.agent-install.openshift.io/ignition-config-overrides: '{{ .SpecialVars.CurrentNode.IgnitionConfigOverride }}'' @ squote,
     ''{{ end }}'',
     ''    bmac.agent-install.openshift.io/role: \"{{ .SpecialVars.CurrentNode.Role }}\"'',
     ''  labels:'',
     ''{{ if .SpecialVars.CurrentNode.HostRef }}'',
     ''    infraenvs.agent-install.openshift.io: \"{{ .SpecialVars.CurrentNode.HostRef.Name }}\"'',
     ''{{ else }}'',
     ''    infraenvs.agent-install.openshift.io: \"{{ .SpecialVars.CurrentNode.HostName }}\"'',
     ''{{ end }}'',
     ''    cluster.open-cluster-management.io/backup: cluster-activation'',
     ''spec:'',
     ''  bootMode: \"{{ .SpecialVars.CurrentNode.BootMode }}\"'',
     ''  bmc:'',
     ''    address: \"{{ .SpecialVars.CurrentNode.BmcAddress }}\"'',
     ''    disableCertificateVerification: true'',
     ''    credentialsName: \"{{ .SpecialVars.CurrentNode.BmcCredentialsName.Name }}\"'',
     ''  bootMACAddress: \"{{ .SpecialVars.CurrentNode.BootMACAddress }}\"'',
     ''  automatedCleaningMode: \"{{ .SpecialVars.CurrentNode.AutomatedCleaningMode }}\"'',
     ''  online: true'',
     ''{{ if .SpecialVars.CurrentNode.CPUArchitecture }}'',
     ''  architecture: \"{{ .SpecialVars.CurrentNode.CPUArchitecture }}\"'',
     ''{{ else if and'' @ [newline] @
       ''    (.Spec.CPUArchitecture)'' @ [newline] @
       ''    (ne .Spec.CPUArchitecture \"multi\")'' @ [newline] @
       ''}}'',
     ''  architecture: \"{{ .Spec.CPUArchitecture }}\"'',
     ''{{ end }}'',
     ''{{ if .SpecialVars.CurrentNode.RootDeviceHints }}'',
     ''  rootDeviceHints:'',
     ''{{ .SpecialVars.CurrentNode.RootDeviceHints | toYaml | indent 4 }}'',
     ''{{ end }}'']"

definition ai_GetClusterTemplates :: smap where
  "ai_GetClusterTemplates = [(''AgentClusterInstall'', ai_AgentClusterInstall), (''ClusterDeployment'', ai_ClusterDeployment), (''ManagedCluster'', ai_ManagedCluster), (''KlusterletAddonConfig'', ai_KlusterletAddonConfig)]"

definition ai_GetNodeTemplates :: smap where
  "ai_GetNodeTemplates = [(''InfraEnv'', ai_InfraEnv), (''BareMetalHost'', ai_BareMetalHost), (''NMStateConfig'', ai_NMStateConfig)]"

section \<open>image-based-installer/template.go\<close>

definition ibi_ClusterLevelInstallTemplates :: string where "ibi_ClusterLevelInstallTemplates = ''ibi-cluster-templates-v1''"
definition ibi_NodeLevelInstallTemplates :: string where "ibi_NodeLevelInstallTemplates = ''ibi-node-templates-v1''"

definition ibi_ClusterDeployment :: string where
  "ibi_ClusterDeployment = text_lines [
     ''apiVersion: hive.openshift.io/v1'',
     ''kind: ClusterDeployment'',
     ''metadata:'',
     ''  name: \"{{ .Spec.ClusterName }}\"'',
     ''  namespace: \"{{ .Spec.ClusterName }}\"'',
     ''  annotations:'',
     ''    siteconfig.open-cluster-management.io/sync-wave: \"1\"'',
     ''    velero.io/restore-status: \"true\"'',
     ''spec:'',
     ''  baseDomain: \"{{ .Spec.BaseDomain }}\"'',
     ''  clusterInstallRef:'',
     ''    group: extensions.hive.openshift.io'',
     ''    kind: ImageClusterInstall'',
     ''    name: \"{{ .Spec.ClusterName }}\"'',
     ''    version: v1alpha1'',
     ''  clusterName: \"{{ .Spec.ClusterName }}\"'',
     ''  platform:'',
     ''    none: {}'',
     ''  pullSecretRef:'',
     ''    name: \"{{ .Spec.PullSecretRef.Name }}\"'']"

definition ibi_KlusterletAddonConfig :: string where
  "ibi_KlusterletAddonConfig = text_lines [
     ''apiVersion: agent.open-cluster-management.io/v1'',
     ''kind: KlusterletAddonConfig'',
     ''metadata:'',
     ''  annotations:'',
     ''    siteconfig.open-cluster-management.io/sync-wave: \"2\"'',
     ''  labels:'',
     ''    installer.name: multiclusterhub'',
     ''    installer.namespace: open-cluster-management'',
     ''  name: \"{{ .Spec.ClusterName }}\"'',
     ''  namespace: \"{{ .Spec.ClusterName }}\"'',
     ''spec:'',
     ''  clusterName: \"{{ .Spec.ClusterName }}\"'',
     ''  clusterNamespace: \"{{ .Spec.ClusterName }}\"'',
     ''  applicationManager:'',
     ''    enabled: true'',
     ''  certPolicyController:'',
     ''    enabled: true'',
     ''  iamPolicyController:'',
     ''    enabled: true'',
     ''  policyController:'',
     ''    enabled: true'',
     ''  searchCollector:'',
     ''    enabled: false'']"

definition ibi_ManagedCluster :: string where
  "ibi_ManagedCluster = text_lines [
     ''apiVersion: cluster.open-cluster-management.io/v1'',
     ''kind: ManagedCluster'',
     ''metadata:'',
     ''  name: \"{{ .Spec.ClusterName }}\"'',
     ''  annotations:'',
     ''    siteconfig.open-cluster-management.io/sync-wave: \"2\"'',
     ''  labels:'',
     ''    cloud: auto-detect'',
     ''    vendor: auto-detect'',
     ''spec:'',
     ''  hubAcceptsClient: true'']"

definition ibi_ImageClusterInstall :: string where
  "ibi_ImageClusterInstall = text_lines [
     ''apiVersion: extensions.hive.openshift.io/v1alpha1'',
     ''kind: ImageClusterInstall'',
     ''metadata:'',
     ''  name: \"{{ .Spec.ClusterName }}\"'',
     ''  namespace: \"{{ .Spec.ClusterName }}\"'',
     ''  annotations:'',
     ''    siteconfig.open-cluster-management.io/sync-wave: \"1\"'',
     ''    velero.io/restore-status: \"true\"'',
     ''spec:'',
     ''  clusterDeploymentRef:'',
     ''    name: \"{{ .Spec.ClusterName }}\"'',
     ''  imageSetRef:'',
     ''    name: \"{{ .Spec.ClusterImageSetNameRef }}\"'',
     ''  hostname: \"{{ .SpecialVars.CurrentNode.HostName }}\"'',
     ''  sshKey: \"{{ .Spec.SSHPublicKey }}\"'',
     ''{{ if .Spec.CaBundleRef }}'',
     ''  caBundleRef:'',
     ''{{ .Spec.CaBundleRef | toYaml | indent 4 }}'',
     ''{{ end }}'',
     ''{{ if .Spec.ExtraManifestsRefs }}'',
     ''  extraManifestsRefs:'',
     ''{{ .Spec.ExtraManifestsRefs | toYaml | indent 4 }}'',
     ''{{ end }}'',
     ''  bareMetalHostRef:'',
     ''{{ if .SpecialVars.CurrentNode.HostRef }}'',
     ''    name: \"{{ .SpecialVars.CurrentNode.HostRef.Name }}\"'',
     ''    namespace: \"{{ .SpecialVars.CurrentNode.HostRef.Namespace }}\"'',
     ''{{ else }}'',
     ''    name: \"{{ .SpecialVars.CurrentNode.HostName }}\"'',
     ''    namespace: \"{{ .Spec.ClusterName }}\"'',
     ''{{ end }}'',
     ''{{ if .Spec.MachineNetwork }}'',
     ''  machineNetworks:'',
     ''{{ range .Spec.MachineNetwork }}'',
     ''  - cidr: \"{{ .CIDR }}\"'',
     ''{{ end }}'',
     ''{{ end }}'',
     ''{{ if .Spec.Proxy }}'',
     ''  proxy:'',
     ''{{ .Spec.Proxy | toYaml | indent 4 }}'',
     ''{{ end }}'',
     ''{{ if .Spec.AdditionalNTPSources }}'',
     ''  additionalNTPSources:'',
     ''{{ .Spec.AdditionalNTPSources | toYaml | indent 4 }}'',
     ''{{ end }}'',
     '''']"

definition ibi_BareMetalHost :: string where
  "ibi_BareMetalHost = text_lines [
     ''apiVersion: metal3.io/v1alpha1'',
     ''kind: BareMetalHost'',
     ''metadata:'',
     ''{{ if .SpecialVars.CurrentNode.HostRef }}'',
     ''  name: \"{{ .SpecialVars.CurrentNode.HostRef.Name }}\"'',
     ''  namespace: \"{{ .SpecialVars.CurrentNode.HostRef.Namespace }}\"'',
     ''{{ else }}'',
     ''  name: \"{{ .SpecialVars.CurrentNode.HostName }}\"'',
     ''  namespace: \"{{ .Spec.ClusterName }}\"'',
     ''{{ end }}'',
     ''  annotations:'',
     ''    siteconfig.open-cluster-management.io/sync-wave: \"1\"'',
     ''    inspect.metal3.io: \"{{ .SpecialVars.CurrentNode.IronicInspect }}\"'',
     ''  labels:'',
     ''    cluster.open-cluster-management.io/backup: cluster-activation'',
     ''spec:'',
     ''  bootMode: \"{{ .SpecialVars.CurrentNode.BootMode }}\"'',
     ''  bmc:'',
     ''    address: \"{{ .SpecialVars.CurrentNode.BmcAddress }}\"'',
     ''    disableCertificateVerification: true'',
     ''    credentialsName: \"{{ .SpecialVars.CurrentNode.BmcCredentialsName.Name }}\"'',
     ''  bootMACAddress: \"{{ .SpecialVars.CurrentNode.BootMACAddress }}\"'',
     ''  automatedCleaningMode: \"{{ .SpecialVars.CurrentNode.AutomatedCleaningMode }}\"'',
     ''  online: false'',
     ''  externallyProvisioned: true'',
     ''{{ if .SpecialVars.CurrentNode.CPUArchitecture }}'',
     ''  architecture: \"{{ .SpecialVars.CurrentNode.CPUArchitecture }}\"'',
     ''{{ end }}'',
     ''{{ if .SpecialVars.CurrentNode.RootDeviceHints }}'',
     ''  rootDeviceHints:'',
     ''{{ .SpecialVars.CurrentNode.RootDeviceHints | toYaml | indent 4 }}'',
     ''{{ end }}'',
     ''{{ if .SpecialVars.CurrentNode.NodeNetwork }}'',
     ''{{ if .SpecialVars.CurrentNode.HostRef }}'',
     ''  preprovisioningNetworkDataName: {{ .SpecialVars.CurrentNode.HostRef.Name }}'',
     ''{{ else }}'',
     ''  preprovisioningNetworkDataName: {{ .SpecialVars.CurrentNode.HostName }}'',
     ''{{ end }}'',
     ''{{ end }}'']"

definition ibi_NetworkSecret :: string where
  "ibi_NetworkSecret = text_lines [
     ''{{ if .SpecialVars.CurrentNode.NodeNetwork }}'',
     ''apiVersion: v1'',
     ''kind: Secret'',
     ''metadata:'',
     ''  annotations:'',
     ''    siteconfig.open-cluster-management.io/sync-wave: \"1\"'',
     ''{{ if .SpecialVars.CurrentNode.HostRef }}'',
     ''  name: \"{{ .SpecialVars.CurrentNode.HostRef.Name }}\"'',
     ''  namespace: \"{{ .SpecialVars.CurrentNode.HostRef.Namespace }}\"'',
     ''{{ else }}'',
     ''  name: \"{{ .SpecialVars.CurrentNode.HostName }}\"'',
     ''  namespace: \"{{ .Spec.ClusterName }}\"'',
     ''{{ end }}'',
     ''type: Opaque'',
     ''data:'',
     ''  nmstate: |'',
     ''{{ .SpecialVars.CurrentNode.NodeNetwork.NetConfig | toYaml | b64enc | indent 4}}'',
     ''{{ end }}'']"

definition ibi_GetClusterTemplates :: smap where
  "ibi_GetClusterTemplates = [(''ClusterDeployment'', ibi_ClusterDeployment), (''ManagedCluster'', ibi_ManagedCluster), (''KlusterletAddonConfig'', ibi_KlusterletAddonConfig)]"

definition ibi_GetNodeTemplates :: smap where
  "ibi_GetNodeTemplates = [(''ImageClusterInstall'', ibi_ImageClusterInstall), (''BareMetalHost'', ibi_BareMetalHost), (''NetworkSecret'', ibi_NetworkSecret)]"

section \<open>hosted-cluster/template.go\<close>

definition hcp_ClusterLevelInstallTemplates :: string where "hcp_ClusterLevelInstallTemplates = ''hcp-cluster-templates-v1''"
definition hcp_NodeLevelInstallTemplates :: string where "hcp_NodeLevelInstallTemplates = ''hcp-node-templates-v1''"

definition hcp_HostedCluster :: string where
  "hcp_HostedCluster = text_lines [
     ''apiVersion: hypershift.openshift.io/v1beta1'',
     ''kind: HostedCluster'',
     ''metadata:'',
     ''  name: \"{{ .Spec.ClusterName }}\"'',
     ''  namespace: \"{{ .Spec.ClusterName }}\"'',
     ''  annotations:'',
     ''    siteconfig.open-cluster-management.io/sync-wave: \"1\"'',
     ''spec:'',
     ''  {{ if .Spec.CaBundleRef }}'',
     ''  additionalTrustBundle:'',
     ''  {{ .Spec.CaBundleRef | toYaml | indent 4 }}'',
     ''  {{ end }}'',
     ''  olmCatalogPlacement: management'',
     ''  configuration:'',
     ''    operatorhub:'',
     ''      disableAllDefaultSources: true'',
     ''  controllerAvailabilityPolicy: HighlyAvailable'',
     ''  infrastructureAvailabilityPolicy: HighlyAvailable'',
     ''  dns:'',
     ''    baseDomain: \"{{ .Spec.BaseDomain }}\"'',
     ''  etcd:'',
     ''    managed:'',
     ''      storage:'',
     ''        type: PersistentVolume'',
     ''    managementType: Managed'',
     ''  fips: false'',
     ''  networking:'',
     ''{{ if .Spec.ClusterNetwork }}'',
     ''    clusterNetwork:'',
     ''{{ .Spec.ClusterNetwork | toYaml | indent 6 }}'',
     ''{{ end }}'',
     ''{{ if .Spec.MachineNetwork }}'',
     ''    machineNetwork:'',
     ''{{ .Spec.MachineNetwork | toYaml | indent 6 }}'',
     ''{{ end }}'',
     ''{{ if .Spec.ServiceNetwork }}'',
     ''    serviceNetwork:'',
     ''{{ .Spec.ServiceNetwork | toYaml | indent 6 }}'',
     ''{{ end }}'',
     ''    networkType: \"{{ .Spec.NetworkType }}\"'',
     ''  platform:'',
     ''    type: Agent'',
     ''    agent:'',
     ''      agentNamespace: \"{{ .Spec.ClusterName }}\"'',
     ''  pullSecret:'',
     ''{{ .Spec.PullSecretRef | toYaml | indent 4 }}'',
     ''  release:'',
     ''    image: \"{{ .SpecialVars.ReleaseImage }}\"'',
     ''  services:'',
     ''  - service: APIServer'',
     ''    servicePublishingStrategy:'',
     ''      type: LoadBalancer'',
     ''  - service: OAuthServer'',
     ''    servicePublishingStrategy:'',
     ''      type: Route'',
     ''  - service: OIDC'',
     ''    servicePublishingStrategy:'',
     ''      type: Route'',
     ''  - service: Konnectivity'',
     ''    servicePublishingStrategy:'',
     ''      type: Route'',
     ''  - service: Ignition'',
     ''    servicePublishingStrategy:'',
     ''      type: Route'',
     ''  sshKey:'',
     ''    name: sshkey-{{ .Spec.ClusterName }}'',
     ''  infraID: \"{{ .Spec.ClusterName }}\"'']"

definition hcp_KlusterletAddonConfig :: string where
  "hcp_KlusterletAddonConfig = text_lines [
     ''apiVersion: agent.open-cluster-management.io/v1'',
     ''kind: KlusterletAddonConfig'',
     ''metadata:'',
     ''  annotations:'',
     ''    siteconfig.open-cluster-management.io/sync-wave: \"2\"'',
     ''  name: \"{{ .Spec.ClusterName }}\"'',
     ''  namespace: \"{{ .Spec.ClusterName }}\"'',
     ''spec:'',
     ''  applicationManager:'',
     ''    enabled: false'',
     ''  certPolicyController:'',
     ''    enabled: false'',
     ''  policyController:'',
     ''    enabled: true'',
     ''  searchCollector:'',
     ''    enabled: false'']"

definition hcp_ManagedCluster :: string where
  "hcp_ManagedCluster = text_lines [
     ''apiVersion: cluster.open-cluster-management.io/v1'',
     ''kind: ManagedCluster'',
     ''metadata:'',
     ''  name: \"{{ .Spec.ClusterName }}\"'',
     ''  annotations:'',
     ''    siteconfig.open-cluster-management.io/sync-wave: \"2\"'',
     ''    import.open-cluster-management.io/hosting-cluster-name: local-cluster'',
     ''    import.open-cluster-management.io/klusterlet-deploy-mode: Hosted'',
     ''    open-cluster-management/created-via: hypershift'',
     ''  labels:'',
     ''    cloud: BareMetal'',
     ''    vendor: OpenShift'',
     ''    ishosted: \"true\"'',
     ''spec:'',
     ''  hubAcceptsClient: true'']"

definition hcp_SshPubKeySecret :: string where
  "hcp_SshPubKeySecret = text_lines [
     ''apiVersion: v1'',
     ''kind: Secret'',
     ''metadata:'',
     ''  name: sshkey-{{ .Spec.ClusterName }}'',
     ''  namespace: \"{{ .Spec.ClusterName }}\"'',
     ''  labels:'',
     ''    hypershift.openshift.io/safe-to-delete-with-cluster: \"true\"'',
     ''  annotations:'',
     ''    siteconfig.open-cluster-management.io/sync-wave: \"1\"'',
     ''stringData:'',
     ''  id_rsa.pub: \"{{ .Spec.SSHPublicKey }}\"'',
     '''']"

definition hcp_InfraEnv :: string where
  "hcp_InfraEnv = text_lines [
     ''apiVersion: agent-install.openshift.io/v1beta1'',
     ''kind: InfraEnv'',
     ''metadata:'',
     ''  annotations:'',
     ''    siteconfig.open-cluster-management.io/sync-wave: \"1\"'',
     ''{{ if .SpecialVars.CurrentNode.HostRef }}'',
     ''  name: \"{{ .SpecialVars.CurrentNode.HostRef.Name }}\"'',
     ''  namespace: \"{{ .SpecialVars.CurrentNode.HostRef.Namespace }}\"'',
     ''{{ else }}'',
     ''  name: \"{{ .SpecialVars.CurrentNode.HostName }}\"'',
     ''  namespace: \"{{ .Spec.ClusterName }}\"'',
     ''{{ end }}'',
     ''spec:'',
     ''  sshAuthorizedKey: \"{{ .Spec.SSHPublicKey }}\"'',
     ''{{ if .Spec.Proxy }}'',
     ''  proxy:'',
     ''{{ .Spec.Proxy | toYaml | indent 4 }}'',
     ''{{ end }}'',
     ''{{ if .SpecialVars.CurrentNode.CPUArchitecture }}'',
     ''  cpuArchitecture: \"{{ .SpecialVars.CurrentNode.CPUArchitecture }}\"'',
     ''{{ else if and'' @ [newline] @
       ''    (.Spec.CPUArchitecture)'' @ [newline] @
       ''    (ne .Spec.CPUArchitecture \"multi\")'' @ [newline] @
       ''}}'',
     ''  cpuArchitecture: \"{{ .Spec.CPUArchitecture }}\"'',
     ''{{ end }}'',
     ''  pullSecretRef:'',
     ''    name: \"{{ .Spec.PullSecretRef.Name }}\"'',
     ''  ignitionConfigOverride: '{{ .Spec.IgnitionConfigOverride }}'' @ squote,
     ''  nmStateConfigLabelSelector:'',
     ''    matchLabels:'',
     ''{{ if .SpecialVars.CurrentNode.HostRef }}'',
     ''      nmstate-label: \"{{ .SpecialVars.CurrentNode.HostRef.Name }}\"'',
     ''{{ else }}'',
     ''      nmstate-label: \"{{ .SpecialVars.CurrentNode.HostName }}\"'',
     ''{{ end }}'',
     ''{{ if .Spec.AdditionalNTPSources }}'',
     ''  additionalNTPSources:'',
     ''{{ .Spec.AdditionalNTPSources | toYaml | indent 4 }}'',
     ''{{ end }}'']"

definition hcp_NodePool :: string where
  "hcp_NodePool = text_lines [
     ''apiVersion: hypershift.openshift.io/v1beta1'',
     ''kind: NodePool'',
     ''metadata:'',
     ''  annotations:'',
     ''    siteconfig.open-cluster-management.io/sync-wave: \"2\"'',
     ''{{ if .SpecialVars.CurrentNode.HostRef }}'',
     ''  name: \"{{ .SpecialVars.CurrentNode.HostRef.Name }}\"'',
     ''  namespace: \"{{ .SpecialVars.CurrentNode.HostRef.Namespace }}\"'',
     ''{{ else }}'',
     ''  name: \"{{ .SpecialVars.CurrentNode.HostName }}\"'',
     ''  namespace: \"{{ .Spec.ClusterName }}\"'',
     ''{{ end }}'',
     ''{{ if .Spec.ExtraLabels.NodePool }}'',
     ''  labels:'',
     ''{{ .Spec.ExtraLabels.NodePool | toYaml | indent 4 }}'',
     ''{{ end }}'',
     ''spec:'',
     ''  clusterName: \"{{ .Spec.ClusterName }}\"'',
     ''  replicas: 1'',
     ''  management:'',
     ''    autoRepair: true'',
     ''    upgradeType: InPlace'',
     ''    inPlace:'',
     ''      maxUnavailable: 100%'',
     ''  platform:'',
     ''    type: Agent'',
     ''    agent:'',
     ''      agentLabelSelector:'',
     ''        matchLabels:'',
     ''{{ if .SpecialVars.CurrentNode.HostRef }}'',
     ''          agent-install.openshift.io/bmh: \"{{ .SpecialVars.CurrentNode.HostRef.Name }}\"'',
     ''{{ else }}'',
     ''          agent-install.openshift.io/bmh: \"{{ .SpecialVars.CurrentNode.HostName }}\"'',
     ''{{ end }}'',
     ''  release:'',
     ''    image: \"{{ .SpecialVars.ReleaseImage }}\"'',
     ''{{ if .SpecialVars.CurrentNode.HostRef }}'',
     ''  tuningConfig:'',
     ''    - name: \"performanceprofile-{{ .SpecialVars.CurrentNode.HostRef.Name }}\"'',
     ''  config:'',
     ''    - name: \"machineconfigs-{{ .SpecialVars.CurrentNode.HostRef.Name }}\"'',
     ''{{ else }}'',
     ''  tuningConfig:'',
     ''    - name: \"performanceprofile-{{ .SpecialVars.CurrentNode.HostName }}\"'',
     ''  config:'',
     ''    - name: \"machineconfigs-{{ .SpecialVars.CurrentNode.HostName }}\"'',
     ''{{ end }}'',
     ''{{ if .SpecialVars.CurrentNode.NodeLabels }}'',
     ''  nodeLabels:'',
     ''{{ .SpecialVars.CurrentNode.NodeLabels | toYaml | indent 4 }}'',
     ''{{ end }}'']"

definition hcp_NMStateConfig :: string where
  "hcp_NMStateConfig = text_lines [
     ''{{ if .SpecialVars.CurrentNode.NodeNetwork }}'',
     ''apiVersion: agent-install.openshift.io/v1beta1'',
     ''kind: NMStateConfig'',
     ''metadata:'',
     ''  annotations:'',
     ''    siteconfig.open-cluster-management.io/sync-wave: \"1\"'',
     ''{{ if .SpecialVars.CurrentNode.HostRef }}'',
     ''  name: \"{{ .SpecialVars.CurrentNode.HostRef.Name }}\"'',
     ''  namespace: \"{{ .SpecialVars.CurrentNode.HostRef.Namespace }}\"'',
     ''{{ else }}'',
     ''  name: \"{{ .SpecialVars.CurrentNode.HostName }}\"'',
     ''  namespace: \"{{ .Spec.ClusterName }}\"'',
     ''{{ end }}'',
     ''  labels:'',
     ''{{ if .SpecialVars.CurrentNode.HostRef }}'',
     ''    nmstate-label: \"{{ .SpecialVars.CurrentNode.HostRef.Name }}\"'',
     ''{{ else }}'',
     ''    nmstate-label: \"{{ .SpecialVars.CurrentNode.HostName }}\"'',
     ''{{ end }}'',
     ''spec:'',
     ''  config:'',
     ''{{ .SpecialVars.CurrentNode.NodeNetwork.NetConfig | toYaml | indent 4}}'',
     ''  interfaces:'',
     ''{{ .SpecialVars.CurrentNode.NodeNetwork.Interfaces | toYaml | indent 4 }}'',
     ''{{ end }}'']"

definition hcp_BareMetalHost :: string where
  "hcp_BareMetalHost = text_lines [
     ''apiVersion: metal3.io/v1alpha1'',
     ''kind: BareMetalHost'',
     ''metadata:'',
     ''{{ if .SpecialVars.CurrentNode.HostRef }}'',
     ''  name: \"{{ .SpecialVars.CurrentNode.HostRef.Name }}\"'',
     ''  namespace: \"{{ .SpecialVars.CurrentNode.HostRef.Namespace }}\"'',
     ''{{ else }}'',
     ''  name: \"{{ .SpecialVars.CurrentNode.HostName }}\"'',
     ''  namespace: \"{{ .Spec.ClusterName }}\"'',
     ''{{ end }}'',
     ''  annotations:'',
     ''    siteconfig.open-cluster-management.io/sync-wave: \"3\"'',
     ''    inspect.metal3.io: \"{{ .SpecialVars.CurrentNode.IronicInspect }}\"'',
     ''{{ if .SpecialVars.CurrentNode.NodeLabels }}'',
     ''{{ range $key, $value := .SpecialVars.CurrentNode.NodeLabels }}'',
     ''    bmac.agent-install.openshift.io.node-label.{{ $key }}: {{ $value | quote}}'',
     ''{{ end }}'',
     ''{{ end }}'',
     ''    bmac.agent-install.openshift.io/hostname: \"{{ .SpecialVars.CurrentNode.HostName }}\"'',
     ''{{ if .SpecialVars.CurrentNode.InstallerArgs  }}'',
     ''    bmac.agent-install.openshift.io/installer-args: '{{ .SpecialVars.CurrentNode.InstallerArgs  }}'' @ squote,
     ''{{ end }}'',
     ''{{ if .SpecialVars.CurrentNode.IgnitionConfigOverride }}'',
     ''    bmac.agent-install.openshift.io/ignition-config-overrides: '{{ .SpecialVars.CurrentNode.IgnitionConfigOverride }}'' @ squote,
     ''{{ end }}'',
     ''    bmac.agent-install.openshift.io/role: \"{{ .SpecialVars.CurrentNode.Role }}\"'',
     ''  labels:'',
     ''{{ if .SpecialVars.CurrentNode.HostRef }}'',
     ''    infraenvs.agent-install.openshift.io: \"{{ .SpecialVars.CurrentNode.HostRef.Name }}\"'',
     ''{{ else }}'',
     ''    infraenvs.agent-install.openshift.io: \"{{ .SpecialVars.CurrentNode.HostName }}\"'',
     ''{{ end }}'',
     ''spec:'',
     ''  bootMode: \"{{ .SpecialVars.CurrentNode.BootMode }}\"'',
     ''  bmc:'',
     ''    address: \"{{ .SpecialVars.CurrentNode.BmcAddress }}\"'',
     ''    disableCertificateVerification: true'',
     ''    credentialsName: \"{{ .SpecialVars.CurrentNode.BmcCredentialsName.Name }}\"'',
     ''  bootMACAddress: \"{{ .SpecialVars.CurrentNode.BootMACAddress }}\"'',
     ''  automatedCleaningMode: \"{{ .SpecialVars.CurrentNode.AutomatedCleaningMode }}\"'',
     ''  online: true'',
     ''{{ if .SpecialVars.CurrentNode.CPUArchitecture }}'',
     ''  architecture: \"{{ .SpecialVars.CurrentNode.CPUArchitecture }}\"'',
     ''{{ else if and'' @ [newline] @
       ''    (.Spec.CPUArchitecture)'' @ [newline] @
       ''    (ne .Spec.CPUArchitecture \"multi\")'' @ [newline] @
       ''}}'',
     ''  architecture: \"{{ .Spec.CPUArchitecture }}\"'',
     ''{{ end }}'',
     ''{{ if .SpecialVars.CurrentNode.RootDeviceHints }}'',
     ''  rootDeviceHints:'',
     ''{{ .SpecialVars.CurrentNode.RootDeviceHints | toYaml | indent 4 }}'',
     ''{{ end }}'']"

definition hcp_GetClusterTemplates :: smap where
  "hcp_GetClusterTemplates = [(''HostedCluster'', hcp_HostedCluster), (''SshPubKeySecret'', hcp_SshPubKeySecret), (''ManagedCluster'', hcp_ManagedCluster), (''KlusterletAddonConfig'', hcp_KlusterletAddonConfig)]"

definition hcp_GetNodeTemplates :: smap where
  "hcp_GetNodeTemplates = [(''InfraEnv'', hcp_InfraEnv), (''NodePool'', hcp_NodePool), (''BareMetalHost'', hcp_BareMetalHost), (''NMStateConfig'', hcp_NMStateConfig)]"

definition default_templates :: "(string \<times> smap) list" where
  "default_templates =
     [(ai_ClusterLevelInstallTemplates, ai_GetClusterTemplates), (ai_NodeLevelInstallTemplates, ai_GetNodeTemplates),
      (ibi_ClusterLevelInstallTemplates, ibi_GetClusterTemplates), (ibi_NodeLevelInstallTemplates, ibi_GetNodeTemplates),
      (hcp_ClusterLevelInstallTemplates, hcp_GetClusterTemplates), (hcp_NodeLevelInstallTemplates, hcp_GetNodeTemplates)]"

section \<open>The data of a template\<close>

definition name_ty :: gty where "name_ty = YStruct [(''Name'', YStr)]"
definition cidr_ty :: gty where "cidr_ty = YStruct [(''CIDR'', YStr)]"
definition reference_ty :: gty where "reference_ty = YStruct [(''Name'', YStr), (''Namespace'', YStr)]"
definition network_ty :: gty where "network_ty = YStruct [(''Interfaces'', YSlice YAny), (''NetConfig'', YAny)]"

definition NodeSpec_ty :: gty where
  "NodeSpec_ty = YStruct
     [(''BmcAddress'', YStr), (''BmcCredentialsName'', name_ty), (''BootMACAddress'', YStr),
      (''AutomatedCleaningMode'', YStr), (''RootDeviceHints'', YPtr YAny), (''NodeNetwork'', YPtr network_ty),
      (''NodeLabels'', YMap YStr), (''HostName'', YStr), (''HostRef'', YPtr reference_ty), (''CPUArchitecture'', YStr),
      (''BootMode'', YStr), (''InstallerArgs'', YStr), (''IgnitionConfigOverride'', YStr), (''Role'', YStr),
      (''ExtraAnnotations'', YMap (YMap YStr)), (''ExtraLabels'', YMap (YMap YStr)), (''SuppressedManifests'', YSlice YStr),
      (''IronicInspect'', YStr)]"

definition ClusterInstanceSpec_ty :: gty where
  "ClusterInstanceSpec_ty = YStruct
     [(''ClusterName'', YStr), (''PullSecretRef'', name_ty), (''ClusterImageSetNameRef'', YStr), (''SSHPublicKey'', YStr),
      (''BaseDomain'', YStr), (''ApiVIPs'', YSlice YStr), (''IngressVIPs'', YSlice YStr), (''HoldInstallation'', YBool),
      (''AdditionalNTPSources'', YSlice YStr), (''MachineNetwork'', YSlice cidr_ty), (''ClusterNetwork'', YSlice YAny),
      (''ServiceNetwork'', YSlice cidr_ty), (''NetworkType'', YStr), (''PlatformType'', YStr),
      (''ExtraAnnotations'', YMap (YMap YStr)), (''ExtraLabels'', YMap (YMap YStr)), (''InstallConfigOverrides'', YStr),
      (''IgnitionConfigOverride'', YStr), (''Proxy'', YPtr YAny), (''ExtraManifestsRefs'', YSlice name_ty),
      (''SuppressedManifests'', YSlice YStr), (''CPUPartitioning'', YStr), (''CPUArchitecture'', YStr),
      (''ClusterType'', YStr), (''CaBundleRef'', YPtr name_ty)]"

definition SpecialVars_ty :: gty where
  "SpecialVars_ty = YStruct
     [(''CurrentNode'', NodeSpec_ty), (''InstallConfigOverrides'', YStr), (''ReleaseImage'', YStr),
      (''ControlPlaneAgents'', YInt), (''WorkerAgents'', YInt), (''ArbiterAgents'', YInt)]"

definition ClusterData_fields :: "(string \<times> gty) list" where
  "ClusterData_fields = [(''Spec'', ClusterInstanceSpec_ty), (''SpecialVars'', SpecialVars_ty)]"

definition ClusterData_ty :: gty where "ClusterData_ty = YStruct ClusterData_fields"

text \<open>The value of a field that the templates may read; fields that none of the types above lists are left out.\<close>

definition g_ptr :: "('a \<Rightarrow> gval) \<Rightarrow> 'a option \<Rightarrow> gval" where
  "g_ptr f v = (case v of None \<Rightarrow> GNil | Some x \<Rightarrow> GPtr (f x))"

definition g_strs :: "string list \<Rightarrow> gval" where "g_strs xs = GSlice (map GStr xs)"
definition g_smap :: "smap \<Rightarrow> gval" where "g_smap m = GMap (map (map_prod id GStr) m)"
definition g_kinds :: "(string, smap) gomap \<Rightarrow> gval" where "g_kinds m = GMap (map (map_prod id g_smap) m)"
definition g_name :: "string \<Rightarrow> gval" where "g_name n = GStruct [(''Name'', GStr n)]"
definition g_cidr :: "string \<Rightarrow> gval" where "g_cidr c = GStruct [(''CIDR'', GStr c)]"

definition g_cluster_network :: "ClusterNetworkEntry \<Rightarrow> gval" where
  "g_cluster_network c = GStruct [(''CIDR'', GStr (cne_CIDR c)), (''HostPrefix'', GInt (cne_HostPrefix c))]"

definition g_reference :: "Reference \<Rightarrow> gval" where
  "g_reference r = GStruct [(''Name'', GStr (ref_Name r)), (''Namespace'', GStr (ref_Namespace r))]"

definition g_network :: "json \<Rightarrow> gval" where
  "g_network j =
     (let field = (\<lambda>k. case j of JObj m \<Rightarrow> map_of m k | _ \<Rightarrow> None) in
      GStruct [(''Interfaces'', GSlice (case field ''interfaces'' of Some (JArr xs) \<Rightarrow> map GOpaque xs | _ \<Rightarrow> [])),
               (''NetConfig'', GOpaque (case field ''config'' of Some c \<Rightarrow> c | None \<Rightarrow> JNull))])"

definition node_value :: "NodeSpec \<Rightarrow> gval" where
  "node_value n = GStruct
     [(''BmcAddress'', GStr (n_BmcAddress n)), (''BmcCredentialsName'', g_name (n_BmcCredentialsName n)),
      (''BootMACAddress'', GStr (n_BootMACAddress n)), (''AutomatedCleaningMode'', GStr (n_AutomatedCleaningMode n)),
      (''RootDeviceHints'', g_ptr GOpaque (n_RootDeviceHints n)), (''NodeNetwork'', g_ptr g_network (n_NodeNetwork n)),
      (''NodeLabels'', g_smap (n_NodeLabels n)), (''HostName'', GStr (n_HostName n)), (''HostRef'', g_ptr g_reference (n_HostRef n)),
      (''CPUArchitecture'', GStr (n_CPUArchitecture n)), (''BootMode'', GStr (n_BootMode n)),
      (''InstallerArgs'', GStr (n_InstallerArgs n)), (''IgnitionConfigOverride'', GStr (n_IgnitionConfigOverride n)),
      (''Role'', GStr (n_Role n)), (''ExtraAnnotations'', g_kinds (n_ExtraAnnotations n)), (''ExtraLabels'', g_kinds (n_ExtraLabels n)),
      (''SuppressedManifests'', g_strs (n_SuppressedManifests n)), (''IronicInspect'', GStr (n_IronicInspect n))]"

definition spec_value :: "ClusterInstanceSpec \<Rightarrow> gval" where
  "spec_value s = GStruct
     [(''ClusterName'', GStr (s_ClusterName s)), (''PullSecretRef'', g_name (s_PullSecretRef s)),
      (''ClusterImageSetNameRef'', GStr (s_ClusterImageSetNameRef s)), (''SSHPublicKey'', GStr (s_SSHPublicKey s)),
      (''BaseDomain'', GStr (s_BaseDomain s)), (''ApiVIPs'', g_strs (s_ApiVIPs s)), (''IngressVIPs'', g_strs (s_IngressVIPs s)),
      (''HoldInstallation'', GBool (s_HoldInstallation s)), (''AdditionalNTPSources'', g_strs (s_AdditionalNTPSources s)),
      (''MachineNetwork'', GSlice (map g_cidr (s_MachineNetwork s))),
      (''ClusterNetwork'', GSlice (map g_cluster_network (s_ClusterNetwork s))),
      (''ServiceNetwork'', GSlice (map g_cidr (s_ServiceNetwork s))), (''NetworkType'', GStr (s_NetworkType s)),
      (''PlatformType'', GStr (s_PlatformType s)), (''ExtraAnnotations'', g_kinds (s_ExtraAnnotations s)),
      (''ExtraLabels'', g_kinds (s_ExtraLabels s)), (''InstallConfigOverrides'', GStr (s_InstallConfigOverrides s)),
      (''IgnitionConfigOverride'', GStr (s_IgnitionConfigOverride s)), (''Proxy'', g_ptr GOpaque (s_Proxy s)),
      (''ExtraManifestsRefs'', GSlice (map g_name (s_ExtraManifestsRefs s))), (''SuppressedManifests'', g_strs (s_SuppressedManifests s)),
      (''CPUPartitioning'', GStr (s_CPUPartitioning s)), (''CPUArchitecture'', GStr (s_CPUArchitecture s)),
      (''ClusterType'', GStr (s_ClusterType s)), (''CaBundleRef'', g_ptr g_name (s_CaBundleRef s))]"

definition data_value :: "ClusterData \<Rightarrow> gval" where
  "data_value d =
     (let sv = cd_SpecialVars d in
      GStruct [(''Spec'', spec_value (cd_Spec d)),
        (''SpecialVars'', GStruct
           [(''CurrentNode'', node_value (sv_CurrentNode sv)), (''InstallConfigOverrides'', GStr (sv_InstallConfigOverrides sv)),
            (''ReleaseImage'', GStr (sv_ReleaseImage sv)), (''ControlPlaneAgents'', GInt (sv_ControlPlaneAgents sv)),
            (''WorkerAgents'', GInt (sv_WorkerAgents sv)), (''ArbiterAgents'', GInt (sv_ArbiterAgents sv))])])"

text \<open>The parser and the executor of \<open>text/template\<close>, as the engine calls them.\<close>

definition go_Parse :: "string \<Rightarrow> string \<Rightarrow> err option" where
  "go_Parse key s = (case parse_template s of None \<Rightarrow> Some (ErrNew (''template: '' @ key)) | Some ns \<Rightarrow> None)"

definition go_Execute :: "tfuncs \<Rightarrow> string \<Rightarrow> string \<Rightarrow> ClusterData \<Rightarrow> err + string" where
  "go_Execute F key s d =
     (case parse_template s of None \<Rightarrow> Inl (ErrNew (''template: '' @ key)) | Some ns \<Rightarrow> execute F (GPtr (data_value d)) ns)"

section \<open>Lemmas\<close>

lemma data_parts_ty:
  "has_ty name_ty (g_name n)" "has_ty cidr_ty (g_cidr c)" "has_ty reference_ty (g_reference r)" "has_ty network_ty (g_network j)"
  "has_ty (YSlice YStr) (g_strs xs)" "has_ty (YMap YStr) (g_smap m)"
  by (auto simp: name_ty_def cidr_ty_def reference_ty_def network_ty_def g_name_def g_cidr_def g_reference_def g_network_def
      g_strs_def g_smap_def has_ty_simps Let_def)

lemma g_kinds_ty: "has_ty (YMap (YMap YStr)) (g_kinds m)"
  by (auto simp: g_kinds_def has_ty_simps(8) [of "YMap YStr"] data_parts_ty)

lemma g_ptr_ty: "(\<And>x. has_ty t (f x)) \<Longrightarrow> has_ty (YPtr t) (g_ptr f v)"
  by (auto simp: g_ptr_def has_ty_simps(6) split: option.split)

lemma slice_ty: "(\<And>x. has_ty t (f x)) \<Longrightarrow> has_ty (YSlice t) (GSlice (map f xs))"
  by (auto simp: has_ty_simps(7))

lemmas value_tys = data_parts_ty g_kinds_ty g_ptr_ty slice_ty has_ty_simps(1-3)

lemma node_value_ty: "has_ty NodeSpec_ty (node_value n)"
  unfolding NodeSpec_ty_def node_value_def has_ty_simps(5) by (simp add: value_tys)

lemma spec_value_ty: "has_ty ClusterInstanceSpec_ty (spec_value s)"
  unfolding ClusterInstanceSpec_ty_def spec_value_def has_ty_simps(5) by (simp add: value_tys)

lemma data_value_ty: "has_ty ClusterData_ty (data_value d)"
  unfolding ClusterData_ty_def ClusterData_fields_def data_value_def SpecialVars_ty_def Let_def has_ty_simps(5)
  by (simp add: spec_value_ty node_value_ty has_ty_simps(1-3,5))

lemma ai_AgentClusterInstall_renders: "renders ClusterData_ty ai_AgentClusterInstall"
  unfolding ai_AgentClusterInstall_def ClusterData_ty_def by (rule lines_ok_renders) code_simp

lemma ai_ClusterDeployment_renders: "renders ClusterData_ty ai_ClusterDeployment"
  unfolding ai_ClusterDeployment_def ClusterData_ty_def by (rule lines_ok_renders) code_simp

lemma ai_KlusterletAddonConfig_renders: "renders ClusterData_ty ai_KlusterletAddonConfig"
  unfolding ai_KlusterletAddonConfig_def ClusterData_ty_def by (rule lines_ok_renders) code_simp

lemma ai_ManagedCluster_renders: "renders ClusterData_ty ai_ManagedCluster"
  unfolding ai_ManagedCluster_def ClusterData_ty_def by (rule lines_ok_renders) code_simp

lemma ai_InfraEnv_renders: "renders ClusterData_ty ai_InfraEnv"
  unfolding ai_InfraEnv_def ClusterData_ty_def by (rule lines_ok_renders) code_simp

lemma ai_NMStateConfig_renders: "renders ClusterData_ty ai_NMStateConfig"
  unfolding ai_NMStateConfig_def ClusterData_ty_def by (rule lines_ok_renders) code_simp

lemma ai_BareMetalHost_renders: "renders ClusterData_ty ai_BareMetalHost"
  unfolding ai_BareMetalHost_def ClusterData_ty_def by (rule lines_ok_renders) code_simp

lemma ibi_ClusterDeployment_renders: "renders ClusterData_ty ibi_ClusterDeployment"
  unfolding ibi_ClusterDeployment_def ClusterData_ty_def by (rule lines_ok_renders) code_simp

lemma ibi_KlusterletAddonConfig_renders: "renders ClusterData_ty ibi_KlusterletAddonConfig"
  unfolding ibi_KlusterletAddonConfig_def ClusterData_ty_def by (rule lines_ok_renders) code_simp

lemma ibi_ManagedCluster_renders: "renders ClusterData_ty ibi_ManagedCluster"
  unfolding ibi_ManagedCluster_def ClusterData_ty_def by (rule lines_ok_renders) code_simp

lemma ibi_ImageClusterInstall_renders: "renders ClusterData_ty ibi_ImageClusterInstall"
  unfolding ibi_ImageClusterInstall_def ClusterData_ty_def by (rule lines_ok_renders) code_simp

lemma ibi_BareMetalHost_renders: "renders ClusterData_ty ibi_BareMetalHost"
  unfolding ibi_BareMetalHost_def ClusterData_ty_def by (rule lines_ok_renders) code_simp

lemma ibi_NetworkSecret_renders: "renders ClusterData_ty ibi_NetworkSecret"
  unfolding ibi_NetworkSecret_def ClusterData_ty_def by (rule lines_ok_renders) code_simp

lemma hcp_HostedCluster_renders: "renders ClusterData_ty hcp_HostedCluster"
  unfolding hcp_HostedCluster_def ClusterData_ty_def by (rule lines_ok_renders) code_simp

lemma hcp_KlusterletAddonConfig_renders: "renders ClusterData_ty hcp_KlusterletAddonConfig"
  unfolding hcp_KlusterletAddonConfig_def ClusterData_ty_def by (rule lines_ok_renders) code_simp

lemma hcp_ManagedCluster_renders: "renders ClusterData_ty hcp_ManagedCluster"
  unfolding hcp_ManagedCluster_def ClusterData_ty_def by (rule lines_ok_renders) code_simp

lemma hcp_SshPubKeySecret_renders: "renders ClusterData_ty hcp_SshPubKeySecret"
  unfolding hcp_SshPubKeySecret_def ClusterData_ty_def by (rule lines_ok_renders) code_simp

lemma hcp_InfraEnv_renders: "renders ClusterData_ty hcp_InfraEnv"
  unfolding hcp_InfraEnv_def ClusterData_ty_def by (rule lines_ok_renders) code_simp

lemma hcp_NodePool_renders: "renders ClusterData_ty hcp_NodePool"
  unfolding hcp_NodePool_def ClusterData_ty_def by (rule lines_ok_renders) code_simp

lemma hcp_NMStateConfig_renders: "renders ClusterData_ty hcp_NMStateConfig"
  unfolding hcp_NMStateConfig_def ClusterData_ty_def by (rule lines_ok_renders) code_simp

lemma hcp_BareMetalHost_renders: "renders ClusterData_ty hcp_BareMetalHost"
  unfolding hcp_BareMetalHost_def ClusterData_ty_def by (rule lines_ok_renders) code_simp

lemmas templates_render =
  ai_AgentClusterInstall_renders
  ai_ClusterDeployment_renders
  ai_KlusterletAddonConfig_renders
  ai_ManagedCluster_renders
  ai_InfraEnv_renders
  ai_NMStateConfig_renders
  ai_BareMetalHost_renders
  ibi_ClusterDeployment_renders
  ibi_KlusterletAddonConfig_renders
  ibi_ManagedCluster_renders
  ibi_ImageClusterInstall_renders
  ibi_BareMetalHost_renders
  ibi_NetworkSecret_renders
  hcp_HostedCluster_renders
  hcp_KlusterletAddonConfig_renders
  hcp_ManagedCluster_renders
  hcp_SshPubKeySecret_renders
  hcp_InfraEnv_renders
  hcp_NodePool_renders
  hcp_NMStateConfig_renders
  hcp_BareMetalHost_renders

lemma default_templates_render_all: "list_all (\<lambda>p. list_all (\<lambda>q. renders ClusterData_ty (snd q)) (snd p)) default_templates"
  by (simp add: default_templates_def ai_GetClusterTemplates_def ai_GetNodeTemplates_def ibi_GetClusterTemplates_def
      ibi_GetNodeTemplates_def hcp_GetClusterTemplates_def hcp_GetNodeTemplates_def templates_render)

section \<open>The property\<close>

text \<open>C19: The installation templates the operator ships are well typed: with the functions of the sprig library
  behaving as documented, each of them parses, and executing it succeeds on the data of every ClusterInstance and
  every node. No template reads a field that the data does not have, follows a pointer that may be nil, or calls an
  unknown function; so the engine fails on a shipped template only in decoding or validating what was rendered.\<close>

theorem default_templates_render:
  assumes "sprig_ok F" "tv_Parse env = go_Parse" "tv_Execute env = go_Execute F"
    "(cm, templates) \<in> set default_templates" "(key, t) \<in> set templates"
  shows "ParseTemplate env key t = None \<and> (\<exists>out. tv_Execute env key t data = Inr out)"
proof -
  have "renders ClusterData_ty t" using default_templates_render_all assms(4,5) by (fastforce simp: list_all_iff)
  then show ?thesis using assms(1-3) data_value_ty
    by (fastforce simp: renders_def ParseTemplate_def go_Parse_def go_Execute_def)
qed

text \<open>Functions with the signatures of the library.\<close>

definition sample_sprig :: "string \<Rightarrow> gval list \<Rightarrow> err + gval" where
  "sample_sprig f args =
     (case args of
        [] \<Rightarrow> Inr (GSlice [])
      | [GSlice xs, v] \<Rightarrow> Inr (GSlice (xs @ [v]))
      | [GInt n, GStr s] \<Rightarrow> Inr (GStr (replicate (nat n) (CHR '' '') @ s))
      | [GStr s] \<Rightarrow> Inr (GStr s)
      | _ \<Rightarrow> Inl (wrong_arguments f))"

definition sample_tfuncs :: tfuncs where
  "sample_tfuncs = \<lparr>tf_Marshal = (\<lambda>v. Inr ''yaml''), tf_call = sample_sprig, tf_format = (\<lambda>v. [])\<rparr>"

lemma sprig_signatures:
  "sprig_ty f ts = Some t \<Longrightarrow> (ts, t) \<in> {([YNat, YStr], YStr), ([YStr], YStr), ([], YSlice YAny), ([YSlice YAny, YStr], YSlice YAny)}"
  unfolding sprig_ty_def by (simp split: if_splits)

lemma sample_sprig_ok: "sprig_ok sample_tfuncs"
  unfolding sprig_ok_def
proof (intro allI impI)
  fix f ts t args assume "sprig_ty f ts = Some t" and args: "list_all2 has_ty ts args"
  then have "(ts, t) \<in> {([YNat, YStr], YStr), ([YStr], YStr), ([], YSlice YAny), ([YSlice YAny, YStr], YSlice YAny)}"
    by (intro sprig_signatures)
  then show "\<exists>v. tf_call sample_tfuncs f args = Inr v \<and> has_ty t v"
    using args by (auto simp: sample_tfuncs_def sample_sprig_def list_all2_Cons1 has_ty_simps)
qed

definition sample_data :: ClusterData where
  "sample_data = \<lparr>cd_Spec = sample_spec, cd_SpecialVars = \<lparr>sv_CurrentNode = sample_node, sv_InstallConfigOverrides = [],
     sv_ReleaseImage = [], sv_ControlPlaneAgents = 1, sv_WorkerAgents = 0, sv_ArbiterAgents = 0\<rparr>\<rparr>"

definition go_tenv :: template_env where
  "go_tenv = sample_tenv\<lparr>tv_Parse := go_Parse, tv_Execute := go_Execute sample_tfuncs\<rparr>"

theorem default_templates_render_witness:
  "ParseTemplate go_tenv ''BareMetalHost'' ai_BareMetalHost = None
   \<and> (\<exists>out. tv_Execute go_tenv ''BareMetalHost'' ai_BareMetalHost sample_data = Inr out)"
proof (rule default_templates_render [OF sample_sprig_ok])
  show "tv_Parse go_tenv = go_Parse" "tv_Execute go_tenv = go_Execute sample_tfuncs" by (simp_all add: go_tenv_def)
  show "(ai_NodeLevelInstallTemplates, ai_GetNodeTemplates) \<in> set default_templates" by (simp add: default_templates_def)
  show "(''BareMetalHost'', ai_BareMetalHost) \<in> set ai_GetNodeTemplates" by (simp add: ai_GetNodeTemplates_def)
qed

end
