(* ===== verification/Startup.thy ===== *)
theory Startup
  imports Configuration Install_Templates
begin

text \<open>
  The steps of \<open>cmd/main.go\<close> that write to the cluster before the manager starts: the installation
  templates are stored as immutable ConfigMaps, and the configuration store is filled. Building the manager, its
  servers and controllers is left to controller-runtime. A Go map is iterated in an arbitrary order, so the templates
  are a parameter of the loop.
\<close>

definition IgnoreAlreadyExists :: "err option \<Rightarrow> err option" where
  "IgnoreAlreadyExists eo =
     (case eo of None \<Rightarrow> None | Some e \<Rightarrow> if as_api_status e = Some AlreadyExists then None else Some e)"

definition DefaultBackoff :: nat where "DefaultBackoff = 4"

definition getSiteConfigNamespace :: "string option \<Rightarrow> string" where
  "getSiteConfigNamespace podNamespace = (case podNamespace of None \<Rightarrow> [] | Some namespace \<Rightarrow> namespace)"

section \<open>The template ConfigMaps\<close>

definition template_key :: "string \<Rightarrow> string \<Rightarrow> objkey" where
  "template_key namespace name = ObjKey ''v1'' ''ConfigMap'' namespace name"

definition delete_attempt :: "string \<Rightarrow> string \<Rightarrow> world \<Rightarrow> (err + unit) \<times> world" where
  "delete_attempt namespace name w =
     (case Delete (template_key namespace name) w of
        (eo, w') \<Rightarrow>
          (case IgnoreAlreadyExists eo of
             Some e \<Rightarrow> (Inl (ErrWrap (''failed to delete ConfigMap '' @ namespace @ ''/'' @ name @ '': '') e), w')
           | None \<Rightarrow> (Inr (), w')))"

definition deleteConfigMap :: "string \<Rightarrow> string \<Rightarrow> world \<Rightarrow> err option \<times> world" where
  "deleteConfigMap namespace name w =
     (case Get (template_key namespace name) w of
        (Inl e, w') \<Rightarrow> (None, w')
      | (Inr cm, w') \<Rightarrow>
          (case RetryOnConflictOrRetriable DefaultBackoff (delete_attempt namespace name) w' of
             (Inl e, w'') \<Rightarrow> (Some (ErrWrap (''failed to delete ConfigMap '' @ namespace @ ''/'' @ name @ '', error: '') e), w'')
           | (Inr u, w'') \<Rightarrow> (None, w'')))"

definition template_config_map :: "string \<Rightarrow> string \<Rightarrow> smap \<Rightarrow> kobject" where
  "template_config_map namespace k v = (new_object ''v1'' ''ConfigMap'' namespace k)\<lparr>o_Immutable := True, o_Data := v\<rparr>"

definition create_attempt :: "kobject \<Rightarrow> world \<Rightarrow> (err + unit) \<times> world" where
  "create_attempt configMap w =
     (case Create configMap w of
        (r, w') \<Rightarrow>
          (case IgnoreAlreadyExists (case r of Inl e \<Rightarrow> Some e | Inr x \<Rightarrow> None) of
             Some e \<Rightarrow> (Inl (ErrWrap ''failed to create ConfigMap: '' e), w')
           | None \<Rightarrow> (Inr (), w')))"

fun initConfigMapTemplates :: "(string \<times> smap) list \<Rightarrow> string \<Rightarrow> world \<Rightarrow> err option \<times> world" where
  "initConfigMapTemplates [] namespace w = (None, w)"
| "initConfigMapTemplates ((k, v) # templates) namespace w =
     (case deleteConfigMap namespace k w of
        (Some e, w') \<Rightarrow>
          (Some (ErrWrap (''failed to delete default reference installation template ConfigMap '' @ namespace @ ''/'' @ k @ '', error: '') e), w')
      | (None, w') \<Rightarrow>
          (case RetryOnConflictOrRetriable DefaultBackoff (create_attempt (template_config_map namespace k v)) w' of
             (Inl e, w'') \<Rightarrow>
               (Some (ErrWrap (''failed to create default reference installation template ConfigMap '' @ namespace @ ''/'' @ k @ '', error: '') e), w'')
           | (Inr u, w'') \<Rightarrow> initConfigMapTemplates templates namespace w''))"

section \<open>The configuration store\<close>

definition initialize_attempt :: "string \<Rightarrow> world \<Rightarrow> (err + smap) \<times> world" where
  "initialize_attempt namespace w =
     (case GetConfigurationData namespace w of
        (Inr data, w') \<Rightarrow> (Inr data, w')
      | (Inl e, w') \<Rightarrow>
          if IsNotFound e then
            (case CreateDefaultConfigurationConfigMap namespace w' of
               (Some createErr, w'') \<Rightarrow> (Inl (ErrWrap ''failed to create default configuration ConfigMap: '' createErr), w'')
             | (None, w'') \<Rightarrow> (Inr (ToMap NewDefaultConfiguration), w''))
          else (Inl (ErrWrap ''failed to retrieve configuration ConfigMap: '' e), w'))"

definition initializeConfiguration :: "string \<Rightarrow> world \<Rightarrow> (err + smap) \<times> world" where
  "initializeConfiguration namespace w = RetryOnConflictOrRetriable DefaultBackoff (initialize_attempt namespace) w"

definition createConfigurationStore :: "string \<Rightarrow> world \<Rightarrow> (err + ConfigurationStore) \<times> world" where
  "createConfigurationStore namespace w =
     (case initializeConfiguration namespace w of
        (Inl e, w') \<Rightarrow> (Inl (ErrWrap ''failed to initialize configuration: '' e), w')
      | (Inr data, w') \<Rightarrow>
          ((if data = [] then Inl (ErrNew ''configuration data is empty'')
            else case FromMap data \<lparr>allowReinstalls = False, maxConcurrentReconciles = 0\<rparr> of
              (Some e, config) \<Rightarrow> Inl (ErrWrap ''failed to parse SiteConfig Operator configuration: '' e)
            | (None, config) \<Rightarrow>
                (case NewConfigurationStore (Some config) of
                   Inl e \<Rightarrow> Inl (ErrWrap ''failed to create configuration store: '' e)
                 | Inr store \<Rightarrow> Inr store)), w'))"

text \<open>The part of \<open>run\<close> between the manager and the controllers.\<close>

definition run_initialize :: "(string \<times> smap) list \<Rightarrow> string option \<Rightarrow> world \<Rightarrow> (err + ConfigurationStore) \<times> world" where
  "run_initialize templates podNamespace w =
     (let siteConfigNamespace = getSiteConfigNamespace podNamespace in
      if siteConfigNamespace = [] then (Inl (ErrNew ''unable to retrieve the SiteConfig Operator namespace''), w)
      else case initConfigMapTemplates templates siteConfigNamespace w of
        (Some e, w') \<Rightarrow> (Inl (ErrWrap ''unable to initialize the default reference installation template ConfigMaps: '' e), w')
      | (None, w') \<Rightarrow>
          (case createConfigurationStore siteConfigNamespace w' of
             (Inl e, w'') \<Rightarrow> (Inl (ErrWrap ''failed to initialize the ConfigurationStore for the SiteConfig Operator: '' e), w'')
           | (Inr sharedConfigStore, w'') \<Rightarrow> (Inr sharedConfigStore, w'')))"

section \<open>Lemmas\<close>

text \<open>An attempt that succeeds at once is the result of the retries.\<close>

lemma DefaultBackoff_Suc: "DefaultBackoff = Suc (Suc 2)"
  by (simp add: DefaultBackoff_def)

lemma retry_success: "fn w = (Inr x, w') \<Longrightarrow> RetryOnConflictOrRetriable DefaultBackoff fn w = (Inr x, w')"
  by (simp only: RetryOnConflictOrRetriable_def DefaultBackoff_Suc OnError.simps prod.case sum.case)

text \<open>What is stored for a template: immutable, with the shipped texts.\<close>

definition installed :: "string \<Rightarrow> string \<times> smap \<Rightarrow> world \<Rightarrow> bool" where
  "installed namespace p w \<longleftrightarrow>
     (\<exists>cm. map_of (w_objs w) (template_key namespace (fst p)) = Some cm \<and> o_Immutable cm \<and> o_Data cm = snd p)"

definition removable :: "string \<Rightarrow> string \<Rightarrow> world \<Rightarrow> bool" where
  "removable namespace k w \<longleftrightarrow>
     (case map_of (w_objs w) (template_key namespace k) of None \<Rightarrow> True | Some cm \<Rightarrow> om_Finalizers (o_Meta cm) = [])"

lemma deleteConfigMap_no_fault:
  assumes "w_faults w = []" "removable namespace k w"
  shows "\<exists>w'. deleteConfigMap namespace k w = (None, w') \<and> w_faults w' = []
    \<and> map_of (w_objs w') = (map_of (w_objs w))(template_key namespace k := None) \<and> w_cis w' = w_cis w"
proof (cases "map_of (w_objs w) (template_key namespace k)")
  case None
  then show ?thesis using assms(1) by (auto simp: deleteConfigMap_def Get_def)
next
  case (Some cm)
  then have "delete_attempt namespace k w = (Inr (), w\<lparr>w_objs := gdel (template_key namespace k) (w_objs w)\<rparr>)"
    using assms by (simp add: delete_attempt_def Delete_def removable_def IgnoreAlreadyExists_def)
  then show ?thesis using Some assms(1) by (simp add: deleteConfigMap_def Get_def retry_success)
qed

lemma create_no_fault:
  assumes "w_faults w = []" "map_of (w_objs w) (template_key namespace k) = None"
  shows "\<exists>w' cm. create_attempt (template_config_map namespace k v) w = (Inr (), w') \<and> w_faults w' = []
    \<and> map_of (w_objs w') = (map_of (w_objs w))(template_key namespace k \<mapsto> cm) \<and> o_Immutable cm \<and> o_Data cm = v
    \<and> om_Finalizers (o_Meta cm) = [] \<and> w_cis w' = w_cis w"
proof -
  have "okey (template_config_map namespace k v) = template_key namespace k"
    by (simp add: template_config_map_def new_object_def okey_def template_key_def empty_meta_def)
  then show ?thesis using assms
    by (auto simp: create_attempt_def Create_def ghas_def IgnoreAlreadyExists_def Let_def template_config_map_def new_object_def
        empty_meta_def)
qed

lemma init_no_fault:
  assumes "w_faults w = []" "\<forall>p \<in> set templates. removable namespace (fst p) w" "distinct (map fst templates)"
  shows "\<exists>w'. initConfigMapTemplates templates namespace w = (None, w') \<and> w_faults w' = [] \<and> w_cis w' = w_cis w
    \<and> (\<forall>p \<in> set templates. installed namespace p w')
    \<and> (\<forall>key. key \<notin> template_key namespace ` fst ` set templates \<longrightarrow> map_of (w_objs w') key = map_of (w_objs w) key)"
  using assms
proof (induction templates arbitrary: w)
  case (Cons p templates)
  obtain k v where p: "p = (k, v)" by fastforce
  obtain w1 where d: "deleteConfigMap namespace k w = (None, w1)" "w_faults w1 = []" "w_cis w1 = w_cis w"
    "map_of (w_objs w1) = (map_of (w_objs w))(template_key namespace k := None)"
    using deleteConfigMap_no_fault Cons.prems(1,2) p by fastforce
  obtain w2 cm where c: "create_attempt (template_config_map namespace k v) w1 = (Inr (), w2)" "w_faults w2 = []" "w_cis w2 = w_cis w1"
    "map_of (w_objs w2) = (map_of (w_objs w1))(template_key namespace k \<mapsto> cm)" "o_Immutable cm" "o_Data cm = v"
    using create_no_fault [OF d(2), of namespace k v] d(4) by auto
  have step: "initConfigMapTemplates (p # templates) namespace w = initConfigMapTemplates templates namespace w2"
    using d(1) c(1) p by (simp add: retry_success)
  have other: "map_of (w_objs w2) key = map_of (w_objs w) key" if "key \<noteq> template_key namespace k" for key
    using that c(4) d(4) by simp
  have key: "template_key namespace j = template_key namespace k \<longleftrightarrow> j = k" for j by (simp add: template_key_def)
  have notin: "k \<notin> fst ` set templates" using Cons.prems(3) p by simp
  have "removable namespace j w2 = removable namespace j w" if "j \<noteq> k" for j
    unfolding removable_def using other key that by simp
  then have "\<forall>q \<in> set templates. removable namespace (fst q) w2" using Cons.prems(2) notin by (metis image_eqI list.set_intros(2))
  then obtain w' where w': "initConfigMapTemplates templates namespace w2 = (None, w')" "w_faults w' = []" "w_cis w' = w_cis w2"
    "\<forall>q \<in> set templates. installed namespace q w'"
    "\<forall>key. key \<notin> template_key namespace ` fst ` set templates \<longrightarrow> map_of (w_objs w') key = map_of (w_objs w2) key"
    using Cons.IH [OF c(2)] Cons.prems(3) by auto
  have "template_key namespace k \<notin> template_key namespace ` fst ` set templates"
    using notin by (auto simp: template_key_def)
  then have "installed namespace p w'" using w'(5) c(4-6) p by (simp add: installed_def)
  then show ?case using step w' other c(3) d(3) p by auto
qed simp

text \<open>The configuration ConfigMap without failures.\<close>

definition holds_configuration :: "string \<Rightarrow> configuration \<Rightarrow> world \<Rightarrow> bool" where
  "holds_configuration namespace c w \<longleftrightarrow>
     (\<exists>cm. map_of (w_objs w) (config_key namespace) = Some cm \<and> o_Data cm = ToMap c)"

lemma ToMap_not_Nil [simp]: "ToMap c \<noteq> []"
  by (simp add: ToMap_def)

lemma GetConfigurationData_stored:
  assumes "w_faults w = []" "holds_configuration namespace c w"
  shows "GetConfigurationData namespace w = (Inr (ToMap c), w)"
  using assms by (auto simp: GetConfigurationData_def Get_def holds_configuration_def)

lemma store_from_data:
  assumes "initialize_attempt namespace w = (Inr (ToMap c), w')" "in_int64 (maxConcurrentReconciles c)"
  shows "createConfigurationStore namespace w = (Inr \<lparr>cs_configuration = c\<rparr>, w')"
  using assms by (simp add: createConfigurationStore_def initializeConfiguration_def retry_success FromMap_ToMap NewConfigurationStore_def)

lemma store_from_stored:
  assumes "w_faults w = []" "holds_configuration namespace c w" "in_int64 (maxConcurrentReconciles c)"
  shows "createConfigurationStore namespace w = (Inr \<lparr>cs_configuration = c\<rparr>, w)"
    and "monitor_Reconcile SiteConfigOperatorConfigMap namespace \<lparr>cs_configuration = c\<rparr> w = (zero_result, None, \<lparr>cs_configuration = c\<rparr>, w)"
  using GetConfigurationData_stored [OF assms(1,2)] assms(3)
  by (simp_all add: store_from_data initialize_attempt_def monitor_Reconcile_def update_follows_FromMap FromMap_ToMap)

lemma store_from_default:
  assumes "w_faults w = []" "map_of (w_objs w) (config_key namespace) = None"
  shows "\<exists>w'. createConfigurationStore namespace w = (Inr \<lparr>cs_configuration = NewDefaultConfiguration\<rparr>, w')
    \<and> w_faults w' = [] \<and> holds_configuration namespace NewDefaultConfiguration w'"
proof -
  let ?cm = "(new_object ''v1'' ''ConfigMap'' namespace SiteConfigOperatorConfigMap)\<lparr>o_Data := ToMap NewDefaultConfiguration\<rparr>"
  have key: "okey ?cm = config_key namespace" by (simp add: okey_def new_object_def empty_meta_def config_key_def)
  obtain cm w' where c: "Create ?cm w = (Inr cm, w')" "w_faults w' = []" "map_of (w_objs w') (config_key namespace) = Some cm"
    "o_Data cm = ToMap NewDefaultConfiguration"
    using assms key by (auto simp: Create_def ghas_def Let_def)
  have "initialize_attempt namespace w = (Inr (ToMap NewDefaultConfiguration), w')"
    using assms c(1) by (simp add: initialize_attempt_def GetConfigurationData_def Get_def not_found_def CreateDefaultConfigurationConfigMap_def)
  moreover have "in_int64 (maxConcurrentReconciles NewDefaultConfiguration)" by code_simp
  ultimately show ?thesis using store_from_data c by (auto simp: holds_configuration_def)
qed

section \<open>The properties\<close>

text \<open>C31: A start of the operator installs exactly the shipped templates: when no request fails and no old template
  ConfigMap is held by a finalizer, storing the six template maps, in whatever order, succeeds, and each ConfigMap
  then is immutable and has the shipped texts, whatever was stored under its name before; no other object and no
  ClusterInstance is changed.\<close>

theorem startup_installs_templates:
  assumes "w_faults w = []" "mset templates = mset default_templates" "\<forall>p \<in> set default_templates. removable namespace (fst p) w"
  shows "\<exists>w'. initConfigMapTemplates templates namespace w = (None, w') \<and> w_cis w' = w_cis w
    \<and> (\<forall>p \<in> set default_templates. installed namespace p w')
    \<and> (\<forall>key. key \<notin> template_key namespace ` fst ` set default_templates \<longrightarrow> map_of (w_objs w') key = map_of (w_objs w) key)"
proof -
  have "distinct (map fst default_templates)" by code_simp
  then have "distinct (map fst templates)" using assms(2) by (metis mset_map mset_eq_imp_distinct_iff)
  moreover have "set templates = set default_templates" using assms(2) by (rule mset_eq_setD)
  ultimately show ?thesis using init_no_fault [OF assms(1), of templates namespace] assms(3) by metis
qed

definition old_template :: kobject where
  "old_template = (new_object ''v1'' ''ConfigMap'' ''op'' ai_ClusterLevelInstallTemplates)\<lparr>o_Immutable := True, o_Data := [(''k'', ''old'')]\<rparr>"

definition old_world :: "err option list \<Rightarrow> world" where
  "old_world faults = \<lparr>w_now = 9, w_faults = faults, w_objs = [(okey old_template, old_template)], w_cis = []\<rparr>"

theorem startup_installs_templates_witness:
  "\<exists>w'. initConfigMapTemplates default_templates ''op'' (old_world []) = (None, w')
    \<and> installed ''op'' (ai_ClusterLevelInstallTemplates, ai_GetClusterTemplates) w'"
proof -
  have "w_faults (old_world []) = []" "list_all (\<lambda>p. removable ''op'' (fst p) (old_world [])) default_templates" by code_simp+
  moreover have "(ai_ClusterLevelInstallTemplates, ai_GetClusterTemplates) \<in> set default_templates" by (simp add: default_templates_def)
  ultimately show ?thesis
    using startup_installs_templates [of "old_world []" default_templates "''op''"] by (force simp: list_all_iff)
qed

text \<open>An outage during the start keeps an outdated template: when reading the stored ConfigMap of a template fails,
  it is not deleted; creating the new one then answers that the ConfigMap exists, which is ignored. Storing the
  template reports success and the old texts stay, until the operator is started again.\<close>

theorem startup_keeps_stale_template:
  assumes "map_of (w_objs w) (template_key namespace k) = Some old" "w_faults w = [Some e]"
  shows "\<exists>w'. initConfigMapTemplates [(k, v)] namespace w = (None, w') \<and> map_of (w_objs w') (template_key namespace k) = Some old"
proof -
  let ?w = "w\<lparr>w_faults := []\<rparr>"
  have "deleteConfigMap namespace k w = (None, ?w)" using assms(2) by (simp add: deleteConfigMap_def Get_def next_fault_def)
  moreover have "okey (template_config_map namespace k v) = template_key namespace k"
    by (simp add: template_config_map_def new_object_def okey_def template_key_def empty_meta_def)
  then have "create_attempt (template_config_map namespace k v) ?w = (Inr (), ?w)"
    using assms(1) by (simp add: create_attempt_def Create_def ghas_def IgnoreAlreadyExists_def)
  ultimately show ?thesis using assms(1) by (simp add: retry_success)
qed

theorem startup_keeps_stale_template_witness:
  "\<exists>w'. initConfigMapTemplates [(ai_ClusterLevelInstallTemplates, ai_GetClusterTemplates)] ''op''
        (old_world [Some (ErrAPI ServiceUnavailable [])]) = (None, w')
    \<and> map_of (w_objs w') (template_key ''op'' ai_ClusterLevelInstallTemplates) = Some old_template"
proof (rule startup_keeps_stale_template)
  show "map_of (w_objs (old_world [Some (ErrAPI ServiceUnavailable [])])) (template_key ''op'' ai_ClusterLevelInstallTemplates) = Some old_template"
    by code_simp
  show "w_faults (old_world [Some (ErrAPI ServiceUnavailable [])]) = [Some (ErrAPI ServiceUnavailable [])]" by code_simp
qed

text \<open>C32: The configuration survives the way through the ConfigMap: a start without a stored configuration creates
  the ConfigMap and gives a store with the defaults, and a start with a stored configuration gives a store with
  exactly that configuration; in both cases the monitor, when it reads the ConfigMap afterwards, leaves the store
  as it is, and so does a second start.\<close>

theorem startup_configuration_round_trip:
  assumes "w_faults w = []" "in_int64 (maxConcurrentReconciles c)"
    "c = NewDefaultConfiguration \<and> map_of (w_objs w) (config_key namespace) = None \<or> holds_configuration namespace c w"
  shows "\<exists>w'. createConfigurationStore namespace w = (Inr \<lparr>cs_configuration = c\<rparr>, w')
    \<and> monitor_Reconcile SiteConfigOperatorConfigMap namespace \<lparr>cs_configuration = c\<rparr> w' = (zero_result, None, \<lparr>cs_configuration = c\<rparr>, w')
    \<and> createConfigurationStore namespace w' = (Inr \<lparr>cs_configuration = c\<rparr>, w')"
proof -
  obtain w' where "createConfigurationStore namespace w = (Inr \<lparr>cs_configuration = c\<rparr>, w')" "w_faults w' = []"
    "holds_configuration namespace c w'"
    using store_from_default [OF assms(1)] store_from_stored(1) [OF assms(1) _ assms(2)] assms(1,3) by blast
  then show ?thesis using store_from_stored assms(2) by blast
qed

theorem startup_configuration_round_trip_witness:
  "\<exists>w'. createConfigurationStore ''op'' (old_world []) = (Inr \<lparr>cs_configuration = NewDefaultConfiguration\<rparr>, w')
    \<and> createConfigurationStore ''op'' w' = (Inr \<lparr>cs_configuration = NewDefaultConfiguration\<rparr>, w')"
proof -
  have "w_faults (old_world []) = []" "in_int64 (maxConcurrentReconciles NewDefaultConfiguration)"
    "map_of (w_objs (old_world [])) (config_key ''op'') = None" by code_simp+
  then show ?thesis using startup_configuration_round_trip [of "old_world []" NewDefaultConfiguration "''op''"] by blast
qed

end
