(* ===== verification/Operator.thy ===== *)
theory Operator
  imports Startup Watches
begin

text \<open>
  The start of the operator in \<open>cmd/main.go\<close> as a whole: \<open>run\<close> from the clients to \<open>mgr.Start\<close>, with the
  registration of the controllers. What controller-runtime and the TLS library answer to each set-up call is a
  field of \<open>run_env\<close>; the flags only choose addresses, certificates and HTTP/2 and are not modelled.
\<close>

section \<open>The controllers\<close>

record operator =
  op_monitor :: monitor_controller
  op_instances :: ci_controller
  op_deployments :: cd_controller

text \<open>The registration of the admission webhook, under the name \<open>webhook\<close>, comes last.\<close>

definition setupControllers :: "registrar \<Rightarrow> ConfigurationStore \<Rightarrow> string \<Rightarrow> err + operator" where
  "setupControllers Complete configStore namespace =
     (case monitor_SetupWithManager Complete namespace of
        Inl e \<Rightarrow> Inl (ErrWrap ''unable to create controller ConfigurationMonitor: '' e)
      | Inr monitor \<Rightarrow>
          (case ci_SetupWithManager Complete configStore of
             Inl e \<Rightarrow> Inl (ErrWrap ''unable to create controller ClusterInstance: '' e)
           | Inr instances \<Rightarrow>
               (case cd_SetupWithManager Complete of
                  Inl e \<Rightarrow> Inl (ErrWrap ''unable to create controller ClusterDeploymentReconciler: '' e)
                | Inr deployments \<Rightarrow>
                    (case Complete ''webhook'' of
                       Some e \<Rightarrow> Inl (ErrWrap ''unable to create webhook ClusterInstance: '' e)
                     | None \<Rightarrow> Inr \<lparr>op_monitor = monitor, op_instances = instances, op_deployments = deployments\<rparr>))))"

section \<open>run\<close>

record run_env =
  re_preMgrClient :: "err option"
  re_FetchAPIServerTLSProfile :: "err option"
  re_NewManager :: "err option"
  re_SecurityProfileWatcher :: "err option"
  re_PodNamespace :: "string option"
  re_tmpClient :: "err option"
  re_Complete :: registrar
  re_AddHealthzCheck :: "err option"
  re_AddReadyzCheck :: "err option"
  re_Start :: "err option"

text \<open>A call whose error ends the start.\<close>

definition try_call :: "err option \<Rightarrow> string \<Rightarrow> (world \<Rightarrow> (err option \<times> 'a option) \<times> world) \<Rightarrow> world
    \<Rightarrow> (err option \<times> 'a option) \<times> world" where
  "try_call call msg rest w = (case call of Some e \<Rightarrow> ((Some (ErrWrap msg e), None), w) | None \<Rightarrow> rest w)"

text \<open>The result is the error of \<open>run\<close> and the operator that \<open>mgr.Start\<close> ran, if it was reached.\<close>

definition start_manager :: "run_env \<Rightarrow> ConfigurationStore \<Rightarrow> world \<Rightarrow> (err option \<times> operator option) \<times> world" where
  "start_manager env store w =
     (case setupControllers (re_Complete env) store (getSiteConfigNamespace (re_PodNamespace env)) of
        Inl e \<Rightarrow> ((Some e, None), w)
      | Inr ops \<Rightarrow>
          try_call (re_AddHealthzCheck env) ''unable to set up health check: ''
            (try_call (re_AddReadyzCheck env) ''unable to set up ready check: ''
              (\<lambda>w. ((map_option (ErrWrap ''encountered an error starting SiteConfig manager: '') (re_Start env), Some ops), w))) w)"

definition initialize_and_start :: "run_env \<Rightarrow> (string \<times> smap) list \<Rightarrow> world \<Rightarrow> (err option \<times> operator option) \<times> world" where
  "initialize_and_start env templates w =
     (case run_initialize templates (re_PodNamespace env) w of
        (Inl e, w') \<Rightarrow> ((Some e, None), w')
      | (Inr sharedConfigStore, w') \<Rightarrow> start_manager env sharedConfigStore w')"

definition run :: "run_env \<Rightarrow> (string \<times> smap) list \<Rightarrow> world \<Rightarrow> (err option \<times> operator option) \<times> world" where
  "run env templates =
     try_call (re_preMgrClient env) ''failed to create pre-manager client: ''
      (try_call (re_FetchAPIServerTLSProfile env) ''failed to fetch cluster TLS security profile: ''
        (try_call (re_NewManager env) ''unable to start manager: ''
          (try_call (re_SecurityProfileWatcher env) ''unable to create controller SecurityProfileWatcher: ''
            (\<lambda>w. if getSiteConfigNamespace (re_PodNamespace env) = []
                 then ((Some (ErrNew ''unable to retrieve the SiteConfig Operator namespace''), None), w)
                 else try_call (re_tmpClient env) ''failed to create temporary client: ''
                   (initialize_and_start env templates) w))))"

section \<open>Lemmas\<close>

lemma try_call_reached: "try_call call msg rest w = ((err, Some x), w') \<Longrightarrow> call = None \<and> rest w = ((err, Some x), w')"
  by (auto simp: try_call_def split: option.splits)

lemma setupControllers_ok:
  assumes "setupControllers Complete store namespace = Inr ops"
  shows "namespace \<noteq> []" "op_instances ops = ci_controller_of store" "monitor_SetupWithManager Complete namespace = Inr (op_monitor ops)"
    "cd_SetupWithManager Complete = Inr (op_deployments ops)" "Complete ''webhook'' = None"
  using assms
  by (auto simp: setupControllers_def monitor_SetupWithManager_def ci_SetupWithManager_def registered_def
      split: sum.splits option.splits if_splits)

text \<open>The controllers run only after the templates and the configuration were stored, and on that configuration.\<close>

lemma started_after_initialization:
  assumes "run env templates w = ((err, Some ops), w')"
  obtains store where "run_initialize templates (re_PodNamespace env) w = (Inr store, w')"
    "op_instances ops = ci_controller_of store"
    "setupControllers (re_Complete env) store (getSiteConfigNamespace (re_PodNamespace env)) = Inr ops"
proof -
  have "initialize_and_start env templates w = ((err, Some ops), w')"
    using assms by (auto simp: run_def dest!: try_call_reached split: if_splits)
  then obtain store w1 where i: "run_initialize templates (re_PodNamespace env) w = (Inr store, w1)"
    "start_manager env store w1 = ((err, Some ops), w')"
    by (auto simp: initialize_and_start_def split: prod.splits sum.splits)
  then have s: "setupControllers (re_Complete env) store (getSiteConfigNamespace (re_PodNamespace env)) = Inr ops" "w1 = w'"
    by (auto simp: start_manager_def dest!: try_call_reached split: sum.splits)
  then show thesis using that i(1) setupControllers_ok(2) by blast
qed

lemma monitor_stores:
  assumes "w_faults w = []" "holds_configuration namespace c w" "in_int64 (maxConcurrentReconciles c)"
  shows "monitor_Reconcile SiteConfigOperatorConfigMap namespace store w = (zero_result, None, \<lparr>cs_configuration = c\<rparr>, w)"
  using GetConfigurationData_stored [OF assms(1,2)] assms(3)
  by (simp add: monitor_Reconcile_def update_follows_FromMap FromMap_ToMap)

section \<open>The property\<close>

text \<open>C33: An edit of the configuration takes effect. In an operator that has started, an event for a changed ConfigMap
  reaches the configuration monitor exactly when the ConfigMap is the configuration ConfigMap of the namespace of the
  operator; reconciling it, when no request fails, replaces the configuration of the store, whatever it was, by the
  one that the ConfigMap holds; and a later start begins with that configuration. The number of workers of the
  ClusterInstance controller stays what the configuration said at the start, which stored the templates and the
  configuration before any controller ran.\<close>

theorem configuration_edit_takes_effect:
  assumes "run env templates w0 = ((err, Some ops), w1)" "namespace = getSiteConfigNamespace (re_PodNamespace env)"
    "okey cm = ObjKey ''v1'' ''ConfigMap'' ns name" "map_of (w_objs w) (okey cm) = Some cm" "o_Data cm = ToMap c"
    "in_int64 (maxConcurrentReconciles c)" "w_faults w = []"
  shows "mc_requests (op_monitor ops) (UpdateEvent old cm) = (if okey cm = config_key namespace then [(ns, name)] else [])
    \<and> (okey cm = config_key namespace \<longrightarrow>
         monitor_Reconcile name ns store w = (zero_result, None, \<lparr>cs_configuration = c\<rparr>, w)
         \<and> createConfigurationStore namespace w = (Inr \<lparr>cs_configuration = c\<rparr>, w))
    \<and> (\<exists>store0. run_initialize templates (re_PodNamespace env) w0 = (Inr store0, w1)
         \<and> cc_workers (op_instances ops) = controller_workers (maxConcurrentReconciles (cs_configuration store0)))"
proof -
  obtain store0 where s: "run_initialize templates (re_PodNamespace env) w0 = (Inr store0, w1)"
    "op_instances ops = ci_controller_of store0" "setupControllers (re_Complete env) store0 namespace = Inr ops"
    using started_after_initialization [OF assms(1)] assms(2) by blast
  have cm: "om_Namespace (o_Meta cm) = ns" "om_Name (o_Meta cm) = name" using assms(3) by (simp_all add: okey_def)
  have "mc_requests (op_monitor ops) (UpdateEvent old cm) = (if okey cm = config_key namespace then [(ns, name)] else [])"
    using monitor_requests [OF setupControllers_ok(3) [OF s(3)], of "UpdateEvent old cm"] cm assms(3)
    by (auto simp: config_key_def Let_def)
  moreover have "monitor_Reconcile name ns store w = (zero_result, None, \<lparr>cs_configuration = c\<rparr>, w)
      \<and> createConfigurationStore namespace w = (Inr \<lparr>cs_configuration = c\<rparr>, w)" if t: "okey cm = config_key namespace"
  proof -
    have n: "ns = namespace" "name = SiteConfigOperatorConfigMap" using t assms(3) by (simp_all add: config_key_def)
    have "holds_configuration namespace c w" using t assms(4,5) by (auto simp: holds_configuration_def)
    then show ?thesis unfolding n using monitor_stores store_from_stored(1) assms(6,7) by blast
  qed
  moreover have "cc_workers (op_instances ops) = controller_workers (maxConcurrentReconciles (cs_configuration store0))"
    by (simp add: s(2) ci_controller_of_def GetMaxConcurrentReconciles_def)
  ultimately show ?thesis using s(1) by blast
qed

text \<open>A start in an empty cluster, and a configuration with ten workers afterwards.\<close>

definition calm_env :: run_env where
  "calm_env = \<lparr>re_preMgrClient = None, re_FetchAPIServerTLSProfile = None, re_NewManager = None, re_SecurityProfileWatcher = None,
     re_PodNamespace = Some ''op'', re_tmpClient = None, re_Complete = (\<lambda>name. None), re_AddHealthzCheck = None,
     re_AddReadyzCheck = None, re_Start = None\<rparr>"

definition empty_world :: world where
  "empty_world = \<lparr>w_now = 1, w_faults = [], w_objs = [], w_cis = []\<rparr>"

definition ten_workers :: configuration where
  "ten_workers = \<lparr>allowReinstalls = True, maxConcurrentReconciles = 10\<rparr>"

definition ten_workers_cm :: kobject where
  "ten_workers_cm = (new_object ''v1'' ''ConfigMap'' ''op'' SiteConfigOperatorConfigMap)\<lparr>o_Data := ToMap ten_workers\<rparr>"

theorem configuration_edit_takes_effect_witness:
  "\<exists>ops w1. run calm_env [] empty_world = ((None, Some ops), w1)
     \<and> mc_requests (op_monitor ops) (UpdateEvent ten_workers_cm ten_workers_cm) = [(''op'', SiteConfigOperatorConfigMap)]
     \<and> monitor_Reconcile SiteConfigOperatorConfigMap ''op'' \<lparr>cs_configuration = NewDefaultConfiguration\<rparr>
         (empty_world\<lparr>w_objs := [(okey ten_workers_cm, ten_workers_cm)]\<rparr>) =
         (zero_result, None, \<lparr>cs_configuration = ten_workers\<rparr>, empty_world\<lparr>w_objs := [(okey ten_workers_cm, ten_workers_cm)]\<rparr>)"
proof -
  have "case fst (run calm_env [] empty_world) of (None, Some ops) \<Rightarrow> True | _ \<Rightarrow> False" by code_simp
  then obtain ops w1 where run: "run calm_env [] empty_world = ((None, Some ops), w1)"
    by (cases "run calm_env [] empty_world") (auto split: prod.splits option.splits)
  have "''op'' = getSiteConfigNamespace (re_PodNamespace calm_env)"
    "okey ten_workers_cm = ObjKey ''v1'' ''ConfigMap'' ''op'' SiteConfigOperatorConfigMap"
    "map_of (w_objs (empty_world\<lparr>w_objs := [(okey ten_workers_cm, ten_workers_cm)]\<rparr>)) (okey ten_workers_cm) = Some ten_workers_cm"
    "o_Data ten_workers_cm = ToMap ten_workers" "in_int64 (maxConcurrentReconciles ten_workers)"
    "w_faults (empty_world\<lparr>w_objs := [(okey ten_workers_cm, ten_workers_cm)]\<rparr>) = []"
    by code_simp+
  from configuration_edit_takes_effect [OF run this, of ten_workers_cm "\<lparr>cs_configuration = NewDefaultConfiguration\<rparr>"]
  have "mc_requests (op_monitor ops) (UpdateEvent ten_workers_cm ten_workers_cm)
      = (if okey ten_workers_cm = config_key ''op'' then [(''op'', SiteConfigOperatorConfigMap)] else [])"
    "okey ten_workers_cm = config_key ''op'' \<longrightarrow>
       monitor_Reconcile SiteConfigOperatorConfigMap ''op'' \<lparr>cs_configuration = NewDefaultConfiguration\<rparr>
         (empty_world\<lparr>w_objs := [(okey ten_workers_cm, ten_workers_cm)]\<rparr>) =
         (zero_result, None, \<lparr>cs_configuration = ten_workers\<rparr>, empty_world\<lparr>w_objs := [(okey ten_workers_cm, ten_workers_cm)]\<rparr>)"
    by blast+
  moreover have "okey ten_workers_cm = config_key ''op''" by code_simp
  ultimately show ?thesis using run by auto
qed

end
