(* ===== verification/Spec2Isabelle.thy ===== *)
theory Spec2Isabelle
  imports Webhook Reinstall_Outcome Work_Queue Operator
begin

text \<open>
  Verification of the SiteConfig operator (\<open>stolostron/siteconfig\<close>), a Kubernetes operator in Go.

  \<^bold>\<open>The program.\<close> A user creates a ClusterInstance: the description of an OpenShift cluster with its nodes and with
  references to installation templates. An admission webhook decides which ClusterInstances and which changes of them are
  accepted. The ClusterInstance controller validates an accepted one, renders the templates into manifests,
  tries them in a server-side dry run, applies them in the order of their sync waves, records them in the status, and
  deletes them when the ClusterInstance is deleted. A reinstall request makes it back up labelled data, delete
  the rendered manifests, restore the data, render again, and reimport the cluster when it does not become healthy. A
  second controller copies the progress of the installation from the ClusterDeployment into the status; a third one keeps the
  runtime configuration in step with its ConfigMap. At its start the operator stores its own templates.

  \<^bold>\<open>The state.\<close> The controllers keep no state of their own besides the configuration store; everything is in the API
  server. \<open>API_Server\<close> models it as a record \<open>world\<close>: the clock, the stored ClusterInstances, all other objects, and a list
  of failures that the environment injects, one entry per request. An operation of the program takes a world to its
  results and a new world; an error is a value of type \<open>err\<close>, and a panic is the result \<open>None\<close> of an outer option.
  So each theorem that does not ask for \<open>w_faults w = []\<close> holds for whatever sequence of request failures. Calls of different
  reconcilers interleave as whole steps; they and the edits between them are the steps of the relations \<open>system_step\<close> (the
  reinstall handler) and \<open>operator_step\<close> (the controllers with the work queue).

  \<^bold>\<open>Theories and sources\<close> (paths under \<open>src/\<close>).
  \<^item> \<open>SC_Prelude\<close>: Go maps, string functions, integers in decimal, list updates.
  \<^item> \<open>API_Types\<close>, \<open>Spec_Document\<close> (\<open>api/v1alpha1/clusterinstance_types.go\<close>, \<open>_conditions.go\<close>): the records of the custom
    resource and the JSON document of its spec. \<open>Samples\<close>: objects for the concrete instances.
  \<^item> \<open>JSON_Diff\<close>, \<open>JSON_Scan\<close>: the comparison of JSON documents and the scanner of \<open>encoding/json\<close>.
  \<^item> \<open>Validation\<close>, \<open>Node_Changes\<close>, \<open>Webhook\<close> (\<open>clusterinstance_validation.go\<close>, \<open>clusterinstance_webhook.go\<close>): validation,
    node analysis and the three admission handlers. Shown: what an admitted update can change in each phase of a cluster,
    down to single node fields, which operation the node analysis reports, and two updates that are admitted wrongly.
  \<^item> \<open>SC_Errors\<close> (\<open>internal/controller/errors\<close>), \<open>Conditions\<close> (\<open>conditions/conditions.go\<close>), \<open>API_Server\<close> (the client,
    \<open>retry/retry.go\<close>, the status patch): error values, condition lists with the contract \<open>condition_store\<close>, requests, merge
    patches, the contract \<open>status_patcher\<close>, and the retry budget of a status patch.
  \<^item> \<open>Manifests\<close> (\<open>ownership.go\<close>, \<open>clusterinstance_utils.go\<close>), \<open>Rendered_Object\<close> (\<open>rendered_object.go\<close>), \<open>Deletion\<close>
    (\<open>deletion/deletion.go\<close>), \<open>Pause\<close> (\<open>pause.go\<close>): the order of a collection; deletion touches only owned and recorded
    objects, from the highest sync wave down, and completion means that they are gone; a pause can be undone.
  \<^item> \<open>Preservation\<close> (\<open>preservation/\<close>): backup, restoration and cleanup; every selected resource is backed up, no data is
    changed, and a backup restores what was deleted.
  \<^item> \<open>Reinstall\<close> (\<open>reinstall/reinstall.go\<close>, \<open>helper.go\<close>), \<open>Reinstall_Request\<close> (the contract \<open>reinstall_task\<close> and its six
    interpretations), \<open>Reinstall_Ledger\<close> (refinement of an abstract record of requests, history append-only over all
    interleavings), \<open>Reinstall_Safety\<close> (nothing is deleted before the backup is complete), \<open>Reinstall_Outcome\<close> (the end is
    final; two runs whose recorded outcome is wrong).
  \<^item> \<open>Reimport\<close>, \<open>Reimport_Safety\<close> (\<open>reinstall/reimport.go\<close>): the spoke cluster, a second \<open>world\<close>, is changed only by a
    reimport that is due, once per reinstall.
  \<^item> \<open>Template_Data\<close> (\<open>clusterinstance/helper.go\<close>), \<open>Template_Engine\<close> (\<open>template_engine.go\<close>), \<open>Resource_Validator\<close>
    (\<open>validator.go\<close>): the data of a template, the way from a template reference to a labelled object, the checks before.
  \<^item> \<open>Template_Language\<close>, \<open>Install_Templates\<close> (\<open>internal/templates/\<close>): the part of \<open>text/template\<close> in use with parser,
    execution and a static check that is proved sound, and the 21 shipped templates, all of which pass it.
  \<^item> \<open>Server_Apply\<close>, \<open>Rendering\<close>, \<open>Controller\<close> (\<open>clusterinstance_controller.go\<close>), \<open>Apply_Safety\<close>, \<open>Provisioning\<close> (the
    contract \<open>status_handler\<close> and six interpretations), \<open>Finalization\<close>: manifests are applied only behind the dry run, the
    observed generation means that the spec was applied, the finalizer outlives the manifests, and a deleted ClusterInstance
    that is still there is rendered again. \<open>Controller_Frame\<close>: the contract \<open>ci_relation\<close> of relations that every handler
    keeps, and its interpretations: a reconciliation never changes the spec, generation or identity of a ClusterInstance.
  \<^item> \<open>Cluster_Deployment\<close> (\<open>clusterdeployment_reconciler.go\<close>): the status mirrors the ClusterDeployment and settles after
    one run; a failed look-up is swallowed.
  \<^item> \<open>Configuration\<close> (\<open>configuration/\<close>, \<open>configuration_monitor.go\<close>), \<open>Startup\<close> (\<open>cmd/main.go\<close>): the two readers of the
    configuration agree, a start installs exactly the shipped templates, the configuration survives the way through the
    ConfigMap, and an outage during a start can leave outdated templates.

  \<^item> \<open>Watches\<close> (\<open>SetupWithManager\<close> of the three controllers, with the predicates, event handlers and the result handling
    of the vendored \<open>sigs.k8s.io/controller-runtime\<close>), \<open>Work_Queue\<close>: which events wake the controllers and what the queue
    does with a result; unfinished work stays queued over all interleavings, progress of an installation wakes the
    controller exactly when a reinstall needs it, and the one wait that is never resumed. \<open>Operator\<close> (\<open>run\<close> and
    \<open>setupControllers\<close> of \<open>cmd/main.go\<close>): the controllers run only after the initialization, and an edit of the
    configuration takes effect.

  \<^bold>\<open>Parameters.\<close> Code outside the repository enters as arguments: the YAML library (record \<open>codec\<close>, \<open>tv_UnmarshalYAML\<close>),
  \<open>encoding/json\<close> on texts (\<open>json_text\<close>, \<open>e_UnmarshalSpec\<close>, \<open>ce_MarshalSpec\<close>), server-side apply (\<open>ssa\<close>), the clients of the spoke
  cluster (\<open>spoke_env\<close>), the sprig functions (\<open>tfuncs\<close>, with the hypothesis \<open>sprig_ok\<close> that they succeed on arguments of
  their signature), the answers of the set-up calls of the manager and the TLS library (\<open>run_env\<close>). The template engine is generic in the executor of templates; \<open>Install_Templates\<close> instantiates it.

  \<^bold>\<open>Bounds.\<close> Loops run over lists of the state and need no fuel; the only bounded loop is the retry, with the budgets of
  the source (30 attempts for a status patch, 4 at the start). Delays are values in seconds: five minutes of grace before a
  reimport, half an hour until a deletion times out. Integers that the code parses are kept in 64 bits.

  \<^bold>\<open>Not modelled.\<close> The parsing of flags, TLS and server options in \<open>main.go\<close>, the registration of schemes: calls of libraries
  without logic of their own. Informers, rate limits and priorities of the work queue. Generated deep copies and mocks. Logging and events. The
  delays between retries, and the requests of one reconciler interleaved with those of another. In \<open>text/template\<close>:
  trim markers, comments, \<open>with\<close>, nested templates and other constructs that no shipped template contains; texts with them have
  no parse in \<open>Template_Language\<close>, which concerns the shipped templates only.
\<close>

section \<open>The names of the shipped templates\<close>

text \<open>
  The controller leaves the operator's own templates without the backup label, by a list of names of its own: these
  are the ConfigMaps that a start stores.
\<close>

lemma own_templates: "set defaultInstallTemplates = fst ` set default_templates"
  by (simp add: defaultInstallTemplates_def default_templates_def ai_ClusterLevelInstallTemplates_def
      ai_NodeLevelInstallTemplates_def ibi_ClusterLevelInstallTemplates_def ibi_NodeLevelInstallTemplates_def
      hcp_ClusterLevelInstallTemplates_def hcp_NodeLevelInstallTemplates_def) auto

lemma own_templates_not_labelled:
  assumes "p \<in> set default_templates"
  shows "applyDRLabelFn namespace \<lparr>ref_Name = fst p, ref_Namespace = namespace\<rparr> w = (None, w)"
proof -
  have "list_ex (\<lambda>t. fst p = t) defaultInstallTemplates" using own_templates assms by (auto simp: list_ex_iff)
  then show ?thesis by (simp add: applyDRLabelFn_def)
qed

end
